(* ===== verification/Prelude.thy ===== *)
theory Prelude
  imports Complex_Main "HOL-Library.AList" "HOL-Library.Product_Lexorder" "HOL-Library.List_Lexorder"
    "HOL-Library.Option_ord" "HOL-Library.Multiset" "HOL-Library.Code_Target_Nat"
begin

text \<open>
  Shared vocabulary of the development: Python text as lists of code points, points in time,
  exceptions as values, validation error dictionaries, ordered queries over rows, and the
  interfaces (locales) that several components implement.
\<close>

section \<open>Basic types\<close>

text \<open>A Python string is the list of its code points, so that lengths and slices count what
  Python counts. ASCII literals are written with \<open>asc\<close>.\<close>

type_synonym ustring = "nat list"

fun char_code :: "char \<Rightarrow> nat" where
  "char_code (Char b0 b1 b2 b3 b4 b5 b6 b7) =
     (if b0 then 1 else 0) + (if b1 then 2 else 0) + (if b2 then 4 else 0) + (if b3 then 8 else 0)
     + (if b4 then 16 else 0) + (if b5 then 32 else 0) + (if b6 then 64 else 0) + (if b7 then 128 else 0)"

definition asc :: "string \<Rightarrow> ustring" where
  "asc s = map char_code s"

text \<open>An aware datetime is its number of microseconds since the epoch.\<close>

type_synonym time = int

definition seconds :: "int \<Rightarrow> time" where
  "seconds n = n * 1000000"

lemma seconds_mono [simp]: "seconds a < seconds b \<longleftrightarrow> a < b"
  by (simp add: seconds_def)

lemma seconds_pos [simp]: "0 < seconds n \<longleftrightarrow> 0 < n"
  by (simp add: seconds_def)

text \<open>\<open>str.isspace\<close> and \<open>str.strip()\<close>.\<close>

definition is_space :: "nat \<Rightarrow> bool" where
  "is_space c \<longleftrightarrow> (9 \<le> c \<and> c \<le> 13) \<or> (28 \<le> c \<and> c \<le> 32) \<or> c = 133 \<or> c = 160 \<or> c = 5760
     \<or> (8192 \<le> c \<and> c \<le> 8202) \<or> c = 8232 \<or> c = 8233 \<or> c = 8239 \<or> c = 8287 \<or> c = 12288"

definition strip :: "ustring \<Rightarrow> ustring" where
  "strip s = rev (dropWhile is_space (rev (dropWhile is_space s)))"

lemma strip_length: "length (strip s) \<le> length s"
proof -
  have "length (strip s) \<le> length (rev (dropWhile is_space s))"
    unfolding strip_def length_rev by (rule le_trans [OF length_dropWhile_le]) simp
  also have "\<dots> \<le> length s"
    by (simp add: length_dropWhile_le)
  finally show ?thesis .
qed

lemma dropWhile_id: "(xs = [] \<or> \<not> P (hd xs)) \<Longrightarrow> dropWhile P xs = xs"
  by (cases xs) auto

lemma strip_strip [simp]: "strip (strip s) = strip s"
proof -
  let ?d = "dropWhile is_space"
  let ?a = "?d s"
  let ?b = "?d (rev ?a)"
  have suffix: "\<exists>zs. rev ?a = zs @ ?b"
    by (metis takeWhile_dropWhile_id)
  then obtain zs where zs: "rev ?a = zs @ ?b" ..
  then have a: "?a = rev ?b @ rev zs" by (metis rev_append rev_rev_ident)
  have h: "rev ?b = [] \<or> \<not> is_space (hd (rev ?b))"
  proof (cases "rev ?b")
    case (Cons c cs)
    then have "?a \<noteq> []" and "hd ?a = hd (rev ?b)" using a by auto
    then show ?thesis by (metis hd_dropWhile)
  qed simp
  have "?d (rev (rev ?b)) = ?b"
    by (cases ?b) (use hd_dropWhile [of is_space "rev ?a"] in auto)
  then show ?thesis
    using dropWhile_id [of "rev ?b" is_space] h by (simp add: strip_def)
qed

section \<open>Exceptions as values\<close>

text \<open>The errors a \<open>ValidationError\<close> carries: field name to message, as a Python dict.\<close>

type_synonym errs = "(string \<times> string) list"

datatype exc =
    ValidationError errs
  | IntegrityError
  | ValueError
  | TypeError
  | AttributeError
  | LookupError
  | DoesNotExist
  | PeopleSyncApplyError

type_synonym 'a res = "exc + 'a"

fun bindr :: "'a res \<Rightarrow> ('a \<Rightarrow> 'b res) \<Rightarrow> 'b res" where
  "bindr (Inl e) f = Inl e"
| "bindr (Inr x) f = f x"

lemma bindr_Inr_iff: "bindr m f = Inr y \<longleftrightarrow> (\<exists>x. m = Inr x \<and> f x = Inr y)"
  by (cases m) auto

lemma bindr_cong [fundef_cong]:
  "m = m' \<Longrightarrow> (\<And>x. m' = Inr x \<Longrightarrow> f x = g x) \<Longrightarrow> bindr m f = bindr m' g"
  by (cases m') auto

lemma map_sum_Inr: "map_sum id f r = Inr y \<Longrightarrow> \<exists>x. r = Inr x \<and> f x = y"
  by (cases r) auto

lemma map_sum_fst: "map_sum id fst r = Inr d \<Longrightarrow> \<exists>x. r = Inr (d, x)"
  by (cases r) auto

text \<open>A loop whose body may raise stops at the first exception.\<close>

fun foldr_res :: "('a \<Rightarrow> 's \<Rightarrow> 's res) \<Rightarrow> 'a list \<Rightarrow> 's \<Rightarrow> 's res" where
  "foldr_res f [] s = Inr s"
| "foldr_res f (x # xs) s = bindr (f x s) (foldr_res f xs)"

lemma foldr_res_invariant:
  assumes "foldr_res f xs s = Inr s'" and "P s"
    and "\<And>x s s'. x \<in> set xs \<Longrightarrow> P s \<Longrightarrow> f x s = Inr s' \<Longrightarrow> P s'"
  shows "P s'"
  using assms by (induction xs arbitrary: s) (auto simp: bindr_Inr_iff)

text \<open>A comprehension whose body may raise.\<close>

fun map_res :: "('a \<Rightarrow> 'b res) \<Rightarrow> 'a list \<Rightarrow> 'b list res" where
  "map_res f [] = Inr []"
| "map_res f (x # xs) = bindr (f x) (\<lambda>y. bindr (map_res f xs) (\<lambda>ys. Inr (y # ys)))"

lemma map_res_Inr: "map_res f xs = Inr ys \<longleftrightarrow> list_all2 (\<lambda>x y. f x = Inr y) xs ys"
proof (induction xs arbitrary: ys)
  case (Cons x xs)
  then show ?case by (cases ys) (auto simp: bindr_Inr_iff list_all2_Cons1)
qed auto

section \<open>Validation dictionaries\<close>

text \<open>\<open>if cond: errors[field] = message\<close>, and a block of such statements in order.\<close>

definition guard_err :: "bool \<times> string \<times> string \<Rightarrow> errs \<Rightarrow> errs" where
  "guard_err c es = (if fst c then AList.update (fst (snd c)) (snd (snd c)) es else es)"

definition run_checks :: "(bool \<times> string \<times> string) list \<Rightarrow> errs" where
  "run_checks cs = fold guard_err cs []"

lemma guard_err_Nil [simp]: "guard_err c es = [] \<longleftrightarrow> \<not> fst c \<and> es = []"
  by (cases es) (auto simp: guard_err_def)

lemma fold_guard_Nil: "fold guard_err cs es = [] \<longleftrightarrow> es = [] \<and> (\<forall>c \<in> set cs. \<not> fst c)"
  by (induction cs arbitrary: es) auto

lemma run_checks_Nil: "run_checks cs = [] \<longleftrightarrow> (\<forall>c \<in> set cs. \<not> fst c)"
  by (simp add: run_checks_def fold_guard_Nil)

lemma dom_guard:
  "fst ` set (guard_err c es) = (if fst c then {fst (snd c)} else {}) \<union> fst ` set es"
  by (simp add: guard_err_def dom_update)

lemma dom_fold_guard:
  "fst ` set (fold guard_err cs es) = fst ` set es \<union> (fst \<circ> snd) ` {c \<in> set cs. fst c}"
proof (induction cs arbitrary: es)
  case (Cons c cs)
  have "(fst \<circ> snd) ` {x \<in> set (c # cs). fst x} =
      (if fst c then {fst (snd c)} else {}) \<union> (fst \<circ> snd) ` {x \<in> set cs. fst x}"
    by auto
  then show ?case
    unfolding fold_Cons comp_apply Cons.IH dom_guard by (simp add: comp_def Un_ac)
qed simp

text \<open>The fields reported are exactly the fields of the conditions that hold.\<close>

lemma run_checks_fields: "fst ` set (run_checks cs) = (fst \<circ> snd) ` {c \<in> set cs. fst c}"
  by (simp add: run_checks_def dom_fold_guard)

definition validated :: "errs \<Rightarrow> 'a \<Rightarrow> 'a res" where
  "validated es x = (if es = [] then Inr x else Inl (ValidationError es))"

lemma validated_Inr [simp]: "validated es x = Inr y \<longleftrightarrow> es = [] \<and> y = x"
  by (auto simp: validated_def)

section \<open>Rows and ordered queries\<close>

text \<open>
  A table is the list of its rows. \<open>.filter(pk=i).first()\<close> is \<open>find_row\<close>; a write through
  \<open>save(update_fields=...)\<close> or \<open>QuerySet.filter(...).update(...)\<close> is \<open>upd_rows\<close>; \<open>order_by\<close> is a
  stable sort on the tuple of the named fields.
\<close>

definition find_row :: "('r \<Rightarrow> 'k) \<Rightarrow> 'k \<Rightarrow> 'r list \<Rightarrow> 'r option" where
  "find_row key i rows = find (\<lambda>r. key r = i) rows"

definition upd_rows :: "('r \<Rightarrow> bool) \<Rightarrow> ('r \<Rightarrow> 'r) \<Rightarrow> 'r list \<Rightarrow> 'r list" where
  "upd_rows p f rows = map (\<lambda>r. if p r then f r else r) rows"

abbreviation upd_row :: "('r \<Rightarrow> 'k) \<Rightarrow> 'k \<Rightarrow> ('r \<Rightarrow> 'r) \<Rightarrow> 'r list \<Rightarrow> 'r list" where
  "upd_row key i f rows \<equiv> upd_rows (\<lambda>r. key r = i) f rows"

definition first_row :: "'r list \<Rightarrow> 'r option" where
  "first_row rows = (case rows of [] \<Rightarrow> None | r # _ \<Rightarrow> Some r)"

lemma find_row_Some: "find_row key i rows = Some r \<Longrightarrow> r \<in> set rows \<and> key r = i"
  by (auto simp: find_row_def find_Some_iff)

lemma find_row_None: "find_row key i rows = None \<longleftrightarrow> i \<notin> key ` set rows"
  by (auto simp: find_row_def find_None_iff)

lemma find_row_append: "find_row key i (xs @ ys) = (case find_row key i xs of None \<Rightarrow> find_row key i ys | Some r \<Rightarrow> Some r)"
  by (induction xs) (auto simp: find_row_def)

lemma find_row_mem:
  "distinct (map key rows) \<Longrightarrow> r \<in> set rows \<Longrightarrow> find_row key (key r) rows = Some r"
  by (induction rows) (auto simp: find_row_def)

lemma set_upd_rows: "set (upd_rows p f rows) = (\<lambda>r. if p r then f r else r) ` set rows"
  by (simp add: upd_rows_def)

lemma length_upd_rows [simp]: "length (upd_rows p f rows) = length rows"
  by (simp add: upd_rows_def)

lemma upd_rows_keys:
  "(\<And>r. key (f r) = key r) \<Longrightarrow> map key (upd_rows p f rows) = map key rows"
  by (simp add: upd_rows_def)

lemma upd_rows_append: "upd_rows p f (xs @ ys) = upd_rows p f xs @ upd_rows p f ys"
  by (simp add: upd_rows_def)

lemma filter_upd_rows:
  "(\<And>r. q (f r) = q r) \<Longrightarrow> filter q (upd_rows p f rows) = upd_rows p f (filter q rows)"
  by (induction rows) (auto simp: upd_rows_def)

lemma upd_rows_id: "(\<And>r. r \<in> set rows \<Longrightarrow> \<not> p r) \<Longrightarrow> upd_rows p f rows = rows"
  by (induction rows) (auto simp: upd_rows_def)

lemma find_row_upd:
  "(\<And>r. key (f r) = key r) \<Longrightarrow>
   find_row key i (upd_rows p f rows) = map_option (\<lambda>r. if p r then f r else r) (find_row key i rows)"
  by (induction rows) (auto simp: find_row_def upd_rows_def)

lemma keys_replace: "map key (upd_row key (key x) (\<lambda>_. x) rows) = map key rows"
  by (simp add: upd_rows_def)

lemma find_row_replace:
  "find_row key k (upd_row key (key x) (\<lambda>_. x) rows) =
     (if k = key x \<and> find_row key k rows \<noteq> None then Some x else find_row key k rows)"
  by (induction rows) (auto simp: find_row_def upd_rows_def)

lemma filter_length_all: "length (filter P xs) = length xs \<longleftrightarrow> (\<forall>x \<in> set xs. P x)"
proof (induction xs)
  case (Cons x xs)
  have "length (filter P xs) \<noteq> Suc (length xs)" using length_filter_le [of P xs] by linarith
  with Cons show ?case by simp
qed simp

lemma first_row_Some: "first_row rows = Some r \<Longrightarrow> r \<in> set rows"
  by (cases rows) (auto simp: first_row_def)

lemma first_row_sorted_least:
  "first_row (sort_key k rows) = Some r \<Longrightarrow> s \<in> set rows \<Longrightarrow> k r \<le> k s"
proof -
  assume r: "first_row (sort_key k rows) = Some r" and s: "s \<in> set rows"
  then obtain rs where rs: "sort_key k rows = r # rs"
    by (auto simp: first_row_def split: list.splits)
  have "sorted (map k (r # rs))" unfolding rs [symmetric] by simp
  moreover have "s \<in> set (r # rs)" unfolding rs [symmetric] using s by simp
  ultimately show "k r \<le> k s" by auto
qed

lemma sort_empty: "sort_key k xs = [] \<longleftrightarrow> xs = []"
proof -
  have "length (sort_key k xs) = length xs" by simp
  then show ?thesis by (metis length_0_conv)
qed

lemma first_row_None [simp]: "first_row rows = None \<longleftrightarrow> rows = []"
  by (cases rows) (auto simp: first_row_def)

section \<open>Interfaces\<close>

text \<open>
  A system whose steps keep an invariant. The clients are the properties of whole runs; the
  providers are the task store and the alert outbox, each with its own step relation.
\<close>

locale invariant_system =
  fixes step :: "'s \<Rightarrow> 's \<Rightarrow> bool" and inv :: "'s \<Rightarrow> bool"
  assumes step_inv: "step s t \<Longrightarrow> inv s \<Longrightarrow> inv t"
begin

lemma runs_inv: "step\<^sup>*\<^sup>* s t \<Longrightarrow> inv s \<Longrightarrow> inv t"
  by (induction rule: rtranclp_induct) (auto intro: step_inv)

end

text \<open>
  A system with items that end: once an item is ended, its observable part never changes again.
  This is what fencing by a lease promises for tasks, targets and deliveries.
\<close>

locale ending_system = invariant_system step inv
  for step :: "'s \<Rightarrow> 's \<Rightarrow> bool" and inv :: "'s \<Rightarrow> bool" +
  fixes view :: "'s \<Rightarrow> 'k \<Rightarrow> 'v option" and ended :: "'v \<Rightarrow> bool"
  assumes ended_step:
    "step s t \<Longrightarrow> inv s \<Longrightarrow> view s k = Some v \<Longrightarrow> ended v \<Longrightarrow> view t k = Some v"
begin

lemma ended_forever:
  "step\<^sup>*\<^sup>* s t \<Longrightarrow> inv s \<Longrightarrow> view s k = Some v \<Longrightarrow> ended v \<Longrightarrow> view t k = Some v"
proof (induction rule: rtranclp_induct)
  case (step t u)
  have "inv t" using step.hyps(1) step.prems(1) by (rule runs_inv)
  with step show ?case by (blast intro: ended_step)
qed

end

text \<open>
  Work that is claimed a bounded number of times: a counter that no step lowers, and an invariant
  that bounds it.
\<close>

locale bounded_claims = invariant_system step inv
  for step :: "'s \<Rightarrow> 's \<Rightarrow> bool" and inv :: "'s \<Rightarrow> bool" +
  fixes attempts :: "'s \<Rightarrow> 'k \<Rightarrow> nat" and limit :: "'s \<Rightarrow> 'k \<Rightarrow> nat"
  assumes bounded: "inv s \<Longrightarrow> attempts s k \<le> limit s k"
    and monotone: "step s t \<Longrightarrow> inv s \<Longrightarrow> attempts s k \<le> attempts t k"
    and limit_step: "step s t \<Longrightarrow> inv s \<Longrightarrow> limit t k = limit s k"
begin

lemma limit_runs: "step\<^sup>*\<^sup>* s t \<Longrightarrow> inv s \<Longrightarrow> limit t k = limit s k"
proof (induction rule: rtranclp_induct)
  case (step t u)
  have "inv t" using step.hyps(1) step.prems by (rule runs_inv)
  with step show ?case by (simp add: limit_step)
qed simp

lemma attempts_runs: "step\<^sup>*\<^sup>* s t \<Longrightarrow> inv s \<Longrightarrow> attempts s k \<le> attempts t k"
proof (induction rule: rtranclp_induct)
  case (step t u)
  have "inv t" using step.hyps(1) step.prems by (rule runs_inv)
  with step show ?case by (blast intro: le_trans monotone)
qed simp

lemma attempts_bounded: "step\<^sup>*\<^sup>* s t \<Longrightarrow> inv s \<Longrightarrow> attempts t k \<le> limit s k"
  by (metis bounded limit_runs runs_inv)

end

end
