(* ===== verification/Json.thy ===== *)
theory Json
  imports Prelude
begin

text \<open>
  JSON values as the snapshot fields hold them, the library calls that stay parameters of the
  model, and the payload audit of \<open>net/models/domain.py\<close> (\<open>contains_sensitive_payload\<close>).
\<close>

section \<open>Values\<close>

datatype json =
    JNull
  | JBool bool
  | JInt int
  | JNum rat
  | JStr ustring
  | JList "json list"
  | JObj "(ustring \<times> json) list"

definition jget :: "string \<Rightarrow> json \<Rightarrow> json option" where
  "jget k j = (case j of JObj kvs \<Rightarrow> map_of kvs (asc k) | _ \<Rightarrow> None)"

fun is_obj :: "json \<Rightarrow> bool" where
  "is_obj (JObj _) = True"
| "is_obj _ = False"

text \<open>Python truth of a value.\<close>

fun truthy :: "json \<Rightarrow> bool" where
  "truthy JNull = False"
| "truthy (JBool b) = b"
| "truthy (JInt i) = (i \<noteq> 0)"
| "truthy (JNum q) = (q \<noteq> 0)"
| "truthy (JStr s) = (s \<noteq> [])"
| "truthy (JList xs) = (xs \<noteq> [])"
| "truthy (JObj kvs) = (kvs \<noteq> [])"

text \<open>
  Library functions whose code is not in the repository, or whose tables are Unicode data:
  \<open>str.casefold\<close>, the hexadecimal SHA-256 digest, the secret scrubber of log lines
  (\<open>net/infrastructure/sanitization.py\<close>, a set of regular expressions), and \<open>str\<close> of floats and
  containers, \<open>datetime.fromisoformat\<close> (the instant and whether it carries an offset) and
  \<open>isoformat\<close>, \<open>str.lower\<close>, \<open>float\<close> of a text when it is a finite number, and the format \<open>:g\<close>. They are
  arguments of every definition that uses them.
\<close>

record runtime =
  casefold :: "ustring \<Rightarrow> ustring"
  sha256 :: "ustring \<Rightarrow> ustring"
  sanitize :: "ustring \<Rightarrow> ustring"
  py_repr :: "json \<Rightarrow> ustring"
  iso_datetime :: "ustring \<Rightarrow> (time \<times> bool) option"
  isoformat :: "time \<Rightarrow> ustring"
  str_lower :: "ustring \<Rightarrow> ustring"
  float_of_text :: "ustring \<Rightarrow> rat option"
  text_of_float :: "rat \<Rightarrow> ustring"

text \<open>A concrete instance, for the evaluation of examples.\<close>

definition demo_rt :: runtime where
  "demo_rt = \<lparr>casefold = (\<lambda>s. s), sha256 = (\<lambda>s. [length s]), sanitize = (\<lambda>s. s), py_repr = (\<lambda>_. []),
     iso_datetime = (\<lambda>_. None), isoformat = (\<lambda>_. []),
     str_lower = (\<lambda>s. s), float_of_text = (\<lambda>_. None), text_of_float = (\<lambda>_. [])\<rparr>"

text \<open>Decimal digits of a natural number and \<open>str\<close> of the values that occur as identities.\<close>

fun nat_digits :: "nat \<Rightarrow> ustring" where
  "nat_digits n = (if n < 10 then [48 + n] else nat_digits (n div 10) @ [48 + n mod 10])"

declare nat_digits.simps [simp del]

definition int_str :: "int \<Rightarrow> ustring" where
  "int_str i = (if i < 0 then 45 # nat_digits (nat (- i)) else nat_digits (nat i))"

definition py_str :: "runtime \<Rightarrow> json \<Rightarrow> ustring" where
  "py_str rt j = (case j of
     JNull \<Rightarrow> asc ''None''
   | JBool b \<Rightarrow> (if b then asc ''True'' else asc ''False'')
   | JInt i \<Rightarrow> int_str i
   | JStr s \<Rightarrow> s
   | _ \<Rightarrow> py_repr rt j)"

section \<open>Sensitive payload audit\<close>

definition is_lower_digit :: "nat \<Rightarrow> bool" where
  "is_lower_digit c \<longleftrightarrow> (97 \<le> c \<and> c \<le> 122) \<or> (48 \<le> c \<and> c \<le> 57)"

definition is_upper :: "nat \<Rightarrow> bool" where
  "is_upper c \<longleftrightarrow> 65 \<le> c \<and> c \<le> 90"

text \<open>\<open>re.sub(r'(?<=[a-z0-9])(?=[A-Z])', '_', s)\<close>\<close>

fun split_camel :: "ustring \<Rightarrow> ustring" where
  "split_camel (a # b # cs) =
     (if is_lower_digit a \<and> is_upper b then a # 95 # split_camel (b # cs)
      else a # split_camel (b # cs))"
| "split_camel cs = cs"

text \<open>\<open>re.sub(r'[^a-z0-9]+', '_', s)\<close>: a maximal run of other characters becomes one underscore.\<close>

fun squeeze :: "bool \<Rightarrow> ustring \<Rightarrow> ustring" where
  "squeeze _ [] = []"
| "squeeze in_run (c # cs) =
     (if is_lower_digit c then c # squeeze False cs
      else if in_run then squeeze True cs
      else 95 # squeeze True cs)"

definition strip_underscores :: "ustring \<Rightarrow> ustring" where
  "strip_underscores s = rev (dropWhile ((=) 95) (rev (dropWhile ((=) 95) s)))"

definition normalized_payload_key :: "runtime \<Rightarrow> ustring \<Rightarrow> ustring" where
  "normalized_payload_key rt key =
     strip_underscores (squeeze False (casefold rt (split_camel (strip key))))"

text \<open>\<open>s.split('_')\<close>\<close>

fun split_underscore :: "ustring \<Rightarrow> ustring list" where
  "split_underscore [] = [[]]"
| "split_underscore (c # cs) =
     (case split_underscore cs of
        [] \<Rightarrow> [[c]]
      | w # ws \<Rightarrow> if c = 95 then [] # w # ws else (c # w) # ws)"

definition sensitive_payload_keys :: "ustring list" where
  "sensitive_payload_keys = map asc
     [''password'', ''new_password'', ''bind_password'', ''unicode_pwd'',
      ''user_password'', ''initial_password'', ''ciphertext'', ''encrypted_payload'']"

definition sensitive_key :: "runtime \<Rightarrow> ustring \<Rightarrow> bool" where
  "sensitive_key rt key =
     (let normalized = normalized_payload_key rt key; parts = split_underscore normalized
      in normalized \<in> set sensitive_payload_keys
         \<or> asc ''secret'' \<in> set parts \<or> asc ''token'' \<in> set parts)"

fun contains_sensitive_payload :: "runtime \<Rightarrow> json \<Rightarrow> bool" where
  "contains_sensitive_payload rt (JObj kvs) =
     list_ex (\<lambda>(key, child). sensitive_key rt key \<or> contains_sensitive_payload rt child) kvs"
| "contains_sensitive_payload rt (JList xs) = list_ex (contains_sensitive_payload rt) xs"
| "contains_sensitive_payload rt _ = False"

text \<open>The sub-values of a value, to state what the audit finds.\<close>

inductive json_member :: "json \<Rightarrow> ustring \<Rightarrow> json \<Rightarrow> bool" where
  here: "(k, v) \<in> set kvs \<Longrightarrow> json_member (JObj kvs) k v"
| in_obj: "(k', v') \<in> set kvs \<Longrightarrow> json_member v' k v \<Longrightarrow> json_member (JObj kvs) k v"
| in_list: "x \<in> set xs \<Longrightarrow> json_member x k v \<Longrightarrow> json_member (JList xs) k v"

inductive_cases json_member_objE: "json_member (JObj kvs) k v"
inductive_cases json_member_listE: "json_member (JList xs) k v"

lemma contains_sensitive_payload_iff:
  "contains_sensitive_payload rt j \<longleftrightarrow> (\<exists>k v. json_member j k v \<and> sensitive_key rt k)"
proof (induction rt j rule: contains_sensitive_payload.induct)
  case (1 rt kvs)
  show ?case
  proof
    assume "contains_sensitive_payload rt (JObj kvs)"
    then obtain k v where kv: "(k, v) \<in> set kvs" "sensitive_key rt k \<or> contains_sensitive_payload rt v"
      by (auto simp: list_ex_iff)
    then show "\<exists>k v. json_member (JObj kvs) k v \<and> sensitive_key rt k"
      using 1 by (metis json_member.here json_member.in_obj)
  next
    assume "\<exists>k v. json_member (JObj kvs) k v \<and> sensitive_key rt k"
    then obtain k v where m: "json_member (JObj kvs) k v" and s: "sensitive_key rt k" by blast
    from m consider "(k, v) \<in> set kvs" | k' v' where "(k', v') \<in> set kvs" "json_member v' k v"
      by (auto elim: json_member_objE)
    then show "contains_sensitive_payload rt (JObj kvs)"
    proof cases
      case 1
      then show ?thesis using s by (force simp: list_ex_iff)
    next
      case (2 k' v')
      then have "contains_sensitive_payload rt v'" using "1.IH" [of "(k', v')"] s by blast
      then show ?thesis using 2 by (force simp: list_ex_iff)
    qed
  qed
next
  case (2 rt xs)
  then show ?case
    by (auto simp: list_ex_iff elim!: json_member_listE intro: json_member.in_list)
qed (auto elim: json_member.cases)

end
