(* ===== verification/TaskModel.thy ===== *)
theory TaskModel
  imports Json
begin

text \<open>
  The task rows of \<open>net/models/tasks.py\<close>: \<open>Schedule\<close>, \<open>TaskRun\<close> and \<open>TaskTargetRun\<close> with their
  database check constraints, their \<open>clean\<close> methods and their \<open>save\<close> overrides. Primary keys
  (UUIDs) and foreign keys are the text of the UUID; an order by primary key is the order of
  that text. A validation message is a short ASCII code of the message in the source.
\<close>

section \<open>Choices\<close>

datatype task_type =
    DomainSync | Inspection | ComputerAnalysis | PeopleTest | PeoplePreview | PeopleSync
  | DomainOperation | AccessSync

datatype task_source = Manual | Scheduled

datatype status = Queued | Running | Success | Partial | Failed | Cancelled

fun task_type_value :: "task_type \<Rightarrow> ustring" where
  "task_type_value DomainSync = asc ''domain_sync''"
| "task_type_value Inspection = asc ''inspection''"
| "task_type_value ComputerAnalysis = asc ''computer_analysis''"
| "task_type_value PeopleTest = asc ''people_test''"
| "task_type_value PeoplePreview = asc ''people_preview''"
| "task_type_value PeopleSync = asc ''people_sync''"
| "task_type_value DomainOperation = asc ''domain_operation''"
| "task_type_value AccessSync = asc ''access_sync''"

definition active_statuses :: "status list" where
  "active_statuses = [Queued, Running]"

definition people_interactive_task_types :: "task_type list" where
  "people_interactive_task_types = [PeopleTest, PeoplePreview]"

definition people_task_types :: "task_type list" where
  "people_task_types = people_interactive_task_types @ [PeopleSync]"

definition terminal_statuses :: "status list" where
  "terminal_statuses = [Success, Partial, Failed, Cancelled]"

definition aggregated_terminal_statuses :: "status list" where
  "aggregated_terminal_statuses = [Success, Partial, Failed]"

definition active_status :: "status \<Rightarrow> bool" where
  "active_status s \<longleftrightarrow> s \<in> set active_statuses"

definition terminal_status :: "status \<Rightarrow> bool" where
  "terminal_status s \<longleftrightarrow> s \<in> set terminal_statuses"

definition aggregated_status :: "status \<Rightarrow> bool" where
  "aggregated_status s \<longleftrightarrow> s \<in> set aggregated_terminal_statuses"

lemma status_sets [simp]:
  "active_status s \<longleftrightarrow> s = Queued \<or> s = Running"
  "terminal_status s \<longleftrightarrow> s = Success \<or> s = Partial \<or> s = Failed \<or> s = Cancelled"
  "aggregated_status s \<longleftrightarrow> s = Success \<or> s = Partial \<or> s = Failed"
  by (auto simp: active_status_def terminal_status_def aggregated_status_def
      active_statuses_def terminal_statuses_def aggregated_terminal_statuses_def)

lemma terminal_iff_not_active: "terminal_status s \<longleftrightarrow> \<not> active_status s"
  by (cases s) auto

section \<open>Field validators\<close>

definition validate_string_list :: "json \<Rightarrow> string option" where
  "validate_string_list value = (case value of
     JList items \<Rightarrow>
       (if list_ex (\<lambda>i. case i of JStr s \<Rightarrow> strip s = [] | _ \<Rightarrow> True) items
        then Some ''not_nonempty_strings''
        else if length items \<noteq> card (set items) then Some ''duplicates''
        else None)
   | _ \<Rightarrow> Some ''not_a_list'')"

definition validate_json_object :: "json \<Rightarrow> string option" where
  "validate_json_object value = (if is_obj value then None else Some ''not_an_object'')"

text \<open>The retention choices of inspection records and of task history, in days.\<close>

definition record_retention_days :: "(string \<times> nat) list" where
  "record_retention_days = [(''none'', 0), (''30'', 30), (''90'', 90), (''180'', 180)]"

definition task_history_retention_days :: "(string \<times> nat) list" where
  "task_history_retention_days = [(''30'', 30), (''90'', 90), (''180'', 180)]"

text \<open>\<open>TaskHistoryConfig.current_days\<close>: the singleton row, if any, holds the choice.\<close>

definition current_days :: "string option \<Rightarrow> nat" where
  "current_days config =
     (let choice = (case config of None \<Rightarrow> '''' | Some c \<Rightarrow> c);
          choice = (if choice = '''' then ''90'' else choice)
      in case map_of task_history_retention_days choice of None \<Rightarrow> 90 | Some d \<Rightarrow> d)"

section \<open>Scope keys\<close>

definition jget_or :: "string \<Rightarrow> json \<Rightarrow> json \<Rightarrow> json" where
  "jget_or k dflt j = (case jget k j of None \<Rightarrow> dflt | Some v \<Rightarrow> v)"

text \<open>\<open>str(value or default)\<close>\<close>

definition str_or :: "runtime \<Rightarrow> json \<Rightarrow> ustring \<Rightarrow> ustring" where
  "str_or rt v dflt = (if truthy v then py_str rt v else dflt)"

definition target_identity :: "runtime \<Rightarrow> ustring \<Rightarrow> json \<Rightarrow> ustring \<times> ustring" where
  "target_identity rt default_type target =
     (if is_obj target
      then (str_or rt (jget_or ''target_type'' JNull target) default_type,
            py_str rt (jget_or ''target_id'' (jget_or ''id'' JNull target) target))
      else (default_type, py_str rt target))"

text \<open>Iterating a JSON value: a list, the keys of an object, the characters of a string.\<close>

definition iter_json :: "json \<Rightarrow> json list res" where
  "iter_json j = (case j of
     JList xs \<Rightarrow> Inr xs
   | JObj kvs \<Rightarrow> Inr (map (\<lambda>kv. JStr (fst kv)) kvs)
   | JStr s \<Rightarrow> Inr (map (\<lambda>c. JStr [c]) s)
   | _ \<Rightarrow> Inl TypeError)"

definition normalize_target_identities :: "runtime \<Rightarrow> json \<Rightarrow> (ustring \<times> ustring) list res" where
  "normalize_target_identities rt scope =
     (if \<not> is_obj scope then Inl AttributeError
      else
       let default_type = str_or rt (jget_or ''target_type'' JNull scope) [];
           raw = jget_or ''targets'' JNull scope;
           raw = (if raw = JNull then jget_or ''target_ids'' (JList []) scope else raw)
       in bindr (iter_json raw)
            (\<lambda>ts. Inr (sort (remdups (map (target_identity rt default_type) ts)))))"

text \<open>\<open>json.dumps(..., ensure_ascii=True, sort_keys=True, separators=(',', ':'))\<close>\<close>

definition hex_digit :: "nat \<Rightarrow> nat" where
  "hex_digit d = (if d < 10 then 48 + d else 87 + d)"

definition hex4 :: "nat \<Rightarrow> ustring" where
  "hex4 n = [hex_digit (n div 4096 mod 16), hex_digit (n div 256 mod 16),
             hex_digit (n div 16 mod 16), hex_digit (n mod 16)]"

definition u_escape :: "nat \<Rightarrow> ustring" where
  "u_escape n = 92 # 117 # hex4 n"

definition escape_char :: "nat \<Rightarrow> ustring" where
  "escape_char c =
     (if c = 34 then [92, 34] else if c = 92 then [92, 92]
      else if c = 10 then [92, 110] else if c = 13 then [92, 114] else if c = 9 then [92, 116]
      else if c = 12 then [92, 102] else if c = 8 then [92, 98]
      else if 32 \<le> c \<and> c \<le> 126 then [c]
      else if c < 65536 then u_escape c
      else u_escape (55296 + (c - 65536) div 1024 mod 1024) @ u_escape (56320 + (c - 65536) mod 1024))"

definition json_string :: "ustring \<Rightarrow> ustring" where
  "json_string s = 34 # concat (map escape_char s) @ [34]"

fun comma_sep :: "ustring list \<Rightarrow> ustring" where
  "comma_sep [] = []"
| "comma_sep [x] = x"
| "comma_sep (x # y # xs) = x @ 44 # comma_sep (y # xs)"

definition canonical_scope :: "ustring \<Rightarrow> (ustring \<times> ustring) list \<Rightarrow> ustring \<Rightarrow> ustring" where
  "canonical_scope profile_id targets ttype =
     asc ''{'' @ json_string (asc ''profile_id'') @ asc '':'' @ json_string profile_id
     @ asc '','' @ json_string (asc ''targets'') @ asc '':[''
     @ comma_sep (map (\<lambda>(ty, i). asc ''['' @ json_string ty @ asc '','' @ json_string i @ asc '']'') targets)
     @ asc ''],'' @ json_string (asc ''task_type'') @ asc '':'' @ json_string ttype @ asc ''}''"

definition build_scope_key :: "runtime \<Rightarrow> ustring \<Rightarrow> ustring \<Rightarrow> json \<Rightarrow> ustring res" where
  "build_scope_key rt ttype profile_id scope =
     bindr (normalize_target_identities rt scope)
       (\<lambda>targets. Inr (sha256 rt (canonical_scope profile_id targets ttype)))"

section \<open>Schedules\<close>

datatype schedule_kind = Interval | Daily

datatype interval_unit = NoUnit | USeconds | UMinutes | UHours

text \<open>\<open>daily_time\<close> is the microsecond of the day.\<close>

record schedule =
  s_id :: ustring
  s_inspection_profile :: "ustring option"
  s_analysis_profile :: "ustring option"
  s_people_source :: "ustring option"
  s_domain_config :: "ustring option"
  s_kind :: schedule_kind
  s_interval_value :: "nat option"
  s_interval_unit :: interval_unit
  s_daily_time :: "int option"
  s_is_enabled :: bool
  s_next_run_at :: "time option"
  s_last_enqueued_at :: "time option"
  s_last_attempt_at :: "time option"
  s_last_status :: ustring
  s_last_error :: ustring
  s_created_at :: time
  s_updated_at :: time

definition schedule_one_profile_ck :: "schedule \<Rightarrow> bool" where
  "schedule_one_profile_ck s \<longleftrightarrow>
     (s_inspection_profile s \<noteq> None \<and> s_analysis_profile s = None
        \<and> s_people_source s = None \<and> s_domain_config s = None)
   \<or> (s_inspection_profile s = None \<and> s_analysis_profile s \<noteq> None
        \<and> s_people_source s = None \<and> s_domain_config s = None)
   \<or> (s_inspection_profile s = None \<and> s_analysis_profile s = None
        \<and> s_people_source s \<noteq> None \<and> s_domain_config s = None)
   \<or> (s_domain_config s \<noteq> None \<and> s_inspection_profile s = None
        \<and> s_analysis_profile s = None \<and> s_people_source s = None)"

definition schedule_kind_fields_ck :: "schedule \<Rightarrow> bool" where
  "schedule_kind_fields_ck s \<longleftrightarrow>
     (s_kind s = Interval \<and> (\<exists>n. s_interval_value s = Some n \<and> n > 0)
        \<and> s_interval_unit s \<in> {USeconds, UMinutes, UHours} \<and> s_daily_time s = None)
   \<or> (s_kind s = Daily \<and> s_interval_value s = None \<and> s_interval_unit s = NoUnit
        \<and> s_daily_time s \<noteq> None)"

definition schedule_clean :: "schedule \<Rightarrow> errs" where
  "schedule_clean s = run_checks (
     (let n = length (filter (\<lambda>b. b) [s_inspection_profile s \<noteq> None, s_analysis_profile s \<noteq> None,
                s_people_source s \<noteq> None, s_domain_config s \<noteq> None])
      in [(n \<noteq> 1, ''inspection_profile'', ''exactly_one_profile''),
          (n \<noteq> 1, ''analysis_profile'', ''exactly_one_profile''),
          (n \<noteq> 1, ''people_source'', ''exactly_one_profile'')])
     @ (case s_kind s of
          Interval \<Rightarrow>
            [(s_interval_value s = None, ''interval_value'', ''interval_needs_value''),
             (s_interval_unit s = NoUnit, ''interval_unit'', ''interval_needs_unit''),
             (s_daily_time s \<noteq> None, ''daily_time'', ''interval_without_daily_time'')]
        | Daily \<Rightarrow>
            [(s_daily_time s = None, ''daily_time'', ''daily_needs_time''),
             (s_interval_value s \<noteq> None, ''interval_value'', ''daily_without_interval''),
             (s_interval_unit s \<noteq> NoUnit, ''interval_unit'', ''daily_without_unit'')]))"

lemma schedule_clean_iff:
  "schedule_clean s = [] \<longleftrightarrow> schedule_one_profile_ck s \<and>
     (case s_kind s of
        Interval \<Rightarrow> s_interval_value s \<noteq> None \<and> s_interval_unit s \<noteq> NoUnit \<and> s_daily_time s = None
      | Daily \<Rightarrow> s_daily_time s \<noteq> None \<and> s_interval_value s = None \<and> s_interval_unit s = NoUnit)"
  unfolding schedule_clean_def run_checks_Nil schedule_one_profile_ck_def Let_def
  by (cases "s_inspection_profile s"; cases "s_analysis_profile s"; cases "s_people_source s";
      cases "s_domain_config s"; cases "s_kind s") auto

end
