(* ===== verification/TaskRows.thy ===== *)
theory TaskRows
  imports TaskModel
begin

text \<open>
  \<open>TaskRun\<close> and \<open>TaskTargetRun\<close> of \<open>net/models/tasks.py\<close>: the rows, the check constraints of
  \<open>Meta\<close>, the \<open>clean\<close> methods, the uniqueness rules and the \<open>save\<close> overrides, and the part of the
  database that the queue works on.
\<close>

section \<open>Rows\<close>

record task =
  t_id :: ustring
  t_type :: task_type
  t_source :: task_source
  t_inspection_profile :: "ustring option"
  t_analysis_profile :: "ustring option"
  t_schedule :: "ustring option"
  t_people_source :: "ustring option"
  t_people_applied_at :: "time option"
  t_alert_summary_processed_at :: "time option"
  t_alert_summary_attempted_at :: "time option"
  t_alert_summary_error :: ustring
  t_status :: status
  t_progress :: nat
  t_available_at :: time
  t_started_at :: "time option"
  t_finished_at :: "time option"
  t_lease_expires_at :: "time option"
  t_worker_id :: ustring
  t_attempt_count :: nat
  t_error_summary :: ustring
  t_profile_snapshot :: json
  t_parameters_snapshot :: json
  t_selected_items_snapshot :: json
  t_target_scope_snapshot :: json
  t_scope_key :: ustring
  t_active_scope_key :: "ustring option"
  t_total_targets :: nat
  t_completed_targets :: nat
  t_successful_targets :: nat
  t_failed_targets :: nat
  t_created_at :: time

datatype target_type =
    TDomainConfig | TNetworkDevice | TServer | TWeakCurrent | TComputerLog | TPeopleSource
  | TDomainAccount | TDomainComputer | TAccessSource

fun target_type_value :: "target_type \<Rightarrow> ustring" where
  "target_type_value TDomainConfig = asc ''domain_config''"
| "target_type_value TNetworkDevice = asc ''network_device''"
| "target_type_value TServer = asc ''server''"
| "target_type_value TWeakCurrent = asc ''monitor''"
| "target_type_value TComputerLog = asc ''computer_log''"
| "target_type_value TPeopleSource = asc ''people_source''"
| "target_type_value TDomainAccount = asc ''domain_account''"
| "target_type_value TDomainComputer = asc ''domain_computer''"
| "target_type_value TAccessSource = asc ''access_source''"

record target =
  g_id :: ustring
  g_task :: ustring
  g_type :: target_type
  g_target_id :: ustring
  g_snapshot :: json
  g_execution_scope_key :: "ustring option"
  g_status :: status
  g_attempt_count :: nat
  g_started_at :: "time option"
  g_finished_at :: "time option"
  g_result_type :: ustring
  g_result_id :: ustring
  g_result_snapshot :: json
  g_error_message :: ustring
  g_alert_processed_at :: "time option"
  g_alert_attempted_at :: "time option"
  g_alert_processing_error :: ustring
  g_created_at :: time

section \<open>Check constraints of a task\<close>

definition task_binding_ck :: "task \<Rightarrow> bool" where
  "task_binding_ck t \<longleftrightarrow>
     (t_type t \<in> {PeopleTest, PeoplePreview} \<and> t_people_source t \<noteq> None
        \<and> t_inspection_profile t = None \<and> t_analysis_profile t = None
        \<and> t_schedule t = None \<and> t_source t = Manual)
   \<or> (t_type t = PeopleSync \<and> t_people_source t \<noteq> None \<and> t_inspection_profile t = None
        \<and> t_analysis_profile t = None \<and> t_schedule t \<noteq> None \<and> t_source t = Scheduled
        \<and> t_people_applied_at t = None)
   \<or> (t_type t = Inspection \<and> t_people_source t = None \<and> t_inspection_profile t \<noteq> None
        \<and> t_analysis_profile t = None \<and> t_people_applied_at t = None)
   \<or> (t_type t = ComputerAnalysis \<and> t_people_source t = None \<and> t_inspection_profile t = None
        \<and> t_analysis_profile t \<noteq> None \<and> t_people_applied_at t = None)
   \<or> (t_type t = DomainSync \<and> t_people_source t = None \<and> t_inspection_profile t = None
        \<and> t_analysis_profile t = None \<and> t_people_applied_at t = None)
   \<or> (t_type t \<in> {DomainOperation, AccessSync} \<and> t_people_source t = None
        \<and> t_inspection_profile t = None \<and> t_analysis_profile t = None
        \<and> t_schedule t = None \<and> t_source t = Manual \<and> t_people_applied_at t = None)"

definition task_active_scope_ck :: "task \<Rightarrow> bool" where
  "task_active_scope_ck t \<longleftrightarrow>
     (active_status (t_status t) \<and> t_active_scope_key t = Some (t_scope_key t))
   \<or> (terminal_status (t_status t) \<and> t_active_scope_key t = None)"

definition task_progress_counts_ck :: "task \<Rightarrow> bool" where
  "task_progress_counts_ck t \<longleftrightarrow>
     t_progress t \<le> 100 \<and> t_completed_targets t \<le> t_total_targets t
   \<and> t_successful_targets t \<le> t_completed_targets t \<and> t_failed_targets t \<le> t_completed_targets t
   \<and> t_completed_targets t \<ge> t_successful_targets t + t_failed_targets t"

definition task_state_shape_ck :: "task \<Rightarrow> bool" where
  "task_state_shape_ck t \<longleftrightarrow> (case t_status t of
     Queued \<Rightarrow> t_finished_at t = None \<and> t_lease_expires_at t = None
   | Running \<Rightarrow> t_started_at t \<noteq> None \<and> t_finished_at t = None \<and> t_lease_expires_at t \<noteq> None
       \<and> t_worker_id t \<noteq> []
   | Success \<Rightarrow> t_finished_at t \<noteq> None \<and> t_lease_expires_at t = None \<and> t_progress t = 100
       \<and> t_completed_targets t = t_total_targets t \<and> t_successful_targets t = t_total_targets t
       \<and> t_failed_targets t = 0
   | Partial \<Rightarrow> t_finished_at t \<noteq> None \<and> t_lease_expires_at t = None \<and> t_progress t = 100
       \<and> t_completed_targets t = t_total_targets t \<and> t_failed_targets t > 0
       \<and> t_completed_targets t = t_successful_targets t + t_failed_targets t
   | Failed \<Rightarrow> t_finished_at t \<noteq> None \<and> t_lease_expires_at t = None \<and> t_progress t = 100
       \<and> t_completed_targets t = t_total_targets t \<and> t_successful_targets t = 0
       \<and> t_failed_targets t = t_total_targets t
   | Cancelled \<Rightarrow> t_finished_at t \<noteq> None \<and> t_lease_expires_at t = None)"

definition task_constraints :: "task \<Rightarrow> bool" where
  "task_constraints t \<longleftrightarrow> task_binding_ck t \<and> task_active_scope_ck t
     \<and> task_progress_counts_ck t \<and> task_state_shape_ck t"

section \<open>Validation of a task\<close>

definition digest_ok :: "json \<Rightarrow> bool" where
  "digest_ok v = (case v of
     JStr s \<Rightarrow> length s = 64 \<and> list_all (\<lambda>c. (48 \<le> c \<and> c \<le> 57) \<or> (97 \<le> c \<and> c \<le> 102)) s
   | _ \<Rightarrow> False)"

definition sensitive_checks :: "runtime \<Rightarrow> task \<Rightarrow> (bool \<times> string \<times> string) list" where
  "sensitive_checks rt t =
     [(contains_sensitive_payload rt (t_profile_snapshot t), ''profile_snapshot'', ''sensitive''),
      (contains_sensitive_payload rt (t_parameters_snapshot t), ''parameters_snapshot'', ''sensitive''),
      (contains_sensitive_payload rt (t_target_scope_snapshot t), ''target_scope_snapshot'', ''sensitive'')]"

text \<open>\<open>TaskRun.clean\<close>, first half: which bindings each task type may have.\<close>

definition task_clean_binding :: "runtime \<Rightarrow> task \<Rightarrow> (bool \<times> string \<times> string) list" where
  "task_clean_binding rt t =
     (let has_inspection = t_inspection_profile t \<noteq> None;
          has_analysis = t_analysis_profile t \<noteq> None;
          has_people = t_people_source t \<noteq> None;
          has_schedule = t_schedule t \<noteq> None;
          selected = truthy (t_selected_items_snapshot t)
      in
      (if t_type t \<in> set people_interactive_task_types then
         [(\<not> has_people \<or> has_inspection \<or> has_analysis, ''people_source'', ''one_directory_source''),
          (has_schedule \<or> t_source t \<noteq> Manual, ''schedule'', ''manual_only''),
          (\<not> digest_ok (jget_or ''owner_session_digest'' (JStr []) (t_parameters_snapshot t)),
             ''parameters_snapshot'', ''needs_session''),
          (selected \<or> t_total_targets t \<noteq> 1, ''total_targets'', ''one_source_target'')]
       else if t_type t = PeopleSync then
         [(\<not> has_people \<or> has_inspection \<or> has_analysis, ''people_source'', ''one_directory_source''),
          (\<not> has_schedule \<or> t_source t \<noteq> Scheduled, ''schedule'', ''needs_schedule''),
          (selected \<or> t_total_targets t \<noteq> 1, ''total_targets'', ''one_source_target'')]
       else
         [(has_people \<or> t_people_applied_at t \<noteq> None, ''people_source'', ''no_directory_source'')])
      @ (if t_type t = DomainOperation then
         [(has_inspection \<or> has_analysis \<or> has_people, ''task_type'', ''domain_operation_binding''),
          (has_schedule \<or> t_source t \<noteq> Manual, ''schedule'', ''manual_only'')]
         @ sensitive_checks rt t
         else [])
      @ (if t_type t = AccessSync then
         [(has_inspection \<or> has_analysis \<or> has_people \<or> has_schedule, ''task_type'', ''access_binding''),
          (t_source t \<noteq> Manual \<or> t_total_targets t \<noteq> 1 \<or> selected, ''task_type'', ''access_single_manual'')]
         @ sensitive_checks rt t
         else [])
      @ (if t_type t = DomainSync then
         [(has_inspection \<or> has_analysis \<or> has_people \<or> t_total_targets t \<noteq> 1,
             ''task_type'', ''one_domain_target''),
          (selected, ''selected_items_snapshot'', ''domain_sync_collects_all'')]
         @ sensitive_checks rt t
         else []))"

text \<open>\<open>TaskRun.clean\<close>, continued: the confirmation mark, the profile and the schedule.
  \<open>sched\<close> is the row \<open>self.schedule\<close>.\<close>

definition task_clean_profile :: "schedule option \<Rightarrow> task \<Rightarrow> (bool \<times> string \<times> string) list" where
  "task_clean_profile sched t =
     [(t_people_applied_at t \<noteq> None \<and> (t_type t \<noteq> PeoplePreview \<or> t_status t \<noteq> Success),
        ''people_applied_at'', ''only_successful_preview'')]
     @ (if t_type t = Inspection then
          [(t_inspection_profile t = None, ''inspection_profile'', ''required''),
           (t_analysis_profile t \<noteq> None, ''analysis_profile'', ''forbidden'')]
        else if t_type t = ComputerAnalysis then
          [(t_analysis_profile t = None, ''analysis_profile'', ''required''),
           (t_inspection_profile t \<noteq> None, ''inspection_profile'', ''forbidden'')]
        else [])
     @ [(t_source t = Scheduled \<and> t_schedule t = None, ''schedule'', ''required''),
        (t_source t = Manual \<and> t_schedule t \<noteq> None, ''schedule'', ''forbidden'')]
     @ (case sched of None \<Rightarrow> [] | Some s \<Rightarrow>
         (if t_source t = Scheduled \<and> t_schedule t \<noteq> None then
           [(t_type t = DomainSync \<and> s_domain_config s = None, ''schedule'', ''needs_domain_schedule''),
            (t_type t = Inspection \<and> s_inspection_profile s \<noteq> t_inspection_profile t,
               ''schedule'', ''profile_of_schedule''),
            (t_type t = ComputerAnalysis \<and> s_analysis_profile s \<noteq> t_analysis_profile t,
               ''schedule'', ''profile_of_schedule''),
            (t_type t = PeopleSync \<and> s_people_source s \<noteq> t_people_source t,
               ''schedule'', ''profile_of_schedule'')]
          else []))
     @ [(\<not> is_obj (t_profile_snapshot t), ''profile_snapshot'', ''not_an_object''),
        (\<not> is_obj (t_parameters_snapshot t), ''parameters_snapshot'', ''not_an_object''),
        (\<not> is_obj (t_target_scope_snapshot t), ''target_scope_snapshot'', ''not_an_object''),
        (validate_string_list (t_selected_items_snapshot t) \<noteq> None, ''selected_items_snapshot'', ''string_list'')]"

text \<open>\<open>TaskRun.clean\<close>, second half: the state of the run.\<close>

definition task_clean_state :: "task \<Rightarrow> (bool \<times> string \<times> string) list" where
  "task_clean_state t =
     (if t_status t = Running then
        [(t_started_at t = None, ''started_at'', ''required''),
         (t_worker_id t = [], ''worker_id'', ''required''),
         (t_lease_expires_at t = None, ''lease_expires_at'', ''required''),
         (t_finished_at t \<noteq> None, ''finished_at'', ''forbidden'')]
      else [])
     @ (if terminal_status (t_status t) then
        [(t_finished_at t = None, ''finished_at'', ''required''),
         (t_lease_expires_at t \<noteq> None, ''lease_expires_at'', ''forbidden'')]
      else [])
     @ (if aggregated_status (t_status t) then
        [(t_progress t \<noteq> 100, ''progress'', ''must_be_100''),
         (t_completed_targets t \<noteq> t_total_targets t, ''completed_targets'', ''all_targets''),
         (t_successful_targets t + t_failed_targets t \<noteq> t_total_targets t, ''successful_targets'', ''sum''),
         (t_successful_targets t + t_failed_targets t \<noteq> t_total_targets t, ''failed_targets'', ''sum'')]
        @ (if t_status t = Success then
             [(t_successful_targets t \<noteq> t_total_targets t, ''successful_targets'', ''all_succeed''),
              (t_failed_targets t \<noteq> 0, ''failed_targets'', ''none_failed'')]
           else if t_status t = Partial then
             [(t_failed_targets t = 0, ''failed_targets'', ''some_failed'')]
           else
             [(t_successful_targets t \<noteq> 0, ''successful_targets'', ''none_succeed''),
              (t_failed_targets t \<noteq> t_total_targets t, ''failed_targets'', ''all_failed'')])
      else [])
     @ [(case (t_started_at t, t_finished_at t) of (Some a, Some b) \<Rightarrow> b < a | _ \<Rightarrow> False,
           ''finished_at'', ''before_start''),
        (t_completed_targets t > t_total_targets t, ''completed_targets'', ''above_total''),
        (t_successful_targets t > t_completed_targets t, ''successful_targets'', ''above_completed''),
        (t_failed_targets t > t_completed_targets t, ''failed_targets'', ''above_completed'')]"

text \<open>The last two entries of \<open>clean\<close> are \<open>setdefault\<close>s: they keep an earlier message.\<close>

definition set_default :: "bool \<Rightarrow> string \<Rightarrow> string \<Rightarrow> errs \<Rightarrow> errs" where
  "set_default b f m es = (if b \<and> map_of es f = None then AList.update f m es else es)"

definition task_clean :: "runtime \<Rightarrow> schedule option \<Rightarrow> task \<Rightarrow> errs" where
  "task_clean rt sched t =
     (let es = run_checks (task_clean_binding rt t @ task_clean_profile sched t @ task_clean_state t);
          bad = t_successful_targets t + t_failed_targets t > t_completed_targets t
      in set_default bad ''failed_targets'' ''invalid_sum''
           (set_default bad ''successful_targets'' ''invalid_sum'' es))"

lemma set_default_Nil [simp]: "set_default b f m es = [] \<longleftrightarrow> es = [] \<and> \<not> b"
  by (cases es) (auto simp: set_default_def)

text \<open>Field validators of the model declaration (\<open>clean_fields\<close>).\<close>

definition blank_json :: "json \<Rightarrow> bool" where
  "blank_json j \<longleftrightarrow> j = JNull \<or> j = JStr [] \<or> j = JList [] \<or> j = JObj []"

definition task_clean_fields :: "task \<Rightarrow> errs" where
  "task_clean_fields t = run_checks
     [(t_progress t > 100, ''progress'', ''max_100''),
      (length (t_worker_id t) > 255, ''worker_id'', ''max_length''),
      (t_scope_key t = [], ''scope_key'', ''blank''),
      (length (t_scope_key t) > 64, ''scope_key'', ''max_length''),
      (\<not> blank_json (t_profile_snapshot t) \<and> validate_json_object (t_profile_snapshot t) \<noteq> None,
         ''profile_snapshot'', ''not_an_object''),
      (\<not> blank_json (t_parameters_snapshot t) \<and> validate_json_object (t_parameters_snapshot t) \<noteq> None,
         ''parameters_snapshot'', ''not_an_object''),
      (\<not> blank_json (t_selected_items_snapshot t) \<and> validate_string_list (t_selected_items_snapshot t) \<noteq> None,
         ''selected_items_snapshot'', ''string_list''),
      (\<not> blank_json (t_target_scope_snapshot t) \<and> validate_json_object (t_target_scope_snapshot t) \<noteq> None,
         ''target_scope_snapshot'', ''not_an_object'')]"

definition task_unique_errs :: "task list \<Rightarrow> task \<Rightarrow> errs" where
  "task_unique_errs rows t = run_checks
     [(t_active_scope_key t \<noteq> None
        \<and> list_ex (\<lambda>r. t_id r \<noteq> t_id t \<and> t_active_scope_key r = t_active_scope_key t) rows,
       ''active_scope_key'', ''unique'')]"

definition task_full_clean :: "runtime \<Rightarrow> task list \<Rightarrow> schedule option \<Rightarrow> task \<Rightarrow> errs" where
  "task_full_clean rt rows sched t =
     task_clean_fields t @ task_clean rt sched t @ task_unique_errs rows t
     @ (if task_constraints t then [] else [(''__all__'', ''constraint'')])"

lemma task_full_clean_Nil:
  "task_full_clean rt rows sched t = [] \<longleftrightarrow>
     task_clean_fields t = [] \<and> task_clean rt sched t = [] \<and> task_unique_errs rows t = []
     \<and> task_constraints t"
  by (auto simp: task_full_clean_def)

end
