(* ===== verification/TaskStore.thy ===== *)
theory TaskStore
  imports TaskRows
begin

text \<open>
  The database the queue works on and the validated writes of \<open>net/inspections/state.py\<close>:
  \<open>TaskRun.save\<close>, \<open>TaskTargetRun.clean\<close> and \<open>save\<close>, \<open>save_task\<close> and \<open>save_target\<close>. A function that
  writes returns the new database, or the exception that rolls the transaction back.
\<close>

section \<open>The database\<close>

text \<open>The audit envelope of a domain operation; \<open>secrets\<close> holds the operations that own a secret row.\<close>

record operation =
  o_id :: ustring
  o_task :: "ustring option"
  o_action :: ustring
  o_status :: status
  o_started_at :: "time option"
  o_finished_at :: "time option"

text \<open>
  A result row of \<open>net/models/records.py\<close> (the four \<open>DynamicRecord\<close> tables, told apart by \<open>r_kind\<close>):
  \<open>task_target\<close> is a one-to-one field, so a table holds at most one row of a target. \<open>r_daily\<close> is the
  computer, the analysis profile and the analysis date of a retention managed analysis.
\<close>

record result =
  r_kind :: ustring
  r_id :: ustring
  r_target :: ustring
  r_status :: status
  r_summary :: ustring
  r_daily :: "(ustring \<times> ustring \<times> int) option"
  r_created_at :: time

text \<open>Directory sources with the identity of their fetch configuration (source key, digest), access
  platforms and their imported events.\<close>

record people_source =
  ps_id :: ustring
  ps_enabled :: bool
  ps_identity :: "ustring \<times> ustring"
  ps_last_tested_at :: "time option"

record access_source =
  as_id :: ustring
  as_enabled :: bool
  as_identity :: ustring
  as_cursor_at :: "time option"
  as_last_success_at :: "time option"
  as_last_error :: ustring

record access_record =
  ar_source :: ustring
  ar_event_id :: ustring
  ar_occurred_at :: time
  ar_employee_number :: ustring
  ar_person_name :: ustring
  ar_door_name :: ustring
  ar_direction :: ustring
  ar_result :: ustring
  ar_card_number :: ustring

text \<open>\<open>domain_version\<close> is \<open>updated_at\<close> of the domain controller configuration, if there is one.\<close>

record db =
  tasks :: "task list"
  targets :: "target list"
  schedules :: "schedule list"
  operations :: "operation list"
  secrets :: "ustring list"
  results :: "result list"
  result_errors :: "ustring list"
  people_sources :: "people_source list"
  access_sources :: "access_source list"
  access_records :: "access_record list"
  domain_version :: "ustring option"

definition targets_of :: "ustring \<Rightarrow> db \<Rightarrow> target list" where
  "targets_of i d = filter (\<lambda>g. g_task g = i) (targets d)"

text \<open>\<open>task.target_runs.order_by('created_at', 'pk')\<close>\<close>

definition ordered_targets :: "ustring \<Rightarrow> db \<Rightarrow> target list" where
  "ordered_targets i d = sort_key (\<lambda>g. (g_created_at g, g_id g)) (targets_of i d)"

definition schedule_of :: "db \<Rightarrow> task \<Rightarrow> schedule option" where
  "schedule_of d t = (case t_schedule t of None \<Rightarrow> None | Some i \<Rightarrow> find_row s_id i (schedules d))"

section \<open>TaskRun.save\<close>

text \<open>The immutable fields of a task row.\<close>

definition task_snapshot :: "task \<Rightarrow>
    (task_type \<times> task_source \<times> ustring option \<times> ustring option \<times> ustring option \<times> ustring option)
    \<times> json \<times> json \<times> json \<times> json" where
  "task_snapshot t =
     ((t_type t, t_source t, t_inspection_profile t, t_analysis_profile t, t_people_source t, t_schedule t),
      t_profile_snapshot t, t_parameters_snapshot t, t_selected_items_snapshot t, t_target_scope_snapshot t)"

definition task_profile_key :: "runtime \<Rightarrow> task \<Rightarrow> ustring" where
  "task_profile_key rt t =
     (if t_type t = DomainOperation
      then (if is_obj (t_profile_snapshot t)
            then py_str rt (jget_or ''action'' (JStr []) (t_profile_snapshot t)) else [])
      else case t_inspection_profile t of Some p \<Rightarrow> p
         | None \<Rightarrow> (case t_analysis_profile t of Some p \<Rightarrow> p
         | None \<Rightarrow> (case t_people_source t of Some p \<Rightarrow> p | None \<Rightarrow> asc ''None'')))"

text \<open>
  \<open>task.save(update_fields=...)\<close> of an existing row: \<open>w t r\<close> copies the named fields of the instance
  \<open>t\<close> into the stored row \<open>r\<close>; the two scope keys are always recomputed and written. A check
  constraint or the unique active scope key that fails in the database is an \<open>IntegrityError\<close>.
\<close>

definition written_row :: "(task \<Rightarrow> task \<Rightarrow> task) \<Rightarrow> task \<Rightarrow> task \<Rightarrow> task" where
  "written_row w t r = (w t r)\<lparr>t_scope_key := t_scope_key t, t_active_scope_key := t_active_scope_key t\<rparr>"

definition rekeyed :: "task \<Rightarrow> ustring \<Rightarrow> task" where
  "rekeyed t key = t\<lparr>t_scope_key := key,
     t_active_scope_key := (if active_status (t_status t) then Some key else None)\<rparr>"

definition store_task :: "(task \<Rightarrow> task \<Rightarrow> task) \<Rightarrow> task \<Rightarrow> task \<Rightarrow> db \<Rightarrow> (db \<times> task) res" where
  "store_task w t original d =
     (if task_constraints (written_row w t original) \<and> task_unique_errs (tasks d) (written_row w t original) = []
      then Inr (d\<lparr>tasks := upd_row t_id (t_id t) (\<lambda>_. written_row w t original) (tasks d)\<rparr>, t)
      else Inl IntegrityError)"

definition task_save :: "runtime \<Rightarrow> (task \<Rightarrow> task \<Rightarrow> task) \<Rightarrow> task \<Rightarrow> db \<Rightarrow> (db \<times> task) res" where
  "task_save rt w t d =
     (if t_type t = DomainOperation \<and> run_checks (sensitive_checks rt t) \<noteq> []
      then Inl (ValidationError (run_checks (sensitive_checks rt t)))
      else case find_row t_id (t_id t) (tasks d) of
        None \<Rightarrow> Inl LookupError
      | Some original \<Rightarrow>
          if task_snapshot t \<noteq> task_snapshot original
          then Inl (ValidationError [(''snapshot'', ''immutable'')])
          else bindr (build_scope_key rt (task_type_value (t_type t)) (task_profile_key rt t)
                        (t_target_scope_snapshot t))
            (\<lambda>key. store_task w (rekeyed t key) original d))"

text \<open>\<open>state.save_task\<close>\<close>

definition save_task :: "runtime \<Rightarrow> (task \<Rightarrow> task \<Rightarrow> task) \<Rightarrow> task \<Rightarrow> db \<Rightarrow> (db \<times> task) res" where
  "save_task rt w t d =
     (let t = t\<lparr>t_active_scope_key := (if active_status (t_status t) then Some (t_scope_key t) else None)\<rparr>
      in bindr (validated (task_full_clean rt (tasks d) (schedule_of d t) t) t)
           (\<lambda>t. task_save rt w t d))"

section \<open>TaskTargetRun.clean and save\<close>

text \<open>\<open>task\<close> is \<open>self.task\<close>; \<open>adding\<close> is the device type of the profile while the task is not saved yet.\<close>

definition expected_target_type :: "ustring option \<Rightarrow> task \<Rightarrow> target \<Rightarrow> json" where
  "expected_target_type adding t g =
     (if t_type t \<in> set people_task_types then JStr (target_type_value TPeopleSource)
      else if t_type t = ComputerAnalysis then JStr (target_type_value TComputerLog)
      else if t_type t = Inspection then
        (let e = (if is_obj (t_profile_snapshot t) then jget_or ''device_type'' JNull (t_profile_snapshot t) else JNull);
             e = (if \<not> truthy e \<and> is_obj (t_target_scope_snapshot t)
                  then jget_or ''target_type'' JNull (t_target_scope_snapshot t) else e)
         in if \<not> truthy e then (case adding of Some p \<Rightarrow> JStr p | None \<Rightarrow> e) else e)
      else if t_type t = DomainSync then JStr (target_type_value TDomainConfig)
      else if t_type t = DomainOperation then JStr (target_type_value (g_type g))
      else if t_type t = AccessSync then JStr (target_type_value TAccessSource)
      else JNull)"

definition target_clean :: "runtime \<Rightarrow> task option \<Rightarrow> ustring option \<Rightarrow> target \<Rightarrow> errs" where
  "target_clean rt task adding g = run_checks (
     [(\<not> is_obj (g_snapshot g), ''target_snapshot'', ''not_an_object''),
      (\<not> is_obj (g_result_snapshot g), ''result_snapshot'', ''not_an_object''),
      ((g_result_type g \<noteq> []) \<noteq> (g_result_id g \<noteq> []),
         (if g_result_type g \<noteq> [] then ''result_id'' else ''result_type''), ''set_together'')]
     @ (case task of None \<Rightarrow> [] | Some t \<Rightarrow>
          [(t_type t \<in> set people_task_types \<and> Some (g_target_id g) \<noteq> t_people_source t
              \<and> \<not> (t_people_source t = None \<and> g_target_id g = asc ''None''),
              ''target_id'', ''bound_source''),
           (t_type t = DomainSync \<and> g_target_id g \<noteq> asc ''1'', ''target_id'', ''current_config''),
           (t_type t = DomainOperation \<and> g_type g \<notin> {TDomainAccount, TDomainComputer},
              ''target_type'', ''domain_objects_only''),
           (t_type t = DomainOperation \<and> contains_sensitive_payload rt (g_snapshot g),
              ''target_snapshot'', ''sensitive''),
           (t_type t = DomainOperation \<and> contains_sensitive_payload rt (g_result_snapshot g),
              ''result_snapshot'', ''sensitive''),
           (truthy (expected_target_type adding t g)
              \<and> JStr (target_type_value (g_type g)) \<noteq> expected_target_type adding t g,
              ''target_type'', ''device_type_of_task'')])
     @ [(g_status g = Running \<and> g_started_at g = None, ''started_at'', ''required''),
        (terminal_status (g_status g) \<and> g_finished_at g = None, ''finished_at'', ''required''),
        (case (g_started_at g, g_finished_at g) of (Some a, Some b) \<Rightarrow> b < a | _ \<Rightarrow> False,
           ''finished_at'', ''before_start'')])"

definition target_clean_fields :: "target \<Rightarrow> errs" where
  "target_clean_fields g = run_checks
     [(g_target_id g = [], ''target_id'', ''blank''),
      (length (g_target_id g) > 64, ''target_id'', ''max_length''),
      (length (g_result_type g) > 64, ''result_type'', ''max_length''),
      (length (g_result_id g) > 64, ''result_id'', ''max_length''),
      (length (g_alert_processing_error g) > 1000, ''alert_processing_error'', ''max_length'')]"

definition target_unique_errs :: "target list \<Rightarrow> target \<Rightarrow> errs" where
  "target_unique_errs rows g = run_checks
     [(list_ex (\<lambda>r. g_id r \<noteq> g_id g \<and> g_task r = g_task g \<and> g_type r = g_type g
                    \<and> g_target_id r = g_target_id g) rows, ''__all__'', ''unique_together''),
      (g_execution_scope_key g \<noteq> None \<and> active_status (g_status g)
         \<and> list_ex (\<lambda>r. g_id r \<noteq> g_id g \<and> active_status (g_status r)
                    \<and> g_execution_scope_key r = g_execution_scope_key g) rows,
         ''__all__'', ''unique_execution_scope'')]"

definition target_full_clean :: "runtime \<Rightarrow> db \<Rightarrow> target \<Rightarrow> errs" where
  "target_full_clean rt d g =
     target_clean_fields g @ target_clean rt (find_row t_id (g_task g) (tasks d)) None g
     @ target_unique_errs (targets d) g"

definition target_snapshot_fields :: "target \<Rightarrow> ustring \<times> target_type \<times> ustring \<times> json \<times> ustring option" where
  "target_snapshot_fields g = (g_task g, g_type g, g_target_id g, g_snapshot g, g_execution_scope_key g)"

definition target_save :: "runtime \<Rightarrow> (target \<Rightarrow> target \<Rightarrow> target) \<Rightarrow> target \<Rightarrow> db \<Rightarrow> db res" where
  "target_save rt w g d =
     (let is_domain = (case find_row t_id (g_task g) (tasks d) of
                         None \<Rightarrow> False | Some t \<Rightarrow> t_type t = DomainOperation);
          sensitive = run_checks
            [(contains_sensitive_payload rt (g_snapshot g), ''target_snapshot'', ''sensitive''),
             (contains_sensitive_payload rt (g_result_snapshot g), ''result_snapshot'', ''sensitive'')]
      in if is_domain \<and> sensitive \<noteq> [] then Inl (ValidationError sensitive)
         else case find_row g_id (g_id g) (targets d) of
           None \<Rightarrow> Inl LookupError
         | Some original \<Rightarrow>
             let changed = run_checks
               [(target_snapshot_fields g \<noteq> target_snapshot_fields original, ''snapshot'', ''immutable''),
                (terminal_status (g_status original) \<and> \<not> terminal_status (g_status g), ''status'', ''reopened''),
                (terminal_status (g_status original) \<and> g_result_type g \<noteq> g_result_type original,
                   ''result_type'', ''frozen''),
                (terminal_status (g_status original) \<and> g_result_id g \<noteq> g_result_id original,
                   ''result_id'', ''frozen''),
                (terminal_status (g_status original) \<and> g_result_snapshot g \<noteq> g_result_snapshot original,
                   ''result_snapshot'', ''frozen'')]
             in if changed \<noteq> [] then Inl (ValidationError changed)
                else Inr (d\<lparr>targets := upd_row g_id (g_id g) (w g) (targets d)\<rparr>))"

section \<open>state.save_target\<close>

definition target_is_terminal :: "target \<Rightarrow> bool" where
  "target_is_terminal g \<longleftrightarrow> terminal_status (g_status g)"

definition target_failed :: "target \<Rightarrow> bool" where
  "target_failed g \<longleftrightarrow> g_status g \<noteq> Success"

text \<open>The aggregate counts: total, completed, successful.\<close>

definition target_progress :: "target list \<Rightarrow> nat \<times> nat \<times> nat" where
  "target_progress gs =
     (length gs, length (filter target_is_terminal gs), length (filter (\<lambda>g. g_status g = Success) gs))"

definition write_progress :: "nat \<times> nat \<times> nat \<Rightarrow> task \<Rightarrow> task" where
  "write_progress c t = (case c of (n, completed, successes) \<Rightarrow>
     t\<lparr>t_completed_targets := completed, t_successful_targets := successes,
       t_failed_targets := completed - successes,
       t_progress := (if n = 0 then 0 else 100 * completed div n)\<rparr>)"

definition update_task_progress :: "ustring \<Rightarrow> db \<Rightarrow> db res" where
  "update_task_progress i d =
     (let c = target_progress (targets_of i d);
          rows = upd_rows (\<lambda>t. t_id t = i \<and> t_status t = Running) (write_progress c) (tasks d)
      in if list_all (\<lambda>t. t_id t = i \<and> t_status t = Running \<longrightarrow> task_constraints t) rows
         then Inr (d\<lparr>tasks := rows\<rparr>) else Inl IntegrityError)"

definition save_target :: "runtime \<Rightarrow> (target \<Rightarrow> target \<Rightarrow> target) \<Rightarrow> target \<Rightarrow> db \<Rightarrow> db res" where
  "save_target rt w g d =
     bindr (validated (target_full_clean rt d g) ())
       (\<lambda>_. bindr (target_save rt w g d)
         (\<lambda>d. if target_is_terminal g then update_task_progress (g_task g) d else Inr d))"

text \<open>\<open>state.bounded_error_summary\<close>\<close>

definition max_task_attempts :: nat where
  "max_task_attempts = 3"

definition max_error_summary_chars :: nat where
  "max_error_summary_chars = 2048"

fun join_lines :: "ustring list \<Rightarrow> ustring" where
  "join_lines [] = []"
| "join_lines [x] = x"
| "join_lines (x # y # xs) = x @ 10 # join_lines (y # xs)"

definition bounded_error_summary :: "runtime \<Rightarrow> target list \<Rightarrow> ustring" where
  "bounded_error_summary rt gs =
     take max_error_summary_chars (sanitize rt (join_lines
       (map (\<lambda>g. target_type_value (g_type g) @ 58 # g_target_id g @ [58, 32] @ g_error_message g)
            (filter (\<lambda>g. g_error_message g \<noteq> []) gs))))"

lemma bounded_error_summary_length: "length (bounded_error_summary rt gs) \<le> 2048"
  by (simp add: bounded_error_summary_def max_error_summary_chars_def)

end
