(* ===== verification/TaskQueue.thy ===== *)
theory TaskQueue
  imports TaskStore
begin

text \<open>
  The lease transitions of \<open>net/inspections/queue.py\<close>: claim, renewal, cancellation, recovery of
  expired leases and aggregation. Each function is one database transaction; the clock reading
  of the transaction is the argument \<open>now\<close>.
\<close>

section \<open>Messages\<close>

text \<open>"task lease expired and the maximum number of attempts is reached"; "task ended by the user".\<close>

definition msg_lease_exhausted :: ustring where
  "msg_lease_exhausted = [20219, 21153, 31199, 32422, 36807, 26399, 19988, 24050, 36798, 21040,
     26368, 22823, 37325, 35797, 27425, 25968, 12290]"

definition msg_cancelled :: ustring where
  "msg_cancelled = [20219, 21153, 24050, 30001, 29992, 25143, 25163, 21160, 32467, 26463, 12290]"

section \<open>Writes of the queue\<close>

text \<open>\<open>save_task(task, {...})\<close> with the field sets that the queue uses.\<close>

definition w_claim :: "task \<Rightarrow> task \<Rightarrow> task" where
  "w_claim t r = r\<lparr>t_status := t_status t, t_started_at := t_started_at t, t_worker_id := t_worker_id t,
     t_lease_expires_at := t_lease_expires_at t, t_attempt_count := t_attempt_count t\<rparr>"

definition w_requeue :: "task \<Rightarrow> task \<Rightarrow> task" where
  "w_requeue t r = r\<lparr>t_status := t_status t, t_worker_id := t_worker_id t,
     t_lease_expires_at := t_lease_expires_at t, t_available_at := t_available_at t\<rparr>"

definition w_end :: "task \<Rightarrow> task \<Rightarrow> task" where
  "w_end t r = r\<lparr>t_status := t_status t, t_progress := t_progress t,
     t_completed_targets := t_completed_targets t, t_successful_targets := t_successful_targets t,
     t_failed_targets := t_failed_targets t, t_finished_at := t_finished_at t,
     t_lease_expires_at := t_lease_expires_at t, t_error_summary := t_error_summary t\<rparr>"

definition w_target_end :: "target \<Rightarrow> target \<Rightarrow> target" where
  "w_target_end g r = r\<lparr>g_status := g_status g, g_finished_at := g_finished_at g,
     g_error_message := g_error_message g\<rparr>"

definition w_target_requeue :: "target \<Rightarrow> target \<Rightarrow> target" where
  "w_target_requeue g r = r\<lparr>g_status := g_status g, g_started_at := g_started_at g\<rparr>"

section \<open>Domain operations follow their task\<close>

definition operation_of :: "db \<Rightarrow> ustring \<Rightarrow> operation option" where
  "operation_of d i = find (\<lambda>oo. o_task oo = Some i) (operations d)"

definition aggregate_domain_operation :: "task \<Rightarrow> db \<Rightarrow> db" where
  "aggregate_domain_operation t d =
     (if \<not> aggregated_status (t_status t) then d
      else case operation_of d (t_id t) of None \<Rightarrow> d
        | Some oo \<Rightarrow> d\<lparr>operations := upd_row o_id (o_id oo)
             (\<lambda>r. r\<lparr>o_status := t_status t, o_started_at := t_started_at t, o_finished_at := t_finished_at t\<rparr>)
             (operations d)\<rparr>)"

definition aggregate_if_domain :: "task \<Rightarrow> db \<Rightarrow> db" where
  "aggregate_if_domain t d = (if t_type t \<noteq> DomainOperation then d else aggregate_domain_operation t d)"

section \<open>Aggregation\<close>

definition final_status :: "target list \<Rightarrow> status" where
  "final_status gs =
     (let successes = length (filter (\<lambda>g. g_status g = Success) gs);
          partials = length (filter (\<lambda>g. g_status g = Partial) gs)
      in if successes = length gs then Success
         else if successes > 0 \<or> partials > 0 then Partial
         else Failed)"

definition finish_locked :: "runtime \<Rightarrow> time \<Rightarrow> target list \<Rightarrow> task \<Rightarrow> db \<Rightarrow> (db \<times> task) res" where
  "finish_locked rt now gs t d =
     (if terminal_status (t_status t) then Inr (d, t)
      else if t_status t \<noteq> Running then Inl (ValidationError [(''status'', ''only_running'')])
      else bindr (foldr_res (\<lambda>g u. validated (target_full_clean rt d g) u) gs ())
        (\<lambda>_. if filter (\<lambda>g. \<not> target_is_terminal g) gs \<noteq> []
             then Inl (ValidationError [(''target_runs'', ''unfinished'')])
             else save_task rt w_end
               (t\<lparr>t_status := final_status gs, t_progress := 100,
                  t_completed_targets := length gs,
                  t_successful_targets := length (filter (\<lambda>g. g_status g = Success) gs),
                  t_failed_targets := length (filter target_failed gs),
                  t_finished_at := Some now, t_lease_expires_at := None,
                  t_error_summary := bounded_error_summary rt gs\<rparr>) d))"

definition owns_live_lease :: "ustring \<Rightarrow> time \<Rightarrow> task \<Rightarrow> bool" where
  "owns_live_lease worker now t \<longleftrightarrow> t_status t = Running \<and> t_worker_id t = worker
     \<and> (\<exists>e. t_lease_expires_at t = Some e \<and> now < e)"

lemma owns_live_lease_code [code]:
  "owns_live_lease worker now t = (t_status t = Running \<and> t_worker_id t = worker
     \<and> (case t_lease_expires_at t of None \<Rightarrow> False | Some e \<Rightarrow> now < e))"
  by (auto simp: owns_live_lease_def split: option.splits)

definition finish_task :: "runtime \<Rightarrow> time \<Rightarrow> ustring \<Rightarrow> ustring \<Rightarrow> db \<Rightarrow> (db \<times> task) res" where
  "finish_task rt now i worker d =
     (if strip worker = [] then Inl (ValidationError [(''worker_id'', ''empty'')])
      else case find_row t_id i (tasks d) of
        None \<Rightarrow> Inl (ValidationError [(''task_id'', ''missing'')])
      | Some t \<Rightarrow>
          if \<not> owns_live_lease (strip worker) now t
          then Inl (ValidationError [(''worker_id'', ''not_lease_owner'')])
          else finish_locked rt now (ordered_targets i d) t d)"

section \<open>Recovery of expired leases\<close>

text \<open>One expired task; \<open>gs\<close> are its target instances in memory.\<close>

definition fail_exhausted :: "time \<Rightarrow> target \<Rightarrow> target" where
  "fail_exhausted now g = g\<lparr>g_status := Failed, g_finished_at := Some now,
     g_error_message := (if g_error_message g \<noteq> [] then g_error_message g @ [10] else []) @ msg_lease_exhausted\<rparr>"

definition requeue_target :: "target \<Rightarrow> target" where
  "requeue_target g = g\<lparr>g_status := Queued, g_started_at := None\<rparr>"

definition finish_and_aggregate :: "runtime \<Rightarrow> time \<Rightarrow> target list \<Rightarrow> task \<Rightarrow> db \<Rightarrow> db res" where
  "finish_and_aggregate rt now gs t d =
     bindr (finish_locked rt now gs t d) (\<lambda>(d, t). Inr (aggregate_if_domain t d))"

definition recover_exhausted :: "runtime \<Rightarrow> time \<Rightarrow> target list \<Rightarrow> task \<Rightarrow> db \<Rightarrow> db res" where
  "recover_exhausted rt now gs t d =
     bindr (foldr_res (\<lambda>g d. save_target rt w_target_end (fail_exhausted now g) d)
              (filter (\<lambda>g. \<not> target_is_terminal g) gs) d)
       (\<lambda>d. finish_and_aggregate rt now
              (map (\<lambda>g. if target_is_terminal g then g else fail_exhausted now g) gs) t d)"

definition requeued_task :: "time \<Rightarrow> task \<Rightarrow> task" where
  "requeued_task now t = t\<lparr>t_status := Queued, t_worker_id := [], t_lease_expires_at := None,
     t_available_at := now\<rparr>"

definition recover_requeue :: "runtime \<Rightarrow> time \<Rightarrow> target list \<Rightarrow> task \<Rightarrow> db \<Rightarrow> db res" where
  "recover_requeue rt now gs t d =
     bindr (foldr_res (\<lambda>g d. save_target rt w_target_requeue (requeue_target g) d)
              (filter (\<lambda>g. g_status g = Running) gs) d)
       (\<lambda>d. bindr (save_task rt w_requeue (requeued_task now t) d) (\<lambda>(d, _). Inr d))"

definition recover_one :: "runtime \<Rightarrow> time \<Rightarrow> task \<Rightarrow> db \<Rightarrow> db res" where
  "recover_one rt now t d =
     (let gs = ordered_targets (t_id t) d in
      if gs \<noteq> [] \<and> list_all target_is_terminal gs then finish_and_aggregate rt now gs t d
      else if t_attempt_count t \<ge> max_task_attempts then recover_exhausted rt now gs t d
      else recover_requeue rt now gs t d)"

definition lease_expired :: "time \<Rightarrow> task \<Rightarrow> bool" where
  "lease_expired now t \<longleftrightarrow> t_status t = Running
     \<and> (case t_lease_expires_at t of None \<Rightarrow> False | Some e \<Rightarrow> e \<le> now)"

definition expired_tasks :: "time \<Rightarrow> db \<Rightarrow> task list" where
  "expired_tasks now d =
     sort_key (\<lambda>t. (t_lease_expires_at t, t_created_at t, t_id t)) (filter (lease_expired now) (tasks d))"

definition recover_expired_locked :: "runtime \<Rightarrow> time \<Rightarrow> db \<Rightarrow> (db \<times> nat) res" where
  "recover_expired_locked rt now d =
     bindr (foldr_res (\<lambda>t d. recover_one rt now t d) (expired_tasks now d) d)
       (\<lambda>d'. Inr (d', length (expired_tasks now d)))"

definition recover_expired_tasks :: "runtime \<Rightarrow> time \<Rightarrow> db \<Rightarrow> (db \<times> nat) res" where
  "recover_expired_tasks rt now d = recover_expired_locked rt now d"

section \<open>Claim\<close>

definition claimable :: "time \<Rightarrow> task_type option \<Rightarrow> task \<Rightarrow> bool" where
  "claimable now tt t \<longleftrightarrow> t_status t = Queued \<and> t_available_at t \<le> now
     \<and> (case tt of None \<Rightarrow> True | Some ty \<Rightarrow> t_type t = ty)"

definition next_candidate :: "time \<Rightarrow> task_type option \<Rightarrow> db \<Rightarrow> task option" where
  "next_candidate now tt d =
     first_row (sort_key (\<lambda>t. (t_available_at t, t_created_at t, t_id t)) (filter (claimable now tt) (tasks d)))"

definition claimed_task :: "ustring \<Rightarrow> int \<Rightarrow> time \<Rightarrow> task \<Rightarrow> task" where
  "claimed_task worker lease_seconds now t =
     t\<lparr>t_status := Running, t_started_at := Some now, t_worker_id := strip worker,
       t_lease_expires_at := Some (now + seconds lease_seconds),
       t_attempt_count := t_attempt_count t + 1\<rparr>"

definition claim_next_task ::
    "runtime \<Rightarrow> ustring \<Rightarrow> int \<Rightarrow> time \<Rightarrow> task_type option \<Rightarrow> db \<Rightarrow> (db \<times> task option) res" where
  "claim_next_task rt worker lease_seconds now tt d =
     (if strip worker = [] then Inl (ValidationError [(''worker_id'', ''empty'')])
      else if lease_seconds \<le> 0 then Inl (ValidationError [(''lease_seconds'', ''positive'')])
      else bindr (recover_expired_locked rt now d)
        (\<lambda>(d, _). case next_candidate now tt d of
            None \<Rightarrow> Inr (d, None)
          | Some t \<Rightarrow>
              bindr (save_task rt w_claim (claimed_task worker lease_seconds now t) d)
                (\<lambda>(d, t). Inr (d, Some t))))"

section \<open>Renewal\<close>

text \<open>The conditional update; \<open>db_now\<close> is the clock of the database (\<open>Now()\<close>).\<close>

definition renewable :: "ustring \<Rightarrow> ustring \<Rightarrow> time \<Rightarrow> time \<Rightarrow> task \<Rightarrow> bool" where
  "renewable i worker now db_now t \<longleftrightarrow> t_id t = i \<and> t_status t = Running \<and> t_worker_id t = worker
     \<and> (case t_lease_expires_at t of None \<Rightarrow> False | Some e \<Rightarrow> now < e \<and> db_now < e)"

definition renew_lease ::
    "time \<Rightarrow> time \<Rightarrow> ustring \<Rightarrow> ustring \<Rightarrow> int \<Rightarrow> db \<Rightarrow> (db \<times> bool) res" where
  "renew_lease now db_now i worker lease_seconds d =
     (if strip worker = [] then Inr (d, False)
      else if lease_seconds \<le> 0 then Inl (ValidationError [(''lease_seconds'', ''positive'')])
      else Inr (d\<lparr>tasks := upd_rows (renewable i (strip worker) now db_now)
                       (\<lambda>t. t\<lparr>t_lease_expires_at := Some (now + seconds lease_seconds)\<rparr>) (tasks d)\<rparr>,
                list_ex (renewable i (strip worker) now db_now) (tasks d)))"

section \<open>Cancellation\<close>

definition cancel_target :: "time \<Rightarrow> target \<Rightarrow> target" where
  "cancel_target now g = g\<lparr>g_status := Cancelled, g_finished_at := Some now,
     g_error_message := (if g_error_message g = [] then msg_cancelled else g_error_message g)\<rparr>"

definition cancel_operation :: "time \<Rightarrow> task \<Rightarrow> db \<Rightarrow> db" where
  "cancel_operation now t d =
     (if t_type t \<noteq> DomainOperation then d
      else case operation_of d (t_id t) of None \<Rightarrow> d
        | Some oo \<Rightarrow> d\<lparr>secrets := filter (\<lambda>s. s \<noteq> o_id oo) (secrets d),
             operations := upd_row o_id (o_id oo)
               (\<lambda>r. r\<lparr>o_status := Cancelled, o_started_at := t_started_at t, o_finished_at := Some now\<rparr>)
               (operations d)\<rparr>)"

definition cancelled_task :: "time \<Rightarrow> target list \<Rightarrow> task \<Rightarrow> task" where
  "cancelled_task now gs t =
     t\<lparr>t_status := Cancelled, t_progress := 100, t_completed_targets := length gs,
       t_successful_targets := length (filter (\<lambda>g. g_status g = Success) gs),
       t_failed_targets := length (filter (\<lambda>g. g_status g \<in> {Failed, Partial}) gs),
       t_finished_at := Some now, t_lease_expires_at := None,
       t_error_summary := msg_cancelled\<rparr>"

definition cancel_task :: "runtime \<Rightarrow> time \<Rightarrow> ustring \<Rightarrow> db \<Rightarrow> (db \<times> task) res" where
  "cancel_task rt now i d =
     (case find_row t_id i (tasks d) of
        None \<Rightarrow> Inl (ValidationError [(''task_id'', ''missing'')])
      | Some t \<Rightarrow>
          if \<not> active_status (t_status t) then Inl (ValidationError [(''status'', ''already_ended'')])
          else
            let gs = ordered_targets i d;
                ended = map (\<lambda>g. if target_is_terminal g then g else cancel_target now g) gs
            in bindr (foldr_res (\<lambda>g d. save_target rt w_target_end (cancel_target now g) d)
                        (filter (\<lambda>g. \<not> target_is_terminal g) gs) d)
                 (\<lambda>d. bindr (save_task rt w_end (cancelled_task now ended t) d)
                    (\<lambda>(d, t). Inr (cancel_operation now t d, t))))"

end
