(* ===== verification/TaskInvariant.thy ===== *)
theory TaskInvariant
  imports TaskQueue
begin

text \<open>
  The invariant of the task tables and its preservation by every queue transaction. A transaction
  works on one task and its targets; \<open>evolves i d d'\<close> says that everything else is untouched.
\<close>

named_theorems store_simps

section \<open>The invariant\<close>

definition running_target :: "target \<Rightarrow> bool" where
  "running_target g \<longleftrightarrow> g_status g = Running"

definition task_ok :: "task \<Rightarrow> target list \<Rightarrow> bool" where
  "task_ok t gs \<longleftrightarrow> task_constraints t
     \<and> t_attempt_count t \<le> max_task_attempts
     \<and> (t_status t = Queued \<longrightarrow> t_attempt_count t < max_task_attempts \<and> (\<forall>g \<in> set gs. \<not> running_target g))
     \<and> (t_status t = Running \<longrightarrow> 0 < t_attempt_count t)
     \<and> (terminal_status (t_status t) \<longrightarrow> (\<forall>g \<in> set gs. target_is_terminal g))
     \<and> (aggregated_status (t_status t) \<longrightarrow>
          t_successful_targets t = length (filter (\<lambda>g. g_status g = Success) gs))
     \<and> t_total_targets t = length gs \<and> gs \<noteq> []"

definition unique_active :: "task list \<Rightarrow> bool" where
  "unique_active ts \<longleftrightarrow> (\<forall>t \<in> set ts. \<forall>u \<in> set ts.
     t_active_scope_key t \<noteq> None \<longrightarrow> t_active_scope_key u = t_active_scope_key t \<longrightarrow> t_id u = t_id t)"

definition db_ok :: "db \<Rightarrow> bool" where
  "db_ok d \<longleftrightarrow> distinct (map t_id (tasks d)) \<and> distinct (map g_id (targets d))
     \<and> (\<forall>g \<in> set (targets d). g_task g \<in> t_id ` set (tasks d))
     \<and> unique_active (tasks d)
     \<and> (\<forall>t \<in> set (tasks d). task_ok t (targets_of (t_id t) d))"

section \<open>What a transaction leaves alone\<close>

definition same_elsewhere :: "ustring \<Rightarrow> db \<Rightarrow> db \<Rightarrow> bool" where
  "same_elsewhere i d d' \<longleftrightarrow> map t_id (tasks d') = map t_id (tasks d)
     \<and> map (\<lambda>g. (g_id g, g_task g)) (targets d') = map (\<lambda>g. (g_id g, g_task g)) (targets d)
     \<and> (\<forall>j. j \<noteq> i \<longrightarrow> find_row t_id j (tasks d') = find_row t_id j (tasks d) \<and> targets_of j d' = targets_of j d)"

lemma same_elsewhere_refl [simp]: "same_elsewhere i d d"
  by (simp add: same_elsewhere_def)

lemma same_elsewhere_trans: "same_elsewhere i d d' \<Longrightarrow> same_elsewhere i d' d'' \<Longrightarrow> same_elsewhere i d d''"
  by (simp add: same_elsewhere_def)

lemma same_elsewhere_cong:
  "tasks e = tasks d' \<Longrightarrow> targets e = targets d' \<Longrightarrow> same_elsewhere i d e = same_elsewhere i d d'"
  by (simp add: same_elsewhere_def targets_of_def)

lemma find_row_upd_other:
  assumes "\<And>t. p t \<Longrightarrow> key (f t) = i \<and> key t = i" and "j \<noteq> i"
  shows "find_row key j (upd_rows p f rows) = find_row key j rows"
proof (induction rows)
  case (Cons r rows)
  show ?case
  proof (cases "p r")
    case True
    then have "key (f r) \<noteq> j" "key r \<noteq> j" using assms by auto
    with Cons True show ?thesis by (simp add: find_row_def upd_rows_def)
  next
    case False
    with Cons show ?thesis by (simp add: find_row_def upd_rows_def)
  qed
qed (simp add: find_row_def upd_rows_def)

lemma same_elsewhere_tasks:
  assumes f: "\<And>t. p t \<Longrightarrow> t_id (f t) = i \<and> t_id t = i"
  shows "same_elsewhere i d (d\<lparr>tasks := upd_rows p f (tasks d)\<rparr>)"
proof -
  have "map t_id (upd_rows p f (tasks d)) = map t_id (tasks d)"
    using f by (auto simp: upd_rows_def)
  with f show ?thesis
    by (simp add: same_elsewhere_def targets_of_def find_row_upd_other)
qed

lemma same_elsewhere_targets:
  assumes f: "\<And>g. g \<in> set (targets d) \<Longrightarrow> p g \<Longrightarrow> g_id (f g) = g_id g \<and> g_task (f g) = g_task g \<and> g_task g = i"
  shows "same_elsewhere i d (d\<lparr>targets := upd_rows p f (targets d)\<rparr>)"
proof -
  have "filter (\<lambda>g. g_task g = j) (map (\<lambda>g. if p g then f g else g) gs) = filter (\<lambda>g. g_task g = j) gs"
    if "j \<noteq> i" "set gs \<subseteq> set (targets d)" for gs j
    using that f by (induction gs) auto
  then show ?thesis
    using f by (auto simp: same_elsewhere_def targets_of_def upd_rows_def)
qed

text \<open>The invariant after a transaction on one task.\<close>

lemma task_of_row: "t \<in> set (tasks d) \<Longrightarrow> distinct (map t_id (tasks d)) \<Longrightarrow> find_row t_id (t_id t) (tasks d) = Some t"
  by (rule find_row_mem)

lemma db_ok_evolves:
  assumes ok: "db_ok d" and ev: "same_elsewhere i d d'"
    and uniq: "unique_active (tasks d')"
    and task: "\<And>t. find_row t_id i (tasks d') = Some t \<Longrightarrow> task_ok t (targets_of i d')"
  shows "db_ok d'"
proof -
  have ids: "map t_id (tasks d') = map t_id (tasks d)"
    and gids: "map (\<lambda>g. (g_id g, g_task g)) (targets d') = map (\<lambda>g. (g_id g, g_task g)) (targets d)"
    using ev by (auto simp: same_elsewhere_def)
  from gids have "map g_id (targets d') = map g_id (targets d)" "map g_task (targets d') = map g_task (targets d)"
    by (metis (no_types, lifting) comp_def fst_conv list.map_comp map_cong,
        metis (no_types, lifting) comp_def snd_conv list.map_comp map_cong)
  note gids = this
  have dist: "distinct (map t_id (tasks d'))" "distinct (map g_id (targets d'))"
    using ok ids gids by (auto simp: db_ok_def)
  have sets: "g_task ` set (targets d') = g_task ` set (targets d)" "t_id ` set (tasks d') = t_id ` set (tasks d)"
    using gids(2) ids by (metis list.set_map)+
  have owner: "\<forall>g \<in> set (targets d'). g_task g \<in> t_id ` set (tasks d')"
  proof -
    have "g_task ` set (targets d) \<subseteq> t_id ` set (tasks d)" using ok by (auto simp: db_ok_def)
    then show ?thesis using sets by (metis image_subset_iff)
  qed
  have "task_ok t (targets_of (t_id t) d')" if t: "t \<in> set (tasks d')" for t
  proof (cases "t_id t = i")
    case True
    then show ?thesis using task task_of_row [OF t dist(1)] by auto
  next
    case False
    then have "find_row t_id (t_id t) (tasks d) = Some t" "targets_of (t_id t) d' = targets_of (t_id t) d"
      using ev task_of_row [OF t dist(1)] by (auto simp: same_elsewhere_def)
    then show ?thesis using ok find_row_Some by (fastforce simp: db_ok_def)
  qed
  with dist owner uniq show ?thesis by (simp add: db_ok_def)
qed

lemma db_ok_cong:
  "tasks d' = tasks d \<Longrightarrow> targets d' = targets d \<Longrightarrow> db_ok d' = db_ok d"
  by (simp add: db_ok_def targets_of_def)

section \<open>Effects of the validated writes\<close>

lemma store_task_Inr:
  "store_task w t r d = Inr (d', t') \<longleftrightarrow> t' = t \<and> task_constraints (written_row w t r)
     \<and> task_unique_errs (tasks d) (written_row w t r) = []
     \<and> d' = d\<lparr>tasks := upd_row t_id (t_id t) (\<lambda>_. written_row w t r) (tasks d)\<rparr>"
  by (auto simp: store_task_def)

lemma task_save_effect:
  assumes "task_save rt w t d = Inr (d', t')"
  obtains r key where "find_row t_id (t_id t) (tasks d) = Some r"
    and "task_snapshot t = task_snapshot r" and "t' = rekeyed t key"
    and "store_task w (rekeyed t key) r d = Inr (d', t')"
proof -
  have "\<not> (t_type t = DomainOperation \<and> run_checks (sensitive_checks rt t) \<noteq> [])"
  proof (rule notI)
    assume "t_type t = DomainOperation \<and> run_checks (sensitive_checks rt t) \<noteq> []"
    with assms show False by (simp add: task_save_def)
  qed
  note assms [unfolded task_save_def if_not_P [OF this]]
  moreover from this obtain r where r: "find_row t_id (t_id t) (tasks d) = Some r"
    by (cases "find_row t_id (t_id t) (tasks d)") auto
  moreover from calculation have snap: "task_snapshot t = task_snapshot r"
    by (auto split: if_splits)
  ultimately obtain key where key: "store_task w (rekeyed t key) r d = Inr (d', t')"
    by (auto simp: bindr_Inr_iff)
  with r snap show thesis by (intro that) (auto simp: store_task_Inr)
qed

lemma rekeyed_simps [simp]:
  "t_id (rekeyed t k) = t_id t" "task_snapshot (rekeyed t k) = task_snapshot t"
  "t_status (rekeyed t k) = t_status t"
  by (simp_all add: rekeyed_def task_snapshot_def)

lemma written_row_id: "(\<And>a b. t_id (w a b) = t_id b) \<Longrightarrow> t_id (written_row w t r) = t_id r"
  by (simp add: written_row_def)

lemma unique_active_upd:
  assumes u: "unique_active ts" and e: "task_unique_errs ts row = []" and i: "t_id row = i"
  shows "unique_active (upd_row t_id i (\<lambda>_. row) ts)"
proof -
  have fresh: "r \<in> set ts \<Longrightarrow> t_id r \<noteq> i \<Longrightarrow> t_active_scope_key row \<noteq> None \<Longrightarrow>
      t_active_scope_key r \<noteq> t_active_scope_key row" for r
    using e i by (auto simp: task_unique_errs_def run_checks_Nil list_ex_iff)
  have mem: "x = row \<or> (x \<in> set ts \<and> t_id x \<noteq> i)" if "x \<in> set (upd_row t_id i (\<lambda>_. row) ts)" for x
    using that by (auto simp: set_upd_rows)
  show ?thesis
    unfolding unique_active_def
  proof (intro ballI impI)
    fix t t'
    assume t: "t \<in> set (upd_row t_id i (\<lambda>_. row) ts)" and t': "t' \<in> set (upd_row t_id i (\<lambda>_. row) ts)"
      and k: "t_active_scope_key t \<noteq> None" "t_active_scope_key t' = t_active_scope_key t"
    consider "t = row" "t' = row" | "t \<in> set ts" "t_id t \<noteq> i" "t' = row"
      | "t = row" "t' \<in> set ts" "t_id t' \<noteq> i" | "t \<in> set ts" "t' \<in> set ts"
      using mem [OF t] mem [OF t'] by blast
    then show "t_id t' = t_id t"
    proof cases
      case 2
      then show ?thesis using fresh [of t] k by simp
    next
      case 3
      then show ?thesis using fresh [of t'] k by simp
    next
      case 4
      then show ?thesis using u k unfolding unique_active_def by blast
    qed simp
  qed
qed

lemma find_row_upd_const:
  "find_row key i rows = Some r \<Longrightarrow> key row = i \<Longrightarrow> find_row key i (upd_row key i (\<lambda>_. row) rows) = Some row"
  by (induction rows) (auto simp: find_row_def upd_rows_def)

text \<open>\<open>save_task\<close> replaces one row; the field sets of the queue keep the identity of the row.\<close>

definition active_rekeyed :: "task \<Rightarrow> task" where
  "active_rekeyed t = t\<lparr>t_active_scope_key := (if active_status (t_status t) then Some (t_scope_key t) else None)\<rparr>"

lemma save_task_rekeyed: "save_task rt w t d =
    bindr (validated (task_full_clean rt (tasks d) (schedule_of d (active_rekeyed t)) (active_rekeyed t)) (active_rekeyed t))
      (\<lambda>t. task_save rt w t d)"
  by (simp only: save_task_def Let_def active_rekeyed_def)

lemma active_rekeyed_simps [simp]:
  "t_id (active_rekeyed t) = t_id t" "task_snapshot (active_rekeyed t) = task_snapshot t"
  "rekeyed (active_rekeyed t) k = rekeyed t k"
  by (simp_all add: active_rekeyed_def task_snapshot_def rekeyed_def)

lemma save_task_effect:
  assumes s: "save_task rt w t d = Inr (d', t')" and u: "unique_active (tasks d)"
    and w: "\<And>a b. t_id (w a b) = t_id b"
  obtains r k where "find_row t_id (t_id t) (tasks d) = Some r"
    and "t' = rekeyed t k" and "task_snapshot t = task_snapshot r"
    and "same_elsewhere (t_id t) d d'" and "unique_active (tasks d')"
    and "find_row t_id (t_id t) (tasks d') = Some (written_row w t' r)"
    and "task_constraints (written_row w t' r)"
    and "d' = d\<lparr>tasks := upd_row t_id (t_id t) (\<lambda>_. written_row w t' r) (tasks d)\<rparr>"
proof -
  from s have "task_save rt w (active_rekeyed t) d = Inr (d', t')"
    unfolding save_task_rekeyed bindr_Inr_iff validated_Inr by blast
  then obtain r k where r: "find_row t_id (t_id t) (tasks d) = Some r"
    and snap: "task_snapshot t = task_snapshot r" and t': "t' = rekeyed t k"
    and st: "store_task w t' r d = Inr (d', t')"
    by (rule task_save_effect) simp
  have row: "t_id (written_row w t' r) = t_id t"
    using find_row_Some [OF r] written_row_id [OF w] by simp
  have id: "t_id t' = t_id t" by (simp add: t')
  have d': "d' = d\<lparr>tasks := upd_row t_id (t_id t) (\<lambda>_. written_row w t' r) (tasks d)\<rparr>"
    and c: "task_constraints (written_row w t' r)"
    and ue: "task_unique_errs (tasks d) (written_row w t' r) = []"
    using st by (simp_all add: store_task_Inr id)
  show thesis
  proof (rule that [OF r t' snap _ _ _ c d'])
    show "same_elsewhere (t_id t) d d'"
      unfolding d' by (rule same_elsewhere_tasks) (use row in simp)
    show "unique_active (tasks d')"
      unfolding d' using unique_active_upd [OF u ue row] by simp
    show "find_row t_id (t_id t) (tasks d') = Some (written_row w t' r)"
      unfolding d' using find_row_upd_const [OF r row] by simp
  qed
qed

text \<open>\<open>save_target\<close> replaces one target row and refreshes the counters of a running task.\<close>

definition core :: "task \<Rightarrow> task" where
  "core t = t\<lparr>t_completed_targets := 0, t_successful_targets := 0, t_failed_targets := 0, t_progress := 0\<rparr>"

lemma core_write_progress [simp]: "core (write_progress c t) = core t"
  by (simp add: core_def write_progress_def split: prod.splits)

lemma core_simps [simp]:
  "t_id (core t) = t_id t" "t_status (core t) = t_status t" "t_type (core t) = t_type t"
  "t_active_scope_key (core t) = t_active_scope_key t" "t_attempt_count (core t) = t_attempt_count t"
  "t_total_targets (core t) = t_total_targets t" "task_snapshot (core t) = task_snapshot t"
  by (simp_all add: core_def task_snapshot_def)

lemma core_eqD:
  assumes "core a = core b"
  shows "t_id a = t_id b" "t_status a = t_status b" "t_type a = t_type b"
    "t_active_scope_key a = t_active_scope_key b" "t_attempt_count a = t_attempt_count b"
    "t_total_targets a = t_total_targets b" "task_snapshot a = task_snapshot b"
  using assms by (metis core_simps)+

lemma map_core_ids: "map core ts = map core us \<Longrightarrow> map t_id ts = map t_id us"
  by (metis (no_types, lifting) comp_def core_simps(1) list.map_comp map_eq_conv)

lemma map_core_find:
  "map core ts = map core us \<Longrightarrow>
   map_option core (find_row t_id i ts) = map_option core (find_row t_id i us)"
proof (induction ts arbitrary: us)
  case (Cons t ts)
  then obtain u us' where us: "us = u # us'" "core t = core u" "map core ts = map core us'"
    by (cases us) auto
  with Cons.IH [OF us(3)] core_eqD(1) [OF us(2)] show ?case
    by (auto simp: find_row_def)
qed (auto simp: find_row_def)

lemma unique_active_core:
  assumes "map core ts = map core us"
  shows "unique_active ts = unique_active us"
proof -
  have image: "unique_active xs \<longleftrightarrow> (\<forall>t \<in> core ` set xs. \<forall>u \<in> core ` set xs.
     t_active_scope_key t \<noteq> None \<longrightarrow> t_active_scope_key u = t_active_scope_key t \<longrightarrow> t_id u = t_id t)" for xs
    by (simp add: unique_active_def)
  from assms have "core ` set ts = core ` set us" by (metis list.set_map)
  then show ?thesis by (simp only: image)
qed

lemma map_core_progress: "map core (upd_rows p (write_progress c) ts) = map core ts"
  by (simp add: upd_rows_def comp_def)

lemma target_save_effect:
  assumes "target_save rt w g d = Inr d'"
  shows "d' = d\<lparr>targets := upd_row g_id (g_id g) (w g) (targets d)\<rparr>"
    and "\<exists>r. find_row g_id (g_id g) (targets d) = Some r
           \<and> target_snapshot_fields g = target_snapshot_fields r
           \<and> (target_is_terminal r \<longrightarrow> target_is_terminal g \<and> g_result_type g = g_result_type r
                \<and> g_result_id g = g_result_id r \<and> g_result_snapshot g = g_result_snapshot r)"
  using assms unfolding target_save_def Let_def target_is_terminal_def
  by (auto simp: run_checks_Nil split: if_splits option.splits)

lemma save_target_effect:
  assumes "save_target rt w g d = Inr d'"
  shows "targets d' = upd_row g_id (g_id g) (w g) (targets d)"
    and "map core (tasks d') = map core (tasks d)"
    and "\<not> target_is_terminal g \<Longrightarrow> tasks d' = tasks d"
    and "\<exists>c. tasks d' = (if target_is_terminal g
           then upd_rows (\<lambda>t. t_id t = g_task g \<and> t_status t = Running) (write_progress c) (tasks d) else tasks d)"
    and "\<exists>r. find_row g_id (g_id g) (targets d) = Some r
           \<and> target_snapshot_fields g = target_snapshot_fields r
           \<and> (target_is_terminal r \<longrightarrow> target_is_terminal g \<and> g_result_type g = g_result_type r
                \<and> g_result_id g = g_result_id r \<and> g_result_snapshot g = g_result_snapshot r)"
    and "target_full_clean rt d g = []"
proof -
  from assms obtain e where e: "target_full_clean rt d g = []" "target_save rt w g d = Inr e"
      "(if target_is_terminal g then update_task_progress (g_task g) e else Inr e) = Inr d'"
    by (auto simp: save_target_def bindr_Inr_iff)
  have eq: "e = d\<lparr>targets := upd_row g_id (g_id g) (w g) (targets d)\<rparr>"
    by (rule target_save_effect(1) [OF e(2)])
  have "\<exists>c. d' = (if target_is_terminal g then e\<lparr>tasks := upd_rows (\<lambda>t. t_id t = g_task g \<and> t_status t = Running)
      (write_progress c) (tasks e)\<rparr> else e)"
    using e(3) by (intro exI [of _ "target_progress (targets_of (g_task g) e)"])
      (simp add: update_task_progress_def Let_def split: if_splits)
  then obtain c where d': "d' = (if target_is_terminal g then e\<lparr>tasks := upd_rows (\<lambda>t. t_id t = g_task g \<and> t_status t = Running)
      (write_progress c) (tasks e)\<rparr> else e)" ..
  show "targets d' = upd_row g_id (g_id g) (w g) (targets d)" "map core (tasks d') = map core (tasks d)"
    "\<not> target_is_terminal g \<Longrightarrow> tasks d' = tasks d"
    by (simp_all add: d' eq map_core_progress)
  show "\<exists>c. tasks d' = (if target_is_terminal g
           then upd_rows (\<lambda>t. t_id t = g_task g \<and> t_status t = Running) (write_progress c) (tasks d) else tasks d)"
    by (rule exI [of _ c]) (simp add: d' eq)
  show "\<exists>r. find_row g_id (g_id g) (targets d) = Some r
           \<and> target_snapshot_fields g = target_snapshot_fields r
           \<and> (target_is_terminal r \<longrightarrow> target_is_terminal g \<and> g_result_type g = g_result_type r
                \<and> g_result_id g = g_result_id r \<and> g_result_snapshot g = g_result_snapshot r)"
    by (rule target_save_effect(2) [OF e(2)])
  show "target_full_clean rt d g = []" by (rule e(1))
qed

lemma distinct_key_eq:
  "distinct (map key rows) \<Longrightarrow> r \<in> set rows \<Longrightarrow> s \<in> set rows \<Longrightarrow> key r = key s \<Longrightarrow> r = s"
  by (metis find_row_mem option.inject)

text \<open>A loop of \<open>save_target\<close> over targets of one task.\<close>

lemma save_targets_effect:
  assumes "foldr_res (\<lambda>g d. save_target rt w (f g) d) gs d = Inr d'"
    and "distinct (map g_id (targets d))" and "distinct gs" and "set gs \<subseteq> set (targets d)"
    and "\<And>g. g \<in> set gs \<Longrightarrow> g_task g = i"
    and f: "\<And>g. g_id (f g) = g_id g" "\<And>g. g_task (f g) = g_task g" and w: "\<And>g. w (f g) g = f g"
  shows "targets d' = upd_rows (\<lambda>r. r \<in> set gs) f (targets d) \<and> map core (tasks d') = map core (tasks d)
    \<and> (\<forall>j. j \<noteq> i \<longrightarrow> find_row t_id j (tasks d') = find_row t_id j (tasks d))
    \<and> ((\<forall>g \<in> set gs. \<not> target_is_terminal (f g)) \<longrightarrow> tasks d' = tasks d)"
  using assms(1-5)
proof (induction gs arbitrary: d)
  case Nil
  then show ?case by (simp add: upd_rows_id)
next
  case (Cons g gs)
  from Cons.prems(1) obtain e where e: "save_target rt w (f g) d = Inr e"
    and rest: "foldr_res (\<lambda>g d. save_target rt w (f g) d) gs e = Inr d'"
    by (auto simp: bindr_Inr_iff)
  note eff = save_target_effect [OF e]
  have g: "g \<in> set (targets d)" "g_task g = i" using Cons.prems by auto
  have same: "r \<in> set (targets d) \<Longrightarrow> g_id r = g_id g \<longleftrightarrow> r = g" for r
    using distinct_key_eq [OF Cons.prems(2) _ g(1)] by auto
  have te: "targets e = upd_rows (\<lambda>r. r = g) f (targets d)"
    unfolding eff(1) upd_rows_def by (rule map_cong) (auto simp: same f w)
  have ide: "map g_id (targets e) = map g_id (targets d)"
    unfolding te by (rule upd_rows_keys) (simp add: f)
  have sub: "set gs \<subseteq> set (targets e)"
    unfolding te set_upd_rows using Cons.prems(3,4) by force
  have IH: "targets d' = upd_rows (\<lambda>r. r \<in> set gs) f (targets e) \<and> map core (tasks d') = map core (tasks e)
    \<and> (\<forall>j. j \<noteq> i \<longrightarrow> find_row t_id j (tasks d') = find_row t_id j (tasks e))
    \<and> ((\<forall>g \<in> set gs. \<not> target_is_terminal (f g)) \<longrightarrow> tasks d' = tasks e)"
    using Cons.prems(3,5) by (intro Cons.IH [OF rest]) (auto simp: ide Cons.prems(2) sub)
  have notin: "f g \<notin> set gs"
  proof
    assume "f g \<in> set gs"
    then have "f g \<in> set (targets d)" using Cons.prems(4) by auto
    then have "f g = g" using same f by auto
    then show False using \<open>f g \<in> set gs\<close> Cons.prems(3) by simp
  qed
  have "targets d' = upd_rows (\<lambda>r. r \<in> set (g # gs)) f (targets d)"
    using IH notin Cons.prems(3) unfolding te by (auto simp: upd_rows_def)
  moreover have "find_row t_id j (tasks e) = find_row t_id j (tasks d)" if "j \<noteq> i" for j
  proof -
    from eff(4) obtain c where c: "tasks e = (if target_is_terminal (f g)
           then upd_rows (\<lambda>t. t_id t = g_task (f g) \<and> t_status t = Running) (write_progress c) (tasks d) else tasks d)" ..
    have "find_row t_id j (upd_rows (\<lambda>t. t_id t = g_task (f g) \<and> t_status t = Running) (write_progress c) (tasks d))
        = find_row t_id j (tasks d)"
      by (rule find_row_upd_other [OF _ that]) (auto simp: f g(2) write_progress_def split: prod.splits)
    then show ?thesis by (simp add: c)
  qed
  ultimately show ?case using IH eff(2,3) by auto
qed

end
