(* ===== verification/TaskProofs.thy ===== *)
theory TaskProofs
  imports TaskInvariant
begin

text \<open>
  Every queue transaction keeps the invariant of the task tables and only moves tasks forward:
  \<open>evolution\<close> says that rows keep their identity and their snapshots, that attempt counters do not
  fall, that an ended task is never written again and that the result of an ended target stays.
\<close>

section \<open>Forward movement\<close>

definition task_evo :: "task \<Rightarrow> task \<Rightarrow> bool" where
  "task_evo t t' \<longleftrightarrow> task_snapshot t' = task_snapshot t \<and> t_attempt_count t \<le> t_attempt_count t'
     \<and> (terminal_status (t_status t) \<longrightarrow> t' = t)"

definition target_view :: "target \<Rightarrow> status \<times> time option \<times> ustring \<times> ustring \<times> ustring" where
  "target_view g = (g_status g, g_finished_at g, g_result_type g, g_result_id g, g_error_message g)"

definition target_evo :: "target \<Rightarrow> target \<Rightarrow> bool" where
  "target_evo g g' \<longleftrightarrow> target_snapshot_fields g' = target_snapshot_fields g
     \<and> g_attempt_count g \<le> g_attempt_count g'
     \<and> (target_is_terminal g \<longrightarrow> target_view g' = target_view g)"

definition evolution :: "db \<Rightarrow> db \<Rightarrow> bool" where
  "evolution d d' \<longleftrightarrow>
     (\<forall>i t. find_row t_id i (tasks d) = Some t \<longrightarrow>
        (\<exists>t'. find_row t_id i (tasks d') = Some t' \<and> task_evo t t'))
   \<and> (\<forall>i g. find_row g_id i (targets d) = Some g \<longrightarrow>
        (\<exists>g'. find_row g_id i (targets d') = Some g' \<and> target_evo g g'))"

lemma task_evo_refl [simp]: "task_evo t t"
  by (simp add: task_evo_def)

lemma target_evo_refl [simp]: "target_evo g g"
  by (simp add: target_evo_def)

lemma task_evo_trans: "task_evo a b \<Longrightarrow> task_evo b c \<Longrightarrow> task_evo a c"
  by (auto simp: task_evo_def)

lemma target_evo_trans: "target_evo a b \<Longrightarrow> target_evo b c \<Longrightarrow> target_evo a c"
  by (auto simp: target_evo_def target_view_def target_is_terminal_def)

lemma evolution_refl [simp]: "evolution d d"
  by (simp add: evolution_def)

lemma evolution_taskD:
  "evolution a b \<Longrightarrow> find_row t_id i (tasks a) = Some t \<Longrightarrow>
    \<exists>t'. find_row t_id i (tasks b) = Some t' \<and> task_evo t t'"
  by (simp add: evolution_def)

lemma evolution_targetD:
  "evolution a b \<Longrightarrow> find_row g_id i (targets a) = Some g \<Longrightarrow>
    \<exists>g'. find_row g_id i (targets b) = Some g' \<and> target_evo g g'"
  by (simp add: evolution_def)

lemma evolution_trans:
  assumes "evolution a b" and "evolution b c"
  shows "evolution a c"
  unfolding evolution_def
proof (intro conjI allI impI)
  fix i t assume "find_row t_id i (tasks a) = Some t"
  then obtain t' where "find_row t_id i (tasks b) = Some t'" "task_evo t t'"
    using evolution_taskD [OF assms(1)] by blast
  then show "\<exists>t'. find_row t_id i (tasks c) = Some t' \<and> task_evo t t'"
    using evolution_taskD [OF assms(2)] task_evo_trans by blast
next
  fix i g assume "find_row g_id i (targets a) = Some g"
  then obtain g' where "find_row g_id i (targets b) = Some g'" "target_evo g g'"
    using evolution_targetD [OF assms(1)] by blast
  then show "\<exists>g'. find_row g_id i (targets c) = Some g' \<and> target_evo g g'"
    using evolution_targetD [OF assms(2)] target_evo_trans by blast
qed

lemma evolution_cong: "tasks e = tasks d' \<Longrightarrow> targets e = targets d' \<Longrightarrow> evolution d e = evolution d d'"
  by (simp add: evolution_def)

section \<open>Targets of a task\<close>

lemma ordered_targets_facts:
  assumes "db_ok d"
  shows "set (ordered_targets i d) = set (targets_of i d)"
    and "distinct (ordered_targets i d)" and "length (ordered_targets i d) = length (targets_of i d)"
    and "length (filter P (ordered_targets i d)) = length (filter P (targets_of i d))"
    and "set (ordered_targets i d) \<subseteq> set (targets d)"
    and "g \<in> set (ordered_targets i d) \<Longrightarrow> g_task g = i"
proof -
  have "distinct (targets d)" using assms by (auto simp: db_ok_def distinct_map)
  then show "distinct (ordered_targets i d)" by (simp add: ordered_targets_def targets_of_def)
  have "mset (ordered_targets i d) = mset (targets_of i d)" by (simp add: ordered_targets_def)
  then have "mset (filter P (ordered_targets i d)) = mset (filter P (targets_of i d))" by (simp add: mset_filter)
  then show "length (filter P (ordered_targets i d)) = length (filter P (targets_of i d))"
    by (metis size_mset)
qed (auto simp: ordered_targets_def targets_of_def)

lemma targets_of_upd:
  assumes "\<And>g. g_task (f g) = g_task g"
  shows "targets_of i (d\<lparr>targets := upd_rows p f (targets d)\<rparr>) = upd_rows p f (targets_of i d)"
  by (simp add: targets_of_def filter_upd_rows assms)

lemma targets_of_cong: "targets d' = targets d \<Longrightarrow> targets_of i d' = targets_of i d"
  by (simp add: targets_of_def)

section \<open>The bundle lemma\<close>

text \<open>A transaction that rewrites task \<open>i\<close> to \<open>t'\<close> and some unfinished targets of it by \<open>f\<close>.\<close>

lemma transaction_ok:
  assumes ok: "db_ok d" and t: "find_row t_id i (tasks d) = Some t"
    and others: "\<And>j. j \<noteq> i \<Longrightarrow> find_row t_id j (tasks d') = find_row t_id j (tasks d)"
    and ids: "map t_id (tasks d') = map t_id (tasks d)"
    and uniq: "unique_active (tasks d')"
    and t': "find_row t_id i (tasks d') = Some t'" and evo: "task_evo t t'"
    and gs: "targets d' = upd_rows p f (targets d)"
    and f: "\<And>g. g_id (f g) = g_id g" "\<And>g. g_task (f g) = g_task g"
    and p: "\<And>g. g \<in> set (targets d) \<Longrightarrow> p g \<Longrightarrow> g_task g = i \<and> target_evo g (f g)"
    and task: "task_ok t' (upd_rows p f (targets_of i d))"
  shows "db_ok d' \<and> evolution d d'"
proof
  have "same_elsewhere i d (d\<lparr>targets := upd_rows p f (targets d)\<rparr>)"
    by (rule same_elsewhere_targets) (use f p in auto)
  then have se: "same_elsewhere i d d'"
    using others ids gs by (simp add: same_elsewhere_def targets_of_def)
  have "targets_of i d' = upd_rows p f (targets_of i d)"
    using targets_of_upd [OF f(2)] gs by (simp add: targets_of_def)
  then show "db_ok d'"
    using db_ok_evolves [OF ok se uniq] task t' by auto
  show "evolution d d'"
    unfolding evolution_def
  proof (intro conjI allI impI)
    fix j u assume u: "find_row t_id j (tasks d) = Some u"
    show "\<exists>u'. find_row t_id j (tasks d') = Some u' \<and> task_evo u u'"
      using u t t' evo others by (cases "j = i") auto
  next
    fix j g assume g: "find_row g_id j (targets d) = Some g"
    have "find_row g_id j (targets d') = Some (if p g then f g else g)"
      unfolding gs by (subst find_row_upd) (simp_all add: f g)
    moreover have "target_evo g (if p g then f g else g)"
      using p find_row_Some [OF g] by auto
    ultimately show "\<exists>g'. find_row g_id j (targets d') = Some g' \<and> target_evo g g'" by blast
  qed
qed

lemma task_okD:
  assumes "db_ok d" and "find_row t_id i (tasks d) = Some t"
  shows "task_ok t (targets_of i d)" "t \<in> set (tasks d)" "t_id t = i"
  using assms find_row_Some [OF assms(2)] by (auto simp: db_ok_def)

text \<open>Rows that the field sets of the queue produce.\<close>

lemma w_ids [simp]:
  "t_id (w_claim a b) = t_id b" "t_id (w_requeue a b) = t_id b" "t_id (w_end a b) = t_id b"
  by (simp_all add: w_claim_def w_requeue_def w_end_def)

lemma written_end:
  assumes "core r = core t"
    and "t' = rekeyed (t\<lparr>t_status := a, t_progress := b, t_completed_targets := c,
      t_successful_targets := e, t_failed_targets := f, t_finished_at := g,
      t_lease_expires_at := h, t_error_summary := m\<rparr>) k"
  shows "written_row w_end t' r = t'"
  using assms by (cases r; cases t) (simp add: core_def rekeyed_def written_row_def w_end_def)

section \<open>Aggregation\<close>

lemma finish_locked_effect:
  assumes fin: "finish_locked rt now gs t d = Inr (d', t')" and run: "t_status t = Running"
    and u: "unique_active (tasks d)"
    and r: "find_row t_id (t_id t) (tasks d) = Some r" "core r = core t"
  shows "find_row t_id (t_id t) (tasks d') = Some t'" and "same_elsewhere (t_id t) d d'"
    and "unique_active (tasks d')" and "targets d' = targets d" and "task_constraints t'"
    and "\<forall>g \<in> set gs. target_is_terminal g"
    and "task_snapshot t' = task_snapshot t" and "t_status t' = final_status gs"
    and "t_attempt_count t' = t_attempt_count t" and "t_total_targets t' = t_total_targets t"
    and "t_successful_targets t' = length (filter (\<lambda>g. g_status g = Success) gs)"
    and "t_id t' = t_id t" and "t_finished_at t' = Some now"
    and "t_failed_targets t' = length (filter target_failed gs)"
    and "t_completed_targets t' = length gs"
proof -
  let ?e = "t\<lparr>t_status := final_status gs, t_progress := 100,
                  t_completed_targets := length gs,
                  t_successful_targets := length (filter (\<lambda>g. g_status g = Success) gs),
                  t_failed_targets := length (filter target_failed gs),
                  t_finished_at := Some now, t_lease_expires_at := None,
                  t_error_summary := bounded_error_summary rt gs\<rparr>"
  from fin run have gs: "filter (\<lambda>g. \<not> target_is_terminal g) gs = []"
    and s: "save_task rt w_end ?e d = Inr (d', t')"
    by (auto simp: finish_locked_def bindr_Inr_iff split: if_splits)
  show "\<forall>g \<in> set gs. target_is_terminal g" using gs by (simp add: filter_empty_conv)
  from save_task_effect [OF s u w_ids(3)] obtain r' k where
    r': "find_row t_id (t_id ?e) (tasks d) = Some r'" and t': "t' = rekeyed ?e k"
    and snap: "task_snapshot ?e = task_snapshot r'"
    and se: "same_elsewhere (t_id ?e) d d'" and u': "unique_active (tasks d')"
    and f: "find_row t_id (t_id ?e) (tasks d') = Some (written_row w_end t' r')"
    and c: "task_constraints (written_row w_end t' r')"
    and d': "d' = d\<lparr>tasks := upd_row t_id (t_id ?e) (\<lambda>_. written_row w_end t' r') (tasks d)\<rparr>"
    by blast
  have "r' = r" using r r' by simp
  then have row: "written_row w_end t' r' = t'" using written_end [OF r(2) t'] by simp
  show "find_row t_id (t_id t) (tasks d') = Some t'" using f row by simp
  show "same_elsewhere (t_id t) d d'" using se by simp
  show "unique_active (tasks d')" by (rule u')
  show "targets d' = targets d" using d' by simp
  show "task_constraints t'" using c row by simp
  show "task_snapshot t' = task_snapshot t" "t_status t' = final_status gs"
    "t_attempt_count t' = t_attempt_count t" "t_total_targets t' = t_total_targets t"
    "t_successful_targets t' = length (filter (\<lambda>g. g_status g = Success) gs)"
    "t_id t' = t_id t" "t_finished_at t' = Some now"
    "t_failed_targets t' = length (filter target_failed gs)" "t_completed_targets t' = length gs"
    by (simp_all add: t' rekeyed_def task_snapshot_def)
qed

lemma final_status_cases: "final_status gs = Success \<or> final_status gs = Partial \<or> final_status gs = Failed"
  by (simp add: final_status_def Let_def)

lemma finish_locked_ok:
  assumes ok: "db_ok d0" and t: "find_row t_id i (tasks d0) = Some t" and run: "t_status t = Running"
    and loop: "map core (tasks d) = map core (tasks d0)" "targets d = upd_rows p f (targets d0)"
      "\<And>j. j \<noteq> i \<Longrightarrow> find_row t_id j (tasks d) = find_row t_id j (tasks d0)"
    and f: "\<And>g. g_id (f g) = g_id g" "\<And>g. g_task (f g) = g_task g"
    and p: "\<And>g. g \<in> set (targets d0) \<Longrightarrow> p g \<Longrightarrow> g_task g = i \<and> target_evo g (f g)"
    and gs: "mset gs = mset (upd_rows p f (targets_of i d0))"
    and fin: "finish_locked rt now gs t d = Inr (d', t')"
  shows "db_ok d' \<and> evolution d0 d'" and "find_row t_id i (tasks d') = Some t'"
    and "t_status t' = final_status gs"
    and "\<And>j. j \<noteq> i \<Longrightarrow> find_row t_id j (tasks d') = find_row t_id j (tasks d0)"
    and "t_finished_at t' = Some now"
proof -
  have id: "t_id t = i" and tok: "task_ok t (targets_of i d0)" using task_okD [OF ok t] by auto
  have ua: "unique_active (tasks d)"
    using ok unique_active_core [OF loop(1)] by (simp add: db_ok_def)
  obtain r where r: "find_row t_id (t_id t) (tasks d) = Some r" "core r = core t"
    using map_core_find [OF loop(1), of i] t id by auto
  note eff = finish_locked_effect [OF fin run ua r, unfolded id]
  have gset: "set gs = set (upd_rows p f (targets_of i d0))" using gs by (metis set_mset_mset)
  have glen: "length gs = length (targets_of i d0)" using gs by (metis length_upd_rows size_mset)
  have gcount: "length (filter P gs) = length (filter P (upd_rows p f (targets_of i d0)))" for P
    using gs by (metis mset_filter size_mset)
  have agg: "aggregated_status (t_status t')" using eff(8) final_status_cases [of gs] by auto
  have "task_ok t' (upd_rows p f (targets_of i d0))"
    unfolding task_ok_def
  proof (intro conjI)
    show "task_constraints t'" by (rule eff(5))
    show "t_attempt_count t' \<le> max_task_attempts" using tok eff(9) by (simp add: task_ok_def)
    show "terminal_status (t_status t') \<longrightarrow> (\<forall>g \<in> set (upd_rows p f (targets_of i d0)). target_is_terminal g)"
      using eff(6) gset by simp
    show "aggregated_status (t_status t') \<longrightarrow> t_successful_targets t' =
        length (filter (\<lambda>g. g_status g = Success) (upd_rows p f (targets_of i d0)))"
      using eff(11) gcount by simp
    show "t_total_targets t' = length (upd_rows p f (targets_of i d0))" "upd_rows p f (targets_of i d0) \<noteq> []"
      using tok eff(10) by (auto simp: task_ok_def upd_rows_def)
  qed (use agg in auto)
  moreover have "task_evo t t'" using eff(7,9) run by (simp add: task_evo_def)
  moreover have "map t_id (tasks d') = map t_id (tasks d0)"
    using eff(2) map_core_ids [OF loop(1)] by (simp add: same_elsewhere_def)
  moreover show elsewhere: "\<And>j. j \<noteq> i \<Longrightarrow> find_row t_id j (tasks d') = find_row t_id j (tasks d0)"
    using eff(2) loop(3) by (simp add: same_elsewhere_def)
  ultimately show "db_ok d' \<and> evolution d0 d'"
    using eff(1,3,4) loop(2) by (intro transaction_ok [OF ok t _ _ _ _ _ _ f p]) auto
  show "find_row t_id i (tasks d') = Some t'" "t_status t' = final_status gs" "t_finished_at t' = Some now"
    by (rule eff(1), rule eff(8), rule eff(13))
qed

lemma aggregate_tables [simp]:
  "tasks (aggregate_if_domain t d) = tasks d" "targets (aggregate_if_domain t d) = targets d"
  by (simp_all add: aggregate_if_domain_def aggregate_domain_operation_def split: option.splits)

lemma db_ok_aggregate [simp]: "db_ok (aggregate_if_domain t d) = db_ok d"
  by (rule db_ok_cong) simp_all

lemma evolution_aggregate [simp]: "evolution d (aggregate_if_domain t d') = evolution d d'"
  by (rule evolution_cong) simp_all

theorem finish_task_ok:
  assumes ok: "db_ok d" and fin: "finish_task rt now i worker d = Inr (d', t')"
  shows "db_ok d' \<and> evolution d d'"
proof -
  from fin obtain t where t: "find_row t_id i (tasks d) = Some t" "owns_live_lease (strip worker) now t"
    and f: "finish_locked rt now (ordered_targets i d) t d = Inr (d', t')"
    by (auto simp: finish_task_def split: if_splits option.splits)
  have run: "t_status t = Running" using t(2) by (simp add: owns_live_lease_def)
  show ?thesis
    by (rule finish_locked_ok(1) [OF ok t(1) run _ _ _ _ _ _ _ f, of "\<lambda>_. False" "\<lambda>g. g"])
      (simp_all add: upd_rows_def ordered_targets_def)
qed

section \<open>Recovery\<close>

lemma target_fields [simp]:
  "g_id (fail_exhausted now g) = g_id g" "g_task (fail_exhausted now g) = g_task g"
  "g_id (requeue_target g) = g_id g" "g_task (requeue_target g) = g_task g"
  "g_id (cancel_target now g) = g_id g" "g_task (cancel_target now g) = g_task g"
  "w_target_end (fail_exhausted now g) g = fail_exhausted now g"
  "w_target_requeue (requeue_target g) g = requeue_target g"
  "w_target_end (cancel_target now g) g = cancel_target now g"
  "target_is_terminal (fail_exhausted now g)" "target_is_terminal (cancel_target now g)"
  "\<not> target_is_terminal (requeue_target g)"
  "g_status (fail_exhausted now g) = Failed" "g_status (cancel_target now g) = Cancelled"
  "g_status (requeue_target g) = Queued"
  by (simp_all add: fail_exhausted_def requeue_target_def cancel_target_def w_target_end_def
      w_target_requeue_def target_is_terminal_def)

lemma target_evo_unfinished:
  "\<not> target_is_terminal g \<Longrightarrow> target_evo g (fail_exhausted now g)"
  "\<not> target_is_terminal g \<Longrightarrow> target_evo g (requeue_target g)"
  "\<not> target_is_terminal g \<Longrightarrow> target_evo g (cancel_target now g)"
  by (simp_all add: target_evo_def target_snapshot_fields_def fail_exhausted_def requeue_target_def
      cancel_target_def)

lemma filter_targets_facts:
  assumes "db_ok d"
  shows "distinct (map g_id (targets d))" "distinct (filter P (ordered_targets i d))"
    "set (filter P (ordered_targets i d)) \<subseteq> set (targets d)"
    "g \<in> set (filter P (ordered_targets i d)) \<Longrightarrow> g_task g = i"
    "g \<in> set (targets_of i d) \<Longrightarrow> g \<in> set (filter P (ordered_targets i d)) \<longleftrightarrow> P g"
  using ordered_targets_facts [OF assms, where i = i] assms by (auto simp: db_ok_def)

lemma mset_ordered: "mset (ordered_targets i d) = mset (targets_of i d)"
  by (simp add: ordered_targets_def)

lemma upd_filter_targets:
  assumes "db_ok d"
  shows "upd_rows (\<lambda>r. r \<in> set (filter P (ordered_targets i d))) f (targets_of i d)
    = map (\<lambda>g. if P g then f g else g) (targets_of i d)"
  unfolding upd_rows_def by (rule map_cong) (simp_all add: filter_targets_facts(5) [OF assms] del: set_filter)

lemma terminal_not_running: "target_is_terminal g \<Longrightarrow> \<not> running_target g"
  by (auto simp: target_is_terminal_def running_target_def)

text \<open>What recovery makes of a task: ended, or queued again while attempts are left.\<close>

definition recovered :: "time \<Rightarrow> task \<Rightarrow> task \<Rightarrow> bool" where
  "recovered now t t' \<longleftrightarrow> aggregated_status (t_status t') \<and> t_finished_at t' = Some now
     \<or> t_status t' = Queued \<and> t_available_at t' = now \<and> t_worker_id t' = [] \<and> t_lease_expires_at t' = None
       \<and> t_attempt_count t' = t_attempt_count t \<and> t_attempt_count t < max_task_attempts"

lemma final_status_recovered:
  "t_status t' = final_status gs \<Longrightarrow> t_finished_at t' = Some now \<Longrightarrow> recovered now t t'"
  using final_status_cases [of gs] by (auto simp: recovered_def)

lemma recover_one_ok:
  assumes ok: "db_ok d" and t: "find_row t_id i (tasks d) = Some t" and run: "t_status t = Running"
    and rec: "recover_one rt now t d = Inr d'"
  shows "db_ok d' \<and> evolution d d'"
    and "j \<noteq> i \<Longrightarrow> find_row t_id j (tasks d') = find_row t_id j (tasks d)"
    and "\<exists>t'. find_row t_id i (tasks d') = Some t' \<and> recovered now t t'"
proof -
  have id: "t_id t = i" and tok: "task_ok t (targets_of i d)" using task_okD [OF ok t] by auto
  let ?gs = "ordered_targets i d"
  let ?un = "filter (\<lambda>g. \<not> target_is_terminal g) ?gs"
  have "(db_ok d' \<and> evolution d d') \<and> (\<forall>j. j \<noteq> i \<longrightarrow> find_row t_id j (tasks d') = find_row t_id j (tasks d))
    \<and> (\<exists>t'. find_row t_id i (tasks d') = Some t' \<and> recovered now t t')"
  proof -
    consider
      "finish_and_aggregate rt now ?gs t d = Inr d'"
    | "recover_exhausted rt now ?gs t d = Inr d'"
    | "t_attempt_count t < max_task_attempts" "recover_requeue rt now ?gs t d = Inr d'"
      proof (cases "?gs \<noteq> [] \<and> list_all target_is_terminal ?gs")
      case True
      then show thesis using rec that(1) by (simp add: recover_one_def Let_def id)
    next
      case False
      note rec = rec [unfolded recover_one_def Let_def id if_not_P [OF False]]
      show thesis
        by (cases "max_task_attempts \<le> t_attempt_count t") (use rec that(2,3) in simp_all)
    qed
    then show ?thesis
    proof cases
      case 1
      then obtain e t' where e: "finish_locked rt now ?gs t d = Inr (e, t')" "d' = aggregate_if_domain t' e"
        by (auto simp: finish_and_aggregate_def bindr_Inr_iff)
      have same: "map core (tasks d) = map core (tasks d)" "targets d = upd_rows (\<lambda>_. False) (\<lambda>g. g) (targets d)"
        "mset ?gs = mset (upd_rows (\<lambda>_. False) (\<lambda>g. g) (targets_of i d))"
        by (simp_all add: upd_rows_def mset_ordered)
      note fin = finish_locked_ok [OF ok t run same(1,2) refl refl refl FalseE same(3) e(1), simplified]
      show ?thesis
        using fin(1,2,4) final_status_recovered [OF fin(3,5)] by (simp add: e(2))
    next
      case 2
      then obtain e u t' where
        e: "foldr_res (\<lambda>g d. save_target rt w_target_end (fail_exhausted now g) d) ?un d = Inr e"
        and fl: "finish_locked rt now (map (\<lambda>g. if target_is_terminal g then g else fail_exhausted now g) ?gs) t e = Inr (u, t')"
        and d': "d' = aggregate_if_domain t' u"
        by (auto simp: recover_exhausted_def finish_and_aggregate_def bindr_Inr_iff)
      note loop = save_targets_effect [OF e, of i, OF filter_targets_facts(1-4) [OF ok]]
      have l: "targets e = upd_rows (\<lambda>r. r \<in> set ?un) (fail_exhausted now) (targets d)"
        "map core (tasks e) = map core (tasks d)"
        "\<And>j. j \<noteq> i \<Longrightarrow> find_row t_id j (tasks e) = find_row t_id j (tasks d)"
        using loop by auto
      have ms: "mset (map (\<lambda>g. if target_is_terminal g then g else fail_exhausted now g) ?gs)
          = mset (upd_rows (\<lambda>r. r \<in> set ?un) (fail_exhausted now) (targets_of i d))"
        unfolding upd_filter_targets [OF ok] by (simp add: mset_ordered if_distrib cong: if_cong)
          (rule image_mset_cong, simp)
      have p: "g_task g = i \<and> target_evo g (fail_exhausted now g)"
        if "g \<in> set (targets d)" "g \<in> set ?un" for g
        using that filter_targets_facts(4) [OF ok that(2)] target_evo_unfinished(1) by auto
      have keys: "g_id (fail_exhausted now g) = g_id g" "g_task (fail_exhausted now g) = g_task g" for g by simp_all
      note fin = finish_locked_ok [OF ok t run l(2,1,3) keys p ms fl]
      have "db_ok u \<and> evolution d u" "find_row t_id i (tasks u) = Some t'"
        "\<And>j. j \<noteq> i \<Longrightarrow> find_row t_id j (tasks u) = find_row t_id j (tasks d)" 
        using fin(1,2,4) by blast+
      then show ?thesis using final_status_recovered [OF fin(3,5)] by (simp add: d')
    next
      case 3
      let ?run = "filter (\<lambda>g. g_status g = Running) ?gs"
      let ?t = "requeued_task now t"
      from 3(2) obtain e t' where
        e: "foldr_res (\<lambda>g d. save_target rt w_target_requeue (requeue_target g) d) ?run d = Inr e"
        and s: "save_task rt w_requeue ?t e = Inr (d', t')"
        by (auto simp: recover_requeue_def bindr_Inr_iff)
      have tid: "t_id ?t = i" by (simp add: requeued_task_def id)
      note loop = save_targets_effect [OF e, of i, OF filter_targets_facts(1-4) [OF ok]]
      have l: "targets e = upd_rows (\<lambda>r. r \<in> set ?run) requeue_target (targets d)" "tasks e = tasks d"
        using loop by auto
      have ua: "unique_active (tasks e)" using ok l(2) by (simp add: db_ok_def)
      from save_task_effect [OF s ua w_ids(2), unfolded tid] obtain r k where
        r: "find_row t_id i (tasks e) = Some r" and t': "t' = rekeyed ?t k"
        and se: "same_elsewhere i e d'" and u': "unique_active (tasks d')"
        and f: "find_row t_id i (tasks d') = Some (written_row w_requeue t' r)"
        and c: "task_constraints (written_row w_requeue t' r)"
        and d': "d' = e\<lparr>tasks := upd_row t_id i (\<lambda>_. written_row w_requeue t' r) (tasks e)\<rparr>"
        by blast
      have "r = t" using r t l(2) by simp
      then have row: "written_row w_requeue t' r = t'"
        by (simp add: t' written_row_def w_requeue_def rekeyed_def requeued_task_def)
      have tt: "targets d' = upd_rows (\<lambda>r. r \<in> set ?run) requeue_target (targets d)"
        using d' l(1) by simp
      have "task_ok t' (upd_rows (\<lambda>r. r \<in> set ?run) requeue_target (targets_of i d))"
      proof -
        have st: "t_status t' = Queued" "t_attempt_count t' = t_attempt_count t" "t_total_targets t' = t_total_targets t"
          by (simp_all add: t' rekeyed_def requeued_task_def)
        have nr: "\<not> running_target (if g_status g = Running then requeue_target g else g)" for g
          by (simp add: running_target_def)
        have "t_total_targets t = length (targets_of i d)" "targets_of i d \<noteq> []"
          using tok by (simp_all add: task_ok_def)
        with c [unfolded row] 3(1) nr show ?thesis
          unfolding upd_filter_targets [OF ok] task_ok_def st by simp (auto simp: running_target_def)
      qed
      moreover have "task_evo t t'" using run by (simp add: task_evo_def t' rekeyed_def task_snapshot_def requeued_task_def)
      moreover have "g_task g = i \<and> target_evo g (requeue_target g)"
        if "g \<in> set (targets d)" "g \<in> set ?run" for g
        using that filter_targets_facts(4) [OF ok that(2)]
        by (auto intro!: target_evo_unfinished(2) simp: target_is_terminal_def)
      moreover have oth: "\<And>j. j \<noteq> i \<Longrightarrow> find_row t_id j (tasks d') = find_row t_id j (tasks d)"
        and "map t_id (tasks d') = map t_id (tasks d)"
        using se l(2) by (simp_all add: same_elsewhere_def)
      moreover have "find_row t_id i (tasks d') = Some t'" using f row by simp
      ultimately have "db_ok d' \<and> evolution d d'"
        using u' tt by (intro transaction_ok [OF ok t]) auto
      moreover have "recovered now t t'" using 3(1) by (simp add: recovered_def t' rekeyed_def requeued_task_def)
      ultimately show ?thesis using oth f row by simp
    qed
  qed
  then show "db_ok d' \<and> evolution d d'" "j \<noteq> i \<Longrightarrow> find_row t_id j (tasks d') = find_row t_id j (tasks d)"
    "\<exists>t'. find_row t_id i (tasks d') = Some t' \<and> recovered now t t'"
    by auto
qed

text \<open>The loop: every remaining expired task is still stored as it was read, and still running.\<close>

lemma recover_loop_ok:
  assumes "db_ok d" and "distinct (map t_id ts)"
    and "\<And>t. t \<in> set ts \<Longrightarrow> find_row t_id (t_id t) (tasks d) = Some t \<and> t_status t = Running"
    and "foldr_res (\<lambda>t d. recover_one rt now t d) ts d = Inr d'"
  shows "db_ok d' \<and> evolution d d'
    \<and> (\<forall>j. j \<notin> t_id ` set ts \<longrightarrow> find_row t_id j (tasks d') = find_row t_id j (tasks d))
    \<and> (\<forall>t \<in> set ts. \<exists>t'. find_row t_id (t_id t) (tasks d') = Some t' \<and> recovered now t t')"
  using assms
proof (induction ts arbitrary: d)
  case (Cons t ts)
  from Cons.prems(4) obtain e where e: "recover_one rt now t d = Inr e"
    and rest: "foldr_res (\<lambda>t d. recover_one rt now t d) ts e = Inr d'"
    by (auto simp: bindr_Inr_iff)
  have t: "find_row t_id (t_id t) (tasks d) = Some t" "t_status t = Running" using Cons.prems(3) by auto
  note one = recover_one_ok [OF Cons.prems(1) t e]
  have "find_row t_id (t_id u) (tasks e) = Some u \<and> t_status u = Running" if u: "u \<in> set ts" for u
  proof -
    have "t_id u \<noteq> t_id t" using Cons.prems(2) u by (auto dest: sym)
    from one(2) [OF this] Cons.prems(3) [of u] u show ?thesis by simp
  qed
  moreover have "db_ok e" "distinct (map t_id ts)" using one(1) Cons.prems(2) by simp_all
  ultimately have IH: "db_ok d' \<and> evolution e d'
    \<and> (\<forall>j. j \<notin> t_id ` set ts \<longrightarrow> find_row t_id j (tasks d') = find_row t_id j (tasks e))
    \<and> (\<forall>t \<in> set ts. \<exists>t'. find_row t_id (t_id t) (tasks d') = Some t' \<and> recovered now t t')"
    by (intro Cons.IH [OF _ _ _ rest]) simp_all
  moreover have "evolution d d'" using one(1) IH evolution_trans by blast
  moreover have "find_row t_id (t_id t) (tasks d') = find_row t_id (t_id t) (tasks e)"
    using IH Cons.prems(2) by simp
  ultimately show ?case using one(2,3) by auto
qed simp

lemma expired_tasks_facts:
  assumes "db_ok d"
  shows "distinct (map t_id (expired_tasks now d))"
    and "t \<in> set (expired_tasks now d) \<longleftrightarrow> t \<in> set (tasks d) \<and> lease_expired now t"
    and "t \<in> set (expired_tasks now d) \<Longrightarrow> find_row t_id (t_id t) (tasks d) = Some t \<and> t_status t = Running"
proof -
  show mem: "t \<in> set (expired_tasks now d) \<longleftrightarrow> t \<in> set (tasks d) \<and> lease_expired now t" for t
    by (auto simp: expired_tasks_def)
  have d: "distinct (map t_id (tasks d))" using assms by (simp add: db_ok_def)
  then have "inj_on t_id (set (expired_tasks now d))" "distinct (expired_tasks now d)"
    by (auto simp: distinct_map mem inj_on_def) (simp add: expired_tasks_def)
  then show "distinct (map t_id (expired_tasks now d))" by (simp add: distinct_map)
  show "t \<in> set (expired_tasks now d) \<Longrightarrow> find_row t_id (t_id t) (tasks d) = Some t \<and> t_status t = Running"
    using task_of_row [OF _ d] by (simp add: mem lease_expired_def)
qed

theorem recover_expired_locked_ok:
  assumes ok: "db_ok d" and rec: "recover_expired_locked rt now d = Inr (d', n)"
  shows "db_ok d' \<and> evolution d d'"
    and "n = length (expired_tasks now d)"
    and "t \<in> set (tasks d) \<Longrightarrow> \<not> lease_expired now t \<Longrightarrow> find_row t_id (t_id t) (tasks d') = Some t"
    and "u \<in> set (tasks d) \<Longrightarrow> lease_expired now u \<Longrightarrow>
      \<exists>u'. find_row t_id (t_id u) (tasks d') = Some u' \<and> recovered now u u'"
proof -
  from rec have l: "foldr_res (\<lambda>t d. recover_one rt now t d) (expired_tasks now d) d = Inr d'"
    and "n = length (expired_tasks now d)"
    by (auto simp: recover_expired_locked_def bindr_Inr_iff)
  have all: "db_ok d' \<and> evolution d d' \<and> (\<forall>j. j \<notin> t_id ` set (expired_tasks now d) \<longrightarrow>
      find_row t_id j (tasks d') = find_row t_id j (tasks d))
    \<and> (\<forall>t \<in> set (expired_tasks now d). \<exists>t'. find_row t_id (t_id t) (tasks d') = Some t' \<and> recovered now t t')"
    by (rule recover_loop_ok [OF ok expired_tasks_facts(1) [OF ok] _ l]) (rule expired_tasks_facts(3) [OF ok])
  then show "db_ok d' \<and> evolution d d'" by blast
  show "n = length (expired_tasks now d)" by fact
  show "u \<in> set (tasks d) \<Longrightarrow> lease_expired now u \<Longrightarrow>
      \<exists>u'. find_row t_id (t_id u) (tasks d') = Some u' \<and> recovered now u u'"
    using all expired_tasks_facts(2) [OF ok] by blast
  assume t: "t \<in> set (tasks d)" "\<not> lease_expired now t"
  have d: "distinct (map t_id (tasks d))" using ok by (simp add: db_ok_def)
  have "t_id t \<notin> t_id ` set (expired_tasks now d)"
  proof
    assume "t_id t \<in> t_id ` set (expired_tasks now d)"
    then obtain u where u: "u \<in> set (tasks d)" "lease_expired now u" "t_id t = t_id u"
      by (metis expired_tasks_facts(2) [OF ok] image_iff)
    from distinct_key_eq [OF d t(1) u(1,3)] u(2) t(2) show False by simp
  qed
  then show "find_row t_id (t_id t) (tasks d') = Some t"
    using all task_of_row [OF t(1) d] by simp
qed

section \<open>Claim\<close>

lemma next_candidate_Some:
  assumes "next_candidate now tt d = Some t"
  shows "t \<in> set (tasks d)" "claimable now tt t"
    and "u \<in> set (tasks d) \<Longrightarrow> claimable now tt u \<Longrightarrow>
      (t_available_at t, t_created_at t, t_id t) \<le> (t_available_at u, t_created_at u, t_id u)"
proof -
  show "t \<in> set (tasks d)" "claimable now tt t"
    using first_row_Some [OF assms [unfolded next_candidate_def]] by auto
  assume "u \<in> set (tasks d)" "claimable now tt u"
  then show "(t_available_at t, t_created_at t, t_id t) \<le> (t_available_at u, t_created_at u, t_id u)"
    by (intro first_row_sorted_least [OF assms [unfolded next_candidate_def]]) simp
qed

lemma claim_write:
  assumes ok: "db_ok d" and t: "find_row t_id i (tasks d) = Some t" and q: "t_status t = Queued"
    and s: "save_task rt w_claim (claimed_task worker n now t) d = Inr (d', t')"
  shows "db_ok d' \<and> evolution d d'" and "find_row t_id i (tasks d') = Some t'"
    and "\<exists>k. t' = rekeyed (claimed_task worker n now t) k"
    and "\<And>j. j \<noteq> i \<Longrightarrow> find_row t_id j (tasks d') = find_row t_id j (tasks d)"
    and "targets d' = targets d"
proof -
  have id: "t_id t = i" and tok: "task_ok t (targets_of i d)" using task_okD [OF ok t] by auto
  have cid: "t_id (claimed_task worker n now t) = i" by (simp add: claimed_task_def id)
  have ua: "unique_active (tasks d)" using ok by (simp add: db_ok_def)
  from save_task_effect [OF s ua w_ids(1), unfolded cid] obtain r k where
    r: "find_row t_id i (tasks d) = Some r" and t': "t' = rekeyed (claimed_task worker n now t) k"
    and se: "same_elsewhere i d d'" and u': "unique_active (tasks d')"
    and f: "find_row t_id i (tasks d') = Some (written_row w_claim t' r)"
    and c: "task_constraints (written_row w_claim t' r)"
    and d': "d' = d\<lparr>tasks := upd_row t_id i (\<lambda>_. written_row w_claim t' r) (tasks d)\<rparr>"
    by blast
  have "r = t" using r t by simp
  then have row: "written_row w_claim t' r = t'"
    by (simp add: t' written_row_def w_claim_def rekeyed_def claimed_task_def)
  show "find_row t_id i (tasks d') = Some t'" using f row by simp
  show "\<exists>k. t' = rekeyed (claimed_task worker n now t) k" using t' by blast
  show oth: "\<And>j. j \<noteq> i \<Longrightarrow> find_row t_id j (tasks d') = find_row t_id j (tasks d)"
    using se by (simp add: same_elsewhere_def)
  show tt: "targets d' = targets d" using d' by simp
  have st: "t_status t' = Running" "t_attempt_count t' = t_attempt_count t + 1"
    "t_total_targets t' = t_total_targets t" "task_snapshot t' = task_snapshot t"
    by (simp_all add: t' rekeyed_def claimed_task_def task_snapshot_def)
  have "t_attempt_count t < max_task_attempts" "t_total_targets t = length (targets_of i d)" "targets_of i d \<noteq> []"
    using tok q by (simp_all add: task_ok_def)
  with c [unfolded row] have "task_ok t' (targets_of i d)" by (simp add: task_ok_def st)
  moreover have "task_evo t t'" using q by (simp add: task_evo_def st)
  moreover have "map t_id (tasks d') = map t_id (tasks d)" using se by (simp add: same_elsewhere_def)
  ultimately show "db_ok d' \<and> evolution d d'"
    using u' oth tt f row
    by (intro transaction_ok [OF ok t, of _ _ "\<lambda>_. False" "\<lambda>g. g"]) (simp_all add: upd_rows_def)
qed

lemma claim_next_task_steps:
  assumes "claim_next_task rt worker n now tt d = Inr (d', r)"
  obtains e k where "strip worker \<noteq> []" "0 < n" "recover_expired_locked rt now d = Inr (e, k)"
    and "r = None" "next_candidate now tt e = None" "d' = e"
  | e k t t' where "strip worker \<noteq> []" "0 < n" "recover_expired_locked rt now d = Inr (e, k)"
    and "r = Some t'" "next_candidate now tt e = Some t"
    and "save_task rt w_claim (claimed_task worker n now t) e = Inr (d', t')"
proof -
  from assms have g: "strip worker \<noteq> []" "0 < n"
    and "bindr (recover_expired_locked rt now d)
        (\<lambda>(d, _). case next_candidate now tt d of
            None \<Rightarrow> Inr (d, None)
          | Some t \<Rightarrow>
              bindr (save_task rt w_claim (claimed_task worker n now t) d)
                (\<lambda>(d, t). Inr (d, Some t))) = Inr (d', r)"
    by (auto simp: claim_next_task_def split: if_splits)
  then obtain e k where e: "recover_expired_locked rt now d = Inr (e, k)"
    and rest: "(case next_candidate now tt e of
            None \<Rightarrow> Inr (e, None)
          | Some t \<Rightarrow>
              bindr (save_task rt w_claim (claimed_task worker n now t) e)
                (\<lambda>(d, t). Inr (d, Some t))) = Inr (d', r)"
    by (auto simp: bindr_Inr_iff)
  show thesis
  proof (cases "next_candidate now tt e")
    case None
    from rest [unfolded None option.case] have "r = None" "d' = e" by simp_all
    then show thesis by (intro that(1) [OF g e _ None])
  next
    case (Some t)
    from rest [unfolded Some option.case bindr_Inr_iff] obtain x where
      x: "save_task rt w_claim (claimed_task worker n now t) e = Inr x"
      and y: "(case x of (d, t) \<Rightarrow> Inr (d, Some t)) = (Inr (d', r) :: (db \<times> task option) res)" by blast
    obtain e' t' where "x = (e', t')" by (cases x)
    with x y have "save_task rt w_claim (claimed_task worker n now t) e = Inr (d', t')" "r = Some t'" by simp_all
    then show thesis by (intro that(2) [OF g e _ Some])
  qed
qed

theorem claim_next_task_ok:
  assumes ok: "db_ok d" and cl: "claim_next_task rt worker n now tt d = Inr (d', r)"
  shows "db_ok d' \<and> evolution d d'"
  using cl
proof (rule claim_next_task_steps)
  fix e k assume e: "recover_expired_locked rt now d = Inr (e, k)" and "d' = e"
  then show ?thesis using recover_expired_locked_ok(1) [OF ok e] by simp
next
  fix e k t t' assume e: "recover_expired_locked rt now d = Inr (e, k)"
    and c: "next_candidate now tt e = Some t"
    and s: "save_task rt w_claim (claimed_task worker n now t) e = Inr (d', t')"
  note rec = recover_expired_locked_ok(1) [OF ok e]
  then have oke: "db_ok e" by simp
  have t: "find_row t_id (t_id t) (tasks e) = Some t"
    using oke next_candidate_Some(1) [OF c] by (simp add: db_ok_def task_of_row)
  have "t_status t = Queued" using next_candidate_Some(2) [OF c] by (simp add: claimable_def)
  from claim_write(1) [OF oke t this s] rec show ?thesis using evolution_trans by blast
qed

section \<open>Renewal\<close>

definition scope_entry :: "task \<Rightarrow> ustring \<times> ustring option" where
  "scope_entry t = (t_id t, t_active_scope_key t)"

lemma unique_active_keys:
  assumes "map scope_entry ts = map scope_entry us"
  shows "unique_active ts = unique_active us"
proof -
  have image: "unique_active xs \<longleftrightarrow> (\<forall>a \<in> scope_entry ` set xs. \<forall>b \<in> scope_entry ` set xs.
     snd a \<noteq> None \<longrightarrow> snd b = snd a \<longrightarrow> fst b = fst a)" for xs
    by (simp add: unique_active_def scope_entry_def)
  from assms have "scope_entry ` set ts = scope_entry ` set us" by (metis list.set_map)
  then show ?thesis by (simp only: image)
qed

lemma task_ok_lease:
  assumes "task_ok t gs" and "t_status t = Running"
  shows "task_ok (t\<lparr>t_lease_expires_at := Some e\<rparr>) gs"
proof -
  have "task_constraints (t\<lparr>t_lease_expires_at := Some e\<rparr>)"
    using assms by (simp add: task_ok_def task_constraints_def task_binding_ck_def task_active_scope_ck_def
        task_progress_counts_ck_def task_state_shape_ck_def)
  with assms show ?thesis by (simp add: task_ok_def)
qed

theorem renew_lease_ok:
  assumes ok: "db_ok d" and ren: "renew_lease now db_now i worker n d = Inr (d', b)"
  shows "db_ok d' \<and> evolution d d'"
proof (cases "find (renewable i (strip worker) now db_now) (tasks d)")
  case None
  then have "upd_rows (renewable i (strip worker) now db_now) f (tasks d) = tasks d" for f
    by (intro upd_rows_id) (simp add: find_None_iff)
  then have "d' = d" using ren by (simp add: renew_lease_def split: if_splits)
  then show ?thesis using ok by simp
next
  case (Some t)
  let ?p = "renewable i (strip worker) now db_now"
  let ?f = "\<lambda>t. t\<lparr>t_lease_expires_at := Some (now + seconds n)\<rparr>"
  have tm: "t \<in> set (tasks d)" "?p t" using Some by (auto simp: find_Some_iff)
  then have run: "t_status t = Running" and id: "t_id t = i" by (auto simp: renewable_def)
  have t: "find_row t_id i (tasks d) = Some t" using task_of_row [OF tm(1)] ok id by (simp add: db_ok_def)
  have ex: "list_ex ?p (tasks d)" using tm by (auto simp: list_ex_iff)
  consider "d' = d" | "d' = d\<lparr>tasks := upd_rows ?p ?f (tasks d)\<rparr>"
    using ren by (auto simp: renew_lease_def split: if_splits)
  then show ?thesis
  proof cases
    case 2
    have new: "find_row t_id i (upd_rows ?p ?f (tasks d)) = Some (?f t)"
      using t tm(2) by (subst find_row_upd) simp_all
    have others: "j \<noteq> i \<Longrightarrow> find_row t_id j (upd_rows ?p ?f (tasks d)) = find_row t_id j (tasks d)" for j
      by (rule find_row_upd_other) (auto simp: renewable_def)
    have ua: "unique_active (upd_rows ?p ?f (tasks d))"
    proof -
      have "unique_active (upd_rows ?p ?f (tasks d)) = unique_active (tasks d)"
        by (rule unique_active_keys, rule upd_rows_keys) (simp add: scope_entry_def)
      then show ?thesis using ok by (simp add: db_ok_def)
    qed
    have "task_evo t (?f t)" using run by (simp add: task_evo_def task_snapshot_def)
    moreover have "task_ok (?f t) (targets_of i d)" using task_ok_lease task_okD(1) [OF ok t] run by blast
    moreover have "map t_id (upd_rows ?p ?f (tasks d)) = map t_id (tasks d)" by (rule upd_rows_keys) simp
    ultimately show ?thesis
      using 2 ua new others
      by (intro transaction_ok [OF ok t, of _ _ "\<lambda>_. False" "\<lambda>g. g"]) (simp_all add: upd_rows_def)
  qed (use ok in simp)
qed

section \<open>Cancellation\<close>

lemma cancel_tables [simp]:
  "tasks (cancel_operation now t d) = tasks d" "targets (cancel_operation now t d) = targets d"
  by (simp_all add: cancel_operation_def split: option.splits)

lemma cancel_task_steps:
  assumes "cancel_task rt now i d = Inr (d', t')"
  obtains t e f where "find_row t_id i (tasks d) = Some t" "active_status (t_status t)"
    and "foldr_res (\<lambda>g d. save_target rt w_target_end (cancel_target now g) d)
           (filter (\<lambda>g. \<not> target_is_terminal g) (ordered_targets i d)) d = Inr e"
    and "save_task rt w_end
           (cancelled_task now (map (\<lambda>g. if target_is_terminal g then g else cancel_target now g)
             (ordered_targets i d)) t) e = Inr (f, t')"
    and "d' = cancel_operation now t' f"
proof -
  from assms obtain t where t: "find_row t_id i (tasks d) = Some t" "active_status (t_status t)"
    by (auto simp: cancel_task_def split: option.splits if_splits)
  note rest = assms [unfolded cancel_task_def t(1) option.case, simplified t(2) not_True_eq_False if_False Let_def]
  from rest [unfolded bindr_Inr_iff] obtain e x where
    e: "foldr_res (\<lambda>g d. save_target rt w_target_end (cancel_target now g) d)
           (filter (\<lambda>g. \<not> target_is_terminal g) (ordered_targets i d)) d = Inr e"
    and x: "save_task rt w_end
           (cancelled_task now (map (\<lambda>g. if target_is_terminal g then g else cancel_target now g)
             (ordered_targets i d)) t) e = Inr x"
    and y: "(case x of (d, t) \<Rightarrow> Inr (cancel_operation now t d, t)) = (Inr (d', t') :: (db \<times> task) res)"
    by blast
  obtain f u where xf: "x = (f, u)" by (cases x)
  with y have "u = t'" "d' = cancel_operation now t' f" by auto
  with x xf show thesis by (intro that [OF t e, of f]) simp_all
qed

theorem cancel_task_ok:
  assumes ok: "db_ok d" and can: "cancel_task rt now i d = Inr (d', t')"
  shows "db_ok d' \<and> evolution d d'" and "find_row t_id i (tasks d') = Some t'"
    and "t_status t' = Cancelled" and "t_finished_at t' = Some now"
    and "targets_of i d' = map (\<lambda>g. if target_is_terminal g then g else cancel_target now g) (targets_of i d)"
proof -
  let ?un = "filter (\<lambda>g. \<not> target_is_terminal g) (ordered_targets i d)"
  from can obtain t e f where t: "find_row t_id i (tasks d) = Some t" "active_status (t_status t)"
    and e: "foldr_res (\<lambda>g d. save_target rt w_target_end (cancel_target now g) d) ?un d = Inr e"
    and s: "save_task rt w_end
           (cancelled_task now (map (\<lambda>g. if target_is_terminal g then g else cancel_target now g)
             (ordered_targets i d)) t) e = Inr (f, t')"
    and d': "d' = cancel_operation now t' f"
    by (rule cancel_task_steps)
  have id: "t_id t = i" and tok: "task_ok t (targets_of i d)" using task_okD [OF ok t(1)] by auto
  note loop = save_targets_effect [OF e, of i, OF filter_targets_facts(1-4) [OF ok]]
  have l: "targets e = upd_rows (\<lambda>r. r \<in> set ?un) (cancel_target now) (targets d)"
    "map core (tasks e) = map core (tasks d)"
    "\<And>j. j \<noteq> i \<Longrightarrow> find_row t_id j (tasks e) = find_row t_id j (tasks d)"
    using loop by auto
  define u where "u = (cancelled_task now (map (\<lambda>g. if target_is_terminal g then g else cancel_target now g)
             (ordered_targets i d)) t)"
  have u: "t_id u = i" "t_status u = Cancelled" "t_attempt_count u = t_attempt_count t"
    "t_total_targets u = t_total_targets t" "task_snapshot u = task_snapshot t" "t_finished_at u = Some now"
    by (simp_all add: u_def cancelled_task_def id task_snapshot_def)
  have ua: "unique_active (tasks e)" using ok unique_active_core [OF l(2)] by (simp add: db_ok_def)
  from save_task_effect [OF s [folded u_def] ua w_ids(3), unfolded u(1)] obtain r k where
    r: "find_row t_id i (tasks e) = Some r" and t': "t' = rekeyed u k"
    and se: "same_elsewhere i e f" and u': "unique_active (tasks f)"
    and f: "find_row t_id i (tasks f) = Some (written_row w_end t' r)"
    and c: "task_constraints (written_row w_end t' r)"
    and ff: "f = e\<lparr>tasks := upd_row t_id i (\<lambda>_. written_row w_end t' r) (tasks e)\<rparr>"
    by blast
  have rc: "core r = core t" using map_core_find [OF l(2), of i] t(1) r by simp
  have row: "written_row w_end t' r = t'"
    by (rule written_end [OF rc]) (simp add: t' u_def cancelled_task_def)
  have st: "t_status t' = Cancelled" "t_attempt_count t' = t_attempt_count t"
    "t_total_targets t' = t_total_targets t" "task_snapshot t' = task_snapshot t" "t_finished_at t' = Some now"
    using u by (simp_all add: t' rekeyed_def task_snapshot_def)
  show "t_status t' = Cancelled" "t_finished_at t' = Some now" by (rule st)+
  show fin: "find_row t_id i (tasks d') = Some t'" using f row by (simp add: d')
  have tt: "targets d' = upd_rows (\<lambda>r. r \<in> set ?un) (cancel_target now) (targets d)"
    by (simp add: d' ff l(1))
  have ts: "upd_rows (\<lambda>r. r \<in> set ?un) (cancel_target now) (targets_of i d)
      = map (\<lambda>g. if target_is_terminal g then g else cancel_target now g) (targets_of i d)"
    unfolding upd_filter_targets [OF ok] by (simp cong: if_cong)
  show "targets_of i d' = map (\<lambda>g. if target_is_terminal g then g else cancel_target now g) (targets_of i d)"
    unfolding ts [symmetric] by (simp add: targets_of_def tt filter_upd_rows)
  have "t_total_targets t = length (targets_of i d)" "targets_of i d \<noteq> []" "t_attempt_count t \<le> max_task_attempts"
    using tok by (simp_all add: task_ok_def)
  with c [unfolded row] have "task_ok t' (upd_rows (\<lambda>r. r \<in> set ?un) (cancel_target now) (targets_of i d))"
    unfolding ts task_ok_def st by simp (auto)
  moreover have "task_evo t t'" using t(2) by (cases "t_status t") (simp_all add: task_evo_def st)
  moreover have "g_task g = i \<and> target_evo g (cancel_target now g)"
    if "g \<in> set (targets d)" "g \<in> set ?un" for g
    using that filter_targets_facts(4) [OF ok that(2)] target_evo_unfinished(3) by auto
  moreover have oth: "\<And>j. j \<noteq> i \<Longrightarrow> find_row t_id j (tasks d') = find_row t_id j (tasks d)"
    and "map t_id (tasks d') = map t_id (tasks d)"
    using se l(3) map_core_ids [OF l(2)] by (simp_all add: same_elsewhere_def d')
  moreover have "unique_active (tasks d')" using u' by (simp add: d')
  ultimately show "db_ok d' \<and> evolution d d'"
    using fin tt by (intro transaction_ok [OF ok t(1)]) auto
qed

end
