(* ===== verification/TaskExec.thy ===== *)
theory TaskExec
  imports TaskProofs
begin

text \<open>
  The executors: how a worker thread begins a target under the live lease of its task and how it
  publishes the result (\<open>net/inspections/executor.py\<close>, \<open>net/inspections/locking.py\<close>,
  \<open>net/devices/pc/executor.py\<close>, \<open>net/people/executor.py\<close>, \<open>net/access/executor.py\<close>,
  \<open>net/domain/sync_tasks.py\<close>, \<open>net/domain/executor.py\<close>). A cancellation event is the boolean it
  reads at that point; what the protocol collectors returned is an argument.
\<close>

section \<open>Lease and locks\<close>

record outcome =
  oc_target :: ustring
  oc_status :: status
  oc_result_type :: ustring
  oc_result_id :: ustring
  oc_error :: ustring
  oc_stale :: bool

definition stale_outcome :: "ustring \<Rightarrow> status \<Rightarrow> outcome" where
  "stale_outcome i s = \<lparr>oc_target = i, oc_status = s, oc_result_type = [], oc_result_id = [],
     oc_error = [], oc_stale = True\<rparr>"

definition has_live_lease :: "task \<Rightarrow> ustring \<Rightarrow> time \<Rightarrow> bool" where
  "has_live_lease t worker now \<longleftrightarrow> worker \<noteq> [] \<and> t_status t = Running \<and> t_worker_id t = worker
     \<and> (case t_lease_expires_at t of None \<Rightarrow> False | Some e \<Rightarrow> now < e)"

definition locked_task_target :: "ustring \<Rightarrow> db \<Rightarrow> (task \<times> target) option" where
  "locked_task_target gid d = (case find_row g_id gid (targets d) of
     None \<Rightarrow> None
   | Some g0 \<Rightarrow> (case find_row t_id (g_task g0) (tasks d) of
       None \<Rightarrow> None
     | Some t \<Rightarrow> (case find (\<lambda>g. g_id g = gid \<and> g_task g = t_id t) (targets d) of
         None \<Rightarrow> None
       | Some g \<Rightarrow> Some (t, g))))"

section \<open>Beginning a target\<close>

definition w_target_begin :: "target \<Rightarrow> target \<Rightarrow> target" where
  "w_target_begin g r = r\<lparr>g_status := g_status g, g_started_at := g_started_at g,
     g_attempt_count := g_attempt_count g, g_error_message := g_error_message g\<rparr>"

definition begun_target :: "time \<Rightarrow> target \<Rightarrow> target" where
  "begun_target now g = g\<lparr>g_status := Running, g_started_at := Some now,
     g_attempt_count := g_attempt_count g + 1, g_error_message := []\<rparr>"

definition begin_target ::
    "runtime \<Rightarrow> time \<Rightarrow> ustring \<Rightarrow> ustring \<Rightarrow> bool \<Rightarrow> nat option \<Rightarrow> db \<Rightarrow> (db \<times> target option) res" where
  "begin_target rt now gid worker guard expected d = (case locked_task_target gid d of
     None \<Rightarrow> Inr (d, None)
   | Some (t, g) \<Rightarrow>
       if \<not> has_live_lease t worker now \<or> (expected \<noteq> None \<and> expected \<noteq> Some (t_attempt_count t)) \<or> guard
       then Inr (d, None)
       else if terminal_status (g_status g) then Inr (d, Some g)
       else if g_status g \<noteq> Queued then Inr (d, None)
       else bindr (save_target rt w_target_begin (begun_target now g) d)
              (\<lambda>d'. Inr (d', Some (begun_target now g))))"

section \<open>Result rows\<close>

datatype record_status = RSuccess | RPartial | RFailed

fun record_status_value :: "record_status \<Rightarrow> ustring" where
  "record_status_value RSuccess = asc ''success''"
| "record_status_value RPartial = asc ''partial''"
| "record_status_value RFailed = asc ''failed''"

fun run_status :: "record_status \<Rightarrow> status" where
  "run_status RSuccess = Success"
| "run_status RPartial = Partial"
| "run_status RFailed = Failed"

text \<open>\<open>_record_status\<close>: the status text of a collection; anything else counts as failed.\<close>

definition record_status :: "ustring \<Rightarrow> record_status" where
  "record_status s = (if s = asc ''success'' then RSuccess
     else if s = asc ''partial'' then RPartial else RFailed)"

text \<open>The table a target's record goes to (\<open>_record_spec\<close>).\<close>

fun record_spec :: "target_type \<Rightarrow> ustring res" where
  "record_spec TNetworkDevice = Inr (asc ''network_device_inspection'')"
| "record_spec TServer = Inr (asc ''server_inspection'')"
| "record_spec TWeakCurrent = Inr (asc ''monitor_inspection'')"
| "record_spec _ = Inl ValueError"

text \<open>\<open>objects.create\<close>: a duplicate primary key or a second record of the target is an error.\<close>

definition create_result :: "result \<Rightarrow> db \<Rightarrow> db res" where
  "create_result r d =
     (if list_ex (\<lambda>x. r_kind x = r_kind r \<and> (r_id x = r_id r \<or> r_target x = r_target r)) (results d)
      then Inl IntegrityError else Inr (d\<lparr>results := results d @ [r]\<rparr>))"

text \<open>\<open>compact_result_snapshot\<close>: \<open>findings\<close> says whether an issue is above the level \<open>info\<close>.\<close>

definition compact_result_snapshot ::
    "ustring \<Rightarrow> ustring \<Rightarrow> record_status \<Rightarrow> bool \<Rightarrow> ustring \<Rightarrow> (ustring \<times> json) list \<Rightarrow> json" where
  "compact_result_snapshot kind rid st findings summary extra = JObj (
     [(asc ''snapshot_version'', JInt 2), (asc ''result_type'', JStr kind), (asc ''result_id'', JStr rid),
      (asc ''status'', JStr (record_status_value st)),
      (asc ''health_status'',
         JStr (if st \<noteq> RSuccess \<or> findings then asc ''abnormal'' else asc ''normal'')),
      (asc ''summary'', JStr summary)] @ extra)"

section \<open>Publishing an inspection\<close>

text \<open>What \<open>_collection_report\<close> and the collector give: status, message, whether an issue is above
  \<open>info\<close>, reachability and duration.\<close>

record report =
  rep_status :: record_status
  rep_message :: ustring
  rep_findings :: bool
  rep_reachable :: bool
  rep_duration_ms :: nat

definition w_target_result :: "target \<Rightarrow> target \<Rightarrow> target" where
  "w_target_result g r = r\<lparr>g_status := g_status g, g_finished_at := g_finished_at g,
     g_result_type := g_result_type g, g_result_id := g_result_id g,
     g_result_snapshot := g_result_snapshot g, g_error_message := g_error_message g\<rparr>"

definition collected_target :: "time \<Rightarrow> ustring \<Rightarrow> ustring \<Rightarrow> report \<Rightarrow> target \<Rightarrow> target" where
  "collected_target now kind rid rep g = g\<lparr>g_status := run_status (rep_status rep), g_finished_at := Some now,
     g_result_type := kind, g_result_id := rid,
     g_result_snapshot := compact_result_snapshot kind rid (rep_status rep) (rep_findings rep) (rep_message rep)
       [(asc ''is_reachable'', JBool (rep_reachable rep)), (asc ''duration_ms'', JInt (int (rep_duration_ms rep)))],
     g_error_message := (if rep_status rep = RSuccess then [] else rep_message rep)\<rparr>"

definition inspection_record :: "time \<Rightarrow> ustring \<Rightarrow> ustring \<Rightarrow> report \<Rightarrow> target \<Rightarrow> result" where
  "inspection_record now kind rid rep g = \<lparr>r_kind = kind, r_id = rid, r_target = g_id g,
     r_status = run_status (rep_status rep), r_summary = rep_message rep,
     r_daily = None, r_created_at = now\<rparr>"

text \<open>\<open>_persist_collection\<close>: \<open>now2\<close> and \<open>guard2\<close> are read again before the commit; \<open>report\<close> computes the
  report from the locked rows; \<open>rid\<close> is the fresh primary key of the record.\<close>

definition persist_collection ::
    "runtime \<Rightarrow> time \<Rightarrow> time \<Rightarrow> bool \<Rightarrow> bool \<Rightarrow> ustring \<Rightarrow> ustring \<Rightarrow> (task \<Rightarrow> target \<Rightarrow> report)
     \<Rightarrow> ustring \<Rightarrow> db \<Rightarrow> (db \<times> outcome) res" where
  "persist_collection rt now now2 guard guard2 gid worker report rid d =
     (case locked_task_target gid d of
        None \<Rightarrow> Inr (d, stale_outcome gid Failed)
      | Some (t, g) \<Rightarrow>
          if guard \<or> \<not> has_live_lease t worker now \<or> g_status g \<noteq> Running
          then Inr (d, stale_outcome gid (g_status g))
          else let rep = report t g in
            bindr (record_spec (g_type g)) (\<lambda>kind.
            bindr (create_result (inspection_record now kind rid rep g) d) (\<lambda>d1.
            let d2 = (if rep_status rep \<noteq> RSuccess \<or> rep_findings rep
                      then d1\<lparr>result_errors := result_errors d1 @ [rid]\<rparr> else d1)
            in bindr (save_target rt w_target_result (collected_target now kind rid rep g) d2) (\<lambda>d3.
              if guard2 \<or> \<not> has_live_lease t worker now2
              then Inr (d, stale_outcome gid Running)
              else Inr (d3, \<lparr>oc_target = gid, oc_status = run_status (rep_status rep), oc_result_type = kind,
                     oc_result_id = rid, oc_error = g_error_message (collected_target now kind rid rep g),
                     oc_stale = False\<rparr>)))))"

section \<open>Publishing an analysis\<close>

definition failed_target :: "time \<Rightarrow> ustring \<Rightarrow> target \<Rightarrow> target" where
  "failed_target now msg g = g\<lparr>g_status := Failed, g_finished_at := Some now, g_error_message := msg\<rparr>"

text \<open>\<open>_failure\<close> of the analysis executor.\<close>

definition analysis_failure ::
    "runtime \<Rightarrow> time \<Rightarrow> time \<Rightarrow> bool \<Rightarrow> bool \<Rightarrow> ustring \<Rightarrow> ustring \<Rightarrow> ustring \<Rightarrow> (nat \<times> nat) option
     \<Rightarrow> db \<Rightarrow> (db \<times> outcome) res" where
  "analysis_failure rt now now2 guard guard2 gid worker message expected d =
     (case locked_task_target gid d of
        None \<Rightarrow> Inr (d, stale_outcome gid Failed)
      | Some (t, g) \<Rightarrow>
          if guard \<or> \<not> has_live_lease t worker now \<or> g_status g \<noteq> Running
          then Inr (d, stale_outcome gid (g_status g))
          else if expected \<noteq> None \<and> expected \<noteq> Some (t_attempt_count t, g_attempt_count g)
          then Inr (d, stale_outcome gid (g_status g))
          else let msg = take 4096 (sanitize rt message) in
            bindr (save_target rt w_target_end (failed_target now msg g) d) (\<lambda>d'.
              if guard2 \<or> \<not> has_live_lease t worker now2
              then Inr (d, stale_outcome gid Running)
              else Inr (d', \<lparr>oc_target = gid, oc_status = Failed, oc_result_type = [], oc_result_id = [],
                     oc_error = msg, oc_stale = False\<rparr>)))"

text \<open>A prepared analysis: its status and summary, whether an exception is above \<open>info\<close>, the analysed
  computer and the local date.\<close>

record analysis =
  an_status :: record_status
  an_summary :: ustring
  an_findings :: bool
  an_computer :: ustring
  an_date :: int

definition alert_processing_complete :: "db \<Rightarrow> result \<Rightarrow> bool" where
  "alert_processing_complete d r = (case find_row g_id (r_target r) (targets d) of
     None \<Rightarrow> False
   | Some g \<Rightarrow> g_alert_processed_at g \<noteq> None \<and> (case find_row t_id (g_task g) (tasks d) of
       None \<Rightarrow> False | Some t \<Rightarrow> t_alert_summary_processed_at t \<noteq> None))"

definition msg_record_expired :: ustring where
  "msg_record_expired = [20998, 26512, 32467, 26524, 24050, 25353, 27599, 22825, 26368, 26032, 20445, 30041,
     31574, 30053, 26367, 25442, 12290]"

definition expire_snapshot :: "target \<Rightarrow> target" where
  "expire_snapshot g = g\<lparr>g_result_snapshot := JObj (
     AList.update (asc ''retention_note'') (JStr msg_record_expired)
       (AList.update (asc ''record_expired'') (JBool True)
         (case g_result_snapshot g of JObj kvs \<Rightarrow> kvs | _ \<Rightarrow> [])))\<rparr>"

text \<open>\<open>remove_analysis_results\<close>: at most 200 rows, newest first (the default order of the table).\<close>

definition remove_analysis_results :: "(result \<Rightarrow> bool) \<Rightarrow> db \<Rightarrow> db" where
  "remove_analysis_results query d =
     (let rows = take 200 (sort_key (\<lambda>r. - r_created_at r)
            (filter (\<lambda>r. query r \<and> alert_processing_complete d r) (results d)))
      in d\<lparr>targets := upd_rows (\<lambda>g. g_id g \<in> r_target ` set rows) expire_snapshot (targets d),
           results := filter (\<lambda>r. r \<notin> set rows) (results d)\<rparr>)"

definition ignored_target :: "time \<Rightarrow> json \<Rightarrow> target \<Rightarrow> target" where
  "ignored_target now snap g = g\<lparr>g_status := Success, g_finished_at := Some now, g_result_type := [],
     g_result_id := [], g_result_snapshot := snap, g_error_message := []\<rparr>"

definition analysed_target :: "time \<Rightarrow> ustring \<Rightarrow> analysis \<Rightarrow> target \<Rightarrow> target" where
  "analysed_target now rid a g = g\<lparr>g_status := run_status (an_status a), g_finished_at := Some now,
     g_result_type := asc ''computer_analysis'', g_result_id := rid,
     g_result_snapshot := compact_result_snapshot (asc ''computer_analysis'') rid (an_status a) (an_findings a)
       (an_summary a) [],
     g_error_message := (if an_status a = RSuccess then [] else an_summary a)\<rparr>"

definition analysis_record :: "time \<Rightarrow> ustring \<Rightarrow> analysis \<Rightarrow> task \<Rightarrow> target \<Rightarrow> result" where
  "analysis_record now rid a t g = \<lparr>r_kind = asc ''computer_analysis'', r_id = rid, r_target = g_id g,
     r_status = run_status (an_status a), r_summary = an_summary a,
     r_daily = map_option (\<lambda>p. (an_computer a, p, an_date a)) (t_analysis_profile t), r_created_at = now\<rparr>"

definition persist_analysis :: "time \<Rightarrow> ustring \<Rightarrow> analysis \<Rightarrow> task \<Rightarrow> target \<Rightarrow> db \<Rightarrow> db res" where
  "persist_analysis now rid a t g d =
     (let r = analysis_record now rid a t g in
      bindr (create_result r d) (\<lambda>d.
        if jget ''analysis_retention'' (t_profile_snapshot t) = Some (JStr (asc ''daily_latest'')) \<and> r_daily r \<noteq> None
        then Inr (remove_analysis_results (\<lambda>x. r_kind x = r_kind r \<and> r_daily x = r_daily r \<and> r_id x \<noteq> rid) d)
        else Inr d))"

definition msg_log_ignored :: json where
  "msg_log_ignored = JObj [(asc ''ignored'', JBool True), (asc ''summary'', JStr
     [20197, 20154, 21592, 20026, 20027, 65306, 26085, 24535, 26410, 21305, 37197, 20154, 21592,
      65292, 24050, 24573, 30053, 65292, 19981, 21442, 19982, 20998, 26512, 19982, 21578, 35686, 12290])]"

text \<open>
  \<open>_persist_analysis\<close>: \<open>prepared\<close> is None for a log without a matching person, \<open>Some (Inl m)\<close> when
  the analysis raises with message \<open>m\<close>, \<open>Some (Inr a)\<close> when it is stored. The
  clock is read again for the finish time and for each lease check.
\<close>

definition persist_analysis_result ::
    "runtime \<Rightarrow> time \<Rightarrow> time \<Rightarrow> bool \<Rightarrow> bool \<Rightarrow> ustring \<Rightarrow> ustring \<Rightarrow> (ustring + analysis) option \<Rightarrow> ustring
     \<Rightarrow> nat \<times> nat \<Rightarrow> db \<Rightarrow> (db \<times> outcome) res" where
  "persist_analysis_result rt now now2 guard guard2 gid worker prepared rid expected d =
     (case locked_task_target gid d of
        None \<Rightarrow> Inr (d, stale_outcome gid Failed)
      | Some (t, g) \<Rightarrow>
          if guard \<or> \<not> has_live_lease t worker now \<or> g_status g \<noteq> Running
          then Inr (d, stale_outcome gid (g_status g))
          else if expected \<noteq> (t_attempt_count t, g_attempt_count g)
          then Inr (d, stale_outcome gid (g_status g))
          else (case prepared of
            None \<Rightarrow>
              bindr (save_target rt w_target_result (ignored_target now2 msg_log_ignored g) d) (\<lambda>d'.
                if guard2 \<or> \<not> has_live_lease t worker now2
                then Inr (d, stale_outcome gid Running)
                else Inr (d', \<lparr>oc_target = gid, oc_status = Success, oc_result_type = [], oc_result_id = [],
                       oc_error = [], oc_stale = False\<rparr>))
          | Some (Inl message) \<Rightarrow> analysis_failure rt now now2 guard guard2 gid worker message (Some expected) d
          | Some (Inr a) \<Rightarrow>
              bindr (persist_analysis now2 rid a t g d) (\<lambda>d1.
              bindr (save_target rt w_target_result (analysed_target now2 rid a g) d1) (\<lambda>d'.
                if guard2 \<or> \<not> has_live_lease t worker now2
                then Inr (d, stale_outcome gid Running)
                else Inr (d', \<lparr>oc_target = gid, oc_status = run_status (an_status a),
                       oc_result_type = asc ''computer_analysis'', oc_result_id = rid,
                       oc_error = g_error_message (analysed_target now2 rid a g), oc_stale = False\<rparr>)))))"

end
