(* ===== verification/TaskPublish.thy ===== *)
theory TaskPublish
  imports TaskExec
begin

text \<open>
  Publication of the other task types: directory tasks (\<open>net/people/executor.py\<close>), access records
  (\<open>net/access/executor.py\<close>), directory synchronisation (\<open>net/domain/sync_tasks.py\<close>) and domain
  operations (\<open>net/domain/executor.py\<close>). What the protocol client or the local apply step returned
  is an argument; every write to the task tables is here.
\<close>

section \<open>The fence\<close>

text \<open>\<open>attempts\<close> are the attempt counters of task and target that the caller began with.\<close>

definition fenced :: "task \<Rightarrow> target \<Rightarrow> ustring \<Rightarrow> time \<Rightarrow> bool \<Rightarrow> nat \<times> nat \<Rightarrow> bool" where
  "fenced t g worker now guard attempts \<longleftrightarrow> has_live_lease t worker now \<and> \<not> guard
     \<and> attempts = (t_attempt_count t, g_attempt_count g) \<and> g_status g = Running"

definition published_target :: "time \<Rightarrow> ustring \<Rightarrow> ustring \<Rightarrow> ustring \<Rightarrow> json \<Rightarrow> target \<Rightarrow> target" where
  "published_target now kind rid error snap g =
     g\<lparr>g_status := (if error \<noteq> [] then Failed else Success), g_finished_at := Some now,
       g_result_type := kind, g_result_id := rid, g_result_snapshot := snap, g_error_message := error\<rparr>"

definition published_outcome :: "target \<Rightarrow> ustring \<Rightarrow> outcome" where
  "published_outcome g error = \<lparr>oc_target = g_id g, oc_status = g_status g, oc_result_type = g_result_type g,
     oc_result_id = g_result_id g, oc_error = error, oc_stale = False\<rparr>"

text \<open>\<open>.get(pk=...)\<close> raises when the row is missing.\<close>

definition get_row :: "('r \<Rightarrow> 'k) \<Rightarrow> 'k \<Rightarrow> 'r list \<Rightarrow> 'r res" where
  "get_row key i rows = (case find_row key i rows of None \<Rightarrow> Inl LookupError | Some r \<Rightarrow> Inr r)"

section \<open>Directory tasks\<close>

definition identity_matches :: "ustring \<times> ustring \<Rightarrow> json \<Rightarrow> bool" where
  "identity_matches ident j = (case j of
     JObj kvs \<Rightarrow> length kvs = 2 \<and> jget ''source_key'' j = Some (JStr (fst ident))
       \<and> jget ''digest'' j = Some (JStr (snd ident))
   | _ \<Rightarrow> False)"

definition source_matches_task :: "people_source \<Rightarrow> task \<Rightarrow> bool" where
  "source_matches_task s t \<longleftrightarrow> ps_enabled s
     \<and> ps_id s = (case t_people_source t of None \<Rightarrow> asc ''None'' | Some i \<Rightarrow> i)
     \<and> identity_matches (ps_identity s)
         (jget_or ''fetch_configuration_identity'' JNull (t_parameters_snapshot t))"

text \<open>"the configuration of the directory source changed or is disabled, preview again"\<close>

definition msg_source_changed :: ustring where
  "msg_source_changed = [20154, 21592, 30446, 24405, 26469, 28304, 37197, 32622, 24050, 21464, 26356, 25110,
     20572, 29992, 65292, 35831, 37325, 26032, 39044, 35272, 12290]"

text \<open>The writes under the fence, with the locked source row.\<close>

definition checked_result :: "people_source \<Rightarrow> task \<Rightarrow> json \<Rightarrow> ustring \<Rightarrow> json \<times> ustring" where
  "checked_result s t result error =
     (if source_matches_task s t then (result, error) else (JObj [], msg_source_changed))"

definition people_end ::
    "runtime \<Rightarrow> time \<Rightarrow> people_source \<Rightarrow> task \<Rightarrow> target \<Rightarrow> json \<times> ustring \<Rightarrow> db \<Rightarrow> (db \<times> outcome) res" where
  "people_end rt now s t g out d =
     (let g' = published_target now (task_type_value (t_type t)) (t_id t) (snd out) (fst out) g
      in bindr (save_target rt w_target_result g' d) (\<lambda>d.
           Inr (if snd out = [] \<and> t_type t = PeopleTest
                then d\<lparr>people_sources := upd_row ps_id (ps_id s)
                         (\<lambda>r. r\<lparr>ps_last_tested_at := Some now\<rparr>) (people_sources d)\<rparr> else d,
                published_outcome g' (snd out))))"

definition people_publish ::
    "runtime \<Rightarrow> time \<Rightarrow> ustring \<Rightarrow> nat \<times> nat \<Rightarrow> ustring \<Rightarrow> json \<Rightarrow> ustring \<Rightarrow> bool \<Rightarrow> db \<Rightarrow> (db \<times> outcome) res" where
  "people_publish rt now gid attempts worker result error guard d =
     bindr (get_row g_id gid (targets d)) (\<lambda>g.
     bindr (get_row t_id (g_task g) (tasks d)) (\<lambda>t.
       if \<not> fenced t g worker now guard attempts then Inr (d, stale_outcome gid (g_status g))
       else bindr (case t_people_source t of None \<Rightarrow> Inl LookupError
                   | Some i \<Rightarrow> get_row ps_id i (people_sources d))
              (\<lambda>s. people_end rt now s t g (checked_result s t result error) d)))"

section \<open>Access records\<close>

text \<open>An event of the platform: the identifier is None when it is not text, the time None when it is not
  an aware datetime.\<close>

record access_event =
  ev_id :: "ustring option"
  ev_occurred_at :: "time option"
  ev_employee_number :: ustring
  ev_person_name :: ustring
  ev_door_name :: ustring
  ev_direction :: ustring
  ev_result :: ustring
  ev_card_number :: ustring

definition valid_event :: "access_event \<Rightarrow> bool" where
  "valid_event e = (case (ev_id e, ev_occurred_at e) of
     (Some i, Some _) \<Rightarrow> i \<noteq> [] \<and> length i \<le> 255 | _ \<Rightarrow> False)"

definition event_row :: "ustring \<Rightarrow> access_event \<Rightarrow> access_record" where
  "event_row src e = \<lparr>ar_source = src, ar_event_id = the (ev_id e), ar_occurred_at = the (ev_occurred_at e),
     ar_employee_number = take 255 (ev_employee_number e), ar_person_name = take 255 (ev_person_name e),
     ar_door_name = take 255 (ev_door_name e), ar_direction = ev_direction e, ar_result = ev_result e,
     ar_card_number = take 255 (ev_card_number e)\<rparr>"

text \<open>\<open>bulk_create(..., ignore_conflicts=True)\<close> under the unique pair of source and event identifier.\<close>

definition record_key :: "access_record \<Rightarrow> ustring \<times> ustring" where
  "record_key r = (ar_source r, ar_event_id r)"

fun insert_ignoring_conflicts :: "access_record list \<Rightarrow> access_record list \<Rightarrow> access_record list" where
  "insert_ignoring_conflicts [] rows = rows"
| "insert_ignoring_conflicts (r # rs) rows =
     insert_ignoring_conflicts rs (if record_key r \<in> record_key ` set rows then rows else rows @ [r])"

text \<open>\<open>_window\<close>\<close>

definition access_window :: "runtime \<Rightarrow> task \<Rightarrow> (time \<times> time) res" where
  "access_window rt t =
     (let bad = Inl (ValidationError [(''window'', ''invalid'')]);
          read = (\<lambda>k. case jget k (t_parameters_snapshot t) of Some (JStr s) \<Rightarrow> iso_datetime rt s | _ \<Rightarrow> None)
      in case (read ''window_start'', read ''window_end'') of
           (Some (a, True), Some (b, True)) \<Rightarrow> if a < b then Inr (a, b) else bad
         | _ \<Rightarrow> bad)"

definition access_matches_task :: "access_source \<Rightarrow> task \<Rightarrow> bool" where
  "access_matches_task s t \<longleftrightarrow> as_enabled s
     \<and> jget ''source_configuration_identity'' (t_parameters_snapshot t) = Some (JStr (as_identity s))"

definition msg_platform_changed :: ustring where
  "msg_platform_changed = [38376, 31105, 24179, 21488, 26469, 28304, 37197, 32622, 24050, 21464, 26356, 25110,
     20572, 29992, 65292, 35831, 37325, 26032, 21457, 36215, 37319, 38598, 12290]"

definition msg_bad_event :: ustring where
  "msg_bad_event = [24179, 21488, 36820, 22238, 30340, 38376, 31105, 35760, 24405, 32570, 23569, 26377, 25928,
     20107, 20214, 26631, 35782, 25110, 26102, 38388, 12290]"

definition store_access_events ::
    "runtime \<Rightarrow> time \<Rightarrow> access_source \<Rightarrow> access_event list \<Rightarrow> task \<Rightarrow> db \<Rightarrow> db res" where
  "store_access_events rt now s events t d =
     bindr (access_window rt t) (\<lambda>(_, end_at). Inr
       (d\<lparr>access_records := insert_ignoring_conflicts (map (event_row (as_id s)) events) (access_records d),
          access_sources := upd_row as_id (as_id s)
            (\<lambda>r. r\<lparr>as_cursor_at := Some (case as_cursor_at s of None \<Rightarrow> end_at | Some c \<Rightarrow> max c end_at),
                  as_last_success_at := Some now, as_last_error := []\<rparr>) (access_sources d)\<rparr>))"

definition access_error :: "access_source \<Rightarrow> task \<Rightarrow> access_event list \<Rightarrow> ustring \<Rightarrow> ustring" where
  "access_error s t events error =
     (if \<not> access_matches_task s t then msg_platform_changed
      else if error = [] \<and> \<not> list_all valid_event events then msg_bad_event else error)"

definition access_end ::
    "runtime \<Rightarrow> time \<Rightarrow> access_source \<Rightarrow> task \<Rightarrow> target \<Rightarrow> access_event list \<Rightarrow> ustring \<Rightarrow> db
     \<Rightarrow> (db \<times> outcome) res" where
  "access_end rt now s t g events error d =
     (let g' = published_target now (task_type_value (t_type t)) (t_id t) error
                 (if error = [] then JObj [(asc ''received'', JInt (int (length events)))]
                  else JObj [(asc ''error_category'', JStr (asc ''access_platform''))]) g
      in bindr (if error = [] then store_access_events rt now s events t d else Inr d) (\<lambda>d.
         bindr (save_target rt w_target_result g' d) (\<lambda>d.
           Inr (if error \<noteq> [] then d\<lparr>access_sources := upd_row as_id (as_id s)
                         (\<lambda>r. r\<lparr>as_last_error := error\<rparr>) (access_sources d)\<rparr> else d,
                published_outcome g' error))))"

definition access_publish ::
    "runtime \<Rightarrow> time \<Rightarrow> ustring \<Rightarrow> nat \<times> nat \<Rightarrow> ustring \<Rightarrow> access_event list \<Rightarrow> ustring \<Rightarrow> bool \<Rightarrow> db
     \<Rightarrow> (db \<times> outcome) res" where
  "access_publish rt now gid attempts worker events error guard d =
     bindr (get_row g_id gid (targets d)) (\<lambda>g.
     bindr (get_row t_id (g_task g) (tasks d)) (\<lambda>t.
       if \<not> fenced t g worker now guard attempts then Inr (d, stale_outcome gid (g_status g))
       else bindr (get_row as_id (g_target_id g) (access_sources d))
              (\<lambda>s. access_end rt now s t g events (access_error s t events error) d)))"

section \<open>Directory synchronisation\<close>

definition msg_config_changed :: ustring where
  "msg_config_changed = [22495, 25511, 37197, 32622, 24050, 21464, 26356, 65292, 35831, 37325, 26032, 21019, 24314,
     21516, 27493, 20219, 21153, 12290]"

definition msg_sync_rolled_back :: ustring where
  "msg_sync_rolled_back = [22495, 25511, 21516, 27493, 25968, 25454, 20445, 23384, 22833, 36133, 65292, 26412, 27425,
     21464, 26356, 24050, 22238, 28378, 12290]"

text \<open>\<open>applied\<close> is the result object of \<open>apply_domain_snapshot\<close>, None when it raised. A missing
  \<open>config_version\<close> is a \<open>KeyError\<close>.\<close>

definition config_current :: "task \<Rightarrow> db \<Rightarrow> bool res" where
  "config_current t d = (case domain_version d of None \<Rightarrow> Inr False
     | Some v \<Rightarrow> (case jget ''config_version'' (t_parameters_snapshot t) of
         None \<Rightarrow> Inl LookupError | Some j \<Rightarrow> Inr (j = JStr v)))"

definition domain_sync_result :: "bool \<Rightarrow> json option \<Rightarrow> ustring \<Rightarrow> json \<times> ustring" where
  "domain_sync_result current applied error =
     (if \<not> current then (JObj [], msg_config_changed)
      else if error \<noteq> [] then (JObj [], error)
      else (case applied of Some r \<Rightarrow> (r, []) | None \<Rightarrow> (JObj [], msg_sync_rolled_back)))"

definition domain_sync_publish ::
    "runtime \<Rightarrow> time \<Rightarrow> time \<Rightarrow> ustring \<Rightarrow> nat \<times> nat \<Rightarrow> ustring \<Rightarrow> json option \<Rightarrow> ustring \<Rightarrow> bool \<Rightarrow> db
     \<Rightarrow> (db \<times> outcome) res" where
  "domain_sync_publish rt now now2 gid attempts worker applied error guard d =
     bindr (get_row g_id gid (targets d)) (\<lambda>g.
     bindr (get_row t_id (g_task g) (tasks d)) (\<lambda>t.
       if \<not> fenced t g worker now guard attempts then Inr (d, stale_outcome gid (g_status g))
       else
         bindr (config_current t d) (\<lambda>current.
         let out = domain_sync_result current applied error;
             g' = published_target now2 (asc ''domain_sync'') (t_id t) (snd out) (fst out) g
         in bindr (save_target rt w_target_result g' d) (\<lambda>d.
              Inr (d, \<lparr>oc_target = gid, oc_status = g_status g', oc_result_type = [], oc_result_id = [],
                       oc_error = snd out, oc_stale = False\<rparr>)))))"

section \<open>Domain operations\<close>

definition w_target_domain :: "target \<Rightarrow> target \<Rightarrow> target" where
  "w_target_domain g r = r\<lparr>g_status := g_status g, g_finished_at := g_finished_at g,
     g_result_snapshot := g_result_snapshot g, g_error_message := g_error_message g\<rparr>"

text \<open>The context of a claimed domain task.\<close>

record domain_context =
  dc_attempt :: nat
  dc_action :: ustring
  dc_password :: "ustring option"

definition msg_domain_failed :: ustring where
  "msg_domain_failed = [22495, 25511, 25805, 20316, 22833, 36133, 12290]"

fun contains_sub :: "ustring \<Rightarrow> ustring \<Rightarrow> bool" where
  "contains_sub p [] = (p = [])"
| "contains_sub p (c # cs) = (take (length p) (c # cs) = p \<or> contains_sub p cs)"

text \<open>\<open>_redacted_error\<close>; \<open>scrub\<close> is \<open>sanitize(..., secrets=...)\<close> of the context's password.\<close>

definition redacted_error :: "(ustring list \<Rightarrow> ustring \<Rightarrow> ustring) \<Rightarrow> domain_context option \<Rightarrow> ustring \<Rightarrow> ustring" where
  "redacted_error scrub ctx value =
     (let secrets = (case ctx of Some c \<Rightarrow> (case dc_password c of Some p \<Rightarrow> if p = [] then [] else [p] | None \<Rightarrow> [])
                     | None \<Rightarrow> []);
          message = strip (scrub secrets value)
      in if message = [] \<or> contains_sub (asc ''[REDACTED]'') message then msg_domain_failed
         else take 2048 message)"

definition result_stages :: "ustring list" where
  "result_stages = map asc [''user_created_password_pending'', ''manual_intervention_required'', ''completed'',
     ''destination_add_failed'', ''destination_add_uncertain'', ''destination_added_source_pending'']"

definition safe_details :: "json \<Rightarrow> (ustring \<times> json) list" where
  "safe_details details = (case details of
     JObj kvs \<Rightarrow> filter (\<lambda>kv. fst kv \<in> {asc ''distinguished_name'', asc ''ou''}
                   \<and> (case snd kv of JStr _ \<Rightarrow> True | _ \<Rightarrow> False)) kvs
   | _ \<Rightarrow> [])"

definition domain_result_snapshot ::
    "domain_context option \<Rightarrow> bool \<Rightarrow> ustring \<Rightarrow> json \<Rightarrow> ustring \<Rightarrow> json" where
  "domain_result_snapshot ctx success stage details mirror =
     JObj ([(asc ''action'', JStr (case ctx of Some c \<Rightarrow> dc_action c | None \<Rightarrow> [])),
            (asc ''success'', JBool success)]
       @ (if stage \<in> set result_stages then [(asc ''stage'', JStr stage)] else [])
       @ safe_details details
       @ (if mirror \<noteq> [] then [(asc ''mirror_status'', JStr mirror)] else []))"

text \<open>\<open>mirror\<close> is what \<open>_safe_update_local_mirror\<close> returned (the local copy of the directory is not part
  of this table model); it runs on success and after the first half of a group move.\<close>

definition mirror_runs :: "domain_context option \<Rightarrow> bool \<Rightarrow> ustring \<Rightarrow> bool" where
  "mirror_runs ctx success stage \<longleftrightarrow> success
     \<or> (\<exists>c. ctx = Some c \<and> dc_action c = asc ''move_group'' \<and> stage = asc ''destination_added_source_pending'')"

definition domain_target :: "time \<Rightarrow> bool \<Rightarrow> json \<Rightarrow> ustring \<Rightarrow> target \<Rightarrow> target" where
  "domain_target now success snap error g =
     g\<lparr>g_status := (if success then Success else Failed), g_finished_at := Some now,
       g_result_snapshot := snap, g_error_message := error\<rparr>"

definition persist_domain_outcome ::
    "runtime \<Rightarrow> (ustring list \<Rightarrow> ustring \<Rightarrow> ustring) \<Rightarrow> time \<Rightarrow> bool \<Rightarrow> ustring \<Rightarrow> ustring \<Rightarrow> bool \<Rightarrow> ustring
     \<Rightarrow> domain_context option \<Rightarrow> ustring \<Rightarrow> json \<Rightarrow> ustring \<Rightarrow> db \<Rightarrow> (db \<times> outcome) res" where
  "persist_domain_outcome rt scrub now guard gid worker success error ctx stage details mirror d =
     (case find_row g_id gid (targets d) of
        None \<Rightarrow> Inr (d, stale_outcome gid Failed)
      | Some g \<Rightarrow> (case find_row t_id (g_task g) (tasks d) of
          None \<Rightarrow> Inr (d, stale_outcome gid (g_status g))
        | Some t \<Rightarrow>
            if \<not> has_live_lease t worker now \<or> guard \<or> g_status g \<noteq> Running
               \<or> (case ctx of Some c \<Rightarrow> t_attempt_count t \<noteq> dc_attempt c | None \<Rightarrow> False)
            then Inr (d, stale_outcome gid (g_status g))
            else
              let snap = domain_result_snapshot ctx success stage details
                           (if mirror_runs ctx success stage then mirror else []);
                  g' = domain_target now success snap (if success then [] else redacted_error scrub ctx error) g
              in bindr (save_target rt w_target_domain g' d) (\<lambda>d.
                   Inr (d, \<lparr>oc_target = gid, oc_status = g_status g', oc_result_type = [], oc_result_id = [],
                            oc_error = g_error_message g', oc_stale = False\<rparr>))))"

text \<open>\<open>abort_password_domain_task\<close>: the first transaction, then \<open>finish_task\<close> in its own.\<close>

definition msg_password_interrupted :: ustring where
  "msg_password_interrupted = [23494, 30721, 25805, 20316, 24050, 20013, 26029, 65292, 35831, 37325, 26032, 25552, 20132]"

definition interrupted_target :: "time \<Rightarrow> target \<Rightarrow> target" where
  "interrupted_target now g = g\<lparr>g_status := Failed, g_finished_at := Some now,
     g_result_snapshot := JObj [(asc ''interrupted'', JBool True)], g_error_message := msg_password_interrupted\<rparr>"

definition abort_password_targets ::
    "runtime \<Rightarrow> time \<Rightarrow> ustring \<Rightarrow> ustring \<Rightarrow> nat \<Rightarrow> db \<Rightarrow> (db \<times> nat) res" where
  "abort_password_targets rt now i worker generation d = (case find_row t_id i (tasks d) of
     None \<Rightarrow> Inr (d, 0)
   | Some t \<Rightarrow>
       if \<not> has_live_lease t worker now \<or> t_attempt_count t \<noteq> generation then Inr (d, 0)
       else let gs = filter (\<lambda>g. g_status g \<in> {Queued, Running}) (ordered_targets i d) in
         bindr (foldr_res (\<lambda>g d. save_target rt w_target_domain (interrupted_target now g) d) gs d)
           (\<lambda>d. Inr (d, length gs)))"

definition abort_password_domain_task ::
    "runtime \<Rightarrow> time \<Rightarrow> time \<Rightarrow> ustring \<Rightarrow> ustring \<Rightarrow> nat \<Rightarrow> db \<Rightarrow> (db \<times> bool) res" where
  "abort_password_domain_task rt now now2 i worker generation d =
     bindr (abort_password_targets rt now i worker generation d) (\<lambda>(d, n).
       if n = 0 then Inr (d, False)
       else (case finish_task rt now2 i worker d of
         Inl (ValidationError _) \<Rightarrow> Inr (d, False)
       | Inl e \<Rightarrow> Inl e
       | Inr (d, t) \<Rightarrow> Inr (aggregate_domain_operation t d, True)))"

definition mark_domain_operation_running ::
    "time \<Rightarrow> ustring \<Rightarrow> ustring \<Rightarrow> nat \<Rightarrow> db \<Rightarrow> db \<times> bool" where
  "mark_domain_operation_running now i worker generation d = (case find_row t_id i (tasks d) of
     None \<Rightarrow> (d, False)
   | Some t \<Rightarrow>
       if \<not> has_live_lease t worker now \<or> t_attempt_count t \<noteq> generation then (d, False)
       else (case operation_of d i of
         None \<Rightarrow> (d, False)
       | Some oo \<Rightarrow>
           (if o_status oo = Queued
            then d\<lparr>operations := upd_row o_id (o_id oo)
                   (\<lambda>r. r\<lparr>o_status := Running, o_started_at := t_started_at t\<rparr>) (operations d)\<rparr>
            else d, True)))"

end
