(* ===== verification/TaskExecProofs.thy ===== *)
theory TaskExecProofs
  imports TaskPublish
begin

text \<open>
  Beginning and publishing a target keep the invariant of the task tables and move it forward; a
  caller that does not hold the live lease changes nothing.
\<close>

section \<open>Writes of a target under a running task\<close>

definition target_core :: "target \<Rightarrow> status \<times> ustring \<times> ustring" where
  "target_core g = (g_status g, g_id g, g_task g)"

lemma task_ok_running:
  assumes "task_ok t gs" and "t_status t = Running" and "core t' = core t" and "task_constraints t'"
    and "length gs' = length gs"
  shows "task_ok t' gs'"
  using assms core_eqD [OF assms(3)] by (simp add: task_ok_def) auto

lemma update_task_progress_constraints:
  assumes "update_task_progress i d = Inr d'" and "t \<in> set (tasks d')" and "t_id t = i" and "t_status t = Running"
  shows "task_constraints t"
  using assms by (auto simp: update_task_progress_def Let_def list_all_iff split: if_splits)

lemma write_progress_simps [simp]:
  "t_id (write_progress c t) = t_id t" "t_status (write_progress c t) = t_status t"
  "t_attempt_count (write_progress c t) = t_attempt_count t"
  "task_snapshot (write_progress c t) = task_snapshot t"
  by (simp_all add: write_progress_def task_snapshot_def split: prod.splits)

lemma save_target_progress:
  assumes "save_target rt w g d = Inr d'" and "t \<in> set (tasks d')" and "t_id t = g_task g"
    and "t_status t = Running" and "target_is_terminal g"
  shows "task_constraints t"
proof -
  from assms(1,5) obtain e where "update_task_progress (g_task g) e = Inr d'"
    by (auto simp: save_target_def bindr_Inr_iff)
  from update_task_progress_constraints [OF this assms(2,3,4)] show ?thesis .
qed

lemma save_target_ok:
  assumes ok: "db_ok d" and g: "find_row g_id gid (targets d) = Some g"
    and t: "find_row t_id (g_task g) (tasks d) = Some t" and run: "t_status t = Running"
    and nt: "\<not> target_is_terminal g"
    and s: "save_target rt w g' d = Inr d'"
    and g': "g_id g' = gid" "target_snapshot_fields g' = target_snapshot_fields g"
      "g_attempt_count g \<le> g_attempt_count g'" "w g' g = g'"
  shows "db_ok d' \<and> evolution d d'" and "find_row g_id gid (targets d') = Some g'"
    and "targets d' = upd_row g_id gid (\<lambda>_. g') (targets d)"
    and "\<exists>t'. find_row t_id (g_task g) (tasks d') = Some t' \<and> core t' = core t"
    and "map core (tasks d') = map core (tasks d)"
proof -
  note eff = save_target_effect [OF s]
  let ?i = "g_task g"
  have gm: "g \<in> set (targets d)" "g_id g = gid" using find_row_Some [OF g] by auto
  have task: "g_task g' = ?i" using g'(2) by (simp add: target_snapshot_fields_def)
  have dg: "distinct (map g_id (targets d))" and ua: "unique_active (tasks d)" using ok by (auto simp: db_ok_def)
  have row: "r = g" if "r \<in> set (targets d)" "g_id r = gid" for r
    by (rule distinct_key_eq [OF dg that(1) gm(1)]) (simp add: that gm)
  show tgs: "targets d' = upd_row g_id gid (\<lambda>_. g') (targets d)"
    unfolding eff(1) g'(1) upd_rows_def
    by (rule map_cong [OF refl], split if_split) (metis row g'(4))
  have tgs2: "targets d' = upd_rows (\<lambda>r. r = g) (\<lambda>r. if r = g then g' else r) (targets d)"
    unfolding tgs upd_rows_def
    by (rule map_cong [OF refl], split if_split) (metis row gm(2))
  show "find_row g_id gid (targets d') = Some g'"
    unfolding tgs using find_row_upd_const [OF g g'(1)] .
  show mc: "map core (tasks d') = map core (tasks d)" by (rule eff(2))
  obtain t' where t': "find_row t_id ?i (tasks d') = Some t'" "core t' = core t"
    using map_core_find [OF mc, of ?i] t by auto
  then show "\<exists>t'. find_row t_id ?i (tasks d') = Some t' \<and> core t' = core t" by blast
  have run': "t_status t' = Running" using core_eqD(2) [OF t'(2)] run by simp
  obtain c where c: "tasks d' = (if target_is_terminal g'
       then upd_rows (\<lambda>t. t_id t = ?i \<and> t_status t = Running) (write_progress c) (tasks d) else tasks d)"
    using eff(4) unfolding task by blast
  have others: "find_row t_id j (tasks d') = find_row t_id j (tasks d)" if "j \<noteq> ?i" for j
  proof -
    have "find_row t_id j (upd_rows (\<lambda>t. t_id t = ?i \<and> t_status t = Running) (write_progress c) (tasks d))
        = find_row t_id j (tasks d)"
      by (rule find_row_upd_other [OF _ that]) simp
    then show ?thesis by (simp add: c)
  qed
  have con: "task_constraints t'"
  proof (cases "target_is_terminal g'")
    case True
    from find_row_Some [OF t'(1)] have "t' \<in> set (tasks d')" "t_id t' = g_task g'" by (simp_all add: task)
    from save_target_progress [OF s this run' True] show ?thesis .
  next
    case False
    then have "t' = t" using c t t'(1) by simp
    then show ?thesis using task_okD(1) [OF ok t] by (simp add: task_ok_def)
  qed
  have "task_ok t' (upd_rows (\<lambda>r. r = g) (\<lambda>r. if r = g then g' else r) (targets_of ?i d))"
    by (rule task_ok_running [OF task_okD(1) [OF ok t] run t'(2) con]) simp
  moreover have "task_evo t t'" using core_eqD [OF t'(2)] run by (simp add: task_evo_def)
  moreover have "target_evo g g'" using g' nt by (simp add: target_evo_def)
  moreover have "unique_active (tasks d')" using unique_active_core [OF mc] ua by simp
  moreover have "map t_id (tasks d') = map t_id (tasks d)" by (rule map_core_ids [OF mc])
  ultimately show "db_ok d' \<and> evolution d d'"
    using others t'(1) tgs2 gm
    by (intro transaction_ok [OF ok t]) (auto simp: g'(1) task)
qed

section \<open>Result rows\<close>

text \<open>Every stored result belongs to an ended target that names it, and a table holds one row of a target.\<close>

definition result_ok :: "db \<Rightarrow> result \<Rightarrow> bool" where
  "result_ok d r \<longleftrightarrow> (case find_row g_id (r_target r) (targets d) of
     None \<Rightarrow> False
   | Some g \<Rightarrow> target_is_terminal g \<and> g_status g = r_status r \<and> g_result_type g = r_kind r \<and> g_result_id g = r_id r)"

definition results_ok :: "db \<Rightarrow> bool" where
  "results_ok d \<longleftrightarrow> (\<forall>r \<in> set (results d). result_ok d r)
     \<and> distinct (map (\<lambda>r. (r_kind r, r_target r)) (results d))"

lemma target_evo_terminal:
  assumes "target_evo g g'" and "target_is_terminal g"
  shows "target_is_terminal g'" "g_status g' = g_status g" "g_result_type g' = g_result_type g"
    "g_result_id g' = g_result_id g"
proof -
  have v: "target_view g' = target_view g" using assms unfolding target_evo_def by blast
  then show e: "g_status g' = g_status g" "g_result_type g' = g_result_type g" "g_result_id g' = g_result_id g"
    by (simp_all only: target_view_def prod.inject)
  show "target_is_terminal g'" using assms(2) unfolding target_is_terminal_def e(1) .
qed

lemma result_ok_evolves:
  assumes "result_ok d r" and "evolution d d'"
  shows "result_ok d' r"
proof -
  from assms(1) obtain g where g: "find_row g_id (r_target r) (targets d) = Some g" "target_is_terminal g"
      "g_status g = r_status r" "g_result_type g = r_kind r" "g_result_id g = r_id r"
    by (auto simp: result_ok_def split: option.splits)
  from evolution_targetD [OF assms(2) g(1)] obtain g' where
    g': "find_row g_id (r_target r) (targets d') = Some g'" "target_evo g g'" by blast
  show ?thesis using target_evo_terminal [OF g'(2) g(2)] g g'(1) by (simp add: result_ok_def)
qed

lemma results_ok_evolves:
  assumes "results_ok d" and "evolution d d'" and "results d' = filter p (results d)"
  shows "results_ok d'"
proof -
  have "distinct (map (\<lambda>r. (r_kind r, r_target r)) (results d'))"
    unfolding assms(3) using assms(1) by (simp add: results_ok_def distinct_map_filter)
  then show ?thesis
    using assms result_ok_evolves by (auto simp: results_ok_def)
qed

lemma results_ok_same: "results_ok d \<Longrightarrow> evolution d d' \<Longrightarrow> results d' = results d \<Longrightarrow> results_ok d'"
  by (rule results_ok_evolves [of _ _ "\<lambda>_. True"]) simp_all

text \<open>The queue writes no result row.\<close>

lemma save_task_results: "save_task rt w t d = Inr (d', t') \<Longrightarrow> results d' = results d"
  by (auto simp: save_task_def task_save_def store_task_def Let_def bindr_Inr_iff split: if_splits option.splits)

lemma save_target_results: "save_target rt w g d = Inr d' \<Longrightarrow> results d' = results d"
  by (auto simp: save_target_def bindr_Inr_iff update_task_progress_def Let_def
      dest!: target_save_effect(1) split: if_splits)

lemma save_targets_results:
  assumes "foldr_res (\<lambda>g d. save_target rt w (f g) d) gs d = Inr d'"
  shows "results d' = results d"
  by (rule foldr_res_invariant [OF assms, of "\<lambda>e. results e = results d"]) (auto dest: save_target_results)

lemma aggregate_results [simp]:
  "results (aggregate_domain_operation t d) = results d" "results (aggregate_if_domain t d) = results d"
  "results (cancel_operation now t d) = results d"
  by (auto simp: aggregate_domain_operation_def aggregate_if_domain_def cancel_operation_def split: option.splits)

lemma finish_locked_results: "finish_locked rt now gs t d = Inr (d', t') \<Longrightarrow> results d' = results d"
  by (auto simp: finish_locked_def bindr_Inr_iff dest: save_task_results split: if_splits)

lemma finish_task_results: "finish_task rt now i worker d = Inr (d', t') \<Longrightarrow> results d' = results d"
  by (auto simp: finish_task_def dest: finish_locked_results split: if_splits option.splits)

lemma recover_one_results:
  assumes "recover_one rt now t d = Inr d'"
  shows "results d' = results d"
proof -
  have fa: "finish_and_aggregate rt now gs t e = Inr d' \<Longrightarrow> results d' = results e" for gs e
    by (auto simp: finish_and_aggregate_def bindr_Inr_iff dest: finish_locked_results)
  have ex: "recover_exhausted rt now gs t d = Inr d' \<Longrightarrow> results d' = results d" for gs
    by (auto simp: recover_exhausted_def bindr_Inr_iff dest!: fa save_targets_results)
  have rq: "recover_requeue rt now gs t d = Inr d' \<Longrightarrow> results d' = results d" for gs
    by (auto simp: recover_requeue_def bindr_Inr_iff dest!: save_task_results save_targets_results)
  show ?thesis
    using assms fa ex rq unfolding recover_one_def Let_def by (simp split: if_split_asm)
qed

lemma recover_results: "recover_expired_locked rt now d = Inr (d', n) \<Longrightarrow> results d' = results d"
proof -
  assume "recover_expired_locked rt now d = Inr (d', n)"
  then have "foldr_res (\<lambda>t d. recover_one rt now t d) (expired_tasks now d) d = Inr d'"
    by (auto simp: recover_expired_locked_def bindr_Inr_iff)
  from foldr_res_invariant [OF this, of "\<lambda>e. results e = results d"] show "results d' = results d"
    using recover_one_results by simp
qed

lemma claim_results:
  assumes "claim_next_task rt worker n now tt d = Inr (d', r)"
  shows "results d' = results d"
  using assms by (rule claim_next_task_steps) (metis recover_results, metis recover_results save_task_results)

lemma renew_results: "renew_lease now db_now i worker n d = Inr (d', b) \<Longrightarrow> results d' = results d"
  by (auto simp: renew_lease_def split: if_splits)

lemma cancel_results:
  assumes "cancel_task rt now i d = Inr (d', t')"
  shows "results d' = results d"
  using assms by (rule cancel_task_steps) (auto dest!: save_targets_results save_task_results)

section \<open>The executors keep the invariant\<close>

definition sys_ok :: "db \<Rightarrow> bool" where
  "sys_ok d \<longleftrightarrow> db_ok d \<and> results_ok d"

lemma locked_task_target_Some:
  assumes "locked_task_target gid d = Some (t, g)"
  shows "find_row g_id gid (targets d) = Some g" and "find_row t_id (g_task g) (tasks d) = Some t"
proof -
  from assms obtain g0 where g0: "find_row g_id gid (targets d) = Some g0"
    and t: "find_row t_id (g_task g0) (tasks d) = Some t"
    and f: "find (\<lambda>g. g_id g = gid \<and> g_task g = t_id t) (targets d) = Some g"
    by (auto simp: locked_task_target_def split: option.splits)
  have "t_id t = g_task g0" using find_row_Some [OF t] by simp
  with g0 f have "g = g0"
  proof (induction "targets d" arbitrary: d)
    case (Cons x xs)
    then show ?case
      using Cons.hyps(1) [of "d\<lparr>targets := xs\<rparr>"]
      by (cases "g_id x = gid") (auto simp: find_row_def simp flip: Cons.hyps(2))
  qed (simp add: find_row_def)
  with g0 t show "find_row g_id gid (targets d) = Some g" "find_row t_id (g_task g) (tasks d) = Some t" by simp_all
qed

lemma live_running: "has_live_lease t worker now \<Longrightarrow> t_status t = Running"
  by (simp add: has_live_lease_def)

lemma running_unfinished: "g_status g = Running \<Longrightarrow> \<not> target_is_terminal g"
  by (simp add: target_is_terminal_def)

text \<open>The writes of the executors keep the identity of the target.\<close>

lemma exec_writes [simp]:
  "g_id (begun_target now g) = g_id g" "w_target_begin (begun_target now g) g = begun_target now g"
  "target_snapshot_fields (begun_target now g) = target_snapshot_fields g"
  "g_id (collected_target now k i rep g) = g_id g"
  "w_target_result (collected_target now k i rep g) g = collected_target now k i rep g"
  "target_snapshot_fields (collected_target now k i rep g) = target_snapshot_fields g"
  "g_id (failed_target now m g) = g_id g" "w_target_end (failed_target now m g) g = failed_target now m g"
  "target_snapshot_fields (failed_target now m g) = target_snapshot_fields g"
  "g_id (ignored_target now j g) = g_id g" "w_target_result (ignored_target now j g) g = ignored_target now j g"
  "target_snapshot_fields (ignored_target now j g) = target_snapshot_fields g"
  "g_id (analysed_target now i a g) = g_id g" "w_target_result (analysed_target now i a g) g = analysed_target now i a g"
  "target_snapshot_fields (analysed_target now i a g) = target_snapshot_fields g"
  "g_id (published_target now k i m j g) = g_id g"
  "w_target_result (published_target now k i m j g) g = published_target now k i m j g"
  "target_snapshot_fields (published_target now k i m j g) = target_snapshot_fields g"
  "g_id (domain_target now b j m g) = g_id g" "w_target_domain (domain_target now b j m g) g = domain_target now b j m g"
  "target_snapshot_fields (domain_target now b j m g) = target_snapshot_fields g"
  "g_id (interrupted_target now g) = g_id g" "w_target_domain (interrupted_target now g) g = interrupted_target now g"
  "target_snapshot_fields (interrupted_target now g) = target_snapshot_fields g"
  by (simp_all add: begun_target_def w_target_begin_def collected_target_def w_target_result_def
      failed_target_def w_target_end_def ignored_target_def analysed_target_def published_target_def
      domain_target_def w_target_domain_def interrupted_target_def target_snapshot_fields_def)

lemma exec_attempts [simp]:
  "g_attempt_count (begun_target now g) = g_attempt_count g + 1"
  "g_attempt_count (collected_target now k i rep g) = g_attempt_count g"
  "g_attempt_count (failed_target now m g) = g_attempt_count g"
  "g_attempt_count (ignored_target now j g) = g_attempt_count g"
  "g_attempt_count (analysed_target now i a g) = g_attempt_count g"
  "g_attempt_count (published_target now k i m j g) = g_attempt_count g"
  "g_attempt_count (domain_target now b j m g) = g_attempt_count g"
  "g_attempt_count (interrupted_target now g) = g_attempt_count g"
  by (simp_all add: begun_target_def collected_target_def failed_target_def ignored_target_def
      analysed_target_def published_target_def domain_target_def interrupted_target_def)

lemma sys_ok_save_target:
  assumes ok: "sys_ok d" and g: "find_row g_id gid (targets d) = Some g"
    and t: "find_row t_id (g_task g) (tasks d) = Some t" and run: "t_status t = Running"
    and nt: "\<not> target_is_terminal g" and s: "save_target rt w g' d = Inr d'"
    and g': "g_id g' = g_id g" "target_snapshot_fields g' = target_snapshot_fields g"
      "g_attempt_count g \<le> g_attempt_count g'" "w g' g = g'"
  shows "sys_ok d' \<and> evolution d d'"
proof -
  have "g_id g' = gid" using g'(1) find_row_Some [OF g] by simp
  moreover have dok: "db_ok d" and rok: "results_ok d" using ok by (simp_all add: sys_ok_def)
  ultimately have *: "db_ok d' \<and> evolution d d'"
    by (intro save_target_ok(1) [OF dok g t run nt s _ g'(2-4)])
  then have "results_ok d'" using results_ok_same [OF rok _ save_target_results [OF s]] by blast
  with * show ?thesis unfolding sys_ok_def by blast
qed

lemma sys_ok_cong:
  "tasks e = tasks d \<Longrightarrow> targets e = targets d \<Longrightarrow> results e = results d \<Longrightarrow> sys_ok e = sys_ok d"
  using db_ok_cong [of e d] by (simp add: sys_ok_def results_ok_def result_ok_def)

text \<open>Storing a result row and ending its target, in one transaction.\<close>

lemma publish_result_ok:
  assumes ok: "sys_ok d" and g: "find_row g_id gid (targets d) = Some g"
    and t: "find_row t_id (g_task g) (tasks d) = Some t" and run: "t_status t = Running"
    and nt: "\<not> target_is_terminal g"
    and c: "create_result r d = Inr d1" and d2: "tasks d2 = tasks d1" "targets d2 = targets d1" "results d2 = results d1"
    and s: "save_target rt w g' d2 = Inr d'"
    and g': "g_id g' = g_id g" "target_snapshot_fields g' = target_snapshot_fields g"
      "g_attempt_count g \<le> g_attempt_count g'" "w g' g = g'"
    and r: "r_target r = g_id g" "target_is_terminal g'" "g_status g' = r_status r"
      "g_result_type g' = r_kind r" "g_result_id g' = r_id r"
  shows "sys_ok d' \<and> evolution d d'"
proof -
  have gid: "g_id g = gid" using find_row_Some [OF g] by simp
  from c have d1: "d1 = d\<lparr>results := results d @ [r]\<rparr>"
    and fresh: "\<And>x. x \<in> set (results d) \<Longrightarrow> r_kind x = r_kind r \<Longrightarrow> r_target x \<noteq> r_target r"
    by (auto simp: create_result_def list_ex_iff split: if_splits)
  have ok2: "db_ok d2" using ok d2 db_ok_cong [of d2 d] d1 by (simp add: sys_ok_def)
  have g2: "find_row g_id gid (targets d2) = Some g" and t2: "find_row t_id (g_task g) (tasks d2) = Some t"
    using g t d2 d1 by simp_all
  note st = save_target_ok [OF ok2 g2 t2 run nt s g'(1) [unfolded gid] g'(2-4)]
  have evo: "evolution d d'"
    using st(1) d1 d2 by (simp add: evolution_def)
  have res: "results d' = results d @ [r]" using save_target_results [OF s] d2(3) d1 by simp
  have "result_ok d' r" using st(2) r by (simp add: result_ok_def gid)
  moreover have "x \<in> set (results d) \<Longrightarrow> result_ok d' x" for x
    using ok result_ok_evolves [OF _ evo] by (simp add: sys_ok_def results_ok_def)
  moreover have "distinct (map (\<lambda>r. (r_kind r, r_target r)) (results d @ [r]))"
  proof -
    have "(r_kind r, r_target r) \<notin> (\<lambda>r. (r_kind r, r_target r)) ` set (results d)"
      using fresh by (metis (no_types, lifting) imageE prod.inject)
    then show ?thesis using ok by (simp add: sys_ok_def results_ok_def)
  qed
  ultimately have "results_ok d'" by (auto simp: results_ok_def res)
  with st(1) evo show ?thesis by (simp add: sys_ok_def)
qed

text \<open>Expiring results of ended targets touches only their snapshots.\<close>

lemma task_ok_cong:
  assumes "map g_status gs' = map g_status gs"
  shows "task_ok t gs' = task_ok t gs"
proof -
  have len: "length gs' = length gs" using assms by (rule map_eq_imp_length_eq)
  have all: "(\<forall>g \<in> set gs'. P (g_status g)) \<longleftrightarrow> (\<forall>g \<in> set gs. P (g_status g))" for P
    using arg_cong [OF assms, of "list_all P"] by (simp add: list_all_iff)
  have cnt: "length (filter (\<lambda>g. P (g_status g)) gs') = length (filter (\<lambda>g. P (g_status g)) gs)" for P
    using arg_cong [OF assms, of "\<lambda>xs. length (filter P xs)"] by (simp add: filter_map comp_def)
  have ne: "gs' = [] \<longleftrightarrow> gs = []" using len by (metis length_0_conv)
  show ?thesis
    unfolding task_ok_def running_target_def target_is_terminal_def
    by (simp only: len ne all [of "\<lambda>s. s \<noteq> Running"] all [of terminal_status] cnt [of "\<lambda>s. s = Success"])
qed

lemma expire_snapshot_simps [simp]:
  "g_id (expire_snapshot g) = g_id g" "g_task (expire_snapshot g) = g_task g"
  "g_status (expire_snapshot g) = g_status g" "target_evo g (expire_snapshot g)"
  by (simp_all add: expire_snapshot_def target_evo_def target_snapshot_fields_def target_view_def)

lemma retouch_ok:
  assumes ok: "sys_ok d" and d': "tasks d' = tasks d" "targets d' = upd_rows p expire_snapshot (targets d)"
    "results d' = filter q (results d)"
  shows "sys_ok d' \<and> evolution d d'"
proof -
  have ids: "map g_id (targets d') = map g_id (targets d)" "map g_task (targets d') = map g_task (targets d)"
    unfolding d' by (simp_all add: upd_rows_keys)
  have of': "targets_of i d' = upd_rows p expire_snapshot (targets_of i d)" for i
    by (simp add: targets_of_def d' filter_upd_rows)
  have "task_ok t (targets_of i d') = task_ok t (targets_of i d)" for t i
    by (rule task_ok_cong) (simp add: of' upd_rows_keys)
  moreover have "(\<forall>g \<in> set (targets d'). g_task g \<in> A) = (\<forall>g \<in> set (targets d). g_task g \<in> A)" for A
    using arg_cong [OF ids(2), of "list_all (\<lambda>i. i \<in> A)"] by (simp add: list_all_iff)
  ultimately have dok: "db_ok d'" using ok ids(1) by (simp add: sys_ok_def db_ok_def d'(1))
  have evo: "evolution d d'"
    unfolding evolution_def d'(1)
  proof (intro conjI allI impI)
    fix i g assume "find_row g_id i (targets d) = Some g"
    then show "\<exists>g'. find_row g_id i (targets d') = Some g' \<and> target_evo g g'"
      unfolding d'(2) by (subst find_row_upd) auto
  qed auto
  have "results_ok d'"
    using ok by (intro results_ok_evolves [OF _ evo d'(3)]) (simp add: sys_ok_def)
  with dok evo show ?thesis by (simp add: sys_ok_def)
qed

lemma persist_analysis_split:
  assumes ok: "sys_ok d" and p: "persist_analysis now rid a t g d = Inr d2"
    and g: "find_row g_id gid (targets d) = Some g" and nt: "\<not> target_is_terminal g"
  obtains e where "sys_ok e" "evolution d e" "create_result (analysis_record now rid a t g) e = Inr d2"
    "find_row g_id gid (targets e) = Some g" "tasks e = tasks d"
proof -
  let ?r = "analysis_record now rid a t g"
  from p obtain d1 where d1: "create_result ?r d = Inr d1"
    and d2: "d2 = d1 \<or> d2 = remove_analysis_results (\<lambda>x. r_kind x = r_kind ?r \<and> r_daily x = r_daily ?r \<and> r_id x \<noteq> rid) d1"
    by (auto simp: persist_analysis_def Let_def bindr_Inr_iff split: if_splits)
  from d1 have d1': "d1 = d\<lparr>results := results d @ [?r]\<rparr>"
    and fresh: "\<not> list_ex (\<lambda>x. r_kind x = r_kind ?r \<and> (r_id x = r_id ?r \<or> r_target x = r_target ?r)) (results d)"
    by (simp_all add: create_result_def split: if_splits)
  show thesis
  proof (cases "d2 = d1")
    case True
    then show thesis using ok d1 g by (intro that [of d]) simp_all
  next
    case False
    define rows where "rows = take 200 (sort_key (\<lambda>r. - r_created_at r)
      (filter (\<lambda>x. (r_kind x = r_kind ?r \<and> r_daily x = r_daily ?r \<and> r_id x \<noteq> rid) \<and> alert_processing_complete d1 x) (results d1)))"
    define e where "e = d\<lparr>targets := upd_rows (\<lambda>g. g_id g \<in> r_target ` set rows) expire_snapshot (targets d),
      results := filter (\<lambda>r. r \<notin> set rows) (results d)\<rparr>"
    have rows: "x \<in> set (results d)" "r_id x \<noteq> rid" if "x \<in> set rows" for x
    proof -
      from that have "x \<in> set (results d1) \<and> r_id x \<noteq> rid"
        unfolding rows_def by (auto dest!: in_set_takeD)
      moreover have "r_id ?r = rid" by (simp add: analysis_record_def)
      ultimately show "x \<in> set (results d)" "r_id x \<noteq> rid" by (auto simp: d1')
    qed
    have keep: "?r \<notin> set rows" using rows(2) by (force simp: analysis_record_def)
    have eq: "d2 = e\<lparr>results := results e @ [?r]\<rparr>"
    proof -
      have "d2 = d1\<lparr>targets := upd_rows (\<lambda>g. g_id g \<in> r_target ` set rows) expire_snapshot (targets d1),
          results := filter (\<lambda>r. r \<notin> set rows) (results d1)\<rparr>"
        using False d2 unfolding remove_analysis_results_def Let_def rows_def by blast
      then show ?thesis using keep by (simp add: e_def d1')
    qed
    have ne: "g_id g \<notin> r_target ` set rows"
    proof
      assume "g_id g \<in> r_target ` set rows"
      then obtain x where x: "x \<in> set rows" "r_target x = g_id g" by auto
      have "result_ok d x" using ok rows(1) [OF x(1)] by (simp add: sys_ok_def results_ok_def)
      then show False using g nt x(2) find_row_Some [OF g] by (simp add: result_ok_def)
    qed
    have "sys_ok e \<and> evolution d e" by (rule retouch_ok [OF ok]) (simp_all add: e_def)
    moreover have "create_result ?r e = Inr d2"
      using fresh by (auto simp: create_result_def eq e_def list_ex_iff)
    moreover have "find_row g_id gid (targets e) = Some g"
      unfolding e_def using g ne by (simp add: find_row_upd)
    ultimately show thesis by (intro that [of e]) (simp_all add: e_def)
  qed
qed

section \<open>Each executor\<close>

theorem begin_target_ok:
  assumes ok: "sys_ok d" and b: "begin_target rt now gid worker guard ea d = Inr (d', r)"
  shows "sys_ok d' \<and> evolution d d'"
proof (cases "d' = d")
  case False
  from b False obtain t g where l: "locked_task_target gid d = Some (t, g)" and live: "has_live_lease t worker now"
    and q: "g_status g = Queued" and s: "save_target rt w_target_begin (begun_target now g) d = Inr d'"
    by (auto simp: begin_target_def bindr_Inr_iff split: option.splits prod.splits if_splits)
  show ?thesis
    by (rule sys_ok_save_target [OF ok locked_task_target_Some [OF l] live_running [OF live] _ s])
      (use q in \<open>simp_all add: target_is_terminal_def\<close>)
qed (use ok in simp)

theorem persist_collection_ok:
  assumes ok: "sys_ok d"
    and b: "persist_collection rt now now2 guard guard2 gid worker report rid d = Inr (d', oc)"
  shows "sys_ok d' \<and> evolution d d'"
proof (cases "d' = d")
  case False
  from b False obtain t g kind d1 where l: "locked_task_target gid d = Some (t, g)"
    and live: "has_live_lease t worker now" and run: "g_status g = Running"
    and c: "create_result (inspection_record now kind rid (report t g) g) d = Inr d1"
    and s: "save_target rt w_target_result (collected_target now kind rid (report t g) g)
        (if rep_status (report t g) \<noteq> RSuccess \<or> rep_findings (report t g)
         then d1\<lparr>result_errors := result_errors d1 @ [rid]\<rparr> else d1) = Inr d'"
    by (auto simp: persist_collection_def Let_def bindr_Inr_iff split: option.splits prod.splits if_split_asm)
  show ?thesis
    by (rule publish_result_ok [OF ok locked_task_target_Some [OF l] live_running [OF live] running_unfinished [OF run] c _ _ _ s])
      (cases "rep_status (report t g)";
        simp add: inspection_record_def collected_target_def target_is_terminal_def target_snapshot_fields_def w_target_result_def)+
qed (use ok in simp)

theorem analysis_failure_ok:
  assumes ok: "sys_ok d"
    and b: "analysis_failure rt now now2 guard guard2 gid worker message ea d = Inr (d', oc)"
  shows "sys_ok d' \<and> evolution d d'"
proof (cases "d' = d")
  case False
  from b False obtain t g where l: "locked_task_target gid d = Some (t, g)"
    and live: "has_live_lease t worker now" and run: "g_status g = Running"
    and s: "save_target rt w_target_end (failed_target now (take 4096 (sanitize rt message)) g) d = Inr d'"
    by (auto simp: analysis_failure_def Let_def bindr_Inr_iff split: option.splits prod.splits if_split_asm)
  show ?thesis
    by (rule sys_ok_save_target [OF ok locked_task_target_Some [OF l] live_running [OF live] running_unfinished [OF run] s]) simp_all
qed (use ok in simp)

theorem persist_analysis_result_ok:
  assumes ok: "sys_ok d"
    and b: "persist_analysis_result rt now now2 guard guard2 gid worker prepared rid ea d = Inr (d', oc)"
  shows "sys_ok d' \<and> evolution d d'"
proof (cases "d' = d")
  case False
  from b False obtain t g where l: "locked_task_target gid d = Some (t, g)"
    and live: "has_live_lease t worker now" and run: "g_status g = Running"
    by (auto simp: persist_analysis_result_def split: option.splits prod.splits if_split_asm)
  note rows = locked_task_target_Some [OF l]
  note tr = live_running [OF live] and nt = running_unfinished [OF run]
  consider "save_target rt w_target_result (ignored_target now2 msg_log_ignored g) d = Inr d'"
    | msg where "analysis_failure rt now now2 guard guard2 gid worker msg (Some ea) d = Inr (d', oc)"
    | a d1 where "persist_analysis now2 rid a t g d = Inr d1"
        "save_target rt w_target_result (analysed_target now2 rid a g) d1 = Inr d'"
    using b False l
    by (auto simp: persist_analysis_result_def bindr_Inr_iff split: option.splits sum.splits if_split_asm)
  then show ?thesis
  proof cases
    case 1
    show ?thesis by (rule sys_ok_save_target [OF ok rows tr nt 1]) simp_all
  next
    case 2
    then show ?thesis by (rule analysis_failure_ok [OF ok])
  next
    case 3
    obtain e where e: "sys_ok e" "evolution d e" "create_result (analysis_record now2 rid a t g) e = Inr d1"
      "find_row g_id gid (targets e) = Some g" "tasks e = tasks d"
      by (rule persist_analysis_split [OF ok 3(1) rows(1) nt])
    have te: "find_row t_id (g_task g) (tasks e) = Some t" using rows(2) e(5) by simp
    have "sys_ok d' \<and> evolution e d'"
      by (rule publish_result_ok [OF e(1,4) te tr nt e(3) refl refl refl 3(2)])
        (cases "an_status a"; simp add: analysis_record_def analysed_target_def target_is_terminal_def
           target_snapshot_fields_def w_target_result_def)+
    then show ?thesis using e(2) evolution_trans by blast
  qed
qed (use ok in simp)

lemma get_row_Inr: "get_row key i rows = Inr r \<longleftrightarrow> find_row key i rows = Some r"
  by (auto simp: get_row_def split: option.splits)

lemma fenced_running: "fenced t g worker now guard ea \<Longrightarrow> t_status t = Running \<and> \<not> target_is_terminal g"
  using live_running running_unfinished unfolding fenced_def by blast

lemma sys_ok_frame:
  assumes "sys_ok e \<and> evolution d e" and "tasks f = tasks e" "targets f = targets e" "results f = results e"
  shows "sys_ok f \<and> evolution d f"
  using assms(1) sys_ok_cong [OF assms(2-4)] evolution_cong [OF assms(2,3)] by simp

lemma people_end_ok:
  assumes ok: "sys_ok d" and rows: "find_row g_id gid (targets d) = Some g" "find_row t_id (g_task g) (tasks d) = Some t"
    and run: "t_status t = Running" "\<not> target_is_terminal g"
    and b: "people_end rt now s t g out d = Inr (d', oc)"
  shows "sys_ok d' \<and> evolution d d'"
proof -
  from b obtain e where
    s: "save_target rt w_target_result
      (published_target now (task_type_value (t_type t)) (t_id t) (snd out) (fst out) g) d = Inr e"
    and d': "d' = (if snd out = [] \<and> t_type t = PeopleTest
      then e\<lparr>people_sources := upd_row ps_id (ps_id s) (\<lambda>r. r\<lparr>ps_last_tested_at := Some now\<rparr>) (people_sources e)\<rparr>
      else e)"
    unfolding people_end_def Let_def bindr_Inr_iff by blast
  have "sys_ok e \<and> evolution d e"
    by (rule sys_ok_save_target [OF ok rows run s]) simp_all
  then show ?thesis by (rule sys_ok_frame) (simp_all add: d')
qed

theorem people_publish_ok:
  assumes ok: "sys_ok d" and b: "people_publish rt now gid ea worker result error guard d = Inr (d', oc)"
  shows "sys_ok d' \<and> evolution d d'"
proof (cases "d' = d")
  case False
  from b False obtain t g s where rows: "find_row g_id gid (targets d) = Some g" "find_row t_id (g_task g) (tasks d) = Some t"
    and fence: "fenced t g worker now guard ea"
    and e: "people_end rt now s t g (checked_result s t result error) d = Inr (d', oc)"
    by (auto simp: people_publish_def bindr_Inr_iff get_row_Inr split: if_split_asm)
  show ?thesis using fenced_running [OF fence] by (intro people_end_ok [OF ok rows _ _ e]) simp_all
qed (use ok in simp)

lemma store_access_events_tables:
  "store_access_events rt now s evs t d = Inr e \<Longrightarrow> tasks e = tasks d \<and> targets e = targets d \<and> results e = results d"
  by (auto simp: store_access_events_def bindr_Inr_iff)

lemma access_end_ok:
  assumes ok: "sys_ok d" and rows: "find_row g_id gid (targets d) = Some g" "find_row t_id (g_task g) (tasks d) = Some t"
    and run: "t_status t = Running" "\<not> target_is_terminal g"
    and b: "access_end rt now s t g events error d = Inr (d', oc)"
  shows "sys_ok d' \<and> evolution d d'"
proof -
  from b obtain e e' j where
    e: "(if error = [] then store_access_events rt now s events t d else Inr d) = Inr e"
    and s: "save_target rt w_target_result (published_target now (task_type_value (t_type t)) (t_id t) error j g) e = Inr e'"
    and d': "d' = (if error \<noteq> [] then e'\<lparr>access_sources := upd_row as_id (as_id s)
        (\<lambda>r. r\<lparr>as_last_error := error\<rparr>) (access_sources e')\<rparr> else e')"
    unfolding access_end_def Let_def bindr_Inr_iff by blast
  have te: "tasks e = tasks d \<and> targets e = targets d \<and> results e = results d"
    using e store_access_events_tables by (cases "error = []") auto
  then have oke: "sys_ok e" using ok sys_ok_cong [of e d] by simp
  have "sys_ok e' \<and> evolution e e'"
    by (rule sys_ok_save_target [OF oke _ _ run s]) (use rows te in simp_all)
  then have "sys_ok e' \<and> evolution d e'" using te by (simp add: evolution_def)
  then show ?thesis by (rule sys_ok_frame) (simp_all add: d')
qed

theorem access_publish_ok:
  assumes ok: "sys_ok d" and b: "access_publish rt now gid ea worker events error guard d = Inr (d', oc)"
  shows "sys_ok d' \<and> evolution d d'"
proof (cases "d' = d")
  case False
  from b False obtain t g s err where rows: "find_row g_id gid (targets d) = Some g" "find_row t_id (g_task g) (tasks d) = Some t"
    and fence: "fenced t g worker now guard ea" and e: "access_end rt now s t g events err d = Inr (d', oc)"
    by (auto simp: access_publish_def bindr_Inr_iff get_row_Inr split: if_split_asm)
  show ?thesis using fenced_running [OF fence] by (intro access_end_ok [OF ok rows _ _ e]) simp_all
qed (use ok in simp)

theorem domain_sync_publish_ok:
  assumes ok: "sys_ok d" and b: "domain_sync_publish rt now now2 gid ea worker applied error guard d = Inr (d', oc)"
  shows "sys_ok d' \<and> evolution d d'"
proof (cases "d' = d")
  case False
  from b False obtain t g m j where rows: "find_row g_id gid (targets d) = Some g" "find_row t_id (g_task g) (tasks d) = Some t"
    and fence: "fenced t g worker now guard ea"
    and s: "save_target rt w_target_result (published_target now2 (asc ''domain_sync'') (t_id t) m j g) d = Inr d'"
    by (auto simp: domain_sync_publish_def bindr_Inr_iff get_row_Inr Let_def split: if_split_asm)
  show ?thesis
    by (rule sys_ok_save_target [OF ok rows _ _ s]) (use fenced_running [OF fence] in simp_all)
qed (use ok in simp)

theorem persist_domain_outcome_ok:
  assumes ok: "sys_ok d"
    and b: "persist_domain_outcome rt scrub now guard gid worker success error ctx stage details mirror d = Inr (d', oc)"
  shows "sys_ok d' \<and> evolution d d'"
proof (cases "d' = d")
  case False
  from b False obtain t g j m where rows: "find_row g_id gid (targets d) = Some g" "find_row t_id (g_task g) (tasks d) = Some t"
    and live: "has_live_lease t worker now" and run: "g_status g = Running"
    and s: "save_target rt w_target_domain (domain_target now success j m g) d = Inr d'"
    by (auto simp: persist_domain_outcome_def Let_def bindr_Inr_iff split: option.splits if_split_asm)
  show ?thesis
    by (rule sys_ok_save_target [OF ok rows live_running [OF live] running_unfinished [OF run] s]) simp_all
qed (use ok in simp)

lemma interrupt_loop_ok:
  assumes "sys_ok d" and "foldr_res (\<lambda>g d. save_target rt w_target_domain (interrupted_target now g) d) gs d = Inr d'"
    and "distinct (map g_id gs)"
    and "\<And>g. g \<in> set gs \<Longrightarrow> find_row g_id (g_id g) (targets d) = Some g \<and> g_task g = i \<and> \<not> target_is_terminal g"
    and "\<exists>t. find_row t_id i (tasks d) = Some t \<and> t_status t = Running"
  shows "sys_ok d' \<and> evolution d d'"
  using assms
proof (induction gs arbitrary: d)
  case (Cons g gs)
  from Cons.prems(2) obtain e where s: "save_target rt w_target_domain (interrupted_target now g) d = Inr e"
    and rest: "foldr_res (\<lambda>g d. save_target rt w_target_domain (interrupted_target now g) d) gs e = Inr d'"
    by (auto simp: bindr_Inr_iff)
  from Cons.prems(5) obtain t where t: "find_row t_id i (tasks d) = Some t" "t_status t = Running" by blast
  have g: "find_row g_id (g_id g) (targets d) = Some g" "g_task g = i" "\<not> target_is_terminal g"
    using Cons.prems(4) [of g] by simp_all
  have tg: "find_row t_id (g_task g) (tasks d) = Some t" using t(1) g(2) by simp
  have dok: "db_ok d" using Cons.prems(1) by (simp add: sys_ok_def)
  have one: "sys_ok e \<and> evolution d e"
    by (rule sys_ok_save_target [OF Cons.prems(1) g(1) tg t(2) g(3) s]) simp_all
  note eff = save_target_ok [OF dok g(1) tg t(2) g(3) s, simplified]
  obtain t' where t': "find_row t_id i (tasks e) = Some t'" "core t' = core t" using eff(4) g(2) by auto
  have rest_rows: "find_row g_id (g_id x) (targets e) = Some x \<and> g_task x = i \<and> \<not> target_is_terminal x"
    if x: "x \<in> set gs" for x
  proof -
    have "g_id x \<noteq> g_id g" using Cons.prems(3) x by (auto dest: sym)
    then have "find_row g_id (g_id x) (targets e) = find_row g_id (g_id x) (targets d)"
      unfolding eff(3) by (intro find_row_upd_other) auto
    then show ?thesis using Cons.prems(4) [of x] x by simp
  qed
  have "sys_ok d' \<and> evolution e d'"
  proof (rule Cons.IH [OF _ rest])
    show "\<exists>t. find_row t_id i (tasks e) = Some t \<and> t_status t = Running"
      using t' core_eqD(2) [OF t'(2)] t(2) by simp
  qed (use one Cons.prems(3) rest_rows in simp_all)
  then show ?case using one evolution_trans by blast
qed simp

theorem abort_password_targets_ok:
  assumes ok: "sys_ok d" and b: "abort_password_targets rt now i worker generation d = Inr (d', n)"
  shows "sys_ok d' \<and> evolution d d'"
proof (cases "d' = d")
  case False
  let ?gs = "filter (\<lambda>g. g_status g \<in> {Queued, Running}) (ordered_targets i d)"
  from b False obtain t where t: "find_row t_id i (tasks d) = Some t" and live: "has_live_lease t worker now"
    and l: "foldr_res (\<lambda>g d. save_target rt w_target_domain (interrupted_target now g) d) ?gs d = Inr d'"
    by (auto simp: abort_password_targets_def Let_def bindr_Inr_iff split: option.splits if_split_asm)
  have dok: "db_ok d" using ok by (simp add: sys_ok_def)
  note facts = filter_targets_facts [OF dok]
  have inj: "inj_on g_id (set (targets d))" using facts(1) by (simp add: distinct_map)
  have "distinct (map g_id ?gs)"
    using facts(2) inj_on_subset [OF inj facts(3)] by (simp add: distinct_map)
  moreover have "find_row g_id (g_id g) (targets d) = Some g \<and> g_task g = i \<and> \<not> target_is_terminal g"
    if g: "g \<in> set ?gs" for g
    using find_row_mem [OF facts(1)] facts(3,4) g by (auto simp: target_is_terminal_def)
  ultimately show ?thesis
    using t live_running [OF live] by (intro interrupt_loop_ok [OF ok l]) auto
qed (use ok in simp)

lemma mark_running_tables [simp]:
  "tasks (fst (mark_domain_operation_running now i worker n d)) = tasks d"
  "targets (fst (mark_domain_operation_running now i worker n d)) = targets d"
  "results (fst (mark_domain_operation_running now i worker n d)) = results d"
  by (simp_all add: mark_domain_operation_running_def split: option.splits)

end
