(* ===== verification/Enqueue.thy ===== *)
theory Enqueue
  imports TaskExecProofs
begin

text \<open>
  Creation of tasks: \<open>net/inspections/queue.py\<close> (\<open>_normalize_target_ids\<close>, \<open>_validated_target_inputs\<close>,
  \<open>_enqueue_task\<close>), \<open>net/people/tasks.py\<close>, \<open>net/access/tasks.py\<close> and \<open>net/domain/sync_tasks.py\<close>, with the
  \<open>save\<close> of a new \<open>TaskRun\<close> and \<open>TaskTargetRun\<close>. Fresh primary keys are arguments: \<open>i\<close> of the task and \<open>gid k\<close>
  of its \<open>k\<close>-th target.
\<close>

section \<open>Saving new rows\<close>

definition insert_task :: "runtime \<Rightarrow> task \<Rightarrow> db \<Rightarrow> (db \<times> task) res" where
  "insert_task rt t d =
     (if t_type t = DomainOperation \<and> run_checks (sensitive_checks rt t) \<noteq> []
      then Inl (ValidationError (run_checks (sensitive_checks rt t)))
      else bindr (build_scope_key rt (task_type_value (t_type t)) (task_profile_key rt t) (t_target_scope_snapshot t))
        (\<lambda>key. let t = rekeyed t key in
           if task_constraints t \<and> task_unique_errs (tasks d) t = []
              \<and> \<not> list_ex (\<lambda>r. t_id r = t_id t) (tasks d)
           then Inr (d\<lparr>tasks := tasks d @ [t]\<rparr>, t) else Inl IntegrityError))"

definition insert_target :: "runtime \<Rightarrow> target \<Rightarrow> db \<Rightarrow> db res" where
  "insert_target rt g d =
     (let is_domain = (case find_row t_id (g_task g) (tasks d) of
                         None \<Rightarrow> False | Some t \<Rightarrow> t_type t = DomainOperation);
          sensitive = run_checks
            [(contains_sensitive_payload rt (g_snapshot g), ''target_snapshot'', ''sensitive''),
             (contains_sensitive_payload rt (g_result_snapshot g), ''result_snapshot'', ''sensitive'')]
      in if is_domain \<and> sensitive \<noteq> [] then Inl (ValidationError sensitive)
         else if target_unique_errs (targets d) g = [] \<and> \<not> list_ex (\<lambda>r. g_id r = g_id g) (targets d)
                 \<and> list_ex (\<lambda>t. t_id t = g_task g) (tasks d)
         then Inr (d\<lparr>targets := targets d @ [g]\<rparr>) else Inl IntegrityError)"

text \<open>The field defaults of a new row.\<close>

definition new_task :: "ustring \<Rightarrow> time \<Rightarrow> task_type \<Rightarrow> task_source \<Rightarrow> time \<Rightarrow> nat \<Rightarrow> task" where
  "new_task i now ttype source available n = \<lparr>t_id = i, t_type = ttype, t_source = source,
     t_inspection_profile = None, t_analysis_profile = None, t_schedule = None, t_people_source = None,
     t_people_applied_at = None, t_alert_summary_processed_at = None, t_alert_summary_attempted_at = None,
     t_alert_summary_error = [], t_status = Queued, t_progress = 0, t_available_at = available,
     t_started_at = None, t_finished_at = None, t_lease_expires_at = None, t_worker_id = [],
     t_attempt_count = 0, t_error_summary = [], t_profile_snapshot = JObj [], t_parameters_snapshot = JObj [],
     t_selected_items_snapshot = JList [], t_target_scope_snapshot = JObj [], t_scope_key = [],
     t_active_scope_key = None, t_total_targets = n, t_completed_targets = 0, t_successful_targets = 0,
     t_failed_targets = 0, t_created_at = now\<rparr>"

definition new_target :: "ustring \<Rightarrow> time \<Rightarrow> ustring \<Rightarrow> target_type \<Rightarrow> ustring \<Rightarrow> json \<Rightarrow> target" where
  "new_target i now task ty tid snap = \<lparr>g_id = i, g_task = task, g_type = ty, g_target_id = tid,
     g_snapshot = snap, g_execution_scope_key = None, g_status = Queued, g_attempt_count = 0,
     g_started_at = None, g_finished_at = None, g_result_type = [], g_result_id = [],
     g_result_snapshot = JObj [], g_error_message = [], g_alert_processed_at = None,
     g_alert_attempted_at = None, g_alert_processing_error = [], g_created_at = now\<rparr>"

text \<open>
  \<open>task.scope_key = build_scope_key(...); task.active_scope_key = task.scope_key\<close>, the query for an
  active task of the same scope (its message is \<open>clash\<close>), \<open>full_clean\<close>; then the rows are saved.
\<close>

definition scoped :: "runtime \<Rightarrow> ustring \<Rightarrow> task \<Rightarrow> task res" where
  "scoped rt profile_id t =
     bindr (build_scope_key rt (task_type_value (t_type t)) profile_id (t_target_scope_snapshot t))
       (\<lambda>key. Inr (t\<lparr>t_scope_key := key, t_active_scope_key := Some key\<rparr>))"

definition scope_active :: "ustring \<Rightarrow> db \<Rightarrow> bool" where
  "scope_active key d \<longleftrightarrow> list_ex (\<lambda>r. t_active_scope_key r = Some key) (tasks d)"

section \<open>Target identifiers\<close>

text \<open>\<open>_normalize_target_ids\<close>: an entry is an identifier or a mapping with its declared type and snapshot.\<close>

definition target_entry_id :: "runtime \<Rightarrow> ustring \<Rightarrow> json \<Rightarrow> ustring res" where
  "target_entry_id rt expected entry =
     (if is_obj entry then
        (if jget_or ''target_type'' (JStr expected) entry \<noteq> JStr expected
         then Inl (ValidationError [(''target_type'', ''must_match'')])
         else let snap = jget_or ''target_snapshot'' (jget_or ''snapshot'' JNull entry) entry;
                  tid = jget_or ''target_id'' (jget_or ''id'' JNull entry) entry
              in if snap \<noteq> JNull \<and> \<not> is_obj snap
                 then Inl (ValidationError [(''target_snapshot'', ''not_an_object'')])
                 else Inr (if tid = JNull then [] else py_str rt tid))
      else Inr (if entry = JNull then [] else py_str rt entry))"

definition normalize_target_ids :: "runtime \<Rightarrow> ustring \<Rightarrow> json list \<Rightarrow> ustring list res" where
  "normalize_target_ids rt expected entries =
     bindr (map_res (target_entry_id rt expected) entries) (\<lambda>ids.
       if ids = [] \<or> [] \<in> set ids then Inl (ValidationError [(''target_ids'', ''at_least_one'')])
       else if \<not> distinct ids then Inl (ValidationError [(''target_ids'', ''duplicate'')])
       else Inr (sort ids))"

section \<open>Inspection and analysis tasks\<close>

text \<open>The profile row: \<open>pf_errors\<close> is what its \<open>full_clean\<close> raises.\<close>

record profile =
  pf_id :: ustring
  pf_analysis :: bool
  pf_enabled :: bool
  pf_errors :: errs

text \<open>\<open>_task_context_for_profile\<close>, or the context of a frozen parent task: the target type, the items of the
  profile and the profile snapshot.\<close>

record context_of =
  cx_target_type :: target_type
  cx_items :: "json list"
  cx_snapshot :: "(ustring \<times> json) list"

text \<open>The optional arguments of an enqueue call. \<open>ov_available_at\<close> is \<open>Some None\<close> for a value that is not an
  aware datetime; \<open>ov_other\<close> are keys that are not supported.\<close>

record overrides =
  ov_selected_items :: "json option"
  ov_parameters :: "json option"
  ov_available_at :: "time option option"
  ov_schedule :: "ustring option"
  ov_other :: "ustring list"

definition json_text :: "json \<Rightarrow> bool" where
  "json_text j = (case j of JStr s \<Rightarrow> strip s \<noteq> [] | _ \<Rightarrow> False)"

definition selected_items_of :: "overrides \<Rightarrow> context_of \<Rightarrow> json list res" where
  "selected_items_of ov cx =
     (case (case ov_selected_items ov of None \<Rightarrow> JList (cx_items cx) | Some j \<Rightarrow> j) of
        JList items \<Rightarrow>
          if list_all json_text items \<and> distinct items then Inr items
          else Inl (ValidationError [(''selected_items'', ''unique_texts'')])
      | _ \<Rightarrow> Inl (ValidationError [(''selected_items'', ''unique_texts'')]))"

text \<open>
  \<open>_validated_target_inputs\<close>. \<open>to_pk\<close> is \<open>to_python\<close> of the primary key of the asset table followed by \<open>str\<close>
  (Django; None when it raises); \<open>assets\<close> are the rows of the table with their snapshots. The last
  step indexes the found rows by the text that the caller gave.
\<close>

definition validated_target_inputs ::
    "runtime \<Rightarrow> (ustring \<Rightarrow> ustring option) \<Rightarrow> (ustring \<times> (ustring \<times> json) list) list
     \<Rightarrow> profile \<Rightarrow> context_of \<Rightarrow> json list \<Rightarrow> json list \<Rightarrow> (ustring \<times> (ustring \<times> json) list) list res" where
  "validated_target_inputs rt to_pk assets pf cx entries items =
     (if \<not> pf_enabled pf then Inl (ValidationError [(''profile'', ''disabled'')])
      else if pf_errors pf \<noteq> [] then Inl (ValidationError [(''profile'', ''invalid'')])
      else if \<not> set items \<subseteq> set (cx_items cx)
      then Inl (ValidationError [(''selected_items'', ''only_enabled_items'')])
      else bindr (normalize_target_ids rt (target_type_value (cx_target_type cx)) entries) (\<lambda>ids.
        if list_ex (\<lambda>i. to_pk i = None) ids then Inl (ValidationError [(''target_ids'', ''malformed'')])
        else
          let found = filter (\<lambda>i. i \<in> fst ` set assets) (remdups (map (\<lambda>i. the (to_pk i)) ids))
          in if length found \<noteq> length ids then Inl (ValidationError [(''target_ids'', ''missing'')])
             else map_res (\<lambda>i. if i \<in> set found
                     then (case map_of assets i of Some s \<Rightarrow> Inr (i, s) | None \<Rightarrow> Inl LookupError)
                     else Inl LookupError) ids))"

text \<open>Daily raw backups are added to a network inspection unless every target is a Sangfor device.\<close>

definition needs_backup :: "context_of \<Rightarrow> (ustring \<times> (ustring \<times> json) list) list \<Rightarrow> bool" where
  "needs_backup cx ts \<longleftrightarrow> cx_target_type cx = TNetworkDevice
     \<and> list_ex (\<lambda>(_, s). map_of s (asc ''connection_type'') \<noteq> Some (JStr (asc ''sangfor_api''))) ts"

definition append_item :: "json list \<Rightarrow> json list" where
  "append_item items = (if JStr (asc ''config_info'') \<in> set items then items else items @ [JStr (asc ''config_info'')])"

text \<open>\<open>snapshot.get('collection_settings', {}).get('selected_items')\<close> restricts what a device supports.\<close>

definition applicable :: "json list \<Rightarrow> (ustring \<times> json) list \<Rightarrow> bool" where
  "applicable items s =
     (case map_of s (asc ''collection_settings'') of
        None \<Rightarrow> True
      | Some cs \<Rightarrow> (case jget_or ''selected_items'' JNull cs of
          JList supported \<Rightarrow> set items \<inter> set supported \<noteq> {}
        | _ \<Rightarrow> True))"

definition scope_of :: "target_type \<Rightarrow> ustring list \<Rightarrow> json" where
  "scope_of ty ids = JObj [(asc ''targets'', JList (map (\<lambda>i.
     JObj [(asc ''target_type'', JStr (target_type_value ty)), (asc ''target_id'', JStr i)]) ids))]"

text \<open>The new task row of \<open>_enqueue_task\<close>; \<open>roster\<close> is the personnel roster an analysis is frozen with.\<close>

definition profile_task ::
    "ustring \<Rightarrow> time \<Rightarrow> profile \<Rightarrow> task_source \<Rightarrow> time \<Rightarrow> ustring option \<Rightarrow> target_type \<Rightarrow> (ustring \<times> json) list
     \<Rightarrow> (ustring \<times> json) list \<Rightarrow> json list \<Rightarrow> ustring list \<Rightarrow> json \<Rightarrow> task" where
  "profile_task i now pf source available sched ty snap params items ids roster =
     (new_task i now (if pf_analysis pf then ComputerAnalysis else Inspection) source available (length ids))
       \<lparr>t_inspection_profile := (if pf_analysis pf then None else Some (pf_id pf)),
        t_analysis_profile := (if pf_analysis pf then Some (pf_id pf) else None),
        t_schedule := sched, t_profile_snapshot := JObj snap,
        t_parameters_snapshot := JObj (if pf_analysis pf
          then AList.update (asc ''personnel_roster'') roster params else params),
        t_selected_items_snapshot := JList items, t_target_scope_snapshot := scope_of ty ids\<rparr>"

text \<open>\<open>_validate_target_before_enqueue\<close>: everything that does not need the row of the task.\<close>

definition validate_target_before_enqueue :: "runtime \<Rightarrow> db \<Rightarrow> ustring \<Rightarrow> task \<Rightarrow> target \<Rightarrow> errs" where
  "validate_target_before_enqueue rt d device_type t g =
     target_clean_fields g @ target_clean rt (Some t) (Some device_type) g"

text \<open>The saves in one savepoint; an \<open>IntegrityError\<close> on a scope that became active is reported as a clash.\<close>

definition save_run :: "runtime \<Rightarrow> errs \<Rightarrow> task \<Rightarrow> target list \<Rightarrow> db \<Rightarrow> (db \<times> task) res" where
  "save_run rt clash t gs d =
     (case bindr (insert_task rt t d) (\<lambda>(d, t). bindr (foldr_res (insert_target rt) gs d) (\<lambda>d. Inr (d, t))) of
        Inl IntegrityError \<Rightarrow>
          if scope_active (t_scope_key t) d then Inl (ValidationError clash) else Inl IntegrityError
      | r \<Rightarrow> r)"

definition create_profile_run ::
    "runtime \<Rightarrow> (nat \<Rightarrow> ustring) \<Rightarrow> time \<Rightarrow> ustring \<Rightarrow> task \<Rightarrow> target_type
     \<Rightarrow> (ustring \<times> (ustring \<times> json) list) list \<Rightarrow> db \<Rightarrow> (db \<times> task) res" where
  "create_profile_run rt gid now pid t ty ts d =
     bindr (scoped rt pid t) (\<lambda>t.
       if scope_active (t_scope_key t) d then Inl (ValidationError [(''target_ids'', ''active_task'')])
       else bindr (validated (task_full_clean rt (tasks d) (schedule_of d t) t) t) (\<lambda>t.
         let gs = map (\<lambda>(k, i, s). new_target (gid k) now (t_id t) ty i (JObj s)) (enumerate 0 ts)
         in bindr (foldr_res (\<lambda>g u. validated (validate_target_before_enqueue rt d (target_type_value ty) t g) u) gs ())
              (\<lambda>_. save_run rt [(''target_ids'', ''active_task'')] t gs d)))"

text \<open>The second half of \<open>_enqueue_task\<close>: the backup item, the devices the items apply to, the rows.\<close>

definition kept_targets :: "profile \<Rightarrow> json list \<Rightarrow> (ustring \<times> (ustring \<times> json) list) list
    \<Rightarrow> (ustring \<times> (ustring \<times> json) list) list" where
  "kept_targets pf items ts = (if pf_analysis pf then ts else filter (\<lambda>x. applicable items (snd x)) ts)"

definition skipped_params :: "profile \<Rightarrow> json list \<Rightarrow> (ustring \<times> (ustring \<times> json) list) list
    \<Rightarrow> (ustring \<times> json) list \<Rightarrow> (ustring \<times> json) list" where
  "skipped_params pf items ts params =
     (let skipped = (if pf_analysis pf then [] else map fst (filter (\<lambda>x. \<not> applicable items (snd x)) ts))
      in if skipped = [] then params
         else AList.update (asc ''inapplicable_target_ids'') (JList (map JStr skipped)) params)"

definition create_from_targets ::
    "runtime \<Rightarrow> ustring \<Rightarrow> (nat \<Rightarrow> ustring) \<Rightarrow> time \<Rightarrow> profile \<Rightarrow> context_of \<Rightarrow> bool \<Rightarrow> json \<Rightarrow> task_source
     \<Rightarrow> ustring option \<Rightarrow> time \<Rightarrow> (ustring \<times> json) list \<Rightarrow> json list
     \<Rightarrow> (ustring \<times> (ustring \<times> json) list) list \<Rightarrow> db \<Rightarrow> (db \<times> task) res" where
  "create_from_targets rt i gid now pf cx frozen roster source sched available params items ts d =
     (let backup = needs_backup cx ts;
          items = (if backup then append_item items else items);
          snap = (if backup \<and> \<not> frozen
                  then AList.update (asc ''selected_items'') (JList items) (cx_snapshot cx)
                  else cx_snapshot cx);
          kept = kept_targets pf items ts
      in if kept = [] then Inl (ValidationError [(''selected_items'', ''no_applicable_device'')])
         else create_profile_run rt gid now (pf_id pf)
           (profile_task i now pf source available sched (cx_target_type cx) snap
              (skipped_params pf items ts params) items (map fst kept) roster)
           (cx_target_type cx) kept d)"

definition enqueue_task ::
    "runtime \<Rightarrow> (ustring \<Rightarrow> ustring option) \<Rightarrow> (ustring \<times> (ustring \<times> json) list) list \<Rightarrow> ustring
     \<Rightarrow> (nat \<Rightarrow> ustring) \<Rightarrow> time \<Rightarrow> profile \<Rightarrow> context_of \<Rightarrow> bool \<Rightarrow> json \<Rightarrow> json list \<Rightarrow> task_source \<Rightarrow> overrides \<Rightarrow> db
     \<Rightarrow> (db \<times> task) res" where
  "enqueue_task rt to_pk assets i gid now pf cx frozen roster entries source ov d =
     (if ov_other ov \<noteq> [] then Inl (ValidationError [(''overrides'', ''unsupported'')])
      else bindr (selected_items_of ov cx) (\<lambda>items.
        case (case ov_parameters ov of None \<Rightarrow> JObj [] | Some p \<Rightarrow> p) of
          JObj params \<Rightarrow>
            (case (case ov_available_at ov of None \<Rightarrow> Some now | Some a \<Rightarrow> a) of
               None \<Rightarrow> Inl (ValidationError [(''available_at'', ''aware_datetime'')])
             | Some available \<Rightarrow>
                 bindr (validated_target_inputs rt to_pk assets pf cx entries items) (\<lambda>ts.
                   create_from_targets rt i gid now pf cx frozen roster source (ov_schedule ov) available
                     params items ts d))
        | _ \<Rightarrow> Inl (ValidationError [(''parameters'', ''not_an_object'')])))"

section \<open>The invariant\<close>

lemma insert_task_Inr:
  assumes "insert_task rt t d = Inr (d', t')"
  shows "d' = d\<lparr>tasks := tasks d @ [t']\<rparr>" and "\<exists>k. t' = rekeyed t k" and "task_constraints t'"
    and "task_unique_errs (tasks d) t' = []" and "t_id t' \<notin> t_id ` set (tasks d)"
proof -
  from assms obtain k where "t' = rekeyed t k" "d' = d\<lparr>tasks := tasks d @ [t']\<rparr>" "task_constraints t'"
    "task_unique_errs (tasks d) t' = []" "\<not> list_ex (\<lambda>r. t_id r = t_id t') (tasks d)"
    unfolding insert_task_def Let_def bindr_Inr_iff by (auto split: if_split_asm simp: bindr_Inr_iff)
  then show "d' = d\<lparr>tasks := tasks d @ [t']\<rparr>" "\<exists>k. t' = rekeyed t k" "task_constraints t'"
    "task_unique_errs (tasks d) t' = []" "t_id t' \<notin> t_id ` set (tasks d)"
    by (auto simp: list_ex_iff)
qed

lemma insert_targets_Inr:
  assumes "foldr_res (insert_target rt) gs d = Inr d'" and "distinct (map g_id (targets d))"
  shows "d' = d\<lparr>targets := targets d @ gs\<rparr> \<and> distinct (map g_id (targets d @ gs))"
  using assms
proof (induction gs arbitrary: d)
  case (Cons g gs)
  from Cons.prems(1) obtain e where e: "insert_target rt g d = Inr e" and r: "foldr_res (insert_target rt) gs e = Inr d'"
    by (auto simp: bindr_Inr_iff)
  from e have e': "e = d\<lparr>targets := targets d @ [g]\<rparr>" "g_id g \<notin> g_id ` set (targets d)"
    by (auto simp: insert_target_def Let_def list_ex_iff split: if_split_asm)
  from Cons.IH [OF r] e' Cons.prems(2) show ?case by (simp add: image_iff)
qed simp

lemma unique_active_insert:
  assumes "unique_active ts" and "task_unique_errs ts t = []" and "t_id t \<notin> t_id ` set ts"
  shows "unique_active (ts @ [t])"
proof -
  have *: "t_active_scope_key r \<noteq> t_active_scope_key t" if r: "r \<in> set ts" and k: "t_active_scope_key t \<noteq> None" for r
  proof -
    have "t_id r \<noteq> t_id t" using assms(3) r by (metis image_eqI)
    then show ?thesis using assms(2) r k by (auto simp: task_unique_errs_def run_checks_Nil list_ex_iff)
  qed
  then show ?thesis
    unfolding unique_active_def
  proof (intro ballI impI)
    fix a b assume a: "a \<in> set (ts @ [t])" and b: "b \<in> set (ts @ [t])"
      and k: "t_active_scope_key a \<noteq> None" "t_active_scope_key b = t_active_scope_key a"
    consider "a = t" "b = t" | "a \<in> set ts" "b = t" | "a = t" "b \<in> set ts" | "a \<in> set ts" "b \<in> set ts"
      using a b by auto
    then show "t_id b = t_id a"
    proof cases
      case 4
      then show ?thesis using assms(1) k unfolding unique_active_def by blast
    qed (use * k in fastforce)+
  qed
qed

lemma insert_run_ok:
  assumes ok: "sys_ok d" and t: "insert_task rt t d = Inr (d1, t')" and gs: "foldr_res (insert_target rt) gs d1 = Inr d'"
    and new: "t_status t = Queued" "t_attempt_count t = 0" "t_total_targets t = length gs" "gs \<noteq> []"
    and own: "\<And>g. g \<in> set gs \<Longrightarrow> g_task g = t_id t \<and> g_status g = Queued"
  shows "sys_ok d' \<and> evolution d d' \<and> find_row t_id (t_id t) (tasks d') = Some t' \<and> targets_of (t_id t) d' = gs"
proof -
  note ti = insert_task_Inr [OF t]
  have dok: "db_ok d" using ok by (simp add: sys_ok_def)
  obtain k where k: "t' = rekeyed t k" using ti(2) by blast
  have dg: "distinct (map g_id (targets d1))" using dok ti(1) by (simp add: db_ok_def)
  have d': "d' = d\<lparr>tasks := tasks d @ [t'], targets := targets d @ gs\<rparr>" and dg': "distinct (map g_id (targets d @ gs))"
    using insert_targets_Inr [OF gs dg] ti(1) by simp_all
  have idt: "t_id t' = t_id t" by (simp add: k)
  have old: "g_task g \<noteq> t_id t" if "g \<in> set (targets d)" for g
    using dok that ti(5) unfolding db_ok_def idt by metis
  have tg_new: "targets_of (t_id t) d' = gs"
    using old own by (auto simp: d' targets_of_def filter_empty_conv filter_id_conv)
  have tg_old: "targets_of j d' = targets_of j d" if "j \<noteq> t_id t" for j
    using own that by (auto simp: d' targets_of_def filter_empty_conv)
  have tnew: "find_row t_id (t_id t) (tasks d') = Some t'"
  proof -
    have "find_row t_id (t_id t) (tasks d) = None" using ti(5) idt by (simp add: find_row_None)
    then show ?thesis by (simp add: d' find_row_append) (simp add: find_row_def idt)
  qed
  have tok: "task_ok t' gs"
    using ti(3) new own by (simp add: task_ok_def k rekeyed_def max_task_attempts_def running_target_def)
  have "task_ok u (targets_of (t_id u) d')" if "u \<in> set (tasks d')" for u
  proof (cases "u = t'")
    case True
    then show ?thesis using tok tg_new idt by simp
  next
    case False
    then have u: "u \<in> set (tasks d)" using that by (simp add: d')
    then have "t_id u \<noteq> t_id t" using ti(5) idt by (metis image_eqI)
    then show ?thesis using dok u tg_old by (simp add: db_ok_def)
  qed
  moreover have "distinct (map t_id (tasks d'))" using dok ti(5) by (simp add: d' db_ok_def)
  moreover have "\<forall>g \<in> set (targets d'). g_task g \<in> t_id ` set (tasks d')"
    using dok own idt by (auto simp: d' db_ok_def)
  moreover have "unique_active (tasks d')"
    using unique_active_insert [OF _ ti(4,5)] dok by (simp add: d' db_ok_def)
  ultimately have dok': "db_ok d'" using dg' by (simp add: db_ok_def d')
  have evo: "evolution d d'" unfolding evolution_def d' by (auto simp: find_row_append)
  have "results_ok d'" using ok by (intro results_ok_same [OF _ evo]) (simp_all add: sys_ok_def d')
  with dok' evo tnew tg_new show ?thesis by (simp add: sys_ok_def)
qed

end
