(* ===== verification/EnqueueSources.thy ===== *)
theory EnqueueSources
  imports Enqueue
begin

text \<open>
  Single target tasks: directory operations and the scheduled directory synchronisation
  (\<open>net/people/tasks.py\<close>), access record collection (\<open>net/access/tasks.py\<close>) and the synchronisation of the
  domain directory (\<open>net/domain/sync_tasks.py\<close>). Then the invariant of every enqueue function.
\<close>

section \<open>One task with one target\<close>

definition single_run ::
    "runtime \<Rightarrow> ustring \<Rightarrow> time \<Rightarrow> task \<Rightarrow> target_type \<Rightarrow> ustring \<Rightarrow> json \<Rightarrow> db \<Rightarrow> (db \<times> task) res" where
  "single_run rt gid now t ty tid snap d =
     bindr (validated (task_full_clean rt (tasks d) (schedule_of d t) t) t) (\<lambda>t.
     bindr (insert_task rt t d) (\<lambda>(d, t).
       let g = new_target gid now (t_id t) ty tid snap in
       bindr (validated (target_full_clean rt d g) g) (\<lambda>g.
       bindr (insert_target rt g d) (\<lambda>d. Inr (d, t)))))"

text \<open>\<open>except IntegrityError: raise ValidationError(...)\<close>\<close>

fun integrity_to :: "errs \<Rightarrow> 'a res \<Rightarrow> 'a res" where
  "integrity_to es (Inl IntegrityError) = Inl (ValidationError es)"
| "integrity_to es r = r"

definition one_target_scope :: "target_type \<Rightarrow> ustring \<Rightarrow> json" where
  "one_target_scope ty i = scope_of ty [i]"

definition identity_json :: "ustring \<times> ustring \<Rightarrow> json" where
  "identity_json p = JObj [(asc ''source_key'', JStr (fst p)), (asc ''digest'', JStr (snd p))]"

section \<open>Directory tasks\<close>

text \<open>\<open>pub\<close> is \<open>public_data()\<close> of the source row, \<open>pub_errors\<close> what its \<open>full_clean\<close> raises, \<open>digest\<close> the keyed
  digest of the session key.\<close>

definition people_task :: "ustring \<Rightarrow> time \<Rightarrow> task_type \<Rightarrow> people_source \<Rightarrow> json \<Rightarrow> ustring \<Rightarrow> task" where
  "people_task i now ttype s pub digest = (new_task i now ttype Manual now 1)
     \<lparr>t_people_source := Some (ps_id s), t_profile_snapshot := pub,
      t_target_scope_snapshot := one_target_scope TPeopleSource (ps_id s),
      t_parameters_snapshot := JObj [(asc ''owner_session_digest'', JStr digest),
        (asc ''concurrent_workers'', JInt 1), (asc ''fetch_configuration_identity'', identity_json (ps_identity s))]\<rparr>"

definition enqueue_people_task ::
    "runtime \<Rightarrow> ustring \<Rightarrow> ustring \<Rightarrow> time \<Rightarrow> ustring \<Rightarrow> task_type \<Rightarrow> ustring \<Rightarrow> ustring \<Rightarrow> json \<Rightarrow> errs \<Rightarrow> db
     \<Rightarrow> (db \<times> task) res" where
  "enqueue_people_task rt i gid now sid ttype session digest pub pub_errors d =
     (if ttype \<notin> set people_task_types \<or> session = []
      then Inl (ValidationError [(''__all__'', ''invalid_operation_or_session'')])
      else integrity_to [(''__all__'', ''active_operation'')]
        (case find_row ps_id sid (people_sources d) of
           None \<Rightarrow> Inl (ValidationError [(''__all__'', ''invalid_source'')])
         | Some s \<Rightarrow>
             if \<not> ps_enabled s then Inl (ValidationError [(''__all__'', ''source_disabled'')])
             else if pub_errors \<noteq> [] then Inl (ValidationError pub_errors)
             else if ttype = PeoplePreview \<and> jget ''connection_test_current'' pub \<noteq> Some (JBool True)
             then Inl (ValidationError [(''__all__'', ''test_connection_first'')])
             else bindr (scoped rt (ps_id s) (people_task i now ttype s pub digest)) (\<lambda>t.
               if scope_active (t_scope_key t) d then Inl (ValidationError [(''__all__'', ''active_operation'')])
               else single_run rt gid now t TPeopleSource (ps_id s) pub d)))"

text \<open>\<open>time.isoformat()\<close> of a time of day in microseconds.\<close>

definition two_digits :: "int \<Rightarrow> ustring" where
  "two_digits n = [48 + nat (n div 10), 48 + nat (n mod 10)]"

definition pad_digits :: "nat \<Rightarrow> int \<Rightarrow> ustring" where
  "pad_digits k n = (let ds = nat_digits (nat n) in replicate (k - length ds) 48 @ ds)"

definition time_of_day_text :: "int \<Rightarrow> ustring" where
  "time_of_day_text us =
     (let s = us div 1000000; frac = us mod 1000000
      in two_digits (s div 3600) @ 58 # two_digits (s div 60 mod 60) @ 58 # two_digits (s mod 60)
         @ (if frac = 0 then [] else 46 # pad_digits 6 frac))"

fun unit_value :: "interval_unit \<Rightarrow> ustring" where
  "unit_value NoUnit = []"
| "unit_value USeconds = asc ''seconds''"
| "unit_value UMinutes = asc ''minutes''"
| "unit_value UHours = asc ''hours''"

definition schedule_json :: "schedule \<Rightarrow> json" where
  "schedule_json s = JObj
     [(asc ''kind'', JStr (case s_kind s of Interval \<Rightarrow> asc ''interval'' | Daily \<Rightarrow> asc ''daily'')),
      (asc ''interval_value'', (case s_interval_value s of None \<Rightarrow> JNull | Some n \<Rightarrow> JInt (int n))),
      (asc ''interval_unit'', JStr (unit_value (s_interval_unit s))),
      (asc ''daily_time'', (case s_daily_time s of None \<Rightarrow> JNull | Some t \<Rightarrow> JStr (time_of_day_text t)))]"

definition people_sync_task :: "ustring \<Rightarrow> time \<Rightarrow> time \<Rightarrow> schedule \<Rightarrow> people_source \<Rightarrow> json \<Rightarrow> task" where
  "people_sync_task i now available sched s pub = (new_task i now PeopleSync Scheduled available 1)
     \<lparr>t_people_source := Some (ps_id s), t_schedule := Some (s_id sched), t_profile_snapshot := pub,
      t_target_scope_snapshot := one_target_scope TPeopleSource (ps_id s),
      t_parameters_snapshot := JObj [(asc ''concurrent_workers'', JInt 1),
        (asc ''fetch_configuration_identity'', identity_json (ps_identity s)),
        (asc ''schedule'', schedule_json sched)]\<rparr>"

text \<open>\<open>provider_key\<close> is the source key of the provider definition of the source's type.\<close>

definition enqueue_people_sync_task ::
    "runtime \<Rightarrow> ustring \<Rightarrow> ustring \<Rightarrow> time \<Rightarrow> time \<Rightarrow> ustring \<Rightarrow> ustring \<Rightarrow> json \<Rightarrow> errs \<Rightarrow> db \<Rightarrow> (db \<times> task) res" where
  "enqueue_people_sync_task rt i gid now available sched_id provider_key pub pub_errors d =
     integrity_to [(''__all__'', ''active_sync'')]
       (case find_row s_id sched_id (schedules d) of
          None \<Rightarrow> Inl LookupError
        | Some sched \<Rightarrow>
          (case (case s_people_source sched of None \<Rightarrow> None | Some sid \<Rightarrow> find_row ps_id sid (people_sources d)) of
             None \<Rightarrow> Inl (ValidationError [(''__all__'', ''invalid_plan'')])
           | Some s \<Rightarrow>
               if \<not> s_is_enabled sched \<or> \<not> ps_enabled s \<or> fst (ps_identity s) \<noteq> provider_key
                  \<or> jget ''connection_test_current'' pub \<noteq> Some (JBool True)
               then Inl (ValidationError [(''__all__'', ''plan_not_ready'')])
               else if pub_errors \<noteq> [] then Inl (ValidationError pub_errors)
               else bindr (scoped rt (ps_id s) (people_sync_task i now available sched s pub)) (\<lambda>t.
                 if scope_active (t_scope_key t) d then Inl (ValidationError [(''__all__'', ''active_sync'')])
                 else single_run rt gid now t TPeopleSource (ps_id s) pub d)))"

section \<open>Access record collection\<close>

definition max_sync_window :: time where
  "max_sync_window = seconds (7 * 86400)"

definition access_task :: "runtime \<Rightarrow> ustring \<Rightarrow> time \<Rightarrow> access_source \<Rightarrow> json \<Rightarrow> time \<Rightarrow> time \<Rightarrow> task" where
  "access_task rt i now s pub start_at end_at = (new_task i now AccessSync Manual now 1)
     \<lparr>t_profile_snapshot := pub, t_target_scope_snapshot := one_target_scope TAccessSource (as_id s),
      t_parameters_snapshot := JObj [(asc ''concurrent_workers'', JInt 1),
        (asc ''source_configuration_identity'', JStr (as_identity s)),
        (asc ''window_start'', JStr (isoformat rt start_at)), (asc ''window_end'', JStr (isoformat rt end_at))]\<rparr>"

text \<open>One iteration of the loop, a transaction of its own; \<open>lookback\<close> is in minutes. The window starts at the
  given time, else at the cursor, else at the lookback.\<close>

definition enqueue_access_one ::
    "runtime \<Rightarrow> ustring \<Rightarrow> ustring \<Rightarrow> time \<Rightarrow> (ustring \<Rightarrow> json) \<Rightarrow> (ustring \<Rightarrow> nat) \<Rightarrow> time option \<Rightarrow> time
     \<Rightarrow> ustring \<Rightarrow> db \<Rightarrow> (db \<times> task) res" where
  "enqueue_access_one rt i gid now pub lookback start_at end_at sid d =
     integrity_to [(''__all__'', ''active_collection'')]
       (case find_row as_id sid (access_sources d) of
          None \<Rightarrow> Inl (ValidationError [(''__all__'', ''invalid_source'')])
        | Some s \<Rightarrow>
            if \<not> as_enabled s then Inl (ValidationError [(''__all__'', ''source_disabled'')])
            else
              let start = (case start_at of Some t \<Rightarrow> t | None \<Rightarrow> (case as_cursor_at s of Some c \<Rightarrow> c
                            | None \<Rightarrow> end_at - seconds (60 * int (lookback sid))))
              in if start \<ge> end_at \<or> end_at - start > max_sync_window
                 then Inl (ValidationError [(''__all__'', ''window'')])
                 else bindr (scoped rt (as_id s) (access_task rt i now s (pub sid) start end_at)) (\<lambda>t.
                   single_run rt gid now t TAccessSource (as_id s) (pub sid) d))"

text \<open>The loop: the transactions before a failure stay committed.\<close>

fun enqueue_access_loop ::
    "(ustring \<Rightarrow> db \<Rightarrow> (db \<times> task) res) \<Rightarrow> ustring list \<Rightarrow> task list \<Rightarrow> db \<Rightarrow> db \<times> task list res" where
  "enqueue_access_loop f [] done d = (d, Inr done)"
| "enqueue_access_loop f (i # is) done d =
     (case f i d of Inl e \<Rightarrow> (d, Inl e) | Inr (d', t) \<Rightarrow> enqueue_access_loop f is (done @ [t]) d')"

definition dedupe :: "'a list \<Rightarrow> 'a list" where
  "dedupe xs = rev (remdups (rev xs))"

definition enqueue_access_sync ::
    "runtime \<Rightarrow> (ustring \<Rightarrow> ustring) \<Rightarrow> (ustring \<Rightarrow> ustring) \<Rightarrow> time \<Rightarrow> (ustring \<Rightarrow> json) \<Rightarrow> (ustring \<Rightarrow> nat)
     \<Rightarrow> ustring list \<Rightarrow> time option \<Rightarrow> time option \<Rightarrow> task_source \<Rightarrow> db \<Rightarrow> db \<times> task list res" where
  "enqueue_access_sync rt i gid now pub lookback sids start_at end_at source d =
     (if source \<noteq> Manual then (d, Inl (ValidationError [(''__all__'', ''manual_only'')]))
      else let end_at = (case end_at of Some e \<Rightarrow> e | None \<Rightarrow> now) in
        enqueue_access_loop (\<lambda>sid. enqueue_access_one rt (i sid) (gid sid) now pub lookback start_at end_at sid)
          (dedupe sids) [] d)"

section \<open>Domain directory synchronisation\<close>

text \<open>The row of the domain controller configuration.\<close>

record domain_config =
  cf_name :: ustring
  cf_host :: ustring
  cf_base_dn :: ustring
  cf_bind_username :: ustring
  cf_updated_at :: time

definition domain_sync_task :: "runtime \<Rightarrow> ustring \<Rightarrow> time \<Rightarrow> time \<Rightarrow> schedule option \<Rightarrow> domain_config \<Rightarrow> task" where
  "domain_sync_task rt i now available sched c =
     (new_task i now DomainSync (if sched = None then Manual else Scheduled) available 1)
       \<lparr>t_schedule := map_option s_id sched,
        t_profile_snapshot := JObj [(asc ''name'', JStr [22495, 25511, 21516, 27493]), (asc ''host'', JStr (cf_host c))],
        t_parameters_snapshot := JObj [(asc ''config_version'', JStr (isoformat rt (cf_updated_at c))),
          (asc ''concurrent_workers'', JInt 1)],
        t_target_scope_snapshot := JObj [(asc ''target_type'', JStr (asc ''domain_config'')),
          (asc ''target_ids'', JList [JStr (asc ''1'')])]\<rparr>"

definition active_of_type :: "task_type \<Rightarrow> db \<Rightarrow> bool" where
  "active_of_type ty d \<longleftrightarrow> list_ex (\<lambda>t. t_type t = ty \<and> active_status (t_status t)) (tasks d)"

definition enqueue_domain_sync ::
    "runtime \<Rightarrow> ustring \<Rightarrow> ustring \<Rightarrow> time \<Rightarrow> time option \<Rightarrow> schedule option \<Rightarrow> domain_config option \<Rightarrow> db
     \<Rightarrow> (db \<times> task) res" where
  "enqueue_domain_sync rt i gid now available sched config d = (case config of
     None \<Rightarrow> Inl (ValidationError [(''__all__'', ''save_settings_first'')])
   | Some c \<Rightarrow>
       if cf_host c = [] \<or> cf_base_dn c = [] \<or> cf_bind_username c = []
       then Inl (ValidationError [(''__all__'', ''save_settings_first'')])
       else if (case sched of None \<Rightarrow> False
                | Some s \<Rightarrow> s_domain_config s \<noteq> Some (asc ''1'') \<or> \<not> s_is_enabled s)
       then Inl (ValidationError [(''__all__'', ''plan_invalid'')])
       else if active_of_type DomainOperation d
       then Inl (ValidationError [(''__all__'', ''operation_active'')])
       else if active_of_type DomainSync d
       then Inl (ValidationError [(''__all__'', ''sync_active'')])
       else bindr (scoped rt (asc ''None'')
              (domain_sync_task rt i now (case available of Some a \<Rightarrow> a | None \<Rightarrow> now) sched c)) (\<lambda>t.
         single_run rt gid now t TDomainConfig (asc ''1'')
           (JObj [(asc ''name'', JStr (cf_name c)), (asc ''host'', JStr (cf_host c))]) d))"

section \<open>The invariant\<close>

lemma scoped_Inr: "scoped rt pid t = Inr t' \<Longrightarrow> \<exists>k. t' = t\<lparr>t_scope_key := k, t_active_scope_key := Some k\<rparr>"
  by (auto simp: scoped_def bindr_Inr_iff)

lemma single_run_ok:
  assumes ok: "sys_ok d" and s: "single_run rt gid now t ty tid snap d = Inr (d', t')"
    and new: "t_status t = Queued" "t_attempt_count t = 0" "t_total_targets t = 1"
  shows "sys_ok d' \<and> evolution d d' \<and> find_row t_id (t_id t) (tasks d') = Some t'
    \<and> targets_of (t_id t) d' = [new_target gid now (t_id t) ty tid snap]"
proof -
  from s [unfolded single_run_def bindr_Inr_iff validated_Inr] obtain x where
    x: "insert_task rt t d = Inr x"
    and rest: "(case x of (d, t) \<Rightarrow> let g = new_target gid now (t_id t) ty tid snap in
       bindr (validated (target_full_clean rt d g) g) (\<lambda>g. bindr (insert_target rt g d) (\<lambda>d. Inr (d, t)))) = Inr (d', t')"
    by blast
  obtain d1 t1 where x': "x = (d1, t1)" by (cases x)
  from rest x' have g: "insert_target rt (new_target gid now (t_id t1) ty tid snap) d1 = Inr d'" and "t1 = t'"
    by (auto simp: Let_def bindr_Inr_iff)
  obtain k where k: "t1 = rekeyed t k" using insert_task_Inr(2) x x' by blast
  let ?g = "new_target gid now (t_id t) ty tid snap"
  have "foldr_res (insert_target rt) [?g] d1 = Inr d'" using g by (simp add: k)
  from insert_run_ok [OF ok x [unfolded x'] this new(1,2)] new(3) \<open>t1 = t'\<close>
  show ?thesis by (simp add: new_target_def)
qed

lemma new_task_simps [simp]:
  "t_status (new_task i now ty src av n) = Queued" "t_attempt_count (new_task i now ty src av n) = 0"
  "t_total_targets (new_task i now ty src av n) = n" "t_id (new_task i now ty src av n) = i"
  by (simp_all add: new_task_def)

lemma integrity_to_Inr: "integrity_to es r = Inr x \<longleftrightarrow> r = Inr x"
  by (cases "(es, r)" rule: integrity_to.cases) auto

theorem enqueue_people_task_ok:
  assumes ok: "sys_ok d" and e: "enqueue_people_task rt i gid now sid ttype session digest pub es d = Inr (d', t')"
  shows "sys_ok d' \<and> evolution d d' \<and> find_row t_id i (tasks d') = Some t'"
proof -
  from e obtain s t where sc: "scoped rt (ps_id s) (people_task i now ttype s pub digest) = Inr t"
    and r: "single_run rt gid now t TPeopleSource (ps_id s) pub d = Inr (d', t')"
    by (auto simp: enqueue_people_task_def integrity_to_Inr bindr_Inr_iff split: option.splits if_split_asm)
  from scoped_Inr [OF sc] obtain k where
    t: "t = (people_task i now ttype s pub digest)\<lparr>t_scope_key := k, t_active_scope_key := Some k\<rparr>" ..
  have ti: "t_id t = i" by (simp add: t people_task_def)
  show ?thesis
    using single_run_ok [OF ok r] unfolding ti by (simp add: t people_task_def)
qed

theorem enqueue_people_sync_task_ok:
  assumes ok: "sys_ok d"
    and e: "enqueue_people_sync_task rt i gid now available sched_id provider_key pub es d = Inr (d', t')"
  shows "sys_ok d' \<and> evolution d d' \<and> find_row t_id i (tasks d') = Some t'"
proof -
  from e obtain s sched t where sc: "scoped rt (ps_id s) (people_sync_task i now available sched s pub) = Inr t"
    and r: "single_run rt gid now t TPeopleSource (ps_id s) pub d = Inr (d', t')"
    by (auto simp: enqueue_people_sync_task_def integrity_to_Inr bindr_Inr_iff split: option.splits if_split_asm)
  from scoped_Inr [OF sc] obtain k where
    t: "t = (people_sync_task i now available sched s pub)\<lparr>t_scope_key := k, t_active_scope_key := Some k\<rparr>" ..
  have ti: "t_id t = i" by (simp add: t people_sync_task_def)
  show ?thesis
    using single_run_ok [OF ok r] unfolding ti by (simp add: t people_sync_task_def)
qed

theorem enqueue_access_one_ok:
  assumes ok: "sys_ok d" and e: "enqueue_access_one rt i gid now pub lookback start_at end_at sid d = Inr (d', t')"
  shows "sys_ok d' \<and> evolution d d' \<and> find_row t_id i (tasks d') = Some t'"
proof -
  from e obtain s start t where sc: "scoped rt (as_id s) (access_task rt i now s (pub sid) start end_at) = Inr t"
    and r: "single_run rt gid now t TAccessSource (as_id s) (pub sid) d = Inr (d', t')"
    by (auto simp: enqueue_access_one_def Let_def integrity_to_Inr bindr_Inr_iff split: option.splits if_split_asm)
  from scoped_Inr [OF sc] obtain k where
    t: "t = (access_task rt i now s (pub sid) start end_at)\<lparr>t_scope_key := k, t_active_scope_key := Some k\<rparr>" ..
  have ti: "t_id t = i" by (simp add: t access_task_def)
  show ?thesis
    using single_run_ok [OF ok r] unfolding ti by (simp add: t access_task_def)
qed

theorem enqueue_domain_sync_ok:
  assumes ok: "sys_ok d" and e: "enqueue_domain_sync rt i gid now available sched config d = Inr (d', t')"
  shows "sys_ok d' \<and> evolution d d' \<and> find_row t_id i (tasks d') = Some t'"
proof -
  from e obtain c av snap t where sc: "scoped rt (asc ''None'') (domain_sync_task rt i now av sched c) = Inr t"
    and r: "single_run rt gid now t TDomainConfig (asc ''1'') snap d = Inr (d', t')"
    by (auto simp: enqueue_domain_sync_def bindr_Inr_iff split: option.split_asm if_split_asm)
  from scoped_Inr [OF sc] obtain k where
    t: "t = (domain_sync_task rt i now av sched c)\<lparr>t_scope_key := k, t_active_scope_key := Some k\<rparr>" ..
  have ti: "t_id t = i" by (simp add: t domain_sync_task_def)
  show ?thesis
    using single_run_ok [OF ok r] unfolding ti by (simp add: t domain_sync_task_def)
qed

lemma create_profile_run_ok:
  assumes ok: "sys_ok d" and e: "create_profile_run rt gid now pid t ty ts d = Inr (d', t')"
    and new: "t_status t = Queued" "t_attempt_count t = 0" "t_total_targets t = length ts" "ts \<noteq> []"
  shows "sys_ok d' \<and> evolution d d' \<and> find_row t_id (t_id t) (tasks d') = Some t'"
proof -
  let ?gs = "\<lambda>t. map (\<lambda>(k, i, s). new_target (gid k) now (t_id t) ty i (JObj s)) (enumerate 0 ts)"
  from e [unfolded create_profile_run_def bindr_Inr_iff] obtain t1 where sc: "scoped rt pid t = Inr t1"
    and rest: "(if scope_active (t_scope_key t1) d then Inl (ValidationError [(''target_ids'', ''active_task'')])
       else bindr (validated (task_full_clean rt (tasks d) (schedule_of d t1) t1) t1) (\<lambda>t.
         let gs = ?gs t
         in bindr (foldr_res (\<lambda>g u. validated (validate_target_before_enqueue rt d (target_type_value ty) t g) u) gs ())
              (\<lambda>_. save_run rt [(''target_ids'', ''active_task'')] t gs d))) = Inr (d', t')"
    by blast
  from scoped_Inr [OF sc] obtain k where t1: "t1 = t\<lparr>t_scope_key := k, t_active_scope_key := Some k\<rparr>" ..
  from rest have "save_run rt [(''target_ids'', ''active_task'')] t1 (?gs t1) d = Inr (d', t')"
    by (simp split: if_split_asm add: bindr_Inr_iff Let_def)
  then have "bindr (insert_task rt t1 d) (\<lambda>(d, t). bindr (foldr_res (insert_target rt) (?gs t1) d) (\<lambda>d. Inr (d, t)))
      = Inr (d', t')"
    unfolding save_run_def by (auto split: sum.split_asm exc.split_asm if_split_asm)
  then obtain d1 where i: "insert_task rt t1 d = Inr (d1, t')"
    and g: "foldr_res (insert_target rt) (?gs t1) d1 = Inr d'"
    unfolding bindr_Inr_iff by (auto simp: bindr_Inr_iff)
  have "sys_ok d' \<and> evolution d d' \<and> find_row t_id (t_id t1) (tasks d') = Some t' \<and> targets_of (t_id t1) d' = ?gs t1"
    by (rule insert_run_ok [OF ok i g])
      (use new in \<open>auto simp: t1 new_target_def dest: arg_cong [of _ _ length]\<close>)
  then show ?thesis by (simp add: t1)
qed

lemma option_case_Inr: "(case x of None \<Rightarrow> Inl e | Some a \<Rightarrow> f a) = Inr y \<Longrightarrow> \<exists>a. x = Some a \<and> f a = Inr y"
  by (cases x) auto

lemma object_case_Inr: "(case j of JObj x \<Rightarrow> f x | _ \<Rightarrow> Inl e) = Inr y \<Longrightarrow> \<exists>x. j = JObj x \<and> f x = Inr y"
  by (cases j) auto

theorem enqueue_task_ok:
  assumes ok: "sys_ok d"
    and e: "enqueue_task rt to_pk assets i gid now pf cx frozen roster entries source ov d = Inr (d', t')"
  shows "sys_ok d' \<and> evolution d d' \<and> find_row t_id i (tasks d') = Some t'"
proof -
  from e obtain available params items ts where
    c: "create_from_targets rt i gid now pf cx frozen roster source (ov_schedule ov) available params items ts d = Inr (d', t')"
    unfolding enqueue_task_def bindr_Inr_iff
    by (auto simp: bindr_Inr_iff split: if_split_asm dest!: object_case_Inr option_case_Inr)
  then obtain snap params' items' kept where ne: "kept \<noteq> []"
    and r: "create_profile_run rt gid now (pf_id pf)
        (profile_task i now pf source available (ov_schedule ov) (cx_target_type cx) snap params'
           items' (map fst kept) roster) (cx_target_type cx) kept d = Inr (d', t')"
    unfolding create_from_targets_def Let_def by (meson Inl_Inr_False)
  have "sys_ok d' \<and> evolution d d' \<and> find_row t_id (t_id (profile_task i now pf source available (ov_schedule ov)
      (cx_target_type cx) snap params' items' (map fst kept) roster)) (tasks d') = Some t'"
    by (rule create_profile_run_ok [OF ok r _ _ _ ne]) (simp_all add: profile_task_def)
  then show ?thesis by (simp add: profile_task_def)
qed

end
