(* ===== verification/EnqueueAnalysis.thy ===== *)
theory EnqueueAnalysis
  imports EnqueueSources
begin

text \<open>
  Computer analyses: the newest retained log of each computer (\<open>net/devices/pc/analysis_scope.py\<close>) and the outer
  \<open>enqueue_task\<close> of \<open>net/inspections/queue.py\<close>, which replaces the selected logs by the newest logs of the same
  computers and refuses a computer that already has an active analysis of the profile.
\<close>

section \<open>The newest logs\<close>

record log_file =
  lf_id :: ustring
  lf_computer :: ustring
  lf_retained :: bool
  lf_collected_at :: time
  lf_hash :: ustring

text \<open>The key of a log is an integer: its decimal digits are ordered by their number first.\<close>

definition log_key :: "'a log_file_scheme \<Rightarrow> time \<times> nat \<times> ustring" where
  "log_key r = (lf_collected_at r, length (lf_id r), lf_id r)"

definition newest_log :: "log_file list \<Rightarrow> ustring \<Rightarrow> log_file option" where
  "newest_log logs c =
     first_row (rev (sort_key log_key (filter (\<lambda>r. lf_retained r \<and> lf_computer r = c) logs)))"

definition latest_logs :: "log_file list \<Rightarrow> ustring list option \<Rightarrow> log_file list" where
  "latest_logs logs computers =
     filter (\<lambda>r. lf_retained r \<and> (case computers of None \<Rightarrow> True | Some cs \<Rightarrow> lf_computer r \<in> set cs)
               \<and> map_option lf_id (newest_log logs (lf_computer r)) = Some (lf_id r)) logs"

definition log_snapshot :: "runtime \<Rightarrow> log_file \<Rightarrow> (ustring \<times> json) list" where
  "log_snapshot rt r = [(asc ''id'', JStr (lf_id r)), (asc ''computer_id'', JStr (lf_computer r)),
     (asc ''collected_at'', JStr (isoformat rt (lf_collected_at r))), (asc ''content_hash'', JStr (lf_hash r))]"

definition log_assets :: "runtime \<Rightarrow> log_file list \<Rightarrow> (ustring \<times> (ustring \<times> json) list) list" where
  "log_assets rt logs = map (\<lambda>r. (lf_id r, log_snapshot rt r)) logs"

lemma first_rev_sorted_greatest:
  assumes "first_row (rev (sort_key k rows)) = Some r" and "s \<in> set rows"
  shows "r \<in> set rows \<and> k s \<le> k r"
proof -
  obtain rs where rs: "rev (sort_key k rows) = r # rs"
    using assms(1) by (auto simp: first_row_def split: list.splits)
  then have e: "sort_key k rows = rev rs @ [r]" by (metis rev_rev_ident rev.simps(2))
  have "sorted (map k (rev rs @ [r]))" unfolding e [symmetric] by simp
  moreover have "set (rev rs @ [r]) = set rows" unfolding e [symmetric] by simp
  ultimately show ?thesis using assms(2) by (auto simp: sorted_append)
qed

lemma newest_log_None: "newest_log logs c = None \<longleftrightarrow> (\<forall>r \<in> set logs. lf_retained r \<longrightarrow> lf_computer r \<noteq> c)"
proof -
  have "newest_log logs c = None \<longleftrightarrow> filter (\<lambda>r. lf_retained r \<and> lf_computer r = c) logs = []"
    unfolding newest_log_def first_row_None rev_is_Nil_conv sort_empty ..
  then show ?thesis by (simp add: filter_empty_conv)
qed

lemma newest_log_Some:
  assumes "newest_log logs c = Some r" and "s \<in> set logs" and "lf_retained s" and "lf_computer s = c"
  shows "log_key s \<le> log_key r"
  using first_rev_sorted_greatest [OF assms(1) [unfolded newest_log_def], of s] assms(2-4) by simp

lemma newest_log_mem: "newest_log logs c = Some r \<Longrightarrow> r \<in> set logs \<and> lf_retained r \<and> lf_computer r = c"
  by (auto simp: newest_log_def dest: first_row_Some)

lemma latest_logs_iff:
  assumes "distinct (map lf_id logs)"
  shows "r \<in> set (latest_logs logs computers) \<longleftrightarrow> newest_log logs (lf_computer r) = Some r
    \<and> (case computers of None \<Rightarrow> True | Some cs \<Rightarrow> lf_computer r \<in> set cs)"
proof
  assume r: "r \<in> set (latest_logs logs computers)"
  then obtain s where s: "newest_log logs (lf_computer r) = Some s" "lf_id s = lf_id r" and m: "r \<in> set logs"
    and c: "case computers of None \<Rightarrow> True | Some cs \<Rightarrow> lf_computer r \<in> set cs"
    by (auto simp: latest_logs_def)
  have "s \<in> set logs" using newest_log_mem [OF s(1)] by simp
  then have "s = r" using assms m s(2) by (auto simp: distinct_map inj_on_def)
  then show "newest_log logs (lf_computer r) = Some r
    \<and> (case computers of None \<Rightarrow> True | Some cs \<Rightarrow> lf_computer r \<in> set cs)" using s(1) c by simp
next
  assume r: "newest_log logs (lf_computer r) = Some r
    \<and> (case computers of None \<Rightarrow> True | Some cs \<Rightarrow> lf_computer r \<in> set cs)"
  then show "r \<in> set (latest_logs logs computers)" using newest_log_mem [of logs "lf_computer r" r] by (simp add: latest_logs_def)
qed

section \<open>Enqueue\<close>

definition active_analysis_of :: "ustring \<Rightarrow> ustring \<Rightarrow> db \<Rightarrow> bool" where
  "active_analysis_of pid c d \<longleftrightarrow> list_ex (\<lambda>g. g_type g = TComputerLog
     \<and> (case find_row t_id (g_task g) (tasks d) of None \<Rightarrow> False
        | Some t \<Rightarrow> t_analysis_profile t = Some pid \<and> active_status (t_status t))
     \<and> jget ''computer_id'' (g_snapshot g) = Some (JStr c)) (targets d)"

text \<open>\<open>ComputerLogFile.objects.filter(pk__in=selected_ids)...values_list('computer_id').distinct()\<close>\<close>

definition computers_of :: "log_file list \<Rightarrow> ustring list \<Rightarrow> ustring list" where
  "computers_of logs ids = remdups (map lf_computer (filter (\<lambda>r. lf_id r \<in> set ids) logs))"

definition enqueue_analysis ::
    "runtime \<Rightarrow> (ustring \<Rightarrow> ustring option) \<Rightarrow> log_file list \<Rightarrow> ustring \<Rightarrow> (nat \<Rightarrow> ustring) \<Rightarrow> time \<Rightarrow> profile
     \<Rightarrow> context_of \<Rightarrow> bool \<Rightarrow> json \<Rightarrow> json list \<Rightarrow> task_source \<Rightarrow> overrides \<Rightarrow> db \<Rightarrow> (db \<times> task) res" where
  "enqueue_analysis rt to_pk logs i gid now pf cx frozen roster entries source ov d =
     bindr (normalize_target_ids rt (asc ''computer_log'') entries) (\<lambda>selected.
       if list_ex (\<lambda>x. to_pk x = None) selected then Inl (ValidationError [(''target_ids'', ''malformed'')])
       else
         let cs = computers_of logs (map (\<lambda>x. the (to_pk x)) selected)
         in if cs = [] then Inl (ValidationError [(''__all__'', ''no_logs'')])
            else if list_ex (\<lambda>c. active_analysis_of (pf_id pf) c d) cs
            then Inl (ValidationError [(''__all__'', ''active_analysis'')])
            else enqueue_task rt to_pk (log_assets rt logs) i gid now pf cx frozen roster
                   (map (\<lambda>r. JStr (lf_id r)) (latest_logs logs (Some cs))) source ov d)"

text \<open>\<open>enqueue_latest_analysis\<close> of a schedule: the newest log of every computer.\<close>

definition enqueue_latest_analysis ::
    "runtime \<Rightarrow> (ustring \<Rightarrow> ustring option) \<Rightarrow> log_file list \<Rightarrow> ustring \<Rightarrow> (nat \<Rightarrow> ustring) \<Rightarrow> time \<Rightarrow> profile
     \<Rightarrow> context_of \<Rightarrow> json \<Rightarrow> task_source \<Rightarrow> overrides \<Rightarrow> ustring list option \<Rightarrow> db \<Rightarrow> (db \<times> task) res" where
  "enqueue_latest_analysis rt to_pk logs i gid now pf cx roster source ov computers d =
     enqueue_analysis rt to_pk logs i gid now pf cx False roster
       (map (\<lambda>r. JStr (lf_id r)) (latest_logs logs computers)) source ov d"

lemma enqueue_analysis_task:
  assumes "enqueue_analysis rt to_pk logs i gid now pf cx frozen roster entries source ov d = Inr x"
  obtains cs where "enqueue_task rt to_pk (log_assets rt logs) i gid now pf cx frozen roster
      (map (\<lambda>r. JStr (lf_id r)) (latest_logs logs (Some cs))) source ov d = Inr x"
    and "\<And>c. c \<in> set cs \<Longrightarrow> \<not> active_analysis_of (pf_id pf) c d"
  using assms unfolding enqueue_analysis_def Let_def bindr_Inr_iff
  by (auto simp: list_ex_iff split: if_split_asm)

theorem enqueue_analysis_ok:
  assumes "sys_ok d" and "enqueue_analysis rt to_pk logs i gid now pf cx frozen roster entries source ov d = Inr (d', t')"
  shows "sys_ok d' \<and> evolution d d' \<and> find_row t_id i (tasks d') = Some t'"
  using assms by (auto elim!: enqueue_analysis_task dest: enqueue_task_ok)

text \<open>Creating a run changes the task tables only.\<close>

lemma foldr_insert_target_schedules: "foldr_res (insert_target rt) gs d = Inr d' \<Longrightarrow> schedules d' = schedules d"
  by (induction gs arbitrary: d) (auto simp: bindr_Inr_iff insert_target_def Let_def split: if_split_asm)

lemma insert_task_schedules: "insert_task rt t d = Inr (d', t') \<Longrightarrow> schedules d' = schedules d"
  using insert_task_Inr(1) [of rt t d d' t'] by simp

lemma save_run_schedules: "save_run rt es t gs d = Inr (d', t') \<Longrightarrow> schedules d' = schedules d"
  unfolding save_run_def
  by (auto simp: bindr_Inr_iff split: sum.split_asm exc.split_asm if_split_asm
      dest!: foldr_insert_target_schedules insert_task_schedules)

lemma create_profile_run_schedules: "create_profile_run rt gid now pid t ty ts d = Inr (d', t') \<Longrightarrow> schedules d' = schedules d"
  unfolding create_profile_run_def Let_def
  by (auto simp: bindr_Inr_iff split: if_split_asm dest!: save_run_schedules)

lemma create_from_targets_schedules:
  "create_from_targets rt i gid now pf cx frozen roster source sched av params items ts d = Inr (d', t')
   \<Longrightarrow> schedules d' = schedules d"
  unfolding create_from_targets_def Let_def
  by (auto split: if_split_asm dest!: create_profile_run_schedules)

lemma enqueue_task_schedules:
  "enqueue_task rt to_pk assets i gid now pf cx frozen roster entries source ov d = Inr (d', t') \<Longrightarrow> schedules d' = schedules d"
  unfolding enqueue_task_def
  by (auto simp: bindr_Inr_iff split: if_split_asm dest!: object_case_Inr option_case_Inr create_from_targets_schedules)

lemma single_run_schedules: "single_run rt gid now t ty tid snap d = Inr (d', t') \<Longrightarrow> schedules d' = schedules d"
  unfolding single_run_def Let_def
  by (auto simp: bindr_Inr_iff insert_target_def Let_def split: if_split_asm dest!: insert_task_schedules)

lemma enqueue_domain_sync_schedules: "enqueue_domain_sync rt i gid now av s c d = Inr (d', t') \<Longrightarrow> schedules d' = schedules d"
  unfolding enqueue_domain_sync_def
  by (auto simp: bindr_Inr_iff split: if_split_asm option.split_asm dest!: single_run_schedules)

lemma enqueue_people_sync_schedules:
  "enqueue_people_sync_task rt i gid now av sid key pub es d = Inr (d', t') \<Longrightarrow> schedules d' = schedules d"
  unfolding enqueue_people_sync_task_def
  by (auto simp: integrity_to_Inr bindr_Inr_iff split: if_split_asm option.splits dest!: single_run_schedules)

lemma enqueue_analysis_schedules:
  "enqueue_analysis rt to_pk logs i gid now pf cx frozen roster entries source ov d = Inr (d', t') \<Longrightarrow> schedules d' = schedules d"
  by (auto elim!: enqueue_analysis_task dest: enqueue_task_schedules)

end
