(* ===== verification/Schedules.thy ===== *)
theory Schedules
  imports EnqueueAnalysis
begin

text \<open>
  The scheduler of \<open>net/inspections/schedules.py\<close>: occurrences of a plan, the targets of a plan, and the poll
  that enqueues every due plan at most once.
\<close>

section \<open>Local time\<close>

text \<open>
  \<open>TIME_ZONE = 'Asia/Shanghai'\<close>: UTC+8 without daylight saving at every instant since 1991-09-15. A day is the
  number of its local midnight; a time of day is in microseconds.
\<close>

definition day_us :: int where "day_us = 86400000000"

definition zone_offset :: int where "zone_offset = 8 * 3600000000"

definition local_day :: "time \<Rightarrow> int" where "local_day t = (t + zone_offset) div day_us"

definition local_time :: "time \<Rightarrow> int" where "local_time t = (t + zone_offset) mod day_us"

definition instant_of :: "int \<Rightarrow> int \<Rightarrow> time" where "instant_of day tod = day * day_us + tod - zone_offset"

text \<open>What a daily plan needs of a calendar: days follow each other, and an instant of an earlier day is earlier.\<close>

locale calendar =
  fixes day :: "time \<Rightarrow> int" and tod :: "time \<Rightarrow> int" and on :: "int \<Rightarrow> int \<Rightarrow> time" and valid :: "int \<Rightarrow> bool"
  assumes at_day: "valid m \<Longrightarrow> day (on d m) = d" and at_tod: "valid m \<Longrightarrow> tod (on d m) = m"
    and at_cover: "on (day t) (tod t) = t"
    and at_mono: "valid m \<Longrightarrow> valid n \<Longrightarrow> d < e \<Longrightarrow> on d m < on e n" and tod_valid: "valid (tod t)"
begin

definition first_after :: "int \<Rightarrow> time \<Rightarrow> time" where
  "first_after m t = (if on (day t) m \<le> t then on (day t + 1) m else on (day t) m)"

lemma first_after_strict: "valid m \<Longrightarrow> t < first_after m t"
  using at_mono [of "tod t" m "day t" "day t + 1"] by (simp add: first_after_def at_cover tod_valid)

lemma first_after_tod: "valid m \<Longrightarrow> tod (first_after m t) = m"
  by (simp add: first_after_def at_tod)

lemma no_occurrence_before:
  assumes m: "valid m" and u: "t < u" "tod u = m"
  shows "first_after m t \<le> u"
proof -
  have uu: "u = on (day u) m" using at_cover [of u] u(2) by simp
  have ge: "day t \<le> day u"
  proof (rule ccontr)
    assume "\<not> day t \<le> day u"
    then have "u < t" using at_mono [OF m tod_valid [of t], of "day u" "day t"] uu at_cover by simp
    then show False using u(1) by simp
  qed
  show ?thesis
  proof (cases "on (day t) m \<le> t")
    case True
    then have "day u \<noteq> day t" using uu u(1) by (metis leD)
    then have "day u = day t + 1 \<or> day t + 1 < day u" using ge by linarith
    then have "on (day t + 1) m \<le> on (day u) m" using at_mono [OF m m] by (auto intro: less_imp_le)
    then show ?thesis using True uu by (simp add: first_after_def)
  next
    case False
    have "on (day t) m \<le> on (day u) m" using ge at_mono [OF m m, of "day t" "day u"] by (cases "day t = day u") auto
    then show ?thesis using False uu by (simp add: first_after_def)
  qed
qed

end

definition time_of_day :: "int \<Rightarrow> bool" where "time_of_day m \<longleftrightarrow> 0 \<le> m \<and> m < day_us"

interpretation shanghai: calendar local_day local_time instant_of time_of_day
proof
  show "instant_of d m < instant_of e n" if "time_of_day m" "time_of_day n" "d < e" for m n d e
  proof -
    have "d * day_us + day_us \<le> e * day_us" using mult_right_mono [of "d + 1" e day_us] that(3)
      by (simp add: day_us_def algebra_simps)
    then show ?thesis using that(1,2) by (simp add: instant_of_def time_of_day_def)
  qed
qed (auto simp: local_day_def local_time_def instant_of_def time_of_day_def day_us_def)

section \<open>Occurrences\<close>

fun unit_us :: "interval_unit \<Rightarrow> int" where
  "unit_us NoUnit = 0"
| "unit_us USeconds = seconds 1"
| "unit_us UMinutes = seconds 60"
| "unit_us UHours = seconds 3600"

definition next_run_at :: "schedule \<Rightarrow> time \<Rightarrow> time res" where
  "next_run_at s after = (case s_kind s of
     Interval \<Rightarrow>
       (case s_interval_value s of
          None \<Rightarrow> Inl (ValidationError [(''schedule'', ''interval_invalid'')])
        | Some n \<Rightarrow>
            if n = 0 \<or> s_interval_unit s = NoUnit then Inl (ValidationError [(''schedule'', ''interval_invalid'')])
            else Inr (after + int n * unit_us (s_interval_unit s)))
   | Daily \<Rightarrow>
       (case s_daily_time s of
          None \<Rightarrow> Inl (ValidationError [(''schedule'', ''daily_needs_time'')])
        | Some tod \<Rightarrow>
            let candidate = instant_of (local_day after) tod
            in Inr (if candidate \<le> after then instant_of (local_day after + 1) tod else candidate)))"

lemma next_run_daily:
  "s_kind s = Daily \<Longrightarrow> s_daily_time s = Some m \<Longrightarrow> next_run_at s after = Inr (shanghai.first_after m after)"
  by (simp add: next_run_at_def shanghai.first_after_def Let_def)

text \<open>A stored plan: the check constraint on the kind, and a time of day that is one.\<close>

definition schedule_ok :: "schedule \<Rightarrow> bool" where
  "schedule_ok s \<longleftrightarrow> schedule_kind_fields_ck s \<and> (\<forall>m. s_daily_time s = Some m \<longrightarrow> time_of_day m)"

lemma next_run_at_ok:
  assumes "schedule_ok s"
  shows "\<exists>n. next_run_at s after = Inr n \<and> after < n"
proof (cases "s_kind s")
  case Interval
  with assms obtain n where n: "s_interval_value s = Some n" "n > 0" "s_interval_unit s \<in> {USeconds, UMinutes, UHours}"
    by (auto simp: schedule_ok_def schedule_kind_fields_ck_def)
  then have "0 < int n * unit_us (s_interval_unit s)" by (auto simp: seconds_def)
  with Interval n show ?thesis by (auto simp: next_run_at_def)
next
  case Daily
  with assms obtain m where m: "s_daily_time s = Some m" "time_of_day m"
    by (auto simp: schedule_ok_def schedule_kind_fields_ck_def)
  then show ?thesis using next_run_daily [OF Daily m(1)] shanghai.first_after_strict by blast
qed

section \<open>The live configuration\<close>

record asset =
  a_id :: ustring
  a_enabled :: bool
  a_snapshot :: "(ustring \<times> json) list"

text \<open>
  What a poll reads besides the task tables: the profiles with their target selector, the assets and logs,
  the primary key and field cleaning of Django, the filterable fields of the table registry, the directory
  and domain settings, and the sanitised text of a failure.
\<close>

record registry =
  rg_inspection :: "ustring \<Rightarrow> (profile \<times> context_of \<times> json) option"
  rg_analysis :: "ustring \<Rightarrow> (profile \<times> context_of) option"
  rg_assets :: "target_type \<Rightarrow> asset list"
  rg_logs :: "log_file list"
  rg_roster :: json
  rg_to_pk :: "target_type \<Rightarrow> ustring \<Rightarrow> ustring option"
  rg_fields :: "target_type \<Rightarrow> ustring list"
  rg_clean :: "target_type \<Rightarrow> ustring \<Rightarrow> json \<Rightarrow> json option"
  rg_matches :: "target_type \<Rightarrow> ustring \<Rightarrow> json \<Rightarrow> asset \<Rightarrow> bool"
  rg_people :: "ustring \<Rightarrow> ustring \<times> json \<times> errs"
  rg_domain :: "domain_config option"
  rg_message :: "schedule \<Rightarrow> errs \<Rightarrow> ustring"

definition selector_err :: "string \<Rightarrow> 'a res" where
  "selector_err msg = Inl (ValidationError [(''target_selector'', msg)])"

definition asset_ids :: "asset list \<Rightarrow> ustring list" where
  "asset_ids rows = sort (map a_id rows)"

definition keys_of :: "json \<Rightarrow> ustring list" where
  "keys_of j = (case j of JObj kvs \<Rightarrow> map fst kvs | _ \<Rightarrow> [])"

text \<open>The mode \<open>selected\<close>: every identifier names an enabled asset.\<close>

definition texts_of :: "json list \<Rightarrow> ustring list option" where
  "texts_of xs = (if list_all (\<lambda>j. case j of JStr s \<Rightarrow> s \<noteq> [] | _ \<Rightarrow> False) xs
     then Some (map (\<lambda>j. case j of JStr s \<Rightarrow> s | _ \<Rightarrow> []) xs) else None)"

definition selected_rows :: "(ustring \<Rightarrow> ustring option) \<Rightarrow> asset list \<Rightarrow> json \<Rightarrow> asset list res" where
  "selected_rows to_pk rows selector =
     (case jget ''target_ids'' selector of
        Some (JList xs) \<Rightarrow>
          (case texts_of xs of
             None \<Rightarrow> selector_err ''selected_ids''
           | Some ids \<Rightarrow>
               if ids = [] \<or> \<not> distinct ids \<or> set (keys_of selector) \<noteq> {asc ''mode'', asc ''target_ids''}
               then selector_err ''selected_ids''
               else if list_ex (\<lambda>i. to_pk i = None) ids then selector_err ''malformed''
               else let pks = map (\<lambda>i. the (to_pk i)) ids;
                        found = filter (\<lambda>r. a_id r \<in> set pks) rows
                    in if a_id ` set found \<noteq> set pks then selector_err ''missing'' else Inr found)
      | _ \<Rightarrow> selector_err ''selected_ids'')"

text \<open>The mode \<open>filtered\<close>: known fields only, each value cleaned by its field.\<close>

fun has_dunder :: "ustring \<Rightarrow> bool" where
  "has_dunder (a # b # cs) = ((a = 95 \<and> b = 95) \<or> has_dunder (b # cs))"
| "has_dunder _ = False"

definition filters_of :: "json \<Rightarrow> json res" where
  "filters_of selector =
     (case jget_or ''filters'' JNull selector of
        JNull \<Rightarrow> (case selector of JObj kvs \<Rightarrow> Inr (JObj (filter (\<lambda>kv. fst kv \<noteq> asc ''mode'') kvs))
                  | _ \<Rightarrow> selector_err ''filters'')
      | f \<Rightarrow> if set (keys_of selector) \<noteq> {asc ''mode'', asc ''filters''} then selector_err ''filters'' else Inr f)"

definition filtered_rows ::
    "ustring list \<Rightarrow> (ustring \<Rightarrow> json \<Rightarrow> json option) \<Rightarrow> (ustring \<Rightarrow> json \<Rightarrow> asset \<Rightarrow> bool) \<Rightarrow> asset list \<Rightarrow> json
     \<Rightarrow> asset list res" where
  "filtered_rows allowed clean matches rows selector =
     bindr (filters_of selector) (\<lambda>f. case f of
       JObj kvs \<Rightarrow>
         if kvs = [] \<or> list_ex (\<lambda>kv. fst kv \<notin> set allowed \<or> has_dunder (fst kv)) kvs then selector_err ''filter_field''
         else if list_ex (\<lambda>kv. clean (fst kv) (snd kv) = None) kvs then selector_err ''filter_value''
         else Inr (filter (\<lambda>r. list_all (\<lambda>kv. matches (fst kv) (the (clean (fst kv) (snd kv))) r) kvs) rows)
     | _ \<Rightarrow> selector_err ''filters'')"

definition selected_target_ids :: "registry \<Rightarrow> target_type \<Rightarrow> json \<Rightarrow> ustring list res" where
  "selected_target_ids rg ty selector =
     (if ty \<notin> {TNetworkDevice, TServer, TWeakCurrent} then Inl (ValidationError [(''profile'', ''device_type'')])
      else if \<not> is_obj selector then selector_err ''not_an_object''
      else
       let rows = filter a_enabled (rg_assets rg ty);
           mode = jget_or ''mode'' (JStr (asc ''all'')) selector;
           chosen =
             (if mode = JStr (asc ''all'')
              then (if set (keys_of selector) - {asc ''mode''} \<noteq> {} then selector_err ''all_with_filters'' else Inr rows)
              else if mode = JStr (asc ''selected'') then selected_rows (rg_to_pk rg ty) rows selector
              else if mode = JStr (asc ''filtered'')
              then filtered_rows (rg_fields rg ty) (rg_clean rg ty) (rg_matches rg ty) rows selector
              else selector_err ''mode'')
       in bindr chosen (\<lambda>rows. if rows = [] then selector_err ''no_targets'' else Inr (asset_ids rows)))"

section \<open>The poll\<close>

datatype plan = InspectionPlan ustring | AnalysisPlan ustring | PeoplePlan ustring | DomainPlan ustring

definition schedule_profile :: "schedule \<Rightarrow> plan res" where
  "schedule_profile s = (case s_inspection_profile s of Some p \<Rightarrow> Inr (InspectionPlan p)
     | None \<Rightarrow> (case s_analysis_profile s of Some p \<Rightarrow> Inr (AnalysisPlan p)
     | None \<Rightarrow> (case s_people_source s of Some p \<Rightarrow> Inr (PeoplePlan p)
     | None \<Rightarrow> (case s_domain_config s of Some p \<Rightarrow> Inr (DomainPlan p)
     | None \<Rightarrow> Inl (ValidationError [(''schedule'', ''no_profile'')])))))"

definition is_due :: "schedule \<Rightarrow> time \<Rightarrow> bool" where
  "is_due s now \<longleftrightarrow> (case s_next_run_at s of None \<Rightarrow> True | Some n \<Rightarrow> n \<le> now)"

text \<open>The overrides of a scheduled task: when it is available and its plan.\<close>

definition scheduled_overrides :: "time \<Rightarrow> ustring \<Rightarrow> overrides" where
  "scheduled_overrides now sid = \<lparr>ov_selected_items = None, ov_parameters = None,
     ov_available_at = Some (Some now), ov_schedule = Some sid, ov_other = []\<rparr>"

definition asset_snapshots :: "asset list \<Rightarrow> (ustring \<times> (ustring \<times> json) list) list" where
  "asset_snapshots rows = map (\<lambda>r. (a_id r, a_snapshot r)) rows"

text \<open>The task of a due plan; \<open>i\<close> and \<open>gid\<close> are the fresh primary keys.\<close>

definition schedule_task ::
    "runtime \<Rightarrow> registry \<Rightarrow> ustring \<Rightarrow> (nat \<Rightarrow> ustring) \<Rightarrow> time \<Rightarrow> schedule \<Rightarrow> db \<Rightarrow> (db \<times> task) res" where
  "schedule_task rt rg i gid now s d =
     bindr (schedule_profile s) (\<lambda>p. case p of
       DomainPlan _ \<Rightarrow> enqueue_domain_sync rt i (gid 0) now (Some now) (Some s) (rg_domain rg) d
     | PeoplePlan sid \<Rightarrow>
         (case rg_people rg sid of (key, pub, es) \<Rightarrow> enqueue_people_sync_task rt i (gid 0) now now (s_id s) key pub es d)
     | AnalysisPlan pid \<Rightarrow>
         (case rg_analysis rg pid of None \<Rightarrow> Inl LookupError
          | Some (pf, cx) \<Rightarrow> enqueue_latest_analysis rt (rg_to_pk rg TComputerLog) (rg_logs rg) i gid now pf cx
              (rg_roster rg) Scheduled (scheduled_overrides now (s_id s)) None d)
     | InspectionPlan pid \<Rightarrow>
         (case rg_inspection rg pid of None \<Rightarrow> Inl LookupError
          | Some (pf, cx, selector) \<Rightarrow>
              bindr (selected_target_ids rg (cx_target_type cx) selector) (\<lambda>ids.
                enqueue_task rt (rg_to_pk rg (cx_target_type cx)) (asset_snapshots (rg_assets rg (cx_target_type cx)))
                  i gid now pf cx False (rg_roster rg) (map JStr ids) Scheduled (scheduled_overrides now (s_id s)) d)))"

definition enqueued_schedule :: "time \<Rightarrow> time \<Rightarrow> schedule \<Rightarrow> schedule" where
  "enqueued_schedule now n s = s\<lparr>s_last_enqueued_at := Some now, s_last_attempt_at := Some now,
     s_last_status := asc ''queued'', s_last_error := [], s_next_run_at := Some n, s_updated_at := now\<rparr>"

text \<open>One iteration of \<open>_enqueue_due_schedules\<close>, a transaction: nothing is done for a plan that is gone,
  disabled or no longer due.\<close>

definition poll_schedule ::
    "runtime \<Rightarrow> registry \<Rightarrow> ustring \<Rightarrow> (nat \<Rightarrow> ustring) \<Rightarrow> time \<Rightarrow> ustring \<Rightarrow> db \<Rightarrow> (db \<times> task option) res" where
  "poll_schedule rt rg i gid now sid d = (case find_row s_id sid (schedules d) of
     None \<Rightarrow> Inr (d, None)
   | Some s \<Rightarrow>
       if \<not> s_is_enabled s \<or> \<not> is_due s now then Inr (d, None)
       else bindr (schedule_task rt rg i gid now s d) (\<lambda>(d, t).
         bindr (next_run_at s now) (\<lambda>n.
           Inr (d\<lparr>schedules := upd_row s_id sid (enqueued_schedule now n) (schedules d)\<rparr>, Some t))))"

text \<open>\<open>_has_active_schedule_scope\<close>\<close>

definition has_active_scope :: "runtime \<Rightarrow> registry \<Rightarrow> schedule \<Rightarrow> db \<Rightarrow> bool" where
  "has_active_scope rt rg s d = (case schedule_profile s of
     Inl _ \<Rightarrow> False
   | Inr (InspectionPlan pid) \<Rightarrow>
       (case rg_inspection rg pid of None \<Rightarrow> False
        | Some (pf, cx, selector) \<Rightarrow>
            (case selected_target_ids rg (cx_target_type cx) selector of
               Inl _ \<Rightarrow> False
             | Inr ids \<Rightarrow>
                 (case build_scope_key rt (task_type_value Inspection) (pf_id pf) (scope_of (cx_target_type cx) ids) of
                    Inl _ \<Rightarrow> False | Inr key \<Rightarrow> scope_active key d)))
   | Inr _ \<Rightarrow> list_ex (\<lambda>t. t_schedule t = Some (s_id s) \<and> t_active_scope_key t \<noteq> None) (tasks d))"

definition msg_waiting :: ustring where
  "msg_waiting = [31561, 24453, 27963, 21160, 20219, 21153, 32467, 26463, 12290]"

definition msg_plan_invalid :: ustring where
  "msg_plan_invalid = [35745, 21010, 37197, 32622, 26080, 25928, 12290]"

definition failed_schedule :: "bool \<Rightarrow> ustring \<Rightarrow> time \<Rightarrow> schedule \<Rightarrow> schedule" where
  "failed_schedule blocked message now s = s\<lparr>s_last_attempt_at := Some now,
     s_last_status := (if blocked then asc ''blocked'' else asc ''error''),
     s_last_error := (if blocked then msg_waiting else if message = [] then msg_plan_invalid else message),
     s_updated_at := now\<rparr>"

text \<open>\<open>_record_schedule_failure\<close>: only while the plan is still due and has no attempt at or after \<open>now\<close>.\<close>

definition failure_current :: "ustring \<Rightarrow> time \<Rightarrow> schedule \<Rightarrow> bool" where
  "failure_current sid now s \<longleftrightarrow> s_id s = sid \<and> is_due s now
     \<and> (case s_last_attempt_at s of None \<Rightarrow> True | Some a \<Rightarrow> a < now)"

definition record_schedule_failure :: "runtime \<Rightarrow> registry \<Rightarrow> time \<Rightarrow> schedule \<Rightarrow> errs \<Rightarrow> db \<Rightarrow> db" where
  "record_schedule_failure rt rg now s es d =
     d\<lparr>schedules := upd_rows (failure_current (s_id s) now)
         (failed_schedule (has_active_scope rt rg s d) (take 500 (strip (rg_message rg s es))) now) (schedules d)\<rparr>"

text \<open>The plans that are due, in the order of their occurrence (a missing occurrence first, as SQLite and
  MariaDB order), creation and identifier.\<close>

definition due_schedules :: "time \<Rightarrow> db \<Rightarrow> ustring list" where
  "due_schedules now d = map s_id (sort_key (\<lambda>s. (s_next_run_at s, s_created_at s, s_id s))
     (filter (\<lambda>s. s_is_enabled s \<and> is_due s now) (schedules d)))"

fun poll_loop ::
    "runtime \<Rightarrow> registry \<Rightarrow> (ustring \<Rightarrow> ustring) \<Rightarrow> (ustring \<Rightarrow> nat \<Rightarrow> ustring) \<Rightarrow> time \<Rightarrow> ustring list \<Rightarrow> task list \<Rightarrow> db
     \<Rightarrow> db \<times> task list res" where
  "poll_loop rt rg i gid now [] acc d = (d, Inr acc)"
| "poll_loop rt rg i gid now (sid # sids) acc d =
     (case poll_schedule rt rg (i sid) (gid sid) now sid d of
        Inr (d', None) \<Rightarrow> poll_loop rt rg i gid now sids acc d'
      | Inr (d', Some t) \<Rightarrow> poll_loop rt rg i gid now sids (acc @ [t]) d'
      | Inl (ValidationError es) \<Rightarrow>
          (case find_row s_id sid (schedules d) of
             None \<Rightarrow> (d, Inl LookupError)
           | Some s \<Rightarrow> poll_loop rt rg i gid now sids acc (record_schedule_failure rt rg now s es d))
      | Inl e \<Rightarrow> (d, Inl e))"

definition enqueue_due_schedules ::
    "runtime \<Rightarrow> registry \<Rightarrow> (ustring \<Rightarrow> ustring) \<Rightarrow> (ustring \<Rightarrow> nat \<Rightarrow> ustring) \<Rightarrow> time \<Rightarrow> db \<Rightarrow> db \<times> task list res" where
  "enqueue_due_schedules rt rg i gid now d = poll_loop rt rg i gid now (due_schedules now d) [] d"

section \<open>Effects of a poll\<close>

lemma schedule_task_cases:
  assumes "schedule_task rt rg i gid now s d = Inr x"
  obtains (inspection) pf cx sel ids where
      "enqueue_task rt (rg_to_pk rg (cx_target_type cx)) (asset_snapshots (rg_assets rg (cx_target_type cx)))
         i gid now pf cx False (rg_roster rg) (map JStr ids) Scheduled (scheduled_overrides now (s_id s)) d = Inr x"
      "selected_target_ids rg (cx_target_type cx) sel = Inr ids"
    | (analysis) pf cx where
      "enqueue_analysis rt (rg_to_pk rg TComputerLog) (rg_logs rg) i gid now pf cx False (rg_roster rg)
         (map (\<lambda>r. JStr (lf_id r)) (latest_logs (rg_logs rg) None)) Scheduled (scheduled_overrides now (s_id s)) d = Inr x"
    | (people) key pub es where "enqueue_people_sync_task rt i (gid 0) now now (s_id s) key pub es d = Inr x"
    | (domain) "enqueue_domain_sync rt i (gid 0) now (Some now) (Some s) (rg_domain rg) d = Inr x"
proof -
  obtain p where p: "schedule_profile s = Inr p" using assms by (auto simp: schedule_task_def bindr_Inr_iff)
  show thesis
  proof (cases p)
    case (InspectionPlan pid)
    with assms p show ?thesis
      by (auto simp: schedule_task_def bindr_Inr_iff split: option.split_asm intro: inspection)
  next
    case (AnalysisPlan pid)
    with assms p show ?thesis
      by (auto simp: schedule_task_def enqueue_latest_analysis_def split: option.split_asm intro: analysis)
  next
    case (PeoplePlan sid)
    with assms p show ?thesis by (auto simp: schedule_task_def split: prod.split_asm intro: people)
  next
    case (DomainPlan c)
    with assms p show ?thesis by (auto simp: schedule_task_def intro: domain)
  qed
qed

lemma schedule_task_ok:
  assumes ok: "sys_ok d" and e: "schedule_task rt rg i gid now s d = Inr (d', t)"
  shows "sys_ok d' \<and> evolution d d' \<and> find_row t_id i (tasks d') = Some t"
  using e by (cases rule: schedule_task_cases)
    (blast dest: enqueue_task_ok [OF ok] enqueue_analysis_ok [OF ok] enqueue_people_sync_task_ok [OF ok]
       enqueue_domain_sync_ok [OF ok])+

lemma schedule_task_schedules:
  assumes "schedule_task rt rg i gid now s d = Inr (d', t)"
  shows "schedules d' = schedules d"
  using assms by (cases rule: schedule_task_cases)
    (blast dest: enqueue_task_schedules enqueue_analysis_schedules enqueue_people_sync_schedules enqueue_domain_sync_schedules)+

lemma sys_ok_schedules [simp]: "sys_ok (d\<lparr>schedules := x\<rparr>) = sys_ok d"
proof -
  have "result_ok (d\<lparr>schedules := x\<rparr>) = result_ok d" by (rule ext) (simp add: result_ok_def)
  then show ?thesis by (simp add: sys_ok_def db_ok_def results_ok_def targets_of_def)
qed

lemma evolution_schedules [simp]: "evolution d (d'\<lparr>schedules := x\<rparr>) = evolution d d'"
  by (simp add: evolution_def)

theorem poll_schedule_ok:
  assumes ok: "sys_ok d" and p: "poll_schedule rt rg i gid now sid d = Inr (d', r)"
  shows "sys_ok d' \<and> evolution d d'"
proof (cases r)
  case None
  with p have "d' = d" by (auto simp: poll_schedule_def bindr_Inr_iff split: option.split_asm if_split_asm)
  then show ?thesis using ok by (simp add: evolution_refl)
next
  case (Some t)
  with p obtain s e n where "schedule_task rt rg i gid now s d = Inr (e, t)"
    and "d' = e\<lparr>schedules := upd_row s_id sid (enqueued_schedule now n) (schedules e)\<rparr>"
    by (auto simp: poll_schedule_def bindr_Inr_iff split: option.split_asm if_split_asm)
  then show ?thesis using schedule_task_ok [OF ok] by auto
qed

theorem record_schedule_failure_ok:
  "sys_ok d \<Longrightarrow> sys_ok (record_schedule_failure rt rg now s es d) \<and> evolution d (record_schedule_failure rt rg now s es d)"
  by (simp add: record_schedule_failure_def evolution_refl)

text \<open>An accepted poll and what it writes.\<close>

lemma poll_schedule_Some:
  assumes "poll_schedule rt rg i gid now sid d = Inr (d', Some t)"
  obtains s e n where "find_row s_id sid (schedules d) = Some s" and "s_is_enabled s" and "is_due s now"
    and "schedule_task rt rg i gid now s d = Inr (e, t)" and "next_run_at s now = Inr n"
    and "d' = e\<lparr>schedules := upd_row s_id sid (enqueued_schedule now n) (schedules d)\<rparr>"
proof -
  from assms obtain s e n where "find_row s_id sid (schedules d) = Some s" "s_is_enabled s" "is_due s now"
    and t: "schedule_task rt rg i gid now s d = Inr (e, t)" and "next_run_at s now = Inr n"
    and "d' = e\<lparr>schedules := upd_row s_id sid (enqueued_schedule now n) (schedules e)\<rparr>"
    by (auto simp: poll_schedule_def bindr_Inr_iff split: option.split_asm if_split_asm)
  then show ?thesis using that by (simp add: schedule_task_schedules [OF t])
qed

lemma poll_schedule_not_due:
  "find_row s_id sid (schedules d) = Some s \<Longrightarrow> \<not> is_due s now \<Longrightarrow> poll_schedule rt rg i gid now sid d = Inr (d, None)"
  by (simp add: poll_schedule_def)

end
