(* ===== verification/TaskSystem.thy ===== *)
theory TaskSystem
  imports Schedules
begin

text \<open>
  The task queue as a system: any number of workers, the scheduler and the users run the
  transactions of the queue and of the executors in any order, at any clock reading. One constructor
  of \<open>qstep\<close> is one committed transaction; a transaction that raises is rolled back and is no step.
\<close>

inductive qstep :: "runtime \<Rightarrow> db \<Rightarrow> db \<Rightarrow> bool" for rt where
  enqueue: "enqueue_task rt to_pk assets i gid now pf cx frozen roster entries source ov d = Inr (d', t) \<Longrightarrow> qstep rt d d'"
| enqueue_people: "enqueue_people_task rt i g now sid ttype session digest pub es d = Inr (d', t) \<Longrightarrow> qstep rt d d'"
| enqueue_people_sync: "enqueue_people_sync_task rt i g now available sched key pub es d = Inr (d', t) \<Longrightarrow> qstep rt d d'"
| enqueue_access: "enqueue_access_one rt i g now pub lookback start_at end_at sid d = Inr (d', t) \<Longrightarrow> qstep rt d d'"
| enqueue_domain_sync: "enqueue_domain_sync rt i g now av sched config d = Inr (d', t) \<Longrightarrow> qstep rt d d'"
| enqueue_analysis: "enqueue_analysis rt to_pk logs i gid now pf cx frozen roster entries source ov d = Inr (d', t) \<Longrightarrow> qstep rt d d'"
| poll: "poll_schedule rt rg i gid now sid d = Inr (d', r) \<Longrightarrow> qstep rt d d'"
| poll_failure: "d' = record_schedule_failure rt rg now s es d \<Longrightarrow> qstep rt d d'"
| claim: "claim_next_task rt worker n now tt d = Inr (d', r) \<Longrightarrow> qstep rt d d'"
| recover: "recover_expired_tasks rt now d = Inr (d', k) \<Longrightarrow> qstep rt d d'"
| renew: "renew_lease now db_now i worker n d = Inr (d', b) \<Longrightarrow> qstep rt d d'"
| cancel: "cancel_task rt now i d = Inr (d', t) \<Longrightarrow> qstep rt d d'"
| finish: "finish_task rt now i worker d = Inr (d', t) \<Longrightarrow> qstep rt d d'"
| aggregate: "d' = aggregate_domain_operation t d \<Longrightarrow> qstep rt d d'"
| begin_target: "begin_target rt now gid worker guard ea d = Inr (d', g) \<Longrightarrow> qstep rt d d'"
| persist: "persist_collection rt now now2 guard guard2 gid worker report rid d = Inr (d', oc) \<Longrightarrow> qstep rt d d'"
| analysis_failure: "analysis_failure rt now now2 guard guard2 gid worker msg ea d = Inr (d', oc) \<Longrightarrow> qstep rt d d'"
| persist_analysis: "persist_analysis_result rt now now2 guard guard2 gid worker prepared rid ea d = Inr (d', oc) \<Longrightarrow> qstep rt d d'"
| people: "people_publish rt now gid ea worker result error guard d = Inr (d', oc) \<Longrightarrow> qstep rt d d'"
| access: "access_publish rt now gid ea worker events error guard d = Inr (d', oc) \<Longrightarrow> qstep rt d d'"
| domain_sync: "domain_sync_publish rt now now2 gid ea worker applied error guard d = Inr (d', oc) \<Longrightarrow> qstep rt d d'"
| domain_target: "persist_domain_outcome rt scrub now guard gid worker success error ctx stage details mirror d = Inr (d', oc) \<Longrightarrow> qstep rt d d'"
| abort_password: "abort_password_targets rt now i worker generation d = Inr (d', n) \<Longrightarrow> qstep rt d d'"
| mark_running: "d' = fst (mark_domain_operation_running now i worker generation d) \<Longrightarrow> qstep rt d d'"

inductive_cases qstep_cases: "qstep rt d d'"

lemma sys_ok_step: "sys_ok d \<Longrightarrow> db_ok d' \<and> evolution d d' \<Longrightarrow> results d' = results d \<Longrightarrow> sys_ok d' \<and> evolution d d'"
  using results_ok_same by (auto simp: sys_ok_def)

lemma qstep_ok:
  assumes "qstep rt d d'" and ok: "sys_ok d"
  shows "sys_ok d' \<and> evolution d d'"
  using assms(1)
proof cases
  case (claim worker n now tt r)
  have "db_ok d" using ok by (simp add: sys_ok_def)
  from sys_ok_step [OF ok claim_next_task_ok [OF this claim] claim_results [OF claim]] show ?thesis .
next
  case (recover now k)
  then have r: "recover_expired_locked rt now d = Inr (d', k)" by (simp add: recover_expired_tasks_def)
  have "db_ok d" using ok by (simp add: sys_ok_def)
  from sys_ok_step [OF ok recover_expired_locked_ok(1) [OF this r] recover_results [OF r]] show ?thesis .
next
  case (renew now db_now i worker n b)
  have "db_ok d" using ok by (simp add: sys_ok_def)
  from sys_ok_step [OF ok renew_lease_ok [OF this renew] renew_results [OF renew]] show ?thesis .
next
  case (cancel now i t)
  have "db_ok d" using ok by (simp add: sys_ok_def)
  from sys_ok_step [OF ok cancel_task_ok(1) [OF this cancel] cancel_results [OF cancel]] show ?thesis .
next
  case (finish now i worker t)
  have "db_ok d" using ok by (simp add: sys_ok_def)
  from sys_ok_step [OF ok finish_task_ok [OF this finish] finish_task_results [OF finish]] show ?thesis .
next
  case (aggregate t)
  then show ?thesis
    using ok sys_ok_frame [of d d d']
    by (simp add: aggregate_domain_operation_def split: option.splits)
next
  case (poll_failure rg now s es)
  then show ?thesis using record_schedule_failure_ok [OF ok] by simp
next
  case (mark_running now i worker generation)
  then show ?thesis using ok sys_ok_frame [of d d d'] by simp
qed (use ok in \<open>blast dest: enqueue_task_ok enqueue_people_task_ok enqueue_people_sync_task_ok enqueue_access_one_ok
    enqueue_domain_sync_ok begin_target_ok persist_collection_ok analysis_failure_ok persist_analysis_result_ok
    people_publish_ok access_publish_ok domain_sync_publish_ok persist_domain_outcome_ok abort_password_targets_ok
    enqueue_analysis_ok poll_schedule_ok\<close>)+

section \<open>The interfaces, on the task system\<close>

definition task_view :: "db \<Rightarrow> ustring \<Rightarrow> task option" where
  "task_view d i = find_row t_id i (tasks d)"

definition task_ended :: "task \<Rightarrow> bool" where
  "task_ended t \<longleftrightarrow> terminal_status (t_status t)"

definition task_attempts :: "db \<Rightarrow> ustring \<Rightarrow> nat" where
  "task_attempts d i = (case find_row t_id i (tasks d) of None \<Rightarrow> 0 | Some t \<Rightarrow> t_attempt_count t)"

definition frozen_target ::
    "target \<Rightarrow> (ustring \<times> target_type \<times> ustring \<times> json \<times> ustring option) \<times> (status \<times> time option \<times> ustring \<times> ustring \<times> ustring)" where
  "frozen_target g = (target_snapshot_fields g, target_view g)"

definition ended_target_view :: "db \<Rightarrow> ustring \<Rightarrow>
    ((ustring \<times> target_type \<times> ustring \<times> json \<times> ustring option) \<times> (status \<times> time option \<times> ustring \<times> ustring \<times> ustring)) option" where
  "ended_target_view d i = map_option frozen_target (find_row g_id i (targets d))"

interpretation task_rows: ending_system "qstep rt" sys_ok task_view task_ended for rt
proof
  show "qstep rt s t \<Longrightarrow> sys_ok s \<Longrightarrow> sys_ok t" for s t using qstep_ok by blast
  show "task_view t k = Some v"
    if "qstep rt s t" "sys_ok s" "task_view s k = Some v" "task_ended v" for s t k v
  proof -
    have "evolution s t" using that(1,2) qstep_ok by blast
    from evolution_taskD [OF this that(3) [unfolded task_view_def]] that(4) show ?thesis
      by (auto simp: task_view_def task_evo_def task_ended_def)
  qed
qed

interpretation target_rows: ending_system "qstep rt" sys_ok ended_target_view "\<lambda>v. terminal_status (fst (snd v))" for rt
proof
  show "ended_target_view t k = Some v"
    if "qstep rt s t" "sys_ok s" "ended_target_view s k = Some v" "terminal_status (fst (snd v))" for s t k v
  proof -
    from that(3) obtain g where g: "find_row g_id k (targets s) = Some g" "v = frozen_target g"
      by (auto simp: ended_target_view_def)
    have "target_is_terminal g"
      using that(4) unfolding g(2) frozen_target_def target_view_def target_is_terminal_def fst_conv snd_conv .
    moreover have "evolution s t" using that(1,2) qstep_ok by blast
    from evolution_targetD [OF this g(1)] obtain g' where "find_row g_id k (targets t) = Some g'" "target_evo g g'" by blast
    ultimately show ?thesis
      using g(2) unfolding ended_target_view_def target_evo_def frozen_target_def by simp
  qed
qed

interpretation task_claims: bounded_claims "qstep rt" sys_ok task_attempts "\<lambda>_ _. max_task_attempts" for rt
proof
  show "sys_ok s \<Longrightarrow> task_attempts s k \<le> max_task_attempts" for s k
    by (auto simp: task_attempts_def sys_ok_def task_ok_def split: option.split dest: task_okD(1))
  show "task_attempts s k \<le> task_attempts t k" if "qstep rt s t" "sys_ok s" for s t k
  proof (cases "find_row t_id k (tasks s)")
    case (Some u)
    have "evolution s t" using that qstep_ok by blast
    from evolution_taskD [OF this Some] Some show ?thesis by (auto simp: task_attempts_def task_evo_def)
  qed (simp add: task_attempts_def)
qed simp

text \<open>Before the first task: any configuration, empty task tables.\<close>

definition initial_db :: "db \<Rightarrow> bool" where
  "initial_db d \<longleftrightarrow> tasks d = [] \<and> targets d = [] \<and> results d = []"

lemma initial_ok: "initial_db d \<Longrightarrow> sys_ok d"
  by (simp add: initial_db_def sys_ok_def db_ok_def results_ok_def unique_active_def)

lemma reachable_ok: "initial_db d0 \<Longrightarrow> (qstep rt)\<^sup>*\<^sup>* d0 d \<Longrightarrow> sys_ok d"
  using task_rows.runs_inv initial_ok by blast

end
