(* ===== verification/Demo.thy ===== *)
theory Demo
  imports TaskSystem
begin

text \<open>
  A concrete run of the queue on a concrete store, evaluated step by step: a synchronisation of the
  domain directory is enqueued, claimed, begun, published and finished. The properties of the queue
  are instantiated on these states.
\<close>

definition demo_store :: "task list \<Rightarrow> target list \<Rightarrow> db" where
  "demo_store ts gs = \<lparr>tasks = ts, targets = gs, schedules = [], operations = [], secrets = [], results = [],
     result_errors = [], people_sources = [], access_sources = [], access_records = [], domain_version = Some []\<rparr>"

definition demo_config :: domain_config where
  "demo_config = \<lparr>cf_name = asc ''AD'', cf_host = asc ''dc1'', cf_base_dn = asc ''dc=x'',
     cf_bind_username = asc ''svc'', cf_updated_at = 0\<rparr>"

text \<open>The task and its target after each step; the clock runs from 100 to 230 microseconds.\<close>

definition demo_queued :: task where
  "demo_queued = (domain_sync_task demo_rt (asc ''t1'') 100 100 None demo_config)
     \<lparr>t_scope_key := [81], t_active_scope_key := Some [81]\<rparr>"

definition demo_target :: target where
  "demo_target = new_target (asc ''g1'') 100 (asc ''t1'') TDomainConfig (asc ''1'')
     (JObj [(asc ''name'', JStr (asc ''AD'')), (asc ''host'', JStr (asc ''dc1''))])"

definition demo_running :: task where
  "demo_running = claimed_task (asc ''w'') 60 200 demo_queued"

definition demo_begun :: target where
  "demo_begun = begun_target 210 demo_target"

definition demo_done :: target where
  "demo_done = published_target 221 (asc ''domain_sync'') (asc ''t1'') [] (JObj []) demo_begun"

definition demo_progress :: task where
  "demo_progress = write_progress (1, 1, 1) demo_running"

definition demo_finished :: task where
  "demo_finished = demo_progress\<lparr>t_status := Success, t_finished_at := Some 230, t_lease_expires_at := None,
     t_active_scope_key := None\<rparr>"

definition demo0 :: db where "demo0 = demo_store [] []"
definition demo1 :: db where "demo1 = demo_store [demo_queued] [demo_target]"
definition demo2 :: db where "demo2 = demo_store [demo_running] [demo_target]"
definition demo3 :: db where "demo3 = demo_store [demo_running] [demo_begun]"
definition demo4 :: db where "demo4 = demo_store [demo_progress] [demo_done]"
definition demo5 :: db where "demo5 = demo_store [demo_finished] [demo_done]"

lemma demo_enqueue:
  "enqueue_domain_sync demo_rt (asc ''t1'') (asc ''g1'') 100 None None (Some demo_config) demo0 = Inr (demo1, demo_queued)"
  by code_simp

lemma demo_claim:
  "claim_next_task demo_rt (asc ''w'') 60 200 None demo1 = Inr (demo2, Some demo_running)"
  by code_simp

lemma demo_begin:
  "begin_target demo_rt 210 (asc ''g1'') (asc ''w'') False (Some 1) demo2 = Inr (demo3, Some demo_begun)"
  by code_simp

lemma demo_publish:
  "map_sum id fst (domain_sync_publish demo_rt 220 221 (asc ''g1'') (1, 1) (asc ''w'') (Some (JObj [])) [] False demo3) = Inr demo4"
  by code_simp

lemma demo_finish:
  "finish_task demo_rt 230 (asc ''t1'') (asc ''w'') demo4 = Inr (demo5, demo_finished)"
  by code_simp

lemma demo_run: "(qstep demo_rt)\<^sup>*\<^sup>* demo0 demo1" "(qstep demo_rt)\<^sup>*\<^sup>* demo0 demo2" "(qstep demo_rt)\<^sup>*\<^sup>* demo0 demo5"
    "(qstep demo_rt)\<^sup>*\<^sup>* demo2 demo5"
proof -
  obtain oc where p: "domain_sync_publish demo_rt 220 221 (asc ''g1'') (1, 1) (asc ''w'') (Some (JObj [])) [] False demo3 = Inr (demo4, oc)"
    using map_sum_fst [OF demo_publish] by blast
  note s = qstep.enqueue_domain_sync [OF demo_enqueue] qstep.claim [OF demo_claim] qstep.begin_target [OF demo_begin]
    qstep.domain_sync [OF p] qstep.finish [OF demo_finish]
  from s(1) show "(qstep demo_rt)\<^sup>*\<^sup>* demo0 demo1" by blast
  from s(1,2) show "(qstep demo_rt)\<^sup>*\<^sup>* demo0 demo2" by (meson converse_rtranclp_into_rtranclp rtranclp.rtrancl_refl)
  from s(3-5) show "(qstep demo_rt)\<^sup>*\<^sup>* demo2 demo5" by (meson converse_rtranclp_into_rtranclp rtranclp.rtrancl_refl)
  with s(1,2) show "(qstep demo_rt)\<^sup>*\<^sup>* demo0 demo5" by (meson converse_rtranclp_into_rtranclp)
qed

section \<open>An inspection that is about to be published\<close>

definition demo_insp_task :: task where
  "demo_insp_task = (claimed_task (asc ''w'') 60 200
     (profile_task (asc ''t2'') 100 \<lparr>pf_id = asc ''p'', pf_analysis = False, pf_enabled = True, pf_errors = []\<rparr>
        Manual 100 None TNetworkDevice [(asc ''device_type'', JStr (asc ''network_device''))] [] [] [asc ''d1''] JNull))
     \<lparr>t_scope_key := [79], t_active_scope_key := Some [79]\<rparr>"

definition demo_insp_target :: target where
  "demo_insp_target = begun_target 210 (new_target (asc ''g2'') 100 (asc ''t2'') TNetworkDevice (asc ''d1'') (JObj []))"

definition demo_insp :: db where "demo_insp = demo_store [demo_insp_task] [demo_insp_target]"

definition demo_report :: report where
  "demo_report = \<lparr>rep_status = RPartial, rep_message = asc ''m'', rep_findings = True, rep_reachable = True,
     rep_duration_ms = 5\<rparr>"

definition demo_insp_publish :: "(db \<times> outcome) res" where
  "demo_insp_publish = persist_collection demo_rt 300 310 False False (asc ''g2'') (asc ''w'') (\<lambda>_ _. demo_report)
     (asc ''r1'') demo_insp"

lemma demo_insp_ok: "sys_ok demo_insp" by code_simp



end
