(* ===== verification/TaskProperties.thy ===== *)
theory TaskProperties
  imports Demo
begin

text \<open>
  The contract of the task queue: what holds in every reachable state, what an ended task or target
  promises, and what each transaction does. The witnesses instantiate the properties on the concrete
  run of \<open>Demo\<close>.
\<close>

section \<open>Reachable states\<close>

lemma demo0_initial: "initial_db demo0"
  by (simp add: initial_db_def demo0_def demo_store_def)

lemma demo_ok: "sys_ok demo1" "sys_ok demo2" "sys_ok demo5"
  using demo_run demo0_initial reachable_ok by blast+

lemma demo5_row: "find_row t_id (asc ''t1'') (tasks demo5) = Some demo_finished"
  by code_simp

lemma demo3_ok: "sys_ok demo3"
  using begin_target_ok [OF demo_ok(2) demo_begin] by blast

text \<open>C1. Every state that any interleaving of enqueues, claims, renewals, recoveries, cancellations, target
  executions and aggregations reaches is consistent: identifiers are unique, every target belongs to
  a stored task, no two tasks hold the same active scope key, and every task satisfies the database
  constraints, has as many targets as it declares and at most three attempts, has no running target
  while it waits and only ended targets once it has ended.\<close>

theorem queue_invariant:
  assumes "initial_db d0" and "(qstep rt)\<^sup>*\<^sup>* d0 d"
  shows "distinct (map t_id (tasks d)) \<and> distinct (map g_id (targets d)) \<and> unique_active (tasks d)
    \<and> (\<forall>g \<in> set (targets d). g_task g \<in> t_id ` set (tasks d))
    \<and> (\<forall>t \<in> set (tasks d). task_ok t (targets_of (t_id t) d))"
  using reachable_ok [OF assms] by (simp add: sys_ok_def db_ok_def)

lemma queue_invariant_witness: "unique_active (tasks demo5)"
  using queue_invariant [OF demo0_initial demo_run(3)] by blast



text \<open>C3. Once a target has ended, its task, its immutable snapshot, its status, its finish time, its result
  reference and its error message stay as they are.\<close>

theorem ended_target_frozen:
  assumes "initial_db d0" and "(qstep rt)\<^sup>*\<^sup>* d0 d" and "(qstep rt)\<^sup>*\<^sup>* d d'"
    and "find_row g_id i (targets d) = Some g" and "target_is_terminal g"
  shows "\<exists>g'. find_row g_id i (targets d') = Some g' \<and> target_view g' = target_view g
    \<and> target_snapshot_fields g' = target_snapshot_fields g"
proof -
  have "terminal_status (fst (snd (frozen_target g)))"
    using assms(5) unfolding frozen_target_def target_view_def target_is_terminal_def fst_conv snd_conv .
  from target_rows.ended_forever [OF assms(3) reachable_ok [OF assms(1,2)] _ this, of i] assms(4)
  show ?thesis by (auto simp: ended_target_view_def frozen_target_def)
qed

lemma ended_target_frozen_witness:
  "\<exists>g'. find_row g_id (asc ''g1'') (targets demo5) = Some g' \<and> target_view g' = target_view demo_done
    \<and> target_snapshot_fields g' = target_snapshot_fields demo_done"
  by (rule ended_target_frozen [OF demo0_initial demo_run(3) rtranclp.rtrancl_refl]) code_simp+

text \<open>C4. A task is claimed at most three times in its whole life, whatever workers crash and whenever leases
  are recovered, and its attempt counter never falls.\<close>

theorem attempts_at_most_three:
  assumes "initial_db d0" and "(qstep rt)\<^sup>*\<^sup>* d0 d" and "(qstep rt)\<^sup>*\<^sup>* d d'"
  shows "task_attempts d i \<le> task_attempts d' i \<and> task_attempts d' i \<le> 3"
  using task_claims.attempts_runs [OF assms(3) reachable_ok [OF assms(1,2)]]
    task_claims.attempts_bounded [OF assms(3) reachable_ok [OF assms(1,2)]]
  by (simp add: max_task_attempts_def)

lemma attempts_at_most_three_witness: "task_attempts demo2 (asc ''t1'') \<le> task_attempts demo5 (asc ''t1'') \<and> task_attempts demo5 (asc ''t1'') \<le> 3"
  by (rule attempts_at_most_three [OF demo0_initial demo_run(2,4)])





section \<open>Claim and recovery\<close>

text \<open>C7. A claim first recovers every expired task and then hands out the first available waiting task, ordered
  by availability, creation and identifier; the task is stored as running under the caller's lease with
  one more attempt, and no other task is touched by the claim itself.\<close>

theorem claim_takes_first_available:
  assumes "db_ok d" and "claim_next_task rt worker n now tt d = Inr (d', Some t')"
  shows "\<exists>e k t. recover_expired_locked rt now d = Inr (e, k) \<and> t \<in> set (tasks e) \<and> claimable now tt t
    \<and> (\<forall>u \<in> set (tasks e). claimable now tt u \<longrightarrow>
         (t_available_at t, t_created_at t, t_id t) \<le> (t_available_at u, t_created_at u, t_id u))
    \<and> find_row t_id (t_id t) (tasks d') = Some t' \<and> t_status t' = Running \<and> t_worker_id t' = strip worker
    \<and> t_lease_expires_at t' = Some (now + seconds n) \<and> t_started_at t' = Some now
    \<and> t_attempt_count t' = t_attempt_count t + 1 \<and> targets d' = targets e
    \<and> (\<forall>j. j \<noteq> t_id t \<longrightarrow> find_row t_id j (tasks d') = find_row t_id j (tasks e))"
  using assms(2)
proof (rule claim_next_task_steps)
  fix e k t u assume e: "recover_expired_locked rt now d = Inr (e, k)" and u: "Some t' = Some u"
    and c: "next_candidate now tt e = Some t"
    and s: "save_task rt w_claim (claimed_task worker n now t) e = Inr (d', u)"
  have oke: "db_ok e" using recover_expired_locked_ok(1) [OF assms(1) e] by simp
  have t: "find_row t_id (t_id t) (tasks e) = Some t" "t_status t = Queued"
    using oke next_candidate_Some(1,2) [OF c] by (simp_all add: db_ok_def task_of_row claimable_def)
  note w = claim_write [OF oke t s]
  obtain k' where k': "t' = rekeyed (claimed_task worker n now t) k'" using w(3) u by blast
  have fields: "t_status t' = Running" "t_worker_id t' = strip worker" "t_lease_expires_at t' = Some (now + seconds n)"
    "t_started_at t' = Some now" "t_attempt_count t' = t_attempt_count t + 1"
    by (simp_all add: k' rekeyed_def claimed_task_def)
  show ?thesis
    using e next_candidate_Some [OF c] w(2,4,5) u fields
    by (intro exI [of _ e] exI [of _ k] exI [of _ t]) simp
qed simp

lemma claim_takes_first_available_witness: "\<exists>e k t. recover_expired_locked demo_rt 200 demo1 = Inr (e, k) \<and> t \<in> set (tasks e)"
  using claim_takes_first_available [OF _ demo_claim] demo_ok(1) unfolding sys_ok_def by blast

text \<open>C8. While a lease is live its task cannot be claimed by anybody, whatever task type is asked for: the claim
  returns another task or none, and leaves the running task exactly as it was.\<close>

theorem live_lease_excludes_claims:
  assumes "db_ok d" and "find_row t_id i (tasks d) = Some t" and "t_status t = Running"
    and "t_lease_expires_at t = Some e" and "now < e" and "claim_next_task rt worker n now tt d = Inr (d', r)"
  shows "find_row t_id i (tasks d') = Some t \<and> (\<forall>t'. r = Some t' \<longrightarrow> t_id t' \<noteq> i)"
proof -
  have ti: "t \<in> set (tasks d)" "t_id t = i" using find_row_Some [OF assms(2)] by auto
  have ne: "\<not> lease_expired now t" using assms(3-5) by (simp add: lease_expired_def)
  note rec = recover_expired_locked_ok(3) [OF assms(1) _ ti(1) ne, unfolded ti(2)]
  from assms(6) show ?thesis
  proof (rule claim_next_task_steps)
    fix e k assume "recover_expired_locked rt now d = Inr (e, k)" "r = None" "d' = e"
    then show ?thesis using rec by simp
  next
    fix e k u u' assume e: "recover_expired_locked rt now d = Inr (e, k)" and u: "r = Some u'"
      and c: "next_candidate now tt e = Some u"
      and s: "save_task rt w_claim (claimed_task worker n now u) e = Inr (d', u')"
    have oke: "db_ok e" using recover_expired_locked_ok(1) [OF assms(1) e] by simp
    have fu: "find_row t_id (t_id u) (tasks e) = Some u" "t_status u = Queued"
      using oke next_candidate_Some(1,2) [OF c] by (simp_all add: db_ok_def task_of_row claimable_def)
    have ne: "t_id u \<noteq> i" using fu rec [OF e] assms(3) by auto
    note w = claim_write [OF oke fu s]
    have "t_id u' = t_id u" using find_row_Some [OF w(2)] by simp
    then show ?thesis using w(4) [of i] ne rec [OF e] u by simp
  qed
qed

lemma live_lease_excludes_claims_witness:
  "find_row t_id (asc ''t1'') (tasks demo3) = Some demo_running"
proof -
  have "claim_next_task demo_rt (asc ''v'') 60 300 None demo3 = Inr (demo3, None)" by code_simp
  moreover have "find_row t_id (asc ''t1'') (tasks demo3) = Some demo_running" by code_simp
  ultimately show ?thesis
    using live_lease_excludes_claims [of demo3 "asc ''t1''" demo_running 60000200 300] demo3_ok
    by (simp add: sys_ok_def demo_running_def claimed_task_def seconds_def)
qed

text \<open>C9. Recovery leaves no expired lease behind: each expired task is either ended at that moment, or waits again
  with its lease and owner cleared, which happens only while attempts are left; every other task is
  untouched, and the number of recovered tasks is returned.\<close>

theorem recovery_settles_expired_tasks:
  assumes "db_ok d" and "recover_expired_tasks rt now d = Inr (d', k)" and "t \<in> set (tasks d)"
  shows "k = length (expired_tasks now d)
    \<and> (if lease_expired now t then \<exists>t'. find_row t_id (t_id t) (tasks d') = Some t' \<and> recovered now t t'
       else find_row t_id (t_id t) (tasks d') = Some t)"
  using recover_expired_locked_ok [OF assms(1) assms(2) [unfolded recover_expired_tasks_def]] assms(3) by auto

lemma recovery_settles_expired_tasks_witness:
  "\<exists>t'. find_row t_id (asc ''t1'') (tasks (demo1\<lparr>tasks := [requeued_task 70000000 demo_running]\<rparr>)) = Some t'
     \<and> recovered 70000000 demo_running t'"
proof -
  have r: "recover_expired_tasks demo_rt 70000000 demo3 =
      Inr (demo1\<lparr>tasks := [requeued_task 70000000 demo_running], targets := [requeue_target demo_begun]\<rparr>, 1)"
    by code_simp
  have "demo_running \<in> set (tasks demo3)" "lease_expired 70000000 demo_running" "t_id demo_running = asc ''t1''" by code_simp+
  then show ?thesis
    using recovery_settles_expired_tasks [OF _ r, of demo_running] demo3_ok by (simp add: sys_ok_def)
qed

text \<open>C10. Cancelling a waiting or running task ends it and all its unfinished targets at that moment; targets that
  had already ended keep their result.\<close>

theorem cancel_ends_task_and_targets:
  assumes "db_ok d" and "cancel_task rt now i d = Inr (d', t')"
  shows "find_row t_id i (tasks d') = Some t' \<and> t_status t' = Cancelled \<and> t_finished_at t' = Some now
    \<and> targets_of i d' = map (\<lambda>g. if target_is_terminal g then g else cancel_target now g) (targets_of i d)
    \<and> (\<exists>t. find_row t_id i (tasks d) = Some t \<and> active_status (t_status t))"
  using cancel_task_ok [OF assms] cancel_task_steps [OF assms(2)] by metis

lemma cancel_ends_task_and_targets_witness:
  "find_row t_id (asc ''t1'') (tasks (fst (projr (cancel_task demo_rt 250 (asc ''t1'') demo3))))
     = Some (snd (projr (cancel_task demo_rt 250 (asc ''t1'') demo3)))"
proof -
  have "\<not> isl (cancel_task demo_rt 250 (asc ''t1'') demo3)" by code_simp
  then have "cancel_task demo_rt 250 (asc ''t1'') demo3 =
      Inr (fst (projr (cancel_task demo_rt 250 (asc ''t1'') demo3)), snd (projr (cancel_task demo_rt 250 (asc ''t1'') demo3)))"
    by (cases "cancel_task demo_rt 250 (asc ''t1'') demo3") simp_all
  from cancel_ends_task_and_targets [OF _ this] demo3_ok show ?thesis by (simp add: sys_ok_def)
qed

end
