(* ===== verification/TaskProperties2.thy ===== *)
theory TaskProperties2
  imports TaskProperties
begin

text \<open>
  The contract of the executors (leases, fencing, results) and of the enqueue functions.
\<close>

section \<open>Leases\<close>

text \<open>A renewal succeeds exactly when the caller still owns a live lease by both clocks; then it only moves the
  expiry of that one task, otherwise it changes nothing.\<close>

theorem renewal_needs_live_lease:
  assumes "db_ok d" and "renew_lease now db_now i worker n d = Inr (d', b)"
  shows "(b \<longleftrightarrow> strip worker \<noteq> [] \<and> (\<exists>t. find_row t_id i (tasks d) = Some t \<and> renewable i (strip worker) now db_now t))
    \<and> (\<not> b \<longrightarrow> d' = d) \<and> targets d' = targets d
    \<and> (b \<longrightarrow> find_row t_id i (tasks d') =
         map_option (\<lambda>t. t\<lparr>t_lease_expires_at := Some (now + seconds n)\<rparr>) (find_row t_id i (tasks d)))
    \<and> (\<forall>j. j \<noteq> i \<longrightarrow> find_row t_id j (tasks d') = find_row t_id j (tasks d))"
proof (cases "strip worker = []")
  case False
  let ?p = "renewable i (strip worker) now db_now"
  let ?f = "\<lambda>t. t\<lparr>t_lease_expires_at := Some (now + seconds n)\<rparr>"
  have d': "d' = d\<lparr>tasks := upd_rows ?p ?f (tasks d)\<rparr>" and b: "b = list_ex ?p (tasks d)"
    using assms(2) False by (auto simp: renew_lease_def split: if_split_asm)
  have dist: "distinct (map t_id (tasks d))" using assms(1) by (simp add: db_ok_def)
  have bx: "b \<longleftrightarrow> (\<exists>t. find_row t_id i (tasks d) = Some t \<and> ?p t)"
  proof
    assume b
    then obtain t where t: "t \<in> set (tasks d)" "?p t" by (auto simp: b list_ex_iff)
    then have "t_id t = i" by (simp add: renewable_def)
    with find_row_mem [OF dist t(1)] t(2) show "\<exists>t. find_row t_id i (tasks d) = Some t \<and> ?p t" by auto
  next
    assume "\<exists>t. find_row t_id i (tasks d) = Some t \<and> ?p t"
    then show b using find_row_Some by (force simp: b list_ex_iff)
  qed
  have "\<not> b \<Longrightarrow> d' = d"
    by (simp add: d' b list_ex_iff upd_rows_id)
  moreover have "b \<Longrightarrow> find_row t_id i (tasks d') = map_option ?f (find_row t_id i (tasks d))"
    using bx unfolding d' by (auto simp: find_row_upd)
  moreover have "find_row t_id j (tasks d') = find_row t_id j (tasks d)" if "j \<noteq> i" for j
    using that by (simp add: d') (rule find_row_upd_other, auto simp: renewable_def)
  ultimately show ?thesis using False bx by (simp add: d')
qed (use assms(2) in \<open>auto simp: renew_lease_def\<close>)

lemma renewal_needs_live_lease_witness:
  "find_row t_id (asc ''t1'') (tasks (fst (projr (renew_lease 300 310 (asc ''t1'') (asc ''w'') 60 demo3))))
    = Some (demo_running\<lparr>t_lease_expires_at := Some (300 + seconds 60)\<rparr>)"
proof -
  have "renew_lease 300 310 (asc ''t1'') (asc ''w'') 60 demo3 =
      Inr (fst (projr (renew_lease 300 310 (asc ''t1'') (asc ''w'') 60 demo3)), True)" by code_simp
  moreover have "find_row t_id (asc ''t1'') (tasks demo3) = Some demo_running" by code_simp
  ultimately show ?thesis
    using renewal_needs_live_lease [of demo3 300 310 "asc ''t1''" "asc ''w''" 60] demo3_ok by (simp add: sys_ok_def)
qed



text \<open>C12. The result of an inspection is published once and atomically: the record, its error entry, the ended
  target and the refreshed counters of the task appear together, only for a running target under a lease
  that is live both when the transaction starts and when it commits.\<close>

theorem inspection_published_once:
  assumes "sys_ok d" and "persist_collection rt now now2 guard guard2 gid worker report rid d = Inr (d', oc)"
    and "\<not> oc_stale oc"
  shows "\<exists>t g kind. locked_task_target gid d = Some (t, g) \<and> g_status g = Running
    \<and> has_live_lease t worker now \<and> has_live_lease t worker now2 \<and> \<not> guard \<and> \<not> guard2
    \<and> record_spec (g_type g) = Inr kind
    \<and> find_row g_id gid (targets d') = Some (collected_target now kind rid (report t g) g)
    \<and> results d' = results d @ [inspection_record now kind rid (report t g) g]
    \<and> (\<forall>r \<in> set (results d). r_kind r = kind \<longrightarrow> r_id r \<noteq> rid \<and> r_target r \<noteq> gid)
    \<and> oc_status oc = run_status (rep_status (report t g)) \<and> oc_result_id oc = rid"
proof -
  from assms(2,3) obtain t g kind d1 where l: "locked_task_target gid d = Some (t, g)"
    and live: "has_live_lease t worker now" "has_live_lease t worker now2" "\<not> guard" "\<not> guard2"
    and run: "g_status g = Running" and k: "record_spec (g_type g) = Inr kind"
    and c: "create_result (inspection_record now kind rid (report t g) g) d = Inr d1"
    and s: "save_target rt w_target_result (collected_target now kind rid (report t g) g)
        (if rep_status (report t g) \<noteq> RSuccess \<or> rep_findings (report t g)
         then d1\<lparr>result_errors := result_errors d1 @ [rid]\<rparr> else d1) = Inr d'"
    and oc: "oc_status oc = run_status (rep_status (report t g))" "oc_result_id oc = rid"
    by (auto simp: persist_collection_def Let_def bindr_Inr_iff stale_outcome_def split: option.splits prod.splits if_split_asm)
  note rows = locked_task_target_Some [OF l]
  have gid: "g_id g = gid" using find_row_Some [OF rows(1)] by simp
  have d1: "d1 = d\<lparr>results := results d @ [inspection_record now kind rid (report t g) g]\<rparr>"
    and fresh: "\<forall>r \<in> set (results d). r_kind r = kind \<longrightarrow> r_id r \<noteq> rid \<and> r_target r \<noteq> gid"
    using c gid by (auto simp: create_result_def list_ex_iff inspection_record_def split: if_split_asm)
  let ?d2 = "if rep_status (report t g) \<noteq> RSuccess \<or> rep_findings (report t g)
         then d1\<lparr>result_errors := result_errors d1 @ [rid]\<rparr> else d1"
  have same: "tasks ?d2 = tasks d" "targets ?d2 = targets d" by (simp_all add: d1)
  have ok2: "db_ok ?d2" using assms(1) db_ok_cong [OF same] by (simp add: sys_ok_def)
  have "find_row g_id gid (targets d') = Some (collected_target now kind rid (report t g) g)"
    by (rule save_target_ok(2) [OF ok2 _ _ live_running [OF live(1)] running_unfinished [OF run] s])
      (simp_all only: same rows exec_writes exec_attempts gid order_refl)
  moreover have "results d' = results d @ [inspection_record now kind rid (report t g) g]"
    using save_target_results [OF s] by (simp add: d1)
  ultimately show ?thesis using l live run k fresh oc by blast
qed

lemma inspection_published_once_witness:
  "\<exists>t g kind. locked_task_target (asc ''g2'') demo_insp = Some (t, g) \<and> record_spec (g_type g) = Inr kind
    \<and> find_row g_id (asc ''g2'') (targets (fst (projr demo_insp_publish)))
      = Some (collected_target 300 kind (asc ''r1'') demo_report g)"
proof -
  have "map_sum id (\<lambda>x. oc_stale (snd x)) demo_insp_publish = Inr False" by code_simp
  then obtain x where x: "demo_insp_publish = Inr x" "\<not> oc_stale (snd x)" by (auto dest!: map_sum_Inr)
  then have "demo_insp_publish = Inr (fst (projr demo_insp_publish), snd (projr demo_insp_publish))"
    "\<not> oc_stale (snd (projr demo_insp_publish))" unfolding x(1) by simp_all
  from inspection_published_once [OF demo_insp_ok this(1) [unfolded demo_insp_publish_def] this(2) [unfolded demo_insp_publish_def]]
  show ?thesis unfolding demo_insp_publish_def by blast
qed



text \<open>A task is aggregated only by the worker that owns its live lease and only when all its targets have ended;
  its final status, counters and finish time are those of its targets at that moment.\<close>

theorem finish_aggregates_targets:
  assumes "db_ok d" and "finish_task rt now i worker d = Inr (d', t')"
  shows "(\<exists>t. find_row t_id i (tasks d) = Some t \<and> owns_live_lease (strip worker) now t)
    \<and> (\<forall>g \<in> set (targets_of i d). target_is_terminal g) \<and> targets d' = targets d
    \<and> find_row t_id i (tasks d') = Some t' \<and> t_status t' = final_status (targets_of i d)
    \<and> t_finished_at t' = Some now \<and> t_completed_targets t' = length (targets_of i d)
    \<and> t_successful_targets t' = length (filter (\<lambda>g. g_status g = Success) (targets_of i d))
    \<and> t_failed_targets t' = length (filter target_failed (targets_of i d))"
proof -
  from assms(2) obtain t where t: "find_row t_id i (tasks d) = Some t" "owns_live_lease (strip worker) now t"
    and f: "finish_locked rt now (ordered_targets i d) t d = Inr (d', t')"
    by (auto simp: finish_task_def split: if_splits option.splits)
  have run: "t_status t = Running" using t(2) by (simp add: owns_live_lease_def)
  have id: "t_id t = i" using find_row_Some [OF t(1)] by simp
  have ua: "unique_active (tasks d)" using assms(1) by (simp add: db_ok_def)
  note eff = finish_locked_effect [OF f run ua, unfolded id, OF t(1) refl]
  note ord = ordered_targets_facts(1,3,4) [OF assms(1), where i = i]
  have "final_status (ordered_targets i d) = final_status (targets_of i d)"
    unfolding final_status_def ord ..
  with t eff ord show ?thesis by simp
qed

lemma finish_aggregates_targets_witness: "t_status demo_finished = final_status (targets_of (asc ''t1'') demo4)"
proof -
  have "sys_ok demo4"
    using domain_sync_publish_ok [OF demo3_ok] map_sum_fst [OF demo_publish] by blast
  then show ?thesis using finish_aggregates_targets [OF _ demo_finish] by (simp add: sys_ok_def)
qed

text \<open>The status of an aggregation is a success only for an all-successful run, a failure only when no target
  succeeded even in part, and a partial success otherwise.\<close>

theorem final_status_spec:
  "(final_status gs = Success \<longleftrightarrow> (\<forall>g \<in> set gs. g_status g = Success))
    \<and> (final_status gs = Failed \<longleftrightarrow> gs \<noteq> [] \<and> (\<forall>g \<in> set gs. g_status g \<noteq> Success \<and> g_status g \<noteq> Partial))
    \<and> final_status gs \<in> {Success, Partial, Failed}"
proof -
  have "length (filter (\<lambda>g. g_status g = Success) gs) = 0 \<and> length (filter (\<lambda>g. g_status g = Partial) gs) = 0
      \<longleftrightarrow> (\<forall>g \<in> set gs. g_status g \<noteq> Success \<and> g_status g \<noteq> Partial)"
    by (auto simp: filter_empty_conv)
  moreover have "length (filter (\<lambda>g. g_status g = Success) gs) = length gs \<longleftrightarrow> (\<forall>g \<in> set gs. g_status g = Success)"
    by (rule filter_length_all)
  ultimately show ?thesis by (cases gs) (auto simp: final_status_def Let_def)
qed

lemma final_status_spec_witness: "final_status [demo_done] = Success \<longleftrightarrow> (\<forall>g \<in> {demo_done}. g_status g = Success)"
  using final_status_spec [of "[demo_done]"] by simp

end
