(* ===== verification/EnqueueProperties.thy ===== *)
theory EnqueueProperties
  imports TaskProperties2
begin

text \<open>
  What an accepted enqueue promises: canonical target identifiers, a complete waiting run, and no second
  active run of the same scope.
\<close>

section \<open>Target identifiers\<close>

lemma normalize_target_ids_Inr:
  "normalize_target_ids rt expected entries = Inr ids \<longleftrightarrow>
     (\<exists>raw. map_res (target_entry_id rt expected) entries = Inr raw \<and> raw \<noteq> [] \<and> [] \<notin> set raw \<and> distinct raw
        \<and> ids = sort raw \<and> sorted ids \<and> distinct ids \<and> set ids = set raw)"
  by (auto simp: normalize_target_ids_def bindr_Inr_iff)

lemma map_res_eq: "map_res f xs = Inr ys \<longleftrightarrow> (\<forall>x \<in> set xs. f x = Inr (projr (f x))) \<and> ys = map (\<lambda>x. projr (f x)) xs"
  by (induction xs arbitrary: ys) (auto simp: bindr_Inr_iff)

text \<open>The identifiers of an accepted request are not empty, not repeated and in ascending order. They do not
  depend on the order in which the caller lists the targets, and naming the targets by these identifiers
  gives the same identifiers again.\<close>

theorem normalize_target_ids_canonical:
  assumes "normalize_target_ids rt expected entries = Inr ids" and "mset entries' = mset entries"
  shows "ids \<noteq> [] \<and> [] \<notin> set ids \<and> distinct ids \<and> sorted ids \<and> normalize_target_ids rt expected entries' = Inr ids
    \<and> normalize_target_ids rt expected (map JStr ids) = Inr ids"
proof -
  let ?g = "\<lambda>x. projr (target_entry_id rt expected x)"
  from assms(1) obtain raw where r: "map_res (target_entry_id rt expected) entries = Inr raw" "raw \<noteq> []" "[] \<notin> set raw"
    "distinct raw" "ids = sort raw" unfolding normalize_target_ids_Inr by blast
  have s: "set entries' = set entries" using assms(2) by (rule mset_eq_setD)
  have m: "mset (map ?g entries') = mset raw" using r(1) assms(2) by (simp add: map_res_eq)
  then have d: "distinct (map ?g entries')" and ne: "map ?g entries' \<noteq> []" and e: "set (map ?g entries') = set raw"
    using r(2,4) mset_eq_imp_distinct_iff mset_eq_setD by (blast, force, blast)
  have "map_res (target_entry_id rt expected) entries' = Inr (map ?g entries')"
    using r(1) s by (simp add: map_res_eq)
  moreover have "sort (map ?g entries') = ids"
    using m r(5) by (metis mset_sort properties_for_sort sorted_sort)
  ultimately have "normalize_target_ids rt expected entries' = Inr ids"
    using d ne e r(3) unfolding normalize_target_ids_def by simp
  moreover have "normalize_target_ids rt expected (map JStr ids) = Inr ids"
  proof -
    have "map_res (target_entry_id rt expected) (map JStr ids) = Inr ids"
      by (simp add: map_res_eq target_entry_id_def comp_def py_str_def)
    then show ?thesis using r(2-5) unfolding normalize_target_ids_def by (simp add: sorted_sort_id sort_empty)
  qed
  ultimately show ?thesis using r(2-5) by (simp add: sort_empty)
qed

lemma normalize_target_ids_canonical_witness:
  "normalize_target_ids demo_rt (asc ''network_device'')
     [JStr (asc ''d1''), JObj [(asc ''id'', JStr (asc ''d2'')), (asc ''target_type'', JStr (asc ''network_device''))]]
   = Inr [asc ''d1'', asc ''d2'']"
proof -
  let ?a = "JStr (asc ''d1'')"
  let ?b = "JObj [(asc ''id'', JStr (asc ''d2'')), (asc ''target_type'', JStr (asc ''network_device''))]"
  have n: "normalize_target_ids demo_rt (asc ''network_device'') [?b, ?a] = Inr [asc ''d1'', asc ''d2'']"
    by code_simp
  have m: "mset [?a, ?b] = mset [?b, ?a]" by simp
  show ?thesis using normalize_target_ids_canonical [OF n m] by blast
qed

lemma validated_ids:
  assumes "validated_target_inputs rt to_pk assets pf cx entries items = Inr ts"
  shows "normalize_target_ids rt (target_type_value (cx_target_type cx)) entries = Inr (map fst ts)"
    and "x \<in> set ts \<Longrightarrow> map_of assets (fst x) = Some (snd x)" and "ts \<noteq> []" and "set items \<subseteq> set (cx_items cx)"
    and "pf_enabled pf"
proof -
  from assms obtain ids found where n: "normalize_target_ids rt (target_type_value (cx_target_type cx)) entries = Inr ids"
    and m: "map_res (\<lambda>i. if i \<in> set found then (case map_of assets i of Some s \<Rightarrow> Inr (i, s) | None \<Rightarrow> Inl LookupError)
                     else Inl LookupError) ids = Inr ts"
    and "set items \<subseteq> set (cx_items cx)" and "pf_enabled pf"
    unfolding validated_target_inputs_def bindr_Inr_iff
    by (auto simp: bindr_Inr_iff Let_def simp del: set_map set_filter set_remdups split: if_split_asm)
  then show "set items \<subseteq> set (cx_items cx)" and "pf_enabled pf" by blast+
  have l: "list_all2 (\<lambda>i x. x = (i, the (map_of assets i)) \<and> map_of assets i \<noteq> None) ids ts"
    using m unfolding map_res_Inr by (rule list_all2_mono) (auto split: if_split_asm option.split_asm)
  then have "ids = map fst ts" by (induction rule: list_all2_induct) auto
  then show "normalize_target_ids rt (target_type_value (cx_target_type cx)) entries = Inr (map fst ts)" using n by simp
  show "x \<in> set ts \<Longrightarrow> map_of assets (fst x) = Some (snd x)"
    using l by (induction rule: list_all2_induct) auto
  have "ids \<noteq> []" using n by (auto simp: normalize_target_ids_Inr)
  then show "ts \<noteq> []" using \<open>ids = map fst ts\<close> by auto
qed

section \<open>Accepted runs\<close>

lemma create_profile_run_rows:
  assumes ok: "sys_ok d" and e: "create_profile_run rt gid now pid t ty ts d = Inr (d', t')"
    and new: "t_status t = Queued" "t_attempt_count t = 0" "t_total_targets t = length ts" "ts \<noteq> []"
  shows "find_row t_id (t_id t) (tasks d') = Some t' \<and> (\<exists>k. t' = rekeyed t k)
    \<and> \<not> scope_active (t_scope_key t') d \<and> t_id t \<notin> t_id ` set (tasks d)
    \<and> targets_of (t_id t) d' = map (\<lambda>(k, i, s). new_target (gid k) now (t_id t) ty i (JObj s)) (enumerate 0 ts)"
proof -
  let ?gs = "\<lambda>t. map (\<lambda>(k, i, s). new_target (gid k) now (t_id t) ty i (JObj s)) (enumerate 0 ts)"
  from e [unfolded create_profile_run_def bindr_Inr_iff] obtain t1 where sc: "scoped rt pid t = Inr t1"
    and rest: "(if scope_active (t_scope_key t1) d then Inl (ValidationError [(''target_ids'', ''active_task'')])
       else bindr (validated (task_full_clean rt (tasks d) (schedule_of d t1) t1) t1) (\<lambda>t.
         let gs = ?gs t
         in bindr (foldr_res (\<lambda>g u. validated (validate_target_before_enqueue rt d (target_type_value ty) t g) u) gs ())
              (\<lambda>_. save_run rt [(''target_ids'', ''active_task'')] t gs d))) = Inr (d', t')"
    by blast
  from scoped_Inr [OF sc] obtain k where t1: "t1 = t\<lparr>t_scope_key := k, t_active_scope_key := Some k\<rparr>" ..
  from rest have "save_run rt [(''target_ids'', ''active_task'')] t1 (?gs t1) d = Inr (d', t')"
    by (simp split: if_split_asm add: bindr_Inr_iff Let_def)
  then have "bindr (insert_task rt t1 d) (\<lambda>(d, t). bindr (foldr_res (insert_target rt) (?gs t1) d) (\<lambda>d. Inr (d, t)))
      = Inr (d', t')"
    unfolding save_run_def by (auto split: sum.split_asm exc.split_asm if_split_asm)
  then obtain d1 where i: "insert_task rt t1 d = Inr (d1, t')"
    and g: "foldr_res (insert_target rt) (?gs t1) d1 = Inr d'"
    unfolding bindr_Inr_iff by (auto simp: bindr_Inr_iff)
  note ti = insert_task_Inr [OF i]
  obtain k' where k': "t' = rekeyed t1 k'" using ti(2) by blast
  have kt: "t' = rekeyed t k'" by (simp add: k' t1 rekeyed_def)
  have "\<not> scope_active (t_scope_key t') d"
  proof -
    have "t_active_scope_key t' = Some (t_scope_key t')" using new(1) by (simp add: kt rekeyed_def)
    moreover have "r \<in> set (tasks d) \<Longrightarrow> t_id r \<noteq> t_id t'" for r using ti(5) by (metis image_eqI)
    ultimately show ?thesis
      using ti(4) by (fastforce simp: scope_active_def task_unique_errs_def run_checks_Nil list_ex_iff)
  qed
  moreover have "sys_ok d' \<and> evolution d d' \<and> find_row t_id (t_id t1) (tasks d') = Some t' \<and> targets_of (t_id t1) d' = ?gs t1"
    by (rule insert_run_ok [OF ok i g])
      (use new in \<open>auto simp: t1 new_target_def dest: arg_cong [of _ _ length]\<close>)
  ultimately show ?thesis using kt ti(5) by (auto simp: t1)
qed

lemma target_ids_of_enumerate:
  "map g_target_id (map (\<lambda>(k, i, s). new_target (gid k) now t ty i (JObj s)) (enumerate n ts)) = map fst ts"
  by (induction ts arbitrary: n) (auto simp: new_target_def)

lemma kept_subseq: "map fst (kept_targets pf items ts) = filter (\<lambda>i. i \<in> fst ` set (kept_targets pf items ts)) (map fst ts)"
  if "distinct (map fst ts)"
proof (cases "pf_analysis pf")
  case False
  have "map fst (filter P xs) = filter (\<lambda>i. i \<in> fst ` set (filter P xs)) (map fst xs)" if "distinct (map fst xs)" for P xs
    using that
  proof (induction xs)
    case (Cons x xs)
    have "filter (\<lambda>i. i = fst x \<or> i \<in> A) (map fst xs) = filter (\<lambda>i. i \<in> A) (map fst xs)" for A
    proof (rule filter_cong [OF refl])
      fix i assume "i \<in> set (map fst xs)"
      then have "i \<noteq> fst x" using Cons.prems by (metis distinct.simps(2) list.simps(9))
      then show "(i = fst x \<or> i \<in> A) = (i \<in> A)" by simp
    qed
    moreover have "fst x \<notin> fst ` set (filter P xs)" using Cons.prems by auto
    ultimately show ?case using Cons by simp
  qed simp
  from this [OF that] False show ?thesis by (simp add: kept_targets_def)
qed (simp add: kept_targets_def filter_id_conv)

lemma enqueue_task_rows:
  assumes "sys_ok d" and "enqueue_task rt to_pk assets i gid now pf cx frozen roster entries source ov d = Inr (d', t')"
  shows "find_row t_id i (tasks d') = Some t' \<and> i \<notin> t_id ` set (tasks d) \<and> t_status t' = Queued
    \<and> t_attempt_count t' = 0 \<and> \<not> scope_active (t_scope_key t') d \<and> pf_enabled pf
    \<and> (\<forall>g \<in> set (targets_of i d'). g_status g = Queued \<and> g_type g = cx_target_type cx
         \<and> (\<exists>s. map_of assets (g_target_id g) = Some s \<and> g_snapshot g = JObj s))
    \<and> (\<exists>ids. normalize_target_ids rt (target_type_value (cx_target_type cx)) entries = Inr ids
         \<and> set (map g_target_id (targets_of i d')) \<subseteq> set ids)
    \<and> sorted (map g_target_id (targets_of i d')) \<and> distinct (map g_target_id (targets_of i d'))
    \<and> length (targets_of i d') = t_total_targets t' \<and> targets_of i d' \<noteq> []"
proof -
  from assms(2) obtain available params items ts where
    v: "validated_target_inputs rt to_pk assets pf cx entries items = Inr ts"
    and c: "create_from_targets rt i gid now pf cx frozen roster source (ov_schedule ov) available params items ts d = Inr (d', t')"
    unfolding enqueue_task_def bindr_Inr_iff
    by (auto simp: bindr_Inr_iff split: if_split_asm dest!: object_case_Inr option_case_Inr)
  note vi = validated_ids [OF v]
  obtain items' snap params' where ne: "kept_targets pf items' ts \<noteq> []"
    and r: "create_profile_run rt gid now (pf_id pf)
        (profile_task i now pf source available (ov_schedule ov) (cx_target_type cx) snap params'
           items' (map fst (kept_targets pf items' ts)) roster) (cx_target_type cx) (kept_targets pf items' ts) d = Inr (d', t')"
    using c unfolding create_from_targets_def Let_def by (meson Inl_Inr_False)
  let ?kept = "kept_targets pf items' ts"
  have rows: "find_row t_id i (tasks d') = Some t' \<and> (\<exists>k. t' = rekeyed (profile_task i now pf source available (ov_schedule ov)
        (cx_target_type cx) snap params' items' (map fst ?kept) roster) k)
    \<and> \<not> scope_active (t_scope_key t') d \<and> i \<notin> t_id ` set (tasks d)
    \<and> targets_of i d' = map (\<lambda>(k, j, s). new_target (gid k) now i (cx_target_type cx) j (JObj s)) (enumerate 0 ?kept)"
    using create_profile_run_rows [OF assms(1) r _ _ _ ne] by (simp add: profile_task_def)
  have ids: "map g_target_id (targets_of i d') = map fst ?kept"
    using rows target_ids_of_enumerate [of gid now i "cx_target_type cx" 0 ?kept] by simp
  from vi(1) have sd: "sorted (map fst ts)" "distinct (map fst ts)" by (auto simp: normalize_target_ids_Inr)
  have "sorted (map fst ?kept)" "distinct (map fst ?kept)"
    unfolding kept_subseq [OF sd(2)] using sd by (auto intro: sorted_wrt_filter)
  moreover have "set ?kept \<subseteq> set ts" by (auto simp: kept_targets_def)
  moreover have "\<forall>g \<in> set (targets_of i d'). g_status g = Queued \<and> g_type g = cx_target_type cx
         \<and> (\<exists>s. map_of assets (g_target_id g) = Some s \<and> g_snapshot g = JObj s)"
  proof
    fix g assume "g \<in> set (targets_of i d')"
    then obtain k j s where g: "g = new_target (gid k) now i (cx_target_type cx) j (JObj s)" and "(j, s) \<in> set ?kept"
      using rows by (auto simp: in_set_enumerate_eq) (metis nth_mem prod.collapse)
    then have "map_of assets j = Some s" using vi(2) \<open>set ?kept \<subseteq> set ts\<close> by fastforce
    then show "g_status g = Queued \<and> g_type g = cx_target_type cx
         \<and> (\<exists>s. map_of assets (g_target_id g) = Some s \<and> g_snapshot g = JObj s)" by (simp add: g new_target_def)
  qed
  moreover obtain k where "t' = rekeyed (profile_task i now pf source available (ov_schedule ov)
        (cx_target_type cx) snap params' items' (map fst ?kept) roster) k" using rows by blast
  then have "t_status t' = Queued" "t_attempt_count t' = 0" "t_total_targets t' = length ?kept"
    by (simp_all add: profile_task_def rekeyed_def)
  moreover have "length (targets_of i d') = length ?kept" using arg_cong [OF ids, of length] by simp
  moreover have "set (map g_target_id (targets_of i d')) \<subseteq> set (map fst ts)"
    unfolding ids using \<open>set ?kept \<subseteq> set ts\<close> by auto
  moreover have "targets_of i d' \<noteq> []" using ids ne by auto
  moreover have "fst ` set ?kept \<subseteq> fst ` set ts" using \<open>set ?kept \<subseteq> set ts\<close> by (rule image_mono)
  ultimately show ?thesis using rows vi(1,5) ids by simp
qed



definition demo_profile :: profile where
  "demo_profile = \<lparr>pf_id = asc ''p'', pf_analysis = False, pf_enabled = True, pf_errors = []\<rparr>"

definition demo_context :: context_of where
  "demo_context = \<lparr>cx_target_type = TServer, cx_items = [JStr (asc ''cpu''), JStr (asc ''logs'')],
     cx_snapshot = [(asc ''device_type'', JStr (asc ''server''))]\<rparr>"

definition demo_overrides :: overrides where
  "demo_overrides = \<lparr>ov_selected_items = None, ov_parameters = None, ov_available_at = None, ov_schedule = None, ov_other = []\<rparr>"

definition demo_assets :: "(ustring \<times> (ustring \<times> json) list) list" where
  "demo_assets = [(asc ''s1'', [(asc ''name'', JStr (asc ''a''))]), (asc ''s2'', [(asc ''name'', JStr (asc ''b''))])]"

definition demo_enqueued :: "(db \<times> task) res" where
  "demo_enqueued = enqueue_task demo_rt Some demo_assets (asc ''t3'') (\<lambda>k. [k]) 100 demo_profile demo_context False JNull
     [JStr (asc ''s2''), JStr (asc ''s1'')] Manual demo_overrides demo0"


section \<open>Analyses\<close>

lemma log_snapshot_computer: "jget ''computer_id'' (JObj (log_snapshot rt r)) = Some (JStr (lf_computer r))"
proof -
  have "asc ''computer_id'' \<noteq> asc ''id''" by code_simp
  then show ?thesis by (simp add: jget_def log_snapshot_def)
qed

lemma map_of_log_assets: "map_of (log_assets rt logs) x = Some s \<Longrightarrow> \<exists>r \<in> set logs. lf_id r = x \<and> s = log_snapshot rt r"
  by (drule map_of_SomeD) (auto simp: log_assets_def)


definition demo_logs :: "log_file list" where
  "demo_logs = [\<lparr>lf_id = asc ''l1'', lf_computer = asc ''c1'', lf_retained = True, lf_collected_at = 5, lf_hash = []\<rparr>,
     \<lparr>lf_id = asc ''l2'', lf_computer = asc ''c1'', lf_retained = True, lf_collected_at = 9, lf_hash = []\<rparr>]"

definition demo_analysis_context :: context_of where
  "demo_analysis_context = \<lparr>cx_target_type = TComputerLog, cx_items = [JStr (asc ''disk'')], cx_snapshot = []\<rparr>"

definition demo_analysis :: "(db \<times> task) res" where
  "demo_analysis = enqueue_analysis demo_rt Some demo_logs (asc ''t4'') (\<lambda>k. [k]) 100 (demo_profile\<lparr>pf_analysis := True\<rparr>)
     demo_analysis_context False (JList []) [JStr (asc ''l1'')] Manual demo_overrides demo0"


end
