(* ===== verification/ScheduleProperties.thy ===== *)
theory ScheduleProperties
  imports EnqueueProperties
begin

text \<open>
  What the scheduler promises: the first occurrence after an instant, one task per due plan and poll, and a
  failed plan that stays due.
\<close>

section \<open>Occurrences\<close>

text \<open>C22. The next run of a stored plan is its first occurrence strictly after the given instant: the instant plus
  the interval, or the first instant at which the local clock shows the daily time, at most a day later
  and with no other such instant in between. A stored plan never fails to have one.\<close>

theorem next_run_is_first_occurrence:
  assumes "schedule_ok s"
  shows "\<exists>n. next_run_at s after = Inr n \<and> after < n \<and>
    (case s_kind s of
       Interval \<Rightarrow> \<exists>v. s_interval_value s = Some v \<and> n = after + int v * unit_us (s_interval_unit s)
     | Daily \<Rightarrow> s_daily_time s = Some (local_time n) \<and> n \<le> after + day_us
         \<and> (\<forall>u. after < u \<and> u < n \<longrightarrow> s_daily_time s \<noteq> Some (local_time u)))"
proof (cases "s_kind s")
  case Interval
  obtain n where n: "next_run_at s after = Inr n" "after < n" using next_run_at_ok [OF assms] by blast
  with Interval show ?thesis by (auto simp: next_run_at_def split: option.split_asm if_split_asm)
next
  case Daily
  with assms obtain m where m: "s_daily_time s = Some m" "time_of_day m"
    by (auto simp: schedule_ok_def schedule_kind_fields_ck_def)
  let ?n = "shanghai.first_after m after"
  have r: "next_run_at s after = Inr ?n" by (rule next_run_daily [OF Daily m(1)])
  have lt: "after < ?n" by (rule shanghai.first_after_strict [OF m(2)])
  have tod: "local_time ?n = m" by (rule shanghai.first_after_tod [OF m(2)])
  have none: "local_time u \<noteq> m" if "after < u" "u < ?n" for u
  proof
    assume "local_time u = m"
    then have "?n \<le> u" by (rule shanghai.no_occurrence_before [OF m(2) that(1)])
    then show False using that(2) by simp
  qed
  have le: "?n \<le> after + day_us"
  proof (rule ccontr)
    let ?u = "?n - day_us"
    have "local_time ?u = m" using tod by (simp add: local_time_def mod_diff_eq) (metis add_diff_eq diff_add_eq minus_mod_self2)
    moreover assume "\<not> ?n \<le> after + day_us"
    ultimately show False using none [of ?u] by (simp add: day_us_def)
  qed
  show ?thesis using Daily r lt tod none le m(1) by auto
qed

definition demo_daily :: schedule where
  "demo_daily = \<lparr>s_id = asc ''s1'', s_inspection_profile = None, s_analysis_profile = None, s_people_source = None,
     s_domain_config = Some (asc ''1''), s_kind = Daily, s_interval_value = None, s_interval_unit = NoUnit,
     s_daily_time = Some 7200000000, s_is_enabled = True, s_next_run_at = None, s_last_enqueued_at = None,
     s_last_attempt_at = None, s_last_status = [], s_last_error = [], s_created_at = 0, s_updated_at = 0\<rparr>"

lemma demo_daily_ok: "schedule_ok demo_daily"
  by (simp add: schedule_ok_def schedule_kind_fields_ck_def demo_daily_def time_of_day_def day_us_def)

lemma next_run_is_first_occurrence_witness:
  "\<exists>n. next_run_at demo_daily 100 = Inr n \<and> 100 < n \<and> local_time n = 7200000000"
  using next_run_is_first_occurrence [OF demo_daily_ok, of 100] by (auto simp: demo_daily_def)

section \<open>Accepted polls\<close>

lemma single_run_row:
  assumes "single_run rt gid now t ty tid snap d = Inr (d', t')" shows "\<exists>k. t' = rekeyed t k"
  using assms unfolding single_run_def Let_def
  by (auto simp: bindr_Inr_iff dest: insert_task_Inr(2))

lemma profile_run_row:
  assumes ok: "sys_ok d"
    and e: "enqueue_task rt to_pk assets i gid now pf cx frozen roster entries source ov d = Inr (d', t')"
  shows "t_schedule t' = ov_schedule ov \<and> t_source t' = source \<and> t_status t' = Queued
    \<and> t_available_at t' = (case ov_available_at ov of Some (Some a) \<Rightarrow> a | _ \<Rightarrow> now)"
proof -
  from e obtain available params items ts where
    c: "create_from_targets rt i gid now pf cx frozen roster source (ov_schedule ov) available params items ts d = Inr (d', t')"
    and a: "(case ov_available_at ov of None \<Rightarrow> Some now | Some a \<Rightarrow> a) = Some available"
    unfolding enqueue_task_def bindr_Inr_iff
    by (auto simp: bindr_Inr_iff split: if_split_asm dest!: object_case_Inr option_case_Inr)
  then obtain snap params' items' kept where ne: "kept \<noteq> []"
    and r: "create_profile_run rt gid now (pf_id pf)
        (profile_task i now pf source available (ov_schedule ov) (cx_target_type cx) snap params'
           items' (map fst kept) roster) (cx_target_type cx) kept d = Inr (d', t')"
    unfolding create_from_targets_def Let_def by (meson Inl_Inr_False)
  obtain k where "t' = rekeyed (profile_task i now pf source available (ov_schedule ov) (cx_target_type cx) snap params'
           items' (map fst kept) roster) k"
    using create_profile_run_rows [OF ok r _ _ _ ne] by (auto simp: profile_task_def)
  then show ?thesis using a
    by (auto simp: rekeyed_def profile_task_def new_task_def simp del: status_sets split: option.splits)
qed

lemma schedule_task_row:
  assumes ok: "sys_ok d" and e: "schedule_task rt rg i gid now s d = Inr (d', t)"
  shows "t_schedule t = Some (s_id s) \<and> t_source t = Scheduled \<and> t_status t = Queued \<and> t_available_at t = now"
  using e
proof (cases rule: schedule_task_cases)
  case (domain)
  then obtain c t1 where "scoped rt (asc ''None'') (domain_sync_task rt i now now (Some s) c) = Inr t1"
    and "\<exists>k. t = rekeyed t1 k"
    by (auto simp: enqueue_domain_sync_def bindr_Inr_iff dest!: single_run_row split: option.split_asm if_split_asm)
  then show ?thesis
    by (auto dest!: scoped_Inr simp: rekeyed_def domain_sync_task_def new_task_def simp del: status_sets)
next
  case (people key pub es)
  then obtain p sched t1 where "scoped rt (ps_id p) (people_sync_task i now now sched p pub) = Inr t1"
    and "\<exists>k. t = rekeyed t1 k" and "find_row s_id (s_id s) (schedules d) = Some sched"
    by (auto simp: enqueue_people_sync_task_def integrity_to_Inr bindr_Inr_iff dest!: single_run_row
        split: option.splits if_split_asm)
  then show ?thesis
    by (auto dest!: scoped_Inr find_row_Some simp: rekeyed_def people_sync_task_def new_task_def simp del: status_sets)
next
  case (analysis pf cx)
  then show ?thesis
    by (auto elim!: enqueue_analysis_task dest!: profile_run_row [OF ok] simp: scheduled_overrides_def)
next
  case (inspection pf cx sel ids)
  then show ?thesis by (auto dest!: profile_run_row [OF ok] simp: scheduled_overrides_def)
qed

text \<open>C23. A poll that enqueues a plan stores exactly one new task: waiting, bound to the plan, available at the time of
  the poll; the plan's next run moves to its first occurrence after the poll, so that polling the plan
  again before that occurrence does nothing.\<close>

theorem poll_enqueues_once:
  assumes "sys_ok d" and "poll_schedule rt rg i gid now sid d = Inr (d', Some t)"
    and "\<forall>s \<in> set (schedules d). schedule_ok s"
  shows "find_row t_id i (tasks d') = Some t \<and> t_schedule t = Some sid \<and> t_source t = Scheduled
    \<and> t_status t = Queued \<and> t_available_at t = now
    \<and> (\<exists>s n. find_row s_id sid (schedules d) = Some s \<and> next_run_at s now = Inr n \<and> now < n
        \<and> find_row s_id sid (schedules d') = Some (enqueued_schedule now n s)
        \<and> (\<forall>u < n. poll_schedule rt rg i' gid' u sid d' = Inr (d', None)))"
proof -
  from assms(2) obtain s e n where s: "find_row s_id sid (schedules d) = Some s" "s_is_enabled s" "is_due s now"
    and t: "schedule_task rt rg i gid now s d = Inr (e, t)" and n: "next_run_at s now = Inr n"
    and d': "d' = e\<lparr>schedules := upd_row s_id sid (enqueued_schedule now n) (schedules d)\<rparr>"
    by (rule poll_schedule_Some)
  have sid: "s_id s = sid" "s \<in> set (schedules d)" using find_row_Some [OF s(1)] by simp_all
  have nn: "now < n" using next_run_at_ok [of s now] n assms(3) sid(2) by auto
  have r: "find_row s_id sid (schedules d') = Some (enqueued_schedule now n s)"
    using s(1) sid by (simp add: d' find_row_upd enqueued_schedule_def)
  have "poll_schedule rt rg i' gid' u sid d' = Inr (d', None)" if "u < n" for u
    using that by (intro poll_schedule_not_due [OF r]) (simp add: is_due_def enqueued_schedule_def)
  then show ?thesis
    using schedule_task_ok [OF assms(1) t] schedule_task_row [OF assms(1) t] sid s(1) n nn r by (auto simp: d')
qed

definition demo_registry :: registry where
  "demo_registry = \<lparr>rg_inspection = (\<lambda>_. None), rg_analysis = (\<lambda>_. None), rg_assets = (\<lambda>_. []), rg_logs = [],
     rg_roster = JNull, rg_to_pk = (\<lambda>_ i. Some i), rg_fields = (\<lambda>_. []), rg_clean = (\<lambda>_ _ _. None),
     rg_matches = (\<lambda>_ _ _ _. False), rg_people = (\<lambda>_. ([], JNull, [])), rg_domain = Some demo_config,
     rg_message = (\<lambda>_ _. asc ''m'')\<rparr>"

definition demo_planned :: db where "demo_planned = demo0\<lparr>schedules := [demo_daily]\<rparr>"

definition demo_polled :: "(db \<times> task option) res" where
  "demo_polled = poll_schedule demo_rt demo_registry (asc ''t1'') (\<lambda>_. asc ''g1'') 100 (asc ''s1'') demo_planned"

lemma demo_planned_ok: "sys_ok demo_planned" "\<forall>s \<in> set (schedules demo_planned). schedule_ok s"
  using initial_ok [OF demo0_initial] demo_daily_ok by (simp_all add: demo_planned_def)

lemma demo_polled_Some: "map_sum id (\<lambda>x. snd x \<noteq> None) demo_polled = Inr True"
  by code_simp

lemma poll_enqueues_once_witness:
  "\<exists>d' t. demo_polled = Inr (d', Some t) \<and> t_status t = Queued \<and> poll_schedule demo_rt demo_registry [] (\<lambda>_. []) 100 (asc ''s1'') d' = Inr (d', None)"
proof -
  obtain d' t where p: "demo_polled = Inr (d', Some t)"
    using map_sum_Inr [OF demo_polled_Some] by auto
  from poll_enqueues_once [OF demo_planned_ok(1) p [unfolded demo_polled_def] demo_planned_ok(2), of "[]" "\<lambda>_. []"] p
  show ?thesis by blast
qed

section \<open>A whole poll\<close>

text \<open>What one iteration, accepted or failed, does to the rows of the plans.\<close>

definition plan_attempted :: "time \<Rightarrow> schedule \<Rightarrow> schedule \<Rightarrow> bool" where
  "plan_attempted now s s' \<longleftrightarrow> (\<exists>a. s_last_attempt_at s' = Some a \<and> now \<le> a)
     \<and> (s_next_run_at s' = s_next_run_at s \<or> (\<exists>n. next_run_at s now = Inr n \<and> s_next_run_at s' = Some n))"

lemma poll_rows:
  assumes "poll_schedule rt rg i gid now sid d = Inr (d', r)"
  shows "j \<noteq> sid \<Longrightarrow> find_row s_id j (schedules d') = find_row s_id j (schedules d)"
    and "find_row s_id sid (schedules d) = Some s \<Longrightarrow> s_is_enabled s \<Longrightarrow> is_due s now \<Longrightarrow>
         \<exists>s'. find_row s_id sid (schedules d') = Some s' \<and> plan_attempted now s s'"
    and "r = Some t \<Longrightarrow> sys_ok d \<Longrightarrow> t_schedule t = Some sid"
proof -
  have some: "\<exists>e s n. find_row s_id sid (schedules d) = Some s \<and> schedule_task rt rg i gid now s d = Inr (e, t) \<and> next_run_at s now = Inr n
      \<and> schedules d' = upd_row s_id sid (enqueued_schedule now n) (schedules d)" if "r = Some t" for t
    using assms unfolding that by (elim poll_schedule_Some) auto
  have none: "d' = d" if "r = None" using assms unfolding that
    by (auto simp: poll_schedule_def bindr_Inr_iff split: option.split_asm if_split_asm)
  show "find_row s_id j (schedules d') = find_row s_id j (schedules d)" if "j \<noteq> sid"
  proof (cases r)
    case (Some t)
    have "map_option (\<lambda>r. if s_id r = sid then f r else r) (find_row s_id j rows) = find_row s_id j rows" for f rows
      using that by (cases "find_row s_id j rows") (auto dest: find_row_Some)
    then show ?thesis using some [OF Some] by (auto simp: find_row_upd enqueued_schedule_def)
  qed (use none in simp)
  show "\<exists>s'. find_row s_id sid (schedules d') = Some s' \<and> plan_attempted now s s'"
    if "find_row s_id sid (schedules d) = Some s" "s_is_enabled s" "is_due s now"
  proof (cases r)
    case None
    then show ?thesis using assms that by (auto simp: poll_schedule_def bindr_Inr_iff)
  next
    case (Some t)
    then show ?thesis using some [OF Some] that find_row_Some [OF that(1)]
      by (auto simp: find_row_upd enqueued_schedule_def plan_attempted_def)
  qed
  show "r = Some t \<Longrightarrow> sys_ok d \<Longrightarrow> t_schedule t = Some sid"
    using some [of t] schedule_task_row by (auto dest: find_row_Some)
qed

lemma failure_rows:
  assumes "find_row s_id sid (schedules d) = Some s"
  shows "j \<noteq> sid \<Longrightarrow> find_row s_id j (schedules (record_schedule_failure rt rg now s es d)) = find_row s_id j (schedules d)"
    and "is_due s now \<Longrightarrow> \<exists>s'. find_row s_id sid (schedules (record_schedule_failure rt rg now s es d)) = Some s'
      \<and> plan_attempted now s s'"
proof -
  have sid: "s_id s = sid" using find_row_Some [OF assms] by simp
  let ?f = "failed_schedule (has_active_scope rt rg s d) (take 500 (strip (rg_message rg s es))) now"
  have rows: "find_row s_id k (schedules (record_schedule_failure rt rg now s es d))
      = map_option (\<lambda>r. if failure_current sid now r then ?f r else r) (find_row s_id k (schedules d))" for k
    unfolding sid [symmetric] by (simp add: record_schedule_failure_def find_row_upd failed_schedule_def)
  show "find_row s_id j (schedules (record_schedule_failure rt rg now s es d)) = find_row s_id j (schedules d)" if "j \<noteq> sid"
    unfolding rows using that by (cases "find_row s_id j (schedules d)") (auto dest: find_row_Some simp: failure_current_def)
  show "\<exists>s'. find_row s_id sid (schedules (record_schedule_failure rt rg now s es d)) = Some s' \<and> plan_attempted now s s'"
    if "is_due s now"
    unfolding rows using assms sid that
    by (auto simp: failure_current_def plan_attempted_def failed_schedule_def split: option.splits)
qed

lemma poll_loop_rows:
  assumes "poll_loop rt rg i gid now sids acc d = (d', Inr ts)" and "distinct sids" and "sys_ok d"
  shows "(\<forall>j. j \<notin> set sids \<longrightarrow> find_row s_id j (schedules d') = find_row s_id j (schedules d))
    \<and> (\<forall>j s. j \<in> set sids \<longrightarrow> find_row s_id j (schedules d) = Some s \<longrightarrow> s_is_enabled s \<longrightarrow> is_due s now \<longrightarrow>
         (\<exists>s'. find_row s_id j (schedules d') = Some s' \<and> plan_attempted now s s'))
    \<and> (\<exists>new. ts = acc @ new \<and> set (map t_schedule new) \<subseteq> Some ` set sids \<and> distinct (map t_schedule new))"
  using assms
proof (induction sids arbitrary: acc d)
  case (Cons sid sids)
  let ?p = "poll_schedule rt rg (i sid) (gid sid) now sid d"
  let ?effect = "\<lambda>e. (\<forall>j. j \<noteq> sid \<longrightarrow> find_row s_id j (schedules e) = find_row s_id j (schedules d))
      \<and> (\<forall>s. find_row s_id sid (schedules d) = Some s \<longrightarrow> s_is_enabled s \<longrightarrow> is_due s now \<longrightarrow>
           (\<exists>s'. find_row s_id sid (schedules e) = Some s' \<and> plan_attempted now s s'))"
  obtain e new where step: "?effect e" and oke: "sys_ok e" and
    rest: "poll_loop rt rg i gid now sids (acc @ new) e = (d', Inr ts)" and
    new: "set (map t_schedule new) \<subseteq> {Some sid}" "length new \<le> 1"
  proof (cases ?p)
    case (Inl x)
    with Cons.prems(1) obtain es s where "x = ValidationError es" and s: "find_row s_id sid (schedules d) = Some s"
      and r: "poll_loop rt rg i gid now sids acc (record_schedule_failure rt rg now s es d) = (d', Inr ts)"
      by (auto split: exc.split_asm option.split_asm)
    show ?thesis
      by (rule that [of "record_schedule_failure rt rg now s es d" "[]"])
        (use failure_rows [OF s] s r record_schedule_failure_ok [OF Cons.prems(3)] in auto)
  next
    case (Inr x)
    then obtain e r where x: "?p = Inr (e, r)" by (cases x) auto
    have oke: "sys_ok e" using poll_schedule_ok [OF Cons.prems(3) x] by blast
    show ?thesis
      by (rule that [of e "case r of None \<Rightarrow> [] | Some t \<Rightarrow> [t]"])
        (use Cons.prems(1,3) x poll_rows [OF x] oke in \<open>auto split: option.splits\<close>)
  qed
  have d: "distinct sids" "sid \<notin> set sids" using Cons.prems(2) by simp_all
  note IH = Cons.IH [OF rest d(1) oke]
  have "\<exists>s'. find_row s_id j (schedules d') = Some s' \<and> plan_attempted now s s'"
    if j: "j \<in> set (sid # sids)" "find_row s_id j (schedules d) = Some s" "s_is_enabled s" "is_due s now" for j s
  proof (cases "j = sid")
    case True
    with d(2) IH have "find_row s_id j (schedules d') = find_row s_id j (schedules e)" by simp
    then show ?thesis using step j True by simp
  next
    case False
    then show ?thesis using IH step j by simp
  qed
  moreover obtain new' where n': "ts = (acc @ new) @ new'" "set (map t_schedule new') \<subseteq> Some ` set sids"
    "distinct (map t_schedule new')" using IH by blast
  have "distinct (map t_schedule (new @ new'))"
    using n'(2,3) new d(2) by (cases new) auto
  then have "\<exists>new. ts = acc @ new \<and> set (map t_schedule new) \<subseteq> Some ` set (sid # sids) \<and> distinct (map t_schedule new)"
    using n' new(1) by (intro exI [of _ "new @ new'"]) auto
  ultimately show ?case using IH step by auto
qed simp_all

text \<open>C24. A poll that is not cut short attempts every enabled plan that was due, and only those: such a plan gets an
  attempt time and either its next occurrence or, when it failed, the occurrence it had; the other plans
  are not written; each of the returned tasks belongs to another due plan.\<close>

theorem every_due_plan_is_attempted_once:
  assumes "sys_ok d" and "distinct (map s_id (schedules d))"
    and "enqueue_due_schedules rt rg i gid now d = (d', Inr ts)"
  shows "(\<forall>s \<in> set (schedules d). if s_is_enabled s \<and> is_due s now
        then \<exists>s'. find_row s_id (s_id s) (schedules d') = Some s' \<and> plan_attempted now s s'
        else find_row s_id (s_id s) (schedules d') = Some s)
    \<and> distinct (map t_schedule ts)
    \<and> set (map t_schedule ts) \<subseteq> (\<lambda>s. Some (s_id s)) ` {s \<in> set (schedules d). s_is_enabled s \<and> is_due s now}"
proof -
  let ?due = "filter (\<lambda>s. s_is_enabled s \<and> is_due s now) (schedules d)"
  have set: "set (due_schedules now d) = s_id ` set ?due" by (auto simp: due_schedules_def)
  have "mset (due_schedules now d) = mset (map s_id ?due)" by (simp add: due_schedules_def)
  moreover have "distinct (map s_id ?due)" using assms(2) by (rule distinct_map_filter)
  ultimately have dist: "distinct (due_schedules now d)" by (metis mset_eq_imp_distinct_iff)
  note loop = poll_loop_rows [OF assms(3) [unfolded enqueue_due_schedules_def] dist assms(1)]
  have "if s_is_enabled s \<and> is_due s now
        then \<exists>s'. find_row s_id (s_id s) (schedules d') = Some s' \<and> plan_attempted now s s'
        else find_row s_id (s_id s) (schedules d') = Some s" if s: "s \<in> set (schedules d)" for s
  proof (cases "s_is_enabled s \<and> is_due s now")
    case True
    then have "s_id s \<in> set (due_schedules now d)" using s set by auto
    then show ?thesis using loop True find_row_mem [OF assms(2) s] by simp
  next
    case False
    then have "s_id s \<notin> set (due_schedules now d)"
      unfolding set using s assms(2) by (auto simp: distinct_map dest: inj_onD)
    then show ?thesis using loop False find_row_mem [OF assms(2) s] by auto
  qed
  moreover have "(\<lambda>s. Some (s_id s)) ` {s \<in> set (schedules d). s_is_enabled s \<and> is_due s now} = Some ` set (due_schedules now d)"
    unfolding set by auto
  ultimately show ?thesis using loop by auto
qed

definition demo_poll_all :: "db \<times> task list res" where
  "demo_poll_all = enqueue_due_schedules demo_rt demo_registry (\<lambda>_. asc ''t1'') (\<lambda>_ _. asc ''g1'') 100 demo_planned"

lemma demo_poll_all_Inr: "map_sum id length (snd demo_poll_all) = Inr 1"
  by code_simp

lemma every_due_plan_is_attempted_once_witness:
  "\<exists>d' ts s'. demo_poll_all = (d', Inr ts) \<and> distinct (map t_schedule ts) \<and> find_row s_id (asc ''s1'') (schedules d') = Some s'
     \<and> plan_attempted 100 demo_daily s'"
proof -
  obtain d' ts where p: "demo_poll_all = (d', Inr ts)"
    using map_sum_Inr [OF demo_poll_all_Inr] prod.collapse by metis
  have "distinct (map s_id (schedules demo_planned))" by (simp add: demo_planned_def)
  from every_due_plan_is_attempted_once [OF demo_planned_ok(1) this p [unfolded demo_poll_all_def]]
  show ?thesis using p by (simp add: demo_planned_def demo_daily_def is_due_def) blast
qed

end
