(* ===== verification/DeviceIssues.thy ===== *)
theory DeviceIssues
  imports TaskModel
begin

text \<open>
  The evaluation of collected evidence: \<open>net/devices/pc/severity.py\<close> (\<open>grade_issue\<close>), the rule tables of
  \<open>net/inspections/issues.py\<close>, the item to field mapping of \<open>net/inspections/selection.py\<close> and
  \<open>net/inspections/device_issues.py\<close> (\<open>evaluate_device_issues\<close>). A float is its exact rational value.
\<close>

section \<open>Rules\<close>

datatype project = Computers | Networks | Servers | Weakcurrent

text \<open>A rule: its item, the category and the label of its problems.\<close>

type_synonym rules = "(ustring \<times> ustring \<times> ustring) list"

definition rules_table :: rules where
  "rules_table =
    [(asc ''software'', [36719, 20214], [36719, 20214, 31574, 30053]), (asc ''processes'', [36719, 20214], [36827, 31243, 20449, 24687]),
     (asc ''browser_extensions'', [36719, 20214], [27983, 35272, 22120, 25554, 20214]), (asc ''disk'', [30828, 20214], [30913, 30424, 31354, 38388]),
     (asc ''cpu_health'', [30828, 20214], [67, 80, 85, 32, 28201, 24230, 47, 39057, 29575]), (asc ''resource'', [30828, 20214], [36164, 28304, 21344, 29992]),
     (asc ''system'', [25805, 20316, 31995, 32479], [31995, 32479, 29256, 26412]), (asc ''activation'', [25805, 20316, 31995, 32479], [31995, 32479, 28608, 27963]),
     (asc ''uptime'', [25805, 20316, 31995, 32479], [36830, 32493, 24320, 26426, 26102, 38388]), (asc ''patches'', [31995, 32479, 26356, 26032], [31995, 32479, 34917, 19969]),
     (asc ''defender'', [26432, 27602], [68, 101, 102, 101, 110, 100, 101, 114, 32, 29366, 24577]), (asc ''bitlocker'', [30913, 30424, 21152, 23494], [66, 105, 116, 76, 111, 99, 107, 101, 114, 32, 29366, 24577]),
     (asc ''identity_match'', [20154, 21592, 36523, 20221], [35745, 31639, 26426, 19982, 30331, 24405, 29992, 25143]), (asc ''domain_trust'', [22495, 19982, 32452, 31574, 30053], [22495, 20449, 20219]),
     (asc ''group_policy'', [22495, 19982, 32452, 31574, 30053], [32452, 31574, 30053]), (asc ''event_findings'', [31995, 32479, 20107, 20214], [20107, 20214, 26085, 24535]),
     (asc ''inspection_collection'', [37319, 38598, 36830, 25509], [35774, 22791, 24033, 26816, 37319, 38598])]"

definition plain_rules :: "(string \<times> ustring) list \<Rightarrow> rules" where
  "plain_rules xs = map (\<lambda>(k, l). (asc k, l, l)) xs"

text \<open>The projects; the items of \<open>NETWORK_FUNCTION_ITEMS\<close> are added to the network rules.\<close>

definition network_function_items :: "(string \<times> ustring) list" where
  "network_function_items = [(''routing_table'', [73, 80, 118, 52, 32, 36335, 30001, 34920]), (''arp_table'', [65, 82, 80, 32, 22320, 22336, 34920]),
     (''mac_table'', [77, 65, 67, 32, 22320, 22336, 34920]), (''lldp_neighbors'', [25299, 25169, 21457, 29616, 65288, 76, 76, 68, 80, 47, 67, 68, 80, 65289]),
     (''wireless_aps'', [26080, 32447, 32, 65, 80, 32, 29366, 24577]), (''wireless_clients'', [26080, 32447, 23458, 25143, 31471])]"

fun project_rules :: "project \<Rightarrow> rules" where
  "project_rules Computers = filter (\<lambda>r. fst r \<noteq> asc ''inspection_collection'') rules_table"
| "project_rules Networks = plain_rules ([(''cpu'', [67, 80, 85]), (''memory'', [20869, 23384]), (''temperature'', [28201, 24230]),
     (''disk_usage'', [30913, 30424, 20351, 29992, 29575]), (''bandwidth_usage'', [24102, 23485, 20351, 29992, 29575]), (''online_users'', [22312, 32447, 29992, 25143, 25968]),
     (''sessions'', [20250, 35805, 25968]), (''inside_libraries'', [20869, 32622, 24211]), (''log_statistics'', [34892, 20026, 26085, 24535, 32479, 35745]),
     (''system_time'', [31995, 32479, 26102, 38388]), (''throughput'', [23454, 26102, 21534, 21520, 37327]), (''traffic'', [23454, 26102, 25509, 21475, 27969, 37327]),
     (''interface_status'', [25509, 21475, 29366, 24577]), (''vlan_status'', [86, 76, 65, 78]), (''device_info'', [35774, 22791, 20449, 24687]),
     (''logs'', [35774, 22791, 26085, 24535]), (''config_info'', [35774, 22791, 37197, 32622]), (''inspection_collection'', [37319, 38598, 36830, 25509])]
     @ network_function_items)"
| "project_rules Servers = plain_rules [(''cpu'', [67, 80, 85]), (''memory'', [20869, 23384]), (''storage_status'', [30913, 30424, 23384, 20648]),
     (''network_info'', [32593, 32476]), (''services'', [26381, 21153]), (''logs'', [31995, 32479, 26085, 24535]), (''system_info'', [25805, 20316, 31995, 32479]),
     (''computer_name'', [35774, 22791, 21517, 31216]), (''inspection_collection'', [37319, 38598, 36830, 25509])]"
| "project_rules Weakcurrent = plain_rules [(''device_info'', [35774, 22791, 20449, 24687]), (''status_data'', [35774, 22791, 36816, 34892, 29366, 24577]),
     (''channel_status'', [35270, 39057, 36890, 36947, 47, 38376, 31105, 38392, 26426, 36890, 36947]), (''storage_status'', [24405, 20687, 47, 23384, 20648]), (''config_info'', [35774, 22791, 37197, 32622]),
     (''inspection_collection'', [37319, 38598, 36830, 25509])]"

fun metric_defaults :: "project \<Rightarrow> (ustring \<times> rat) list" where
  "metric_defaults Networks = [(asc ''cpu'', 90), (asc ''memory'', 90), (asc ''temperature'', 85), (asc ''traffic'', 90),
     (asc ''disk_usage'', 90), (asc ''bandwidth_usage'', 90)]"
| "metric_defaults Servers = [(asc ''cpu'', 90), (asc ''memory'', 90), (asc ''storage_status'', 90)]"
| "metric_defaults _ = []"

section \<open>Severity\<close>

datatype severity = Info | Warning | Critical

fun severity_value :: "severity \<Rightarrow> ustring" where
  "severity_value Info = asc ''info''"
| "severity_value Warning = asc ''warning''"
| "severity_value Critical = asc ''critical''"

fun severity_rank :: "severity \<Rightarrow> nat" where
  "severity_rank Info = 0" | "severity_rank Warning = 1" | "severity_rank Critical = 2"

fun severity_label :: "severity \<Rightarrow> ustring" where
  "severity_label Info = [25552, 31034]" | "severity_label Warning = [35686, 21578]" | "severity_label Critical = [20005, 37325]"

definition severity_of :: "ustring \<Rightarrow> severity option" where
  "severity_of v = (if v = asc ''info'' then Some Info else if v = asc ''warning'' then Some Warning
     else if v = asc ''critical'' then Some Critical else None)"

lemma severity_of_value [simp]: "severity_of (severity_value s) = Some s"
  by (cases s) (simp_all add: severity_of_def asc_def)

text \<open>An issue before it is graded. A missing key is None.\<close>

record raw_issue =
  ri_project :: "project option"
  ri_item :: ustring
  ri_title :: ustring
  ri_detail :: ustring
  ri_data_state :: "ustring option"
  ri_severity :: "ustring option"

record issue = raw_issue +
  is_category :: ustring
  is_rule_key :: ustring
  is_grade :: severity

definition txt_missing :: ustring where "txt_missing = [25968, 25454, 32570, 22833]"

fun contains_text :: "ustring \<Rightarrow> ustring \<Rightarrow> bool" where
  "contains_text pat [] = (pat = [])"
| "contains_text pat (c # cs) = (take (length pat) (c # cs) = pat \<or> contains_text pat cs)"

definition issue_missing :: "raw_issue \<Rightarrow> bool" where
  "issue_missing i \<longleftrightarrow> (\<exists>s \<in> set [asc ''missing'', asc ''unknown'', asc ''partial'', asc ''empty'']. ri_data_state i = Some s)
     \<or> contains_text txt_missing (ri_title i)"

definition rule_key :: "raw_issue \<Rightarrow> ustring" where
  "rule_key i = (if issue_missing i then asc ''missing.'' @ ri_item i else ri_item i)"

definition base_severity :: "raw_issue \<Rightarrow> severity" where
  "base_severity i =
     (case ri_severity i of
        Some v \<Rightarrow> (case severity_of v of Some s \<Rightarrow> s
                  | None \<Rightarrow> if issue_missing i then Info
                           else if ri_title i \<in> {[22495, 20449, 20219, 38382, 39064], [67, 80, 85, 28201, 24230, 38382, 39064]} then Critical else Warning)
      | None \<Rightarrow> if issue_missing i then Info
               else if ri_title i \<in> {[22495, 20449, 20219, 38382, 39064], [67, 80, 85, 28201, 24230, 38382, 39064]} then Critical else Warning)"

definition grade_issue :: "(ustring \<times> ustring) list \<Rightarrow> raw_issue \<Rightarrow> issue" where
  "grade_issue overrides i =
     (let rules = (case ri_project i of None \<Rightarrow> rules_table | Some p \<Rightarrow> project_rules p);
          sev = (case map_of overrides (rule_key i) of None \<Rightarrow> base_severity i
                 | Some v \<Rightarrow> (case severity_of v of Some s \<Rightarrow> s | None \<Rightarrow> base_severity i))
      in raw_issue.extend i
           \<lparr>is_category = (case map_of rules (ri_item i) of Some (c, _) \<Rightarrow> c | None \<Rightarrow> [20854, 20182]),
            is_rule_key = rule_key i, is_grade = sev\<rparr>)"

definition severity_counts :: "raw_issue list \<Rightarrow> nat \<times> nat \<times> nat" where
  "severity_counts is =
     (let gs = map (\<lambda>i. is_grade (grade_issue [] i)) is
      in (length (filter ((=) Info) gs), length (filter ((=) Warning) gs), length (filter ((=) Critical) gs)))"

lemma severity_counts_total:
  "severity_counts is = (a, b, c) \<Longrightarrow> a + b + c = length is"
proof (induction "is" arbitrary: a b c)
  case (Cons i "is")
  then show ?case
    by (cases "is_grade (grade_issue [] i)") (auto simp: severity_counts_def Let_def)
qed (simp add: severity_counts_def)

section \<open>Evidence\<close>

text \<open>\<open>_metric_value\<close>: a number, or a text that is one, with an optional percent sign.\<close>

definition remove_percent :: "ustring \<Rightarrow> ustring" where
  "remove_percent s = (if s \<noteq> [] \<and> last s = 37 then butlast s else s)"

fun metric_value :: "runtime \<Rightarrow> json \<Rightarrow> rat option" where
  "metric_value rt (JInt i) = float_of_text rt (int_str i)"
| "metric_value rt (JNum q) = Some q"
| "metric_value rt (JStr s) = float_of_text rt (remove_percent (strip s))"
| "metric_value rt _ = None"

definition usage_value :: "runtime \<Rightarrow> json \<Rightarrow> rat option" where
  "usage_value rt e = metric_value rt
     (jget_or ''usage_percent'' (jget_or ''used_percent'' (jget_or ''usage'' JNull e) e) e)"

definition dict_metric :: "runtime \<Rightarrow> ustring \<Rightarrow> json \<Rightarrow> rat list" where
  "dict_metric rt item e =
     (if item = asc ''temperature''
      then (case jget_or ''values_celsius'' (JList []) e of
              JList raw \<Rightarrow> filter (\<lambda>v. - 27315 / 100 \<le> v \<and> v \<le> 1000) (List.map_filter (metric_value rt) raw)
            | _ \<Rightarrow> [])
      else
        let v = (case usage_value rt e of
              Some v \<Rightarrow> Some v
            | None \<Rightarrow>
                if item = asc ''memory''
                then (case (metric_value rt (jget_or ''total_bytes'' JNull e), metric_value rt (jget_or ''used_bytes'' JNull e)) of
                        (Some capacity, Some used) \<Rightarrow> if capacity > 0 then Some (used * 100 / capacity) else None
                      | _ \<Rightarrow> None)
                else None)
        in (case v of None \<Rightarrow> [] | Some v \<Rightarrow> if 0 \<le> v \<and> v \<le> 100 then [v] else []))"

fun metric_values :: "runtime \<Rightarrow> ustring \<Rightarrow> json \<Rightarrow> rat list" where
  "metric_values rt item (JList xs) = concat (map (metric_values rt item) xs)"
| "metric_values rt item (JObj kvs) = dict_metric rt item (JObj kvs)"
| "metric_values rt item _ = []"

definition failure_words :: "ustring list" where
  "failure_words = map asc [''failed'', ''error'', ''fault'', ''offline'', ''critical'', ''stopped'']"

fun explicit_failure :: "runtime \<Rightarrow> json \<Rightarrow> bool" where
  "explicit_failure rt (JList xs) = list_ex (explicit_failure rt) xs"
| "explicit_failure rt (JObj kvs) =
     (jget ''online'' (JObj kvs) = Some (JBool False)
      \<or> list_ex (\<lambda>k. str_lower rt (py_str rt (jget_or k (JStr []) (JObj kvs))) \<in> set failure_words)
          [''status'', ''state'', ''health''])"
| "explicit_failure rt _ = False"

section \<open>One selected item\<close>

text \<open>What an item adds: its problems as (detail, data missing), and whether it counts as normal.\<close>

type_synonym verdict = "(ustring \<times> bool) list \<times> bool"

definition row_text :: "runtime \<Rightarrow> string \<Rightarrow> json \<Rightarrow> ustring" where
  "row_text rt k row = str_lower rt (py_str rt (jget_or k (JStr []) row))"

fun joined :: "ustring \<Rightarrow> ustring list \<Rightarrow> ustring" where
  "joined sep [] = []"
| "joined sep [x] = x"
| "joined sep (x # y # xs) = x @ sep @ joined sep (y # xs)"

text \<open>Interface traffic: every interface needs a known sample with a utilisation.\<close>

definition over_limit :: "rat list \<Rightarrow> rat \<Rightarrow> bool" where
  "over_limit vs limit \<longleftrightarrow> vs \<noteq> [] \<and> fold max (tl vs) (hd vs) > limit"

definition max_value :: "rat list \<Rightarrow> rat" where
  "max_value vs = fold max (tl vs) (hd vs)"

definition traffic_verdict :: "runtime \<Rightarrow> rat \<Rightarrow> json option \<Rightarrow> verdict res" where
  "traffic_verdict rt limit evidence =
     bindr (case evidence of
         Some e \<Rightarrow> if is_obj e then iter_json (jget_or ''interfaces'' (JList []) e) else Inr []
       | None \<Rightarrow> Inr []) (\<lambda>interfaces.
       let valid = filter (\<lambda>r. jget ''data_state'' r = Some (JStr (asc ''known''))) interfaces;
           us = List.map_filter (\<lambda>r. metric_value rt (jget_or ''utilization_percent'' JNull r)) valid;
           incomplete = (interfaces = [] \<or> length valid \<noteq> length interfaces \<or> length us \<noteq> length valid);
           over = over_limit us limit
       in Inr ((if incomplete then [([37096, 20998, 25509, 21475, 32570, 23569, 26377, 25928, 36895, 29575, 37319, 26679, 25110, 31471, 21475, 24102, 23485, 65292, 26080, 27861, 23436, 25972, 21028, 26029, 24102, 23485, 20351, 29992, 29575, 12290], True)] else [])
               @ (if over then [([26368, 39640, 25509, 21475, 24102, 23485, 20351, 29992, 29575, 32] @ text_of_float rt (max_value us) @ [37, 32, 36229, 36807, 38408, 20540, 32]
                    @ text_of_float rt limit @ [37], False)] else []),
               \<not> over \<and> interfaces \<noteq> [] \<and> length us = length interfaces))"

text \<open>Windows services: restricted collection, or automatic services that are stopped.\<close>

definition stopped_automatic :: "runtime \<Rightarrow> json \<Rightarrow> bool" where
  "stopped_automatic rt row \<longleftrightarrow> is_obj row
     \<and> str_lower rt (py_str rt (jget_or ''Status'' (jget_or ''status'' (JStr []) row) row)) \<in> {asc ''1'', asc ''stopped''}
     \<and> str_lower rt (py_str rt (jget_or ''StartType'' (jget_or ''start_type'' (JStr []) row) row))
         \<in> {asc ''2'', asc ''automatic'', asc ''auto''}"

definition service_name :: "runtime \<Rightarrow> json \<Rightarrow> ustring" where
  "service_name rt row = py_str rt
     (case filter truthy (map (\<lambda>k. jget_or k JNull row) [''DisplayName'', ''display_name'', ''Name'', ''name'']) of
        v # _ \<Rightarrow> v | [] \<Rightarrow> JStr (asc ''?''))"

definition windows_services :: "runtime \<Rightarrow> (ustring \<times> json) list \<Rightarrow> json list \<Rightarrow> verdict option" where
  "windows_services rt data rows =
     (let restricted = (case map_of data (asc ''collection_errors'') of
            Some e \<Rightarrow> is_obj e \<and> truthy (jget_or ''services'' JNull e) | None \<Rightarrow> False);
          stopped = filter (stopped_automatic rt) rows
      in if restricted \<or> stopped \<noteq> [] then
           Some ([((if restricted then [26381, 21153, 37319, 38598, 23384, 22312, 21463, 38480, 23454, 20363, 65292, 24403, 21069, 32467, 26524, 20165, 20195, 34920, 24050, 21462, 24471, 30340, 37096, 20998, 35777, 25454, 12290] else [])
             @ (if stopped \<noteq> [] then (if restricted then [65307] else []) @ [26816, 27979, 21040, 24050, 20572, 27490, 30340, 33258, 21160, 21551, 21160, 26381, 21153, 65306]
                  @ joined [12289] (take 3 (map (service_name rt) stopped))
                  @ [65307, 26410, 21462, 24471, 35302, 21457, 22120, 20449, 24687, 65292, 38656, 32467, 21512, 26381, 21153, 35302, 21457, 22120, 37197, 32622, 30830, 35748, 26159, 21542, 38656, 35201, 22788, 29702, 12290] else []), True)], False)
         else None)"

definition linux_services :: "runtime \<Rightarrow> json list \<Rightarrow> verdict" where
  "linux_services rt rows = (if rows = [] then ([], True)
     else ([([26816, 27979, 21040, 32] @ nat_digits (length rows) @ [32, 20010, 22833, 36133, 26381, 21153, 65306] @ joined [65307] (map (py_str rt) (take 3 rows)), False)], False))"

definition linux_logs :: "json list \<Rightarrow> verdict" where
  "linux_logs rows = (if rows = [] then ([], True)
     else ([([21462, 24471, 32] @ nat_digits (length rows) @ [32, 34892, 38169, 35823, 32423, 21035, 31995, 32479, 26085, 24535, 65288, 21547, 32493, 34892, 65289, 65292, 35831, 26597, 30475, 26085, 24535, 20869, 23481, 12290], False)], False))"

definition threshold_verdict :: "runtime \<Rightarrow> ustring \<Rightarrow> ustring \<Rightarrow> rat \<Rightarrow> json \<Rightarrow> verdict" where
  "threshold_verdict rt item label limit e =
     (let vs = metric_values rt item e; unit = (if item = asc ''temperature'' then [8451] else [37])
      in if vs = [] then ([([24050, 21462, 24471, 22238, 26174, 65292, 20294, 27809, 26377, 21487, 29992, 20110, 38408, 20540, 21028, 26029, 30340, 32467, 26500, 21270, 25968, 20540, 12290], True)], False)
         else if over_limit vs limit
         then ([(label @ [26368, 39640, 20540, 32] @ text_of_float rt (max_value vs) @ unit @ [32, 36229, 36807, 38408, 20540, 32] @ text_of_float rt limit @ unit, False)], False)
         else ([], True))"

definition healthy_ap :: "ustring list" where
  "healthy_ap = map asc [''nor'', ''normal'', ''run'', ''r/m'', ''r/b'', ''registered'', ''online'', ''up'', ''stdby'', ''standby'']"

definition offline_ap :: "ustring list" where
  "offline_ap = map asc [''fault'', ''idle'', ''i'', ''j'', ''ja'', ''il'', ''c'', ''dc'', ''quit'', ''offline'', ''down'',
     ''disconnected'', ''unregistered'']"

text \<open>\<open>row.get\<close> of a row that is not a mapping raises \<open>AttributeError\<close>.\<close>

definition function_verdict :: "runtime \<Rightarrow> ustring \<Rightarrow> json \<Rightarrow> verdict res" where
  "function_verdict rt item e =
     (case jget ''records'' e of
        Some (JList records) \<Rightarrow>
          if jget ''status'' e = Some (JStr (asc ''partial''))
          then Inr ([([27809, 26377, 23436, 25972, 30340, 32467, 26500, 21270, 35760, 24405, 65292, 26080, 27861, 21028, 23450, 27492, 39033, 30446, 12290], True)], False)
          else if item = asc ''wireless_aps'' then
            (if list_ex (\<lambda>r. \<not> is_obj r) records then Inl AttributeError
             else
               let bad = filter (\<lambda>r. row_text rt ''state'' r \<in> set offline_ap) records;
                   unknown = filter (\<lambda>r. row_text rt ''state'' r \<notin> set (healthy_ap @ offline_ap)) records
               in Inr ((if bad = [] then [] else [([36820, 22238, 35760, 24405, 20013, 26377, 32] @ nat_digits (length bad)
                          @ [32, 21488, 32, 65, 80, 32, 26410, 22312, 32447, 65307, 20165, 21028, 26029, 24050, 36820, 22238, 32, 65, 80, 65292, 19981, 25512, 26029, 26410, 30331, 35760, 35774, 22791, 12290], False)])
                       @ (if unknown = [] then [] else [(nat_digits (length unknown) @ [32, 26465, 32, 65, 80, 32, 35760, 24405, 32570, 23569, 21487, 35782, 21035, 30340, 29366, 24577, 12290], True)]),
                       bad = [] \<and> unknown = []))
          else Inr ([], True)
      | _ \<Rightarrow> Inr ([([27809, 26377, 23436, 25972, 30340, 32467, 26500, 21270, 35760, 24405, 65292, 26080, 27861, 21028, 23450, 27492, 39033, 30446, 12290], True)], False))"

definition interface_verdict :: "runtime \<Rightarrow> json \<Rightarrow> verdict res" where
  "interface_verdict rt e =
     bindr (iter_json (jget_or ''interfaces'' (JList []) e)) (\<lambda>rows.
       let failed = map (\<lambda>r. py_str rt (if truthy (jget_or ''name'' JNull r) then jget_or ''name'' JNull r
                             else if truthy (jget_or ''index'' JNull r) then jget_or ''index'' JNull r else JStr (asc ''?'')))
             (filter (\<lambda>r. jget ''admin_status'' r = Some (JStr (asc ''up'')) \<and> jget ''oper_status'' r = Some (JStr (asc ''down''))) rows)
       in Inr (if failed = [] then ([], True) else ([([24050, 21551, 29992, 20294, 38142, 36335, 26029, 24320, 30340, 25509, 21475, 65306] @ joined [12289] failed, False)], False)))"

definition rule_label :: "project \<Rightarrow> ustring \<Rightarrow> ustring" where
  "rule_label p item = (case map_of (project_rules p) item of Some (_, l) \<Rightarrow> l | None \<Rightarrow> [])"

definition is_list :: "json \<Rightarrow> bool" where
  "is_list j = (case j of JList _ \<Rightarrow> True | _ \<Rightarrow> False)"

definition list_of :: "json \<Rightarrow> json list" where
  "list_of j = (case j of JList xs \<Rightarrow> xs | _ \<Rightarrow> [])"

text \<open>The body of the loop for an item that is present, not null and not reported as failed.\<close>

definition present_verdict ::
    "runtime \<Rightarrow> project \<Rightarrow> bool \<Rightarrow> (ustring \<times> rat) list \<Rightarrow> ustring \<Rightarrow> json \<Rightarrow> verdict res" where
  "present_verdict rt p linux limits item e =
     (if linux \<and> item = asc ''services'' \<and> is_list e then Inr (linux_services rt (list_of e))
      else if linux \<and> item = asc ''logs'' \<and> is_list e then Inr (linux_logs (list_of e))
      else case map_of limits item of
        Some limit \<Rightarrow> Inr (threshold_verdict rt item (rule_label p item) limit e)
      | None \<Rightarrow>
          if p = Networks \<and> item \<in> (\<lambda>x. asc (fst x)) ` set network_function_items then function_verdict rt item e
          else if item = asc ''interface_status'' \<and> is_obj e then interface_verdict rt e
          else Inr ([], True))"

definition item_verdict ::
    "runtime \<Rightarrow> project \<Rightarrow> bool \<Rightarrow> (ustring \<times> rat) list \<Rightarrow> (ustring \<times> json) list \<Rightarrow> ustring \<Rightarrow> verdict res" where
  "item_verdict rt p linux limits data item =
     (let evidence = map_of data item
      in if item = asc ''config_info'' \<and> (case evidence of None \<Rightarrow> False
             | Some e \<Rightarrow> jget ''status'' e = Some (JStr (asc ''unsupported'')))
         then Inr ([([24403, 21069, 21378, 21830, 25110, 25509, 21475, 19981, 25903, 25345, 23436, 25972, 37197, 32622, 22791, 20221, 12290], False)], False)
         else if item = asc ''traffic''
         then (case map_of limits item of None \<Rightarrow> Inl LookupError | Some l \<Rightarrow> traffic_verdict rt l evidence)
         else
          (case (if p = Servers \<and> \<not> linux \<and> item = asc ''services''
                 then (case evidence of Some (JList rows) \<Rightarrow> windows_services rt data rows | _ \<Rightarrow> None) else None) of
             Some v \<Rightarrow> Inr v
           | None \<Rightarrow>
              (case evidence of
                 None \<Rightarrow> Inr ([(rule_label p item @ [26410, 37319, 38598, 25110, 35774, 22791, 36820, 22238, 24322, 24120, 29366, 24577], True)], False)
               | Some e \<Rightarrow>
                   if e = JNull then Inr ([(rule_label p item @ [26410, 37319, 38598, 25110, 35774, 22791, 36820, 22238, 24322, 24120, 29366, 24577], True)], False)
                   else if explicit_failure rt e then Inr ([(rule_label p item @ [26410, 37319, 38598, 25110, 35774, 22791, 36820, 22238, 24322, 24120, 29366, 24577], False)], False)
                   else present_verdict rt p linux limits item e)))"

section \<open>The evaluation\<close>

definition collection_item :: ustring where "collection_item = asc ''inspection_collection''"

definition new_issue :: "project \<Rightarrow> (ustring \<times> ustring) list \<Rightarrow> ustring \<Rightarrow> ustring \<times> bool \<Rightarrow> issue" where
  "new_issue p overrides item v = grade_issue overrides
     \<lparr>ri_project = Some p, ri_item = item,
      ri_title = rule_label p item @ (if snd v then [25968, 25454, 19981, 36275] else [24322, 24120]), ri_detail = fst v,
      ri_data_state = (if snd v then Some (asc ''unknown'') else None),
      ri_severity = (if \<not> snd v \<and> item = collection_item then Some (asc ''critical'') else None)\<rparr>"

fun eval_items ::
    "(ustring \<Rightarrow> verdict res) \<Rightarrow> project \<Rightarrow> (ustring \<times> ustring) list \<Rightarrow> ustring list
     \<Rightarrow> issue list \<times> ustring list \<Rightarrow> (issue list \<times> ustring list) res" where
  "eval_items f p ov [] acc = Inr acc"
| "eval_items f p ov (i # is) acc =
     bindr (f i) (\<lambda>(vs, ok). eval_items f p ov is
       (fst acc @ map (new_issue p ov i) vs, snd acc @ (if ok then [i] else [])))"

definition is_linux :: "runtime \<Rightarrow> project \<Rightarrow> ustring \<Rightarrow> (ustring \<times> json) list \<Rightarrow> bool" where
  "is_linux rt p server_type data \<longleftrightarrow> p = Servers \<and> (str_lower rt server_type = asc ''linux''
     \<or> (case map_of data (asc ''system_info'') of
          Some e \<Rightarrow> is_obj e \<and> take 6 (str_lower rt (py_str rt (jget_or ''uname'' (JStr []) e))) = asc ''linux ''
        | None \<Rightarrow> False))"

definition first_occurrences :: "'a list \<Rightarrow> 'a list" where
  "first_occurrences xs = rev (remdups (rev xs))"

text \<open>\<open>success\<close> is \<open>status == 'success'\<close>; \<open>thresholds\<close> are the validated overrides of the metric defaults;
  \<open>normal.remove(...)\<close> removes the first occurrence.\<close>

definition evaluate_device_issues ::
    "runtime \<Rightarrow> project \<Rightarrow> ustring list \<Rightarrow> (ustring \<times> json) list \<Rightarrow> bool \<Rightarrow> bool \<Rightarrow> (ustring \<times> ustring) list
     \<Rightarrow> (ustring \<times> rat) list \<Rightarrow> ustring \<Rightarrow> ustring \<Rightarrow> (issue list \<times> ustring list) res" where
  "evaluate_device_issues rt p selected data reachable success overrides thresholds message server_type =
     (if \<not> reachable then
        Inr ([new_issue p overrides collection_item (if message = [] then [26080, 27861, 36830, 25509, 35774, 22791, 37319, 38598, 26381, 21153] else message, False)], [])
      else
        let items = first_occurrences (filter (\<lambda>i. i \<in> fst ` set (project_rules p)) selected);
            limits = thresholds @ metric_defaults p
        in bindr (eval_items (item_verdict rt p (is_linux rt p server_type data) limits data) p overrides items
                    ([], [collection_item])) (\<lambda>(issues, normal).
           if \<not> success \<and> issues = []
           then Inr ([new_issue p overrides collection_item (if message = [] then [37319, 38598, 26410, 23436, 25972, 25104, 21151] else message, False)],
                     remove1 collection_item normal)
           else Inr (issues, normal)))"

section \<open>Facts\<close>

lemma new_issue_item [simp]: "ri_item (new_issue p ov i v) = i"
  by (simp add: new_issue_def grade_issue_def Let_def raw_issue.defs)

text \<open>Every item ends with a problem or as normal, unless its verdict is silent; no verdict is silent.\<close>

lemma traffic_verdict_speaks: "traffic_verdict rt l e = Inr (vs, ok) \<Longrightarrow> vs \<noteq> [] \<or> ok"
  unfolding traffic_verdict_def Let_def bindr_Inr_iff by (auto split: if_split_asm)

lemma function_verdict_speaks: "function_verdict rt i e = Inr (vs, ok) \<Longrightarrow> vs \<noteq> [] \<or> ok"
  unfolding function_verdict_def Let_def by (auto split: if_split_asm option.split_asm json.split_asm)

lemma interface_verdict_speaks: "interface_verdict rt e = Inr (vs, ok) \<Longrightarrow> vs \<noteq> [] \<or> ok"
  unfolding interface_verdict_def Let_def bindr_Inr_iff by (auto split: if_split_asm)

lemma windows_services_speaks: "windows_services rt data rows = Some (vs, ok) \<Longrightarrow> vs \<noteq> [] \<or> ok"
  unfolding windows_services_def Let_def by (auto split: if_split_asm)

lemma present_verdict_speaks: "present_verdict rt p linux limits i e = Inr (vs, ok) \<Longrightarrow> vs \<noteq> [] \<or> ok"
  unfolding present_verdict_def
  by (auto simp: linux_services_def linux_logs_def threshold_verdict_def Let_def split: if_split_asm option.split_asm
      dest: function_verdict_speaks interface_verdict_speaks)

lemma item_verdict_speaks:
  assumes "item_verdict rt p linux limits data i = Inr (vs, ok)" shows "vs \<noteq> [] \<or> ok"
  using assms unfolding item_verdict_def Let_def
  by (auto split: if_split_asm option.split_asm json.split_asm
      dest: traffic_verdict_speaks present_verdict_speaks windows_services_speaks)

lemma eval_items_covers:
  assumes "eval_items f p ov is acc = Inr (issues, normal)"
    and "\<And>i vs ok. i \<in> set is \<Longrightarrow> f i = Inr (vs, ok) \<Longrightarrow> vs \<noteq> [] \<or> ok"
  shows "set (snd acc) \<subseteq> set normal \<and> set (fst acc) \<subseteq> set issues
    \<and> (\<forall>i \<in> set is. i \<in> ri_item ` set issues \<or> i \<in> set normal)
    \<and> ri_item ` set issues \<subseteq> ri_item ` set (fst acc) \<union> set is \<and> set normal \<subseteq> set (snd acc) \<union> set is"
  using assms
proof (induction "is" arbitrary: acc)
  case (Cons i "is")
  from Cons.prems(1) obtain vs ok where f: "f i = Inr (vs, ok)"
    and r: "eval_items f p ov is (fst acc @ map (new_issue p ov i) vs, snd acc @ (if ok then [i] else [])) = Inr (issues, normal)"
    by (auto simp: bindr_Inr_iff)
  have IH: "set (snd acc @ (if ok then [i] else [])) \<subseteq> set normal \<and> set (fst acc @ map (new_issue p ov i) vs) \<subseteq> set issues
    \<and> (\<forall>i \<in> set is. i \<in> ri_item ` set issues \<or> i \<in> set normal)
    \<and> ri_item ` set issues \<subseteq> ri_item ` set (fst acc @ map (new_issue p ov i) vs) \<union> set is
    \<and> set normal \<subseteq> set (snd acc @ (if ok then [i] else [])) \<union> set is"
    using Cons.IH [OF r] Cons.prems(2) unfolding fst_conv snd_conv by (meson list.set_intros(2))
  have "i \<in> ri_item ` set issues \<or> i \<in> set normal"
  proof (cases ok)
    case False
    then obtain v where "v \<in> set vs" using Cons.prems(2) f by (cases vs) auto
    then have "new_issue p ov i v \<in> set issues" using IH by auto
    then show ?thesis by (metis image_eqI new_issue_item)
  qed (use IH in auto)
  then have all: "\<forall>j \<in> set (i # is). j \<in> ri_item ` set issues \<or> j \<in> set normal" using IH by simp
  have "ri_item ` set (fst acc @ map (new_issue p ov i) vs) \<subseteq> insert i (ri_item ` set (fst acc))" by auto
  moreover have "ri_item ` set issues \<subseteq> ri_item ` set (fst acc @ map (new_issue p ov i) vs) \<union> set is" using IH by (elim conjE)
  ultimately have "ri_item ` set issues \<subseteq> insert i (ri_item ` set (fst acc)) \<union> set is" by (blast intro: order.trans)
  then have "ri_item ` set issues \<subseteq> ri_item ` set (fst acc) \<union> set (i # is)" by simp
  moreover have "set normal \<subseteq> set (snd acc) \<union> set (i # is)" using IH by (cases ok) auto
  moreover have "set (snd acc) \<subseteq> set normal" "set (fst acc) \<subseteq> set issues" using IH by simp_all
  ultimately show ?case using all by blast
qed auto

end
