(* ===== verification/DeviceIssueProperties.thy ===== *)
theory DeviceIssueProperties
  imports DeviceIssues
begin

text \<open>What an evaluation of device evidence reports.\<close>

text \<open>C26. An evaluation drops nothing: when the device was reached, every selected item that has a rule ends with a
  problem or as normal, and only selected items and the collection itself are reported; when it was not
  reached, the one problem is the collection and nothing counts as normal. A run that did not succeed
  always reports a problem.\<close>

theorem device_evaluation_complete:
  assumes "evaluate_device_issues rt p selected data reachable success overrides thresholds message server_type = Inr (issues, normal)"
  shows "(reachable \<longrightarrow> (\<forall>i \<in> set selected. i \<in> fst ` set (project_rules p) \<longrightarrow> i \<in> ri_item ` set issues \<or> i \<in> set normal))
    \<and> (\<not> reachable \<longrightarrow> map ri_item issues = [collection_item] \<and> normal = [])
    \<and> (\<not> success \<longrightarrow> reachable \<longrightarrow> issues \<noteq> [])
    \<and> ri_item ` set issues \<union> set normal \<subseteq> insert collection_item (set selected)"
proof (cases reachable)
  case False
  with assms show ?thesis by (auto simp: evaluate_device_issues_def)
next
  case True
  let ?items = "first_occurrences (filter (\<lambda>i. i \<in> fst ` set (project_rules p)) selected)"
  let ?f = "item_verdict rt p (is_linux rt p server_type data) (thresholds @ metric_defaults p) data"
  have items: "set ?items = {i \<in> set selected. i \<in> fst ` set (project_rules p)}" by (auto simp: first_occurrences_def)
  from assms True obtain is0 n0 where e: "eval_items ?f p overrides ?items ([], [collection_item]) = Inr (is0, n0)"
    and r: "(if \<not> success \<and> is0 = []
         then issues = [new_issue p overrides collection_item (if message = [] then [37319, 38598, 26410, 23436, 25972, 25104, 21151] else message, False)]
           \<and> normal = remove1 collection_item n0
         else issues = is0 \<and> normal = n0)"
    unfolding evaluate_device_issues_def Let_def by (auto simp: bindr_Inr_iff split: if_split_asm)
  have cov: "(\<forall>i \<in> set ?items. i \<in> ri_item ` set is0 \<or> i \<in> set n0)
      \<and> ri_item ` set is0 \<subseteq> set ?items \<and> set n0 \<subseteq> insert collection_item (set ?items)"
    using eval_items_covers [OF e item_verdict_speaks] by auto
  have sub: "set ?items \<subseteq> set selected" unfolding items by blast
  show ?thesis
  proof (cases "\<not> success \<and> is0 = []")
    case True
    then have i: "map ri_item issues = [collection_item]" and n: "normal = remove1 collection_item n0" using r by auto
    have "ri_item ` set issues = {collection_item}" using i by (metis list.set_map list.simps(15) set_empty empty_set)
    moreover have "issues \<noteq> []" using i by auto
    moreover have "i \<in> set normal \<or> i = collection_item" if "i \<in> set ?items" for i
      using cov that True n by (cases "i = collection_item") auto
    moreover have "set normal \<subseteq> set n0" unfolding n by (rule set_remove1_subset)
    ultimately show ?thesis using \<open>reachable\<close> cov sub items by auto
  next
    case False
    then show ?thesis using r \<open>reachable\<close> cov sub items by auto
  qed
qed

definition demo_evidence :: "(ustring \<times> json) list" where
  "demo_evidence = [(asc ''cpu'', JObj [(asc ''usage_percent'', JNum 95)]), (asc ''logs'', JStr [65])]"

definition demo_evaluation :: "(issue list \<times> ustring list) res" where
  "demo_evaluation = evaluate_device_issues demo_rt Networks (map asc [''cpu'', ''logs'', ''memory'']) demo_evidence True True [] [] [] []"

lemma demo_evaluation_Inr:
  "map_sum id (\<lambda>(is, n). (map ri_item is, n)) demo_evaluation
   = Inr (map asc [''cpu'', ''memory''], map asc [''inspection_collection'', ''logs''])"
  by code_simp

lemma device_evaluation_complete_witness:
  "\<exists>issues normal. demo_evaluation = Inr (issues, normal) \<and> (asc ''memory'' \<in> ri_item ` set issues \<or> asc ''memory'' \<in> set normal)"
proof -
  obtain issues normal where e: "demo_evaluation = Inr (issues, normal)"
    using map_sum_Inr [OF demo_evaluation_Inr] by auto
  have "asc ''memory'' \<in> set (map asc [''cpu'', ''logs'', ''memory''])" "asc ''memory'' \<in> fst ` set (project_rules Networks)"
    by code_simp+
  then show ?thesis using device_evaluation_complete [OF e [unfolded demo_evaluation_def]] e by blast
qed

definition calm_label :: "ustring \<Rightarrow> bool" where
  "calm_label l \<longleftrightarrow> \<not> contains_text txt_missing (l @ [25968, 25454, 19981, 36275]) \<and> \<not> contains_text txt_missing (l @ [24322, 24120])
     \<and> l @ [24322, 24120] \<notin> {[22495, 20449, 20219, 38382, 39064], [67, 80, 85, 28201, 24230, 38382, 39064]}"

lemma calm_rules: "list_all (\<lambda>r. calm_label (snd (snd r))) (project_rules p)"
proof (cases p)
  case Computers
  have "list_all (\<lambda>r. calm_label (snd (snd r))) (project_rules Computers)" by code_simp
  then show ?thesis by (simp only: Computers)
next
  case Networks
  have "list_all (\<lambda>r. calm_label (snd (snd r))) (project_rules Networks)" by code_simp
  then show ?thesis by (simp only: Networks)
next
  case Servers
  have "list_all (\<lambda>r. calm_label (snd (snd r))) (project_rules Servers)" by code_simp
  then show ?thesis by (simp only: Servers)
next
  case Weakcurrent
  have "list_all (\<lambda>r. calm_label (snd (snd r))) (project_rules Weakcurrent)" by code_simp
  then show ?thesis by (simp only: Weakcurrent)
qed

lemma calm_rule_label: "calm_label (rule_label p item)"
proof (cases "map_of (project_rules p) item")
  case None
  have "calm_label []" by code_simp
  then show ?thesis using None by (simp add: rule_label_def)
next
  case (Some r)
  then have "(item, r) \<in> set (project_rules p)" by (rule map_of_SomeD)
  then show ?thesis using calm_rules [of p] Some by (cases r) (auto simp: list_all_iff rule_label_def)
qed

lemma new_issue_grade:
  "is_grade (new_issue p [] item v) = (if snd v then Info else if item = collection_item then Critical else Warning)"
proof -
  have c: "calm_label (rule_label p item)" by (rule calm_rule_label)
  have crit: "severity_of (asc ''critical'') = Some Critical" by (simp add: severity_of_def asc_def)
  let ?i = "\<lparr>ri_project = Some p, ri_item = item,
      ri_title = rule_label p item @ (if snd v then [25968, 25454, 19981, 36275] else [24322, 24120]), ri_detail = fst v,
      ri_data_state = (if snd v then Some (asc ''unknown'') else None),
      ri_severity = (if \<not> snd v \<and> item = collection_item then Some (asc ''critical'') else None)\<rparr>"
  have m: "issue_missing ?i = snd v" using c by (auto simp: issue_missing_def calm_label_def)
  have t: "\<not> snd v \<Longrightarrow> ri_title ?i \<notin> {[22495, 20449, 20219, 38382, 39064], [67, 80, 85, 28201, 24230, 38382, 39064]}"
    using c by (simp add: calm_label_def)
  have "base_severity ?i = (if snd v then Info else if item = collection_item then Critical else Warning)"
    unfolding base_severity_def m using t crit by simp
  then show ?thesis by (simp add: new_issue_def grade_issue_def Let_def raw_issue.defs)
qed

lemma new_issue_state: "ri_data_state (new_issue p ov item v) = (if snd v then Some (asc ''unknown'') else None)"
  by (simp add: new_issue_def grade_issue_def Let_def raw_issue.defs)

lemma eval_items_issues:
  assumes "eval_items f p ov is acc = Inr (issues, normal)" and "x \<in> set issues"
  shows "x \<in> set (fst acc) \<or> (\<exists>i v. x = new_issue p ov i v)"
  using assms by (induction "is" arbitrary: acc) (fastforce simp: bindr_Inr_iff)+

text \<open>Without overrides, missing data is never more than a hint; a failed collection is critical, and every other
  problem is a warning.\<close>

theorem device_issue_grades:
  assumes "evaluate_device_issues rt p selected data reachable success [] thresholds message server_type = Inr (issues, normal)"
  shows "\<forall>x \<in> set issues. is_grade x =
    (if ri_data_state x \<noteq> None then Info else if ri_item x = collection_item then Critical else Warning)"
proof
  fix x assume x: "x \<in> set issues"
  have "\<exists>i v. x = new_issue p [] i v"
    using assms x eval_items_issues unfolding evaluate_device_issues_def Let_def
    by (fastforce simp: bindr_Inr_iff split: if_split_asm)
  then show "is_grade x = (if ri_data_state x \<noteq> None then Info else if ri_item x = collection_item then Critical else Warning)"
    by (auto simp: new_issue_grade new_issue_state split: if_split_asm)
qed

definition demo_unreached :: "(issue list \<times> ustring list) res" where
  "demo_unreached = evaluate_device_issues demo_rt Servers [] [] False False [] [] [] []"

lemma device_issue_grades_witness: "\<exists>x. demo_unreached = Inr ([x], []) \<and> is_grade x = Critical"
proof -
  obtain x where e: "demo_unreached = Inr ([x], [])" "ri_item x = collection_item" "ri_data_state x = None"
    by (simp add: demo_unreached_def evaluate_device_issues_def new_issue_state)
  have "is_grade x = Critical" using device_issue_grades [OF e(1) [unfolded demo_unreached_def]] e(2,3) by simp
  then show ?thesis using e(1) by blast
qed

end
