(* ===== verification/Findings.thy ===== *)
theory Findings
  imports TaskStore DeviceIssues
begin

text \<open>
  Findings of an ended target: \<open>_finding_dict\<close>, \<open>_normalised_findings\<close> and \<open>findings_for_target\<close> of
  \<open>net/alerts/service.py\<close>.
\<close>

section \<open>Normalised findings\<close>

datatype observed = SeenAbnormal | SeenNormal | SeenUnknown

record finding =
  fd_key :: ustring
  fd_severity :: ustring
  fd_title :: ustring
  fd_detail :: ustring
  fd_state :: ustring

text \<open>What rows store of an observation, and the observation with its state.\<close>

record stored_finding =
  ob_key :: ustring
  ob_severity :: ustring
  ob_title :: ustring
  ob_detail :: ustring

record observation = stored_finding +
  ob_state :: observed

definition observed_of :: "ustring \<Rightarrow> observed option" where
  "observed_of s = (if s = asc ''abnormal'' then Some SeenAbnormal else if s = asc ''normal'' then Some SeenNormal
     else if s = asc ''unknown'' then Some SeenUnknown else None)"

text \<open>\<open>str(value.get('state') or 'abnormal').strip().lower()\<close>\<close>

definition finding_dict :: "runtime \<Rightarrow> finding \<Rightarrow> observation option" where
  "finding_dict rt f =
     (let key = strip (fd_key f); severity = strip (fd_severity f); title = strip (fd_title f); detail = strip (fd_detail f);
          state = str_lower rt (strip (if fd_state f = [] then asc ''abnormal'' else fd_state f))
      in if key = [] \<or> severity = [] \<or> title = [] then None
         else map_option (\<lambda>s. \<lparr>ob_key = take 191 key, ob_severity = take 16 severity, ob_title = take 500 title,
                ob_detail = take 2000 detail, ob_state = s\<rparr>) (observed_of state))"

definition rank_of :: "ustring \<Rightarrow> nat" where
  "rank_of s = (case severity_of s of None \<Rightarrow> 0 | Some v \<Rightarrow> severity_rank v)"

definition replaces :: "observation \<Rightarrow> observation \<Rightarrow> bool" where
  "replaces new cur \<longleftrightarrow> (ob_state cur \<noteq> SeenAbnormal \<and> ob_state new = SeenAbnormal)
     \<or> (ob_state cur = ob_state new \<and> rank_of (ob_severity new) > rank_of (ob_severity cur))"

definition group_observation :: "observation \<Rightarrow> (ustring \<times> observation) list \<Rightarrow> (ustring \<times> observation) list" where
  "group_observation o1 grouped = (case map_of grouped (ob_key o1) of
     None \<Rightarrow> AList.update (ob_key o1) o1 grouped
   | Some cur \<Rightarrow> if replaces o1 cur then AList.update (ob_key o1) o1 grouped else grouped)"

definition normalised_findings :: "runtime \<Rightarrow> finding list \<Rightarrow> observation list" where
  "normalised_findings rt fs =
     (let grouped = fold group_observation (List.map_filter (finding_dict rt) fs) []
      in map snd (sort_key fst grouped))"

text \<open>What the dictionary keeps under a key after a sequence of observations of that key.\<close>

definition kept_of :: "observation \<Rightarrow> observation option \<Rightarrow> observation option" where
  "kept_of v cur = Some (case cur of None \<Rightarrow> v | Some c \<Rightarrow> if replaces v c then v else c)"

lemma map_of_group:
  "map_of (group_observation v g) k = (if k = ob_key v then kept_of v (map_of g k) else map_of g k)"
  by (auto simp: group_observation_def update_conv' kept_of_def split: option.split)

lemma map_of_fold_group:
  "map_of (fold group_observation os g) k = fold kept_of (filter (\<lambda>v. ob_key v = k) os) (map_of g k)"
  by (induction os arbitrary: g) (auto simp: map_of_group)

lemma distinct_group: "distinct (map fst g) \<Longrightarrow> distinct (map fst (group_observation v g))"
  by (auto simp: group_observation_def distinct_update split: option.split)

lemma distinct_fold_group: "distinct (map fst g) \<Longrightarrow> distinct (map fst (fold group_observation os g))"
  by (induction os arbitrary: g) (auto simp: distinct_group)

lemma fold_kept_Some:
  "fold kept_of os (Some c) = Some v \<Longrightarrow> v \<in> insert c (set os)
     \<and> (ob_state v = SeenAbnormal \<longleftrightarrow> (\<exists>w \<in> insert c (set os). ob_state w = SeenAbnormal))"
proof (induction os arbitrary: c)
  case (Cons a os)
  let ?c = "if replaces a c then a else c"
  have kc: "kept_of a (Some c) = Some ?c" by (simp add: kept_of_def)
  have "fold kept_of os (Some ?c) = Some v" using Cons.prems unfolding fold_Cons comp_apply kc .
  note IH = Cons.IH [OF this]
  have "ob_state ?c = SeenAbnormal \<longleftrightarrow> ob_state a = SeenAbnormal \<or> ob_state c = SeenAbnormal"
    by (auto simp: replaces_def)
  with IH show ?case by (auto split: if_split_asm)
qed simp

lemma fold_kept_None:
  assumes "fold kept_of os None = Some v"
  shows "v \<in> set os \<and> (ob_state v = SeenAbnormal \<longleftrightarrow> (\<exists>w \<in> set os. ob_state w = SeenAbnormal))"
proof (cases os)
  case (Cons a as)
  have ka: "kept_of a None = Some a" by (simp add: kept_of_def)
  have "fold kept_of as (Some a) = Some v" using assms unfolding Cons fold_Cons comp_apply ka .
  then show ?thesis using fold_kept_Some Cons by simp
qed (use assms in simp)

lemma fold_kept_nonempty: "fold kept_of os (Some c) \<noteq> None"
  by (induction os arbitrary: c) (auto simp: kept_of_def split: if_splits)

lemma sorted_key_list: "sorted (map f (sort_key f xs))"
  by simp

lemma normalised_map:
  "set (normalised_findings rt fs) = {v. \<exists>k. fold kept_of (filter (\<lambda>v. ob_key v = k) (List.map_filter (finding_dict rt) fs)) None = Some v}"
proof -
  let ?g = "fold group_observation (List.map_filter (finding_dict rt) fs) []"
  have d: "distinct (map fst ?g)" by (rule distinct_fold_group) simp
  have "set (normalised_findings rt fs) = snd ` set ?g" by (simp add: normalised_findings_def)
  also have "\<dots> = {v. \<exists>k. map_of ?g k = Some v}" using d by (force simp: map_of_eq_Some_iff)
  finally show ?thesis unfolding map_of_fold_group by simp
qed

lemma normalised_keys:
  "map ob_key (normalised_findings rt fs) = map fst (sort_key fst (fold group_observation (List.map_filter (finding_dict rt) fs) []))"
proof -
  let ?os = "List.map_filter (finding_dict rt) fs"
  let ?g = "fold group_observation ?os []"
  have d: "distinct (map fst ?g)" by (rule distinct_fold_group) simp
  have "ob_key v = k" if "(k, v) \<in> set ?g" for k v
  proof -
    have "fold kept_of (filter (\<lambda>v. ob_key v = k) ?os) None = Some v"
      using map_of_is_SomeI [OF d that] map_of_fold_group [of ?os "[]" k] by simp
    from fold_kept_None [OF this] show ?thesis by simp
  qed
  then have k: "ob_key (snd x) = fst x" if "x \<in> set (sort_key fst ?g)" for x
    using that by (cases x) simp
  show ?thesis unfolding normalised_findings_def Let_def map_map comp_def
    by (rule map_cong [OF refl k])
qed

section \<open>Findings of a target\<close>

fun status_value :: "status \<Rightarrow> ustring" where
  "status_value Queued = asc ''queued''"
| "status_value Running = asc ''running''"
| "status_value Success = asc ''success''"
| "status_value Partial = asc ''partial''"
| "status_value Failed = asc ''failed''"
| "status_value Cancelled = asc ''cancelled''"

text \<open>An issue as it is stored in a record. The JSON keys are the Chinese names of the source.\<close>

definition key_title :: ustring where "key_title = [38382, 39064, 31867, 22411]"
definition key_detail :: ustring where "key_detail = [35814, 32454, 38382, 39064]"

definition uget :: "ustring \<Rightarrow> json \<Rightarrow> json" where
  "uget k j = (case j of JObj kvs \<Rightarrow> (case map_of kvs k of Some v \<Rightarrow> v | None \<Rightarrow> JNull) | _ \<Rightarrow> JNull)"

definition text_of :: "json \<Rightarrow> ustring option" where
  "text_of j = (case j of JStr s \<Rightarrow> Some s | _ \<Rightarrow> None)"

definition project_of :: "json \<Rightarrow> project option" where
  "project_of j = (if j = JStr (asc ''computers'') then Some Computers else if j = JStr (asc ''networks'') then Some Networks
     else if j = JStr (asc ''servers'') then Some Servers else if j = JStr (asc ''weakcurrent'') then Some Weakcurrent else None)"

definition raw_issue_of :: "runtime \<Rightarrow> json \<Rightarrow> raw_issue" where
  "raw_issue_of rt j = \<lparr>ri_project = project_of (uget (asc ''project'') j),
     ri_item = str_or rt (uget (asc ''analysis_item'') j) [],
     ri_title = (case j of JObj kvs \<Rightarrow> (case map_of kvs key_title of Some v \<Rightarrow> py_str rt v | None \<Rightarrow> []) | _ \<Rightarrow> []),
     ri_detail = str_or rt (uget key_detail j) [],
     ri_data_state = text_of (uget (asc ''data_state'') j), ri_severity = text_of (uget (asc ''severity'') j)\<rparr>"

text \<open>The stored evidence behind an ended target: the analysis row, or the expanded result snapshot.\<close>

record analysis_row =
  ay_exceptions :: "json list"
  ay_items :: "json list"
  ay_summary :: ustring

definition graded_state :: "severity \<Rightarrow> ustring" where
  "graded_state s = (if s = Info then asc ''unknown'' else asc ''abnormal'')"

definition analysis_finding :: "runtime \<Rightarrow> ustring \<Rightarrow> json \<Rightarrow> finding" where
  "analysis_finding rt summary j =
     (let i = grade_issue [] (raw_issue_of rt j); item = strip (ri_item i);
          title = strip (str_or rt (uget key_title j) (asc ''analysis exception''))
      in \<lparr>fd_key = (if item \<noteq> [] then asc ''analysis.'' @ item
                    else asc ''analysis.exception.'' @ take 120 (casefold rt title)),
          fd_severity = severity_value (is_grade i), fd_title = title,
          fd_detail = (if truthy (uget key_detail j) then py_str rt (uget key_detail j) else summary),
          fd_state = graded_state (is_grade i)\<rparr>)"

definition analysis_findings :: "runtime \<Rightarrow> analysis_row \<Rightarrow> finding list" where
  "analysis_findings rt a =
     (let issues = filter is_obj (ay_exceptions a);
          failed = filter (\<lambda>i. i \<noteq> JStr []) (map (\<lambda>j. JStr (strip (ri_item (raw_issue_of rt j)))) issues)
      in map (analysis_finding rt (ay_summary a)) issues
         @ map (\<lambda>i. \<lparr>fd_key = asc ''analysis.'' @ py_str rt i, fd_severity = asc ''info'', fd_title = py_str rt i,
                  fd_detail = asc ''Selected analysis item completed normally.'', fd_state = asc ''normal''\<rparr>)
             (filter (\<lambda>i. i \<notin> set failed) (ay_items a)))"

text \<open>\<open>details[k]\<close> and \<open>issue[k]\<close> raise when the key is missing.\<close>

definition required :: "ustring \<Rightarrow> json \<Rightarrow> json res" where
  "required k j = (case j of
     JObj kvs \<Rightarrow> (case map_of kvs k of Some v \<Rightarrow> Inr v | None \<Rightarrow> Inl LookupError)
   | _ \<Rightarrow> Inl TypeError)"

definition item_key :: "runtime \<Rightarrow> json \<Rightarrow> ustring" where
  "item_key rt item = (if item = JStr collection_item then asc ''inspection.collection'' else asc ''inspection.'' @ py_str rt item)"

definition collection_finding :: "ustring \<Rightarrow> ustring \<Rightarrow> ustring \<Rightarrow> finding" where
  "collection_finding severity detail state = \<lparr>fd_key = asc ''inspection.collection'', fd_severity = severity,
     fd_title = asc ''Infrastructure collection'', fd_detail = detail, fd_state = state\<rparr>"

definition json_grade :: "runtime \<Rightarrow> json \<Rightarrow> severity" where
  "json_grade rt j = is_grade (grade_issue [] (raw_issue_of rt j))"

definition graded_finding :: "runtime \<Rightarrow> ustring \<Rightarrow> ustring \<Rightarrow> json \<Rightarrow> finding res" where
  "graded_finding rt key status j =
     bindr (required key_title j) (\<lambda>title.
       Inr \<lparr>fd_key = key, fd_severity = severity_value (json_grade rt j), fd_title = str_or rt title [],
            fd_detail = str_or rt (uget key_detail j) status, fd_state = graded_state (json_grade rt j)\<rparr>)"

definition issue_finding :: "runtime \<Rightarrow> ustring \<Rightarrow> json \<Rightarrow> finding res" where
  "issue_finding rt status j =
     bindr (required (asc ''analysis_item'') j) (\<lambda>item. graded_finding rt (item_key rt item) status j)"

text \<open>A record with its own list of normal items; \<open>detail\<close> is the summary, the error message or the status.\<close>

definition lost_collection :: "ustring \<Rightarrow> json list \<Rightarrow> bool" where
  "lost_collection status issues \<longleftrightarrow> status \<noteq> asc ''success''
     \<and> JStr collection_item \<notin> set (map (uget (asc ''analysis_item'')) issues)"

definition normal_item :: "runtime \<Rightarrow> json \<Rightarrow> finding" where
  "normal_item rt i = \<lparr>fd_key = item_key rt i, fd_severity = asc ''info'', fd_title = str_or rt i [],
     fd_detail = [26412, 27425, 26816, 26597, 27491, 24120], fd_state = asc ''normal''\<rparr>"

definition itemised_findings :: "runtime \<Rightarrow> ustring \<Rightarrow> ustring \<Rightarrow> json list \<Rightarrow> json list \<Rightarrow> finding list res" where
  "itemised_findings rt status detail issues normal =
     (let lost = lost_collection status issues;
          failed = (if lost then [JStr collection_item] else []) @ map (uget (asc ''analysis_item'')) issues
      in bindr (map_res (issue_finding rt status) issues) (\<lambda>graded.
           Inr (graded
             @ (if lost then [collection_finding (asc ''critical'') detail (asc ''abnormal'')] else [])
             @ map (normal_item rt) (filter (\<lambda>i. i \<notin> set failed) normal))))"

text \<open>\<open>max(..., key=...)\<close> is the first of the greatest.\<close>

definition first_max :: "('a \<Rightarrow> nat) \<Rightarrow> 'a list \<Rightarrow> 'a option" where
  "first_max f xs = find (\<lambda>x. list_all (\<lambda>y. f y \<le> f x) xs) xs"

text \<open>A record of an earlier version has one finding, of its gravest issue.\<close>

definition legacy_findings :: "runtime \<Rightarrow> ustring \<Rightarrow> ustring \<Rightarrow> json list \<Rightarrow> finding list res" where
  "legacy_findings rt status detail issues =
     (if list_ex (\<lambda>j. \<not> is_obj j) issues then Inl TypeError
      else case first_max (\<lambda>j. severity_rank (json_grade rt j)) issues of
        Some j \<Rightarrow> bindr (graded_finding rt (asc ''inspection.collection'') status j) (\<lambda>f. Inr [f])
      | None \<Rightarrow> Inr [collection_finding (if status \<noteq> asc ''success'' then asc ''critical'' else asc ''info'') detail
                  (if status = asc ''success'' then asc ''normal'' else asc ''abnormal'')])"

text \<open>\<open>'normal_issue_items' in details\<close> or \<open>details.get\<close> raises when the details are not an object.\<close>

definition inspection_findings :: "runtime \<Rightarrow> target \<Rightarrow> json \<Rightarrow> finding list res" where
  "inspection_findings rt g snapshot =
     (let status = str_or rt (uget (asc ''status'') snapshot) (status_value (g_status g));
          details = jget_or ''details'' (JObj []) snapshot;
          detail = str_or rt (uget (asc ''summary'') snapshot) (if g_error_message g \<noteq> [] then g_error_message g else status)
      in if \<not> is_obj details then Inl (case details of JList _ \<Rightarrow> AttributeError | JStr _ \<Rightarrow> AttributeError | _ \<Rightarrow> TypeError)
         else case jget ''normal_issue_items'' details of
           Some normal \<Rightarrow>
             bindr (iter_json (jget_or ''issue_findings'' (JList []) details)) (\<lambda>issues.
             bindr (iter_json normal) (\<lambda>normal. itemised_findings rt status detail issues normal))
         | None \<Rightarrow>
             let issues = jget_or ''issue_findings'' JNull details
             in if truthy issues then bindr (iter_json issues) (legacy_findings rt status detail)
                else legacy_findings rt status detail [])"

definition ends_with :: "ustring \<Rightarrow> ustring \<Rightarrow> bool" where
  "ends_with s suffix \<longleftrightarrow> length suffix \<le> length s \<and> drop (length s - length suffix) s = suffix"

text \<open>\<open>analysis\<close> is the analysis row of the result, \<open>expanded\<close> the expanded snapshot; None when the row is gone.\<close>

definition findings_for_target :: "runtime \<Rightarrow> analysis_row option \<Rightarrow> json option \<Rightarrow> target \<Rightarrow> finding list res" where
  "findings_for_target rt analysis expanded g =
     (if g_result_type g = asc ''computer_analysis''
      then Inr (case analysis of None \<Rightarrow> [] | Some a \<Rightarrow> analysis_findings rt a)
      else if ends_with (g_result_type g) (asc ''_inspection'')
      then (case expanded of None \<Rightarrow> Inr [] | Some snapshot \<Rightarrow> inspection_findings rt g snapshot)
      else if g_status g \<in> {Failed, Partial}
      then Inr [\<lparr>fd_key = asc ''execution.failure'', fd_severity = asc ''critical'', fd_title = asc ''Target execution failed'',
             fd_detail = (if g_error_message g \<noteq> [] then g_error_message g else status_value (g_status g)),
             fd_state = asc ''abnormal''\<rparr>]
      else Inr [])"

end
