(* ===== verification/Alerts.thy ===== *)
theory Alerts
  imports Findings
begin

text \<open>
  Alert states and events: the rows of \<open>net/models/alerts.py\<close>, the choice of the policy
  (\<open>net/alerts/routing.py\<close>, \<open>_policy_for_scope\<close>) and the transaction of \<open>net/alerts/service.py\<close> that turns the
  findings of an ended target into states and events. A state is identified by its unique scope and key.
\<close>

section \<open>Rows\<close>

type_synonym scope = "ustring \<times> ustring \<times> ustring \<times> ustring"

datatype event_type = EvAbnormal | EvRecovery | EvSummary

datatype event_status = EsPending | EsSending | EsDelivered | EsRecorded | EsPartial | EsFailed

datatype delivery_status = DPending | DSending | DSent | DRetry | DFailed

record channel =
  ch_id :: ustring
  ch_name :: ustring
  ch_enabled :: bool

record policy =
  po_id :: ustring
  po_default :: bool
  po_override :: bool
  po_inspection :: "ustring option"
  po_analysis :: "ustring option"
  po_channels :: "ustring list"

record alert_state =
  st_scope :: scope
  st_key :: ustring
  st_abnormal :: bool
  st_snapshot :: "stored_finding option"
  st_last_seen :: time
  st_last_abnormal :: "time option"
  st_last_normal :: "time option"
  st_last_event :: "ustring option"

record alert_event =
  ae_id :: ustring
  ae_task :: ustring
  ae_target :: "ustring option"
  ae_summary_task :: "ustring option"
  ae_type :: event_type
  ae_status :: event_status
  ae_policy :: "ustring option"
  ae_scope :: scope
  ae_findings :: "stored_finding list"
  ae_severity :: ustring
  ae_summary :: ustring
  ae_occurred_at :: time
  ae_states :: "(scope \<times> ustring) list"

record delivery =
  dl_id :: ustring
  dl_event :: ustring
  dl_channel :: ustring
  dl_status :: delivery_status
  dl_attempt_count :: nat
  dl_max_attempts :: nat
  dl_next_attempt_at :: "time option"
  dl_attempted_at :: "time option"
  dl_delivered_at :: "time option"
  dl_lease_expires_at :: "time option"
  dl_lease_token :: ustring
  dl_response_summary :: ustring
  dl_error_summary :: ustring
  dl_created_at :: time

record alerts =
  al_channels :: "channel list"
  al_policies :: "policy list"
  al_states :: "alert_state list"
  al_events :: "alert_event list"
  al_deliveries :: "delivery list"

section \<open>Policies\<close>

definition policy_shape_ck :: "policy \<Rightarrow> bool" where
  "policy_shape_ck p \<longleftrightarrow>
     (po_default p \<and> po_override p \<and> po_inspection p = None \<and> po_analysis p = None)
   \<or> (\<not> po_default p \<and> po_inspection p \<noteq> None \<and> po_analysis p = None)
   \<or> (\<not> po_default p \<and> po_inspection p = None \<and> po_analysis p \<noteq> None)"

text \<open>\<open>AlertPolicy.clean\<close> of a saved policy; \<open>others\<close> are the other policies.\<close>

definition policy_clean :: "policy list \<Rightarrow> policy \<Rightarrow> errs" where
  "policy_clean others p = run_checks (
     (if po_default p then
        [(po_inspection p \<noteq> None \<or> po_analysis p \<noteq> None, ''is_default'', ''no_profile''),
         (\<not> po_override p, ''mode'', ''must_override'')]
      else
        [((po_inspection p \<noteq> None) = (po_analysis p \<noteq> None), ''inspection_profile'', ''exactly_one''),
         ((po_inspection p \<noteq> None) = (po_analysis p \<noteq> None), ''analysis_profile'', ''exactly_one'')])
     @ (if \<not> po_override p then
          [(po_channels p \<noteq> [], ''channels'', ''inherit_without_channels''),
           (\<not> list_ex po_default others, ''mode'', ''needs_default'')]
        else [(\<not> po_default p \<and> po_channels p = [], ''channels'', ''needs_channel'')]))"

lemma policy_clean_shape: "policy_clean others p = [] \<Longrightarrow> policy_shape_ck p"
  by (cases "po_inspection p"; cases "po_analysis p")
    (auto simp: policy_clean_def run_checks_Nil policy_shape_ck_def split: if_split_asm)

definition default_policy :: "policy list \<Rightarrow> policy option" where
  "default_policy ps = find po_default ps"

definition policy_for_scope :: "policy list \<Rightarrow> ustring \<Rightarrow> ustring \<Rightarrow> policy option" where
  "policy_for_scope ps ptype pid =
     (let own = (if ptype = asc ''inspection_profile'' then find (\<lambda>p. po_inspection p = Some pid) ps
                 else if ptype = asc ''computer_analysis_profile'' then find (\<lambda>p. po_analysis p = Some pid) ps
                 else None)
      in case own of Some p \<Rightarrow> Some p | None \<Rightarrow> default_policy ps)"

text \<open>\<open>effective_channels\<close>: enabled channels by name, of the policy itself or of the default policy
  (\<open>default_policy()\<close> raises when there is none).\<close>

definition enabled_channels :: "channel list \<Rightarrow> policy \<Rightarrow> channel list" where
  "enabled_channels chs p = sort_key ch_name (filter (\<lambda>c. ch_id c \<in> set (po_channels p) \<and> ch_enabled c) chs)"

definition effective_channels :: "channel list \<Rightarrow> policy list \<Rightarrow> policy \<Rightarrow> channel list res" where
  "effective_channels chs ps p =
     (if po_default p \<or> po_override p then Inr (enabled_channels chs p)
      else case default_policy ps of None \<Rightarrow> Inl DoesNotExist | Some q \<Rightarrow> Inr (enabled_channels chs q))"

text \<open>\<open>snapshot_routing\<close>, frozen when a task is enqueued.\<close>

definition snapshot_routing :: "channel list \<Rightarrow> policy list \<Rightarrow> bool \<Rightarrow> ustring \<Rightarrow> json" where
  "snapshot_routing chs ps analysis pid =
     (let own = find (\<lambda>p. (if analysis then po_analysis p else po_inspection p) = Some pid) ps;
          override = (case own of Some p \<Rightarrow> po_override p | None \<Rightarrow> False);
          effective = (if override then own else default_policy ps);
          id_json = (\<lambda>p. case p of Some q \<Rightarrow> JStr (po_id q) | None \<Rightarrow> JNull)
      in JObj [(asc ''mode'', JStr (if override then asc ''override'' else asc ''inherit'')),
               (asc ''policy_id'', id_json own), (asc ''effective_policy_id'', id_json effective),
               (asc ''channel_ids'', JList (case effective of None \<Rightarrow> []
                  | Some q \<Rightarrow> map (\<lambda>c. JStr (ch_id c))
                      (sort_key ch_id (filter (\<lambda>c. ch_id c \<in> set (po_channels q) \<and> ch_enabled c) chs))))])"

section \<open>Scopes\<close>

definition alert_task_scope :: "task \<Rightarrow> (ustring \<times> ustring) res" where
  "alert_task_scope t =
     (case (t_type t, t_inspection_profile t, t_analysis_profile t) of
        (Inspection, Some p, _) \<Rightarrow> Inr (asc ''inspection_profile'', p)
      | (ComputerAnalysis, _, Some p) \<Rightarrow> Inr (asc ''computer_analysis_profile'', p)
      | (DomainSync, _, _) \<Rightarrow> Inr (asc ''domain_config'', asc ''1'')
      | (PeopleSync, _, _) \<Rightarrow>
          Inr (asc ''people_source'', case t_people_source t of Some p \<Rightarrow> p | None \<Rightarrow> asc ''None'')
      | _ \<Rightarrow> Inl (ValidationError [(''task'', ''no_profile'')]))"

text \<open>\<open>computer\<close> is the computer of the target's analysis row, if it has one.\<close>

definition target_scope :: "ustring option \<Rightarrow> task \<Rightarrow> target \<Rightarrow> scope res" where
  "target_scope computer t g =
     bindr (alert_task_scope t) (\<lambda>(pt, pid).
       Inr (case (if t_type t = ComputerAnalysis \<and> g_result_type g = asc ''computer_analysis'' then computer else None) of
              Some c \<Rightarrow> (pt, pid, asc ''computer'', c)
            | None \<Rightarrow> (pt, pid, target_type_value (g_type g), g_target_id g)))"

text \<open>
  \<open>AlertEvent._validate_scope\<close>: the event belongs to its task and target, its scope is the one of the task and
  the target (an empty field is filled in), and its policy is the default one or the one of the profile.
  \<open>trow\<close> and \<open>grow\<close> are the rows found for its task and target.
\<close>

definition policy_profile :: "policy \<Rightarrow> ustring \<times> ustring option" where
  "policy_profile p = (case po_inspection p of Some i \<Rightarrow> (asc ''inspection_profile'', Some i)
     | None \<Rightarrow> (case po_analysis p of Some i \<Rightarrow> (asc ''computer_analysis_profile'', Some i) | None \<Rightarrow> (asc ''default'', None)))"

definition own_policy :: "policy list \<Rightarrow> ustring \<Rightarrow> ustring \<times> ustring \<Rightarrow> bool" where
  "own_policy ps i prof = (case find_row po_id i ps of None \<Rightarrow> False
     | Some p \<Rightarrow> po_default p \<or> policy_profile p = (fst prof, Some (snd prof)))"

definition scope_mismatch :: "ustring \<Rightarrow> ustring \<Rightarrow> bool" where
  "scope_mismatch supplied canonical \<longleftrightarrow> supplied \<noteq> [] \<and> supplied \<noteq> canonical"

fun scope_checks :: "scope \<Rightarrow> scope \<Rightarrow> (bool \<times> string \<times> string) list" where
  "scope_checks (a, b, c, d) (a', b', c', d') =
     [(scope_mismatch a a', ''profile_type'', ''foreign''), (scope_mismatch b b', ''profile_id'', ''foreign''),
      (scope_mismatch c c', ''target_type'', ''foreign''), (scope_mismatch d d', ''target_id'', ''foreign'')]"

definition rescoped :: "runtime \<Rightarrow> alerts \<Rightarrow> task \<Rightarrow> scope \<Rightarrow> alert_event \<Rightarrow> alert_event res" where
  "rescoped rt a t sc e =
     (let snap_id = jget_or ''id'' JNull (t_profile_snapshot t)
      in if snap_id \<noteq> JNull \<and> py_str rt snap_id \<noteq> fst (snd sc) then Inl (ValidationError [(''task'', ''snapshot_mismatch'')])
         else validated (run_checks (
             (case find_row ae_id (ae_id e) (al_events a) of None \<Rightarrow> []
              | Some e0 \<Rightarrow> [(ae_task e0 \<noteq> ae_task e \<or> ae_target e0 \<noteq> ae_target e \<or> ae_summary_task e0 \<noteq> ae_summary_task e,
                             ''target_run'', ''immutable'')])
             @ scope_checks (ae_scope e) sc
             @ [(case ae_policy e of None \<Rightarrow> False | Some i \<Rightarrow> \<not> own_policy (al_policies a) i (fst sc, fst (snd sc)),
                 ''policy'', ''foreign_policy'')])) (e\<lparr>ae_scope := sc\<rparr>))"

definition validate_event_scope ::
    "runtime \<Rightarrow> alerts \<Rightarrow> ustring option \<Rightarrow> task option \<Rightarrow> target option \<Rightarrow> alert_event \<Rightarrow> alert_event res" where
  "validate_event_scope rt a computer trow grow e =
     (if ae_type e = EvSummary then
        (if ae_summary_task e \<noteq> Some (ae_task e) then Inl (ValidationError [(''summary_task'', ''same_task'')])
         else if ae_target e \<noteq> None then Inl (ValidationError [(''target_run'', ''no_target'')])
         else case trow of None \<Rightarrow> Inl (ValidationError [(''task'', ''missing'')])
           | Some t \<Rightarrow> bindr (alert_task_scope t) (\<lambda>(pt, pid). rescoped rt a t (pt, pid, asc ''task'', t_id t) e))
      else if ae_summary_task e \<noteq> None then Inl (ValidationError [(''summary_task'', ''no_summary'')])
      else case (trow, grow) of
        (Some t, Some g) \<Rightarrow>
          if ae_task e \<noteq> g_task g then Inl (ValidationError [(''target_run'', ''foreign'')])
          else bindr (target_scope computer t g) (\<lambda>sc. rescoped rt a t sc e)
      | _ \<Rightarrow> Inl (ValidationError [(''target_run'', ''foreign'')]))"

section \<open>States\<close>

text \<open>One observation of one scope: the states, the abnormal observations and the recovered ones.\<close>

type_synonym progress = "alert_state list \<times> observation list \<times> observation list"

definition find_state :: "scope \<Rightarrow> ustring \<Rightarrow> alert_state list \<Rightarrow> alert_state option" where
  "find_state sc k = find (\<lambda>s. st_scope s = sc \<and> st_key s = k)"

definition new_state :: "scope \<Rightarrow> ustring \<Rightarrow> time \<Rightarrow> alert_state" where
  "new_state sc k now = \<lparr>st_scope = sc, st_key = k, st_abnormal = False, st_snapshot = None, st_last_seen = now,
     st_last_abnormal = None, st_last_normal = None, st_last_event = None\<rparr>"

definition observed_state :: "time \<Rightarrow> observation \<Rightarrow> alert_state \<Rightarrow> alert_state" where
  "observed_state at_time o1 s = s\<lparr>st_last_seen := at_time, st_snapshot := Some (stored_finding.truncate o1),
     st_abnormal := (ob_state o1 = SeenAbnormal),
     st_last_abnormal := (if ob_state o1 = SeenAbnormal then Some at_time else st_last_abnormal s),
     st_last_normal := (if ob_state o1 = SeenAbnormal then st_last_normal s else Some at_time)\<rparr>"

definition write_state :: "alert_state \<Rightarrow> alert_state list \<Rightarrow> alert_state list" where
  "write_state s' = upd_rows (\<lambda>s. st_scope s = st_scope s' \<and> st_key s = st_key s') (\<lambda>_. s')"

text \<open>\<open>_locked_state\<close> finds or creates the row; an observation that is not newer than the row is ignored.\<close>

definition observe_one :: "scope \<Rightarrow> time \<Rightarrow> time \<Rightarrow> observation \<Rightarrow> progress \<Rightarrow> progress" where
  "observe_one sc now at_time o1 acc = (case acc of (states, abnormal, recovered) \<Rightarrow>
     if ob_state o1 = SeenUnknown then acc
     else
       let found = find_state sc (ob_key o1) states;
           states = (case found of None \<Rightarrow> states @ [new_state sc (ob_key o1) now] | Some _ \<Rightarrow> states);
           s = (case found of None \<Rightarrow> new_state sc (ob_key o1) now | Some s \<Rightarrow> s)
       in if found \<noteq> None \<and> at_time \<le> st_last_seen s then acc
          else (write_state (observed_state at_time o1 s) states,
                (if ob_state o1 = SeenAbnormal then abnormal @ [o1] else abnormal),
                (if ob_state o1 = SeenNormal \<and> st_abnormal s then recovered @ [o1] else recovered)))"

definition observe_all :: "scope \<Rightarrow> time \<Rightarrow> time \<Rightarrow> observation list \<Rightarrow> alert_state list \<Rightarrow> progress" where
  "observe_all sc now at_time os states = fold (observe_one sc now at_time) os (states, [], [])"

section \<open>Events\<close>

definition max_severity :: "observation list \<Rightarrow> ustring" where
  "max_severity os = (case first_max (\<lambda>o1. rank_of (ob_severity o1)) os of None \<Rightarrow> [] | Some o1 \<Rightarrow> ob_severity o1)"

definition target_event ::
    "ustring \<Rightarrow> event_type \<Rightarrow> time \<Rightarrow> scope \<Rightarrow> target \<Rightarrow> policy option \<Rightarrow> observation list \<Rightarrow> alert_event" where
  "target_event i ty at_time sc g pol os = \<lparr>ae_id = i, ae_task = g_task g, ae_target = Some (g_id g),
     ae_summary_task = None, ae_type = ty, ae_status = EsRecorded, ae_policy = map_option po_id pol, ae_scope = sc,
     ae_findings = map stored_finding.truncate os, ae_severity = max_severity os,
     ae_summary = nat_digits (length os) @ asc '' merged finding(s)'', ae_occurred_at = at_time,
     ae_states = map (\<lambda>o1. (sc, ob_key o1)) os\<rparr>"

definition link_states :: "ustring \<Rightarrow> scope \<Rightarrow> observation list \<Rightarrow> alert_state list \<Rightarrow> alert_state list" where
  "link_states i sc os = upd_rows (\<lambda>s. st_scope s = sc \<and> st_key s \<in> ob_key ` set os) (\<lambda>s. s\<lparr>st_last_event := Some i\<rparr>)"

text \<open>\<open>get_or_create\<close> on the unique (target, type): an event that exists is returned as it is.\<close>

definition add_event ::
    "runtime \<Rightarrow> ustring \<Rightarrow> event_type \<Rightarrow> time \<Rightarrow> ustring option \<Rightarrow> scope \<Rightarrow> task \<Rightarrow> target \<Rightarrow> policy option
     \<Rightarrow> observation list \<Rightarrow> alerts \<Rightarrow> alerts res" where
  "add_event rt i ty at_time computer sc t g pol os a =
     (if os = [] \<or> list_ex (\<lambda>e. ae_target e = Some (g_id g) \<and> ae_type e = ty) (al_events a) then Inr a
      else bindr (validate_event_scope rt a computer (Some t) (Some g) (target_event i ty at_time sc g pol os)) (\<lambda>e.
             Inr (a\<lparr>al_events := al_events a @ [e], al_states := link_states i sc os (al_states a)\<rparr>)))"

definition routed_policy :: "alerts \<Rightarrow> task \<Rightarrow> ustring \<Rightarrow> ustring \<Rightarrow> policy option" where
  "routed_policy a t ptype pid =
     (case jget_or ''alert_routing'' JNull (t_profile_snapshot t) of
        JNull \<Rightarrow> policy_for_scope (al_policies a) ptype pid
      | routing \<Rightarrow> (case jget_or ''effective_policy_id'' JNull routing of
          JStr i \<Rightarrow> find (\<lambda>p. po_id p = i) (al_policies a) | _ \<Rightarrow> None))"

definition process_target_findings ::
    "runtime \<Rightarrow> (event_type \<Rightarrow> ustring) \<Rightarrow> time \<Rightarrow> ustring option \<Rightarrow> task \<Rightarrow> target \<Rightarrow> finding list \<Rightarrow> alerts \<Rightarrow> alerts res" where
  "process_target_findings rt i now computer t g fs a =
     (if normalised_findings rt fs = [] then Inr a
      else
        let at_time = (case g_finished_at g of Some f \<Rightarrow> f | None \<Rightarrow> now)
        in bindr (target_scope computer t g) (\<lambda>sc.
          case observe_all sc now at_time (normalised_findings rt fs) (al_states a) of (states, abnormal, recovered) \<Rightarrow>
            let pol = routed_policy a t (fst sc) (fst (snd sc))
            in bindr (add_event rt (i EvAbnormal) EvAbnormal at_time computer sc t g pol abnormal (a\<lparr>al_states := states\<rparr>))
                 (add_event rt (i EvRecovery) EvRecovery at_time computer sc t g pol recovered)))"

section \<open>One ended target\<close>

definition alerted_task_types :: "task_type list" where
  "alerted_task_types = [Inspection, ComputerAnalysis, DomainSync, PeopleSync]"

fun exc_name :: "exc \<Rightarrow> ustring" where
  "exc_name (ValidationError _) = asc ''ValidationError''"
| "exc_name IntegrityError = asc ''IntegrityError''"
| "exc_name ValueError = asc ''ValueError''"
| "exc_name TypeError = asc ''TypeError''"
| "exc_name AttributeError = asc ''AttributeError''"
| "exc_name LookupError = asc ''KeyError''"
| "exc_name DoesNotExist = asc ''DoesNotExist''"
| "exc_name PeopleSyncApplyError = asc ''PeopleSyncApplyError''"

definition observation_snapshot :: "observation list \<Rightarrow> json \<Rightarrow> json" where
  "observation_snapshot os snap =
     JObj (AList.update (asc ''alert_observation'')
       (JObj [(asc ''abnormal'', JBool (list_ex (\<lambda>o1. ob_state o1 = SeenAbnormal) os)),
              (asc ''info'', JBool (list_ex (\<lambda>o1. ob_state o1 = SeenUnknown) os))])
       (case snap of JObj kvs \<Rightarrow> kvs | _ \<Rightarrow> []))"

definition processed_target :: "time \<Rightarrow> observation list \<Rightarrow> target \<Rightarrow> target" where
  "processed_target now os g = g\<lparr>g_alert_processed_at := Some now, g_alert_attempted_at := Some now,
     g_alert_processing_error := [], g_result_snapshot := observation_snapshot os (g_result_snapshot g)\<rparr>"

definition attempted_target :: "time \<Rightarrow> exc \<Rightarrow> target \<Rightarrow> target" where
  "attempted_target now e g = g\<lparr>g_alert_attempted_at := Some now,
     g_alert_processing_error := asc ''Alert processing failed ('' @ exc_name e @ asc '').''\<rparr>"

text \<open>
  \<open>process_persisted_target\<close>: the states, the events and the completion mark are one transaction; when it
  raises, only the attempt is recorded, and only on a target that is not processed.
\<close>

definition process_persisted_target ::
    "runtime \<Rightarrow> (event_type \<Rightarrow> ustring) \<Rightarrow> time \<Rightarrow> time \<Rightarrow> ustring option \<Rightarrow> analysis_row option \<Rightarrow> json option
     \<Rightarrow> ustring \<Rightarrow> db \<times> alerts \<Rightarrow> db \<times> alerts" where
  "process_persisted_target rt i now later computer analysis expanded gid da = (case da of (d, a) \<Rightarrow>
     (case find_row g_id gid (targets d) of
        None \<Rightarrow> da
      | Some g \<Rightarrow>
          (case find_row t_id (g_task g) (tasks d) of
             None \<Rightarrow> da
           | Some t \<Rightarrow>
               if t_type t \<notin> set alerted_task_types \<or> \<not> target_is_terminal g \<or> g_alert_processed_at g \<noteq> None then da
               else
                 (case bindr (findings_for_target rt analysis expanded g) (\<lambda>fs.
                         bindr (process_target_findings rt i now computer t g fs a) (\<lambda>a'. Inr (fs, a'))) of
                       Inr (fs, a') \<Rightarrow> (d\<lparr>targets := upd_row g_id gid (processed_target now (normalised_findings rt fs)) (targets d)\<rparr>, a')
                     | Inl e \<Rightarrow> (d\<lparr>targets := upd_rows (\<lambda>g. g_id g = gid \<and> g_alert_processed_at g = None)
                                    (attempted_target later e) (targets d)\<rparr>, a)))))"

text \<open>\<open>reconcile_terminal_targets\<close> replays them, never attempted ones first.\<close>

definition unprocessed_targets :: "nat \<Rightarrow> db \<Rightarrow> ustring list" where
  "unprocessed_targets limit d =
     take limit (map g_id (sort_key (\<lambda>g. (g_alert_attempted_at g, g_finished_at g, g_id g))
       (filter (\<lambda>g. target_is_terminal g \<and> g_alert_processed_at g = None
          \<and> (case find_row t_id (g_task g) (tasks d) of None \<Rightarrow> False | Some t \<Rightarrow> t_type t \<in> set alerted_task_types))
        (targets d))))"

definition reconcile_terminal_targets ::
    "(ustring \<Rightarrow> db \<times> alerts \<Rightarrow> db \<times> alerts) \<Rightarrow> nat \<Rightarrow> db \<times> alerts \<Rightarrow> db \<times> alerts" where
  "reconcile_terminal_targets process limit da = fold process (unprocessed_targets limit (fst da)) da"

section \<open>Observations and states\<close>

lemma find_state_Some: "find_state sc k ss = Some s \<Longrightarrow> s \<in> set ss \<and> st_scope s = sc \<and> st_key s = k"
  by (auto simp: find_state_def find_Some_iff)

lemma find_state_write:
  "find_state sc k (write_state s' ss) =
     (if sc = st_scope s' \<and> k = st_key s' then map_option (\<lambda>_. s') (find_state sc k ss) else find_state sc k ss)"
  by (induction ss) (auto simp: find_state_def write_state_def upd_rows_def)

lemma find_state_snoc:
  "find_state sc k (ss @ [s]) = (case find_state sc k ss of Some r \<Rightarrow> Some r
     | None \<Rightarrow> if st_scope s = sc \<and> st_key s = k then Some s else None)"
  by (induction ss) (auto simp: find_state_def)

lemma observed_state_simps [simp]:
  "st_scope (observed_state u o1 s) = st_scope s" "st_key (observed_state u o1 s) = st_key s"
  "st_last_seen (observed_state u o1 s) = u" "st_abnormal (observed_state u o1 s) = (ob_state o1 = SeenAbnormal)"
  by (simp_all add: observed_state_def)

lemma new_state_simps [simp]:
  "st_scope (new_state sc k u) = sc" "st_key (new_state sc k u) = k" "\<not> st_abnormal (new_state sc k u)"
  by (simp_all add: new_state_def)

text \<open>An observation counts when it is known and newer than the state of its key.\<close>

definition accepted :: "scope \<Rightarrow> time \<Rightarrow> alert_state list \<Rightarrow> observation \<Rightarrow> bool" where
  "accepted sc u states o1 \<longleftrightarrow> ob_state o1 \<noteq> SeenUnknown
     \<and> (case find_state sc (ob_key o1) states of None \<Rightarrow> True | Some s \<Rightarrow> st_last_seen s < u)"

definition was_abnormal :: "scope \<Rightarrow> alert_state list \<Rightarrow> ustring \<Rightarrow> bool" where
  "was_abnormal sc states k \<longleftrightarrow> (case find_state sc k states of None \<Rightarrow> False | Some s \<Rightarrow> st_abnormal s)"

text \<open>The state of a key after the observations of one target.\<close>

definition next_state :: "scope \<Rightarrow> time \<Rightarrow> time \<Rightarrow> observation list \<Rightarrow> alert_state list \<Rightarrow> ustring \<Rightarrow> alert_state option" where
  "next_state sc now u os states k =
     (case find (\<lambda>o1. ob_key o1 = k) os of
        None \<Rightarrow> find_state sc k states
      | Some o1 \<Rightarrow> if accepted sc u states o1
          then Some (observed_state u o1 (case find_state sc k states of None \<Rightarrow> new_state sc k now | Some s \<Rightarrow> s))
          else find_state sc k states)"

lemma observe_one_eq:
  "observe_one sc now u o1 (states, abnormal, recovered) =
     (if accepted sc u states o1
      then (write_state (observed_state u o1 (case find_state sc (ob_key o1) states of None \<Rightarrow> new_state sc (ob_key o1) now | Some s \<Rightarrow> s))
              (case find_state sc (ob_key o1) states of None \<Rightarrow> states @ [new_state sc (ob_key o1) now] | Some _ \<Rightarrow> states),
            (if ob_state o1 = SeenAbnormal then abnormal @ [o1] else abnormal),
            (if ob_state o1 = SeenNormal \<and> was_abnormal sc states (ob_key o1) then recovered @ [o1] else recovered))
      else (states, abnormal, recovered))"
  by (cases "find_state sc (ob_key o1) states") (simp_all add: observe_one_def accepted_def was_abnormal_def Let_def)

lemma observe_one_state:
  "find_state sc' k (fst (observe_one sc now u o1 acc)) =
     (if sc' = sc \<and> k = ob_key o1 then next_state sc now u [o1] (fst acc) k else find_state sc' k (fst acc))"
proof -
  obtain states abnormal recovered where acc: "acc = (states, abnormal, recovered)" by (cases acc)
  show ?thesis
  proof (cases "find_state sc (ob_key o1) states")
    case None
    then show ?thesis
      by (simp add: acc observe_one_eq next_state_def find_state_write find_state_snoc split: option.split)
  next
    case (Some s)
    with find_state_Some [OF Some] show ?thesis
      by (simp add: acc observe_one_eq next_state_def find_state_write)
  qed
qed

lemma observe_one_lists:
  "snd (observe_one sc now u o1 acc) =
     (fst (snd acc) @ (if accepted sc u (fst acc) o1 \<and> ob_state o1 = SeenAbnormal then [o1] else []),
      snd (snd acc) @ (if accepted sc u (fst acc) o1 \<and> ob_state o1 = SeenNormal \<and> was_abnormal sc (fst acc) (ob_key o1)
                       then [o1] else []))"
  by (cases acc) (auto simp: observe_one_eq)

lemma observe_fold:
  assumes "distinct (map ob_key os)"
  shows "find_state sc' k (fst (fold (observe_one sc now u) os acc)) =
      (if sc' = sc then next_state sc now u os (fst acc) k else find_state sc' k (fst acc))"
    and "snd (fold (observe_one sc now u) os acc) =
      (fst (snd acc) @ filter (\<lambda>o1. accepted sc u (fst acc) o1 \<and> ob_state o1 = SeenAbnormal) os,
       snd (snd acc) @ filter (\<lambda>o1. accepted sc u (fst acc) o1 \<and> ob_state o1 = SeenNormal
         \<and> was_abnormal sc (fst acc) (ob_key o1)) os)"
proof -
  have "(\<forall>sc' k. find_state sc' k (fst (fold (observe_one sc now u) os acc)) =
      (if sc' = sc then next_state sc now u os (fst acc) k else find_state sc' k (fst acc)))
    \<and> snd (fold (observe_one sc now u) os acc) =
      (fst (snd acc) @ filter (\<lambda>o1. accepted sc u (fst acc) o1 \<and> ob_state o1 = SeenAbnormal) os,
       snd (snd acc) @ filter (\<lambda>o1. accepted sc u (fst acc) o1 \<and> ob_state o1 = SeenNormal
         \<and> was_abnormal sc (fst acc) (ob_key o1)) os)"
    using assms
  proof (induction os arbitrary: acc)
    case Nil
    then show ?case by (simp add: next_state_def)
  next
    case (Cons o1 os)
    let ?acc = "observe_one sc now u o1 acc"
    have d: "distinct (map ob_key os)" using Cons.prems by simp
    note IH = conjunct1 [OF Cons.IH [OF d, of ?acc], rule_format] conjunct2 [OF Cons.IH [OF d, of ?acc]]
    have other: "find_state sc' k (fst ?acc) = find_state sc' k (fst acc)" if "k \<noteq> ob_key o1" for sc' k
      using that by (simp add: observe_one_state)
    have same: "accepted sc u (fst ?acc) o2 = accepted sc u (fst acc) o2"
      "was_abnormal sc (fst ?acc) (ob_key o2) = was_abnormal sc (fst acc) (ob_key o2)" if "o2 \<in> set os" for o2
    proof -
      have "ob_key o2 \<noteq> ob_key o1" using Cons.prems that by (auto simp: image_iff)
      then show "accepted sc u (fst ?acc) o2 = accepted sc u (fst acc) o2"
        "was_abnormal sc (fst ?acc) (ob_key o2) = was_abnormal sc (fst acc) (ob_key o2)"
        by (simp_all add: accepted_def was_abnormal_def other)
    qed
    have k: "find (\<lambda>o2. ob_key o2 = ob_key o1) os = None"
      using Cons.prems by (auto simp: find_None_iff image_iff)
    have "find_state sc' k (fst (fold (observe_one sc now u) os ?acc)) =
        (if sc' = sc then next_state sc now u (o1 # os) (fst acc) k else find_state sc' k (fst acc))" for sc' k
    proof (cases "k = ob_key o1")
      case True
      then show ?thesis by (simp add: IH(1) next_state_def k observe_one_state)
    next
      case False
      have "next_state sc now u os (fst ?acc) k = next_state sc now u os (fst acc) k"
      proof (cases "find (\<lambda>o2. ob_key o2 = k) os")
        case None
        then show ?thesis by (simp add: next_state_def other [OF False])
      next
        case (Some o2)
        then have "o2 \<in> set os" by (auto simp: find_Some_iff)
        from same(1) [OF this] show ?thesis by (simp add: next_state_def other [OF False] Some)
      qed
      with False show ?thesis by (simp add: IH(1) other) (simp add: next_state_def)
    qed
    moreover have "filter (\<lambda>o2. accepted sc u (fst ?acc) o2 \<and> Q o2) os = filter (\<lambda>o2. accepted sc u (fst acc) o2 \<and> Q o2) os" for Q
      using same(1) by (auto intro: filter_cong)
    moreover have "filter (\<lambda>o2. accepted sc u (fst ?acc) o2 \<and> ob_state o2 = SeenNormal \<and> was_abnormal sc (fst ?acc) (ob_key o2)) os
        = filter (\<lambda>o2. accepted sc u (fst acc) o2 \<and> ob_state o2 = SeenNormal \<and> was_abnormal sc (fst acc) (ob_key o2)) os"
      using same by (auto intro: filter_cong)
    ultimately show ?case by (auto simp: IH(2) observe_one_lists)
  qed
  then show "find_state sc' k (fst (fold (observe_one sc now u) os acc)) =
      (if sc' = sc then next_state sc now u os (fst acc) k else find_state sc' k (fst acc))"
    and "snd (fold (observe_one sc now u) os acc) =
      (fst (snd acc) @ filter (\<lambda>o1. accepted sc u (fst acc) o1 \<and> ob_state o1 = SeenAbnormal) os,
       snd (snd acc) @ filter (\<lambda>o1. accepted sc u (fst acc) o1 \<and> ob_state o1 = SeenNormal
         \<and> was_abnormal sc (fst acc) (ob_key o1)) os)"
    by blast+
qed

end
