(* ===== verification/AlertDelivery.thy ===== *)
theory AlertDelivery
  imports Alerts
begin

text \<open>
  The outbox of \<open>net/alerts/service.py\<close> (\<open>_claim_deliveries\<close>, \<open>_event_status\<close>, \<open>_finish_delivery\<close>) and the task
  summary of \<open>net/alerts/task_summaries.py\<close> that fills it. Every transaction keeps the check constraints
  of \<open>AlertDelivery\<close>; the outbox is a system whose deliveries end and whose attempts are bounded.
\<close>

section \<open>Constraints\<close>

definition max_delivery_attempts :: nat where "max_delivery_attempts = 5"

definition delivery_attempts_ck :: "delivery \<Rightarrow> bool" where
  "delivery_attempts_ck l \<longleftrightarrow> 1 \<le> dl_max_attempts l \<and> dl_max_attempts l \<le> max_delivery_attempts
     \<and> dl_attempt_count l \<le> dl_max_attempts l"

definition delivery_time_ck :: "delivery \<Rightarrow> bool" where
  "delivery_time_ck l \<longleftrightarrow>
     (case dl_status l of
        DSent \<Rightarrow> dl_delivered_at l \<noteq> None \<and> dl_next_attempt_at l = None
      | DRetry \<Rightarrow> dl_delivered_at l = None \<and> dl_next_attempt_at l \<noteq> None \<and> dl_attempt_count l < dl_max_attempts l
      | DSending \<Rightarrow> dl_delivered_at l = None \<and> dl_next_attempt_at l = None \<and> dl_lease_expires_at l \<noteq> None \<and> dl_lease_token l \<noteq> []
      | _ \<Rightarrow> dl_delivered_at l = None \<and> dl_next_attempt_at l = None \<and> dl_lease_expires_at l = None \<and> dl_lease_token l = [])"

definition delivery_ck :: "delivery \<Rightarrow> bool" where
  "delivery_ck l \<longleftrightarrow> delivery_attempts_ck l \<and> delivery_time_ck l"

definition delivery_clean :: "delivery \<Rightarrow> errs" where
  "delivery_clean l = run_checks
     [(dl_attempt_count l > dl_max_attempts l, ''attempt_count'', ''too_many''),
      (dl_status l = DSent \<and> dl_delivered_at l = None, ''delivered_at'', ''required''),
      (dl_status l = DRetry \<and> dl_next_attempt_at l = None, ''next_attempt_at'', ''required''),
      (dl_status l = DSending \<and> (dl_lease_expires_at l = None \<or> dl_lease_token l = []), ''lease_expires_at'', ''required'')]"

lemma delivery_ck_clean: "delivery_ck l \<Longrightarrow> delivery_clean l = []"
  by (auto simp: delivery_ck_def delivery_attempts_ck_def delivery_time_ck_def delivery_clean_def run_checks_Nil)

section \<open>Claims\<close>

definition retry_delay :: time where "retry_delay = seconds 30"
definition delivery_lease :: time where "delivery_lease = seconds 30"

definition delivery_due :: "time \<Rightarrow> delivery \<Rightarrow> bool" where
  "delivery_due now l \<longleftrightarrow> dl_status l = DPending
     \<or> (dl_status l = DRetry \<and> (case dl_next_attempt_at l of None \<Rightarrow> False | Some n \<Rightarrow> n \<le> now))
     \<or> (dl_status l = DSending \<and> (case dl_lease_expires_at l of None \<Rightarrow> False | Some e \<Rightarrow> e \<le> now))"

definition is_summary :: "alerts \<Rightarrow> ustring \<Rightarrow> bool" where
  "is_summary a i \<longleftrightarrow> (case find_row ae_id i (al_events a) of None \<Rightarrow> False | Some e \<Rightarrow> ae_type e = EvSummary)"

definition due_deliveries :: "time \<Rightarrow> ustring option \<Rightarrow> nat \<Rightarrow> alerts \<Rightarrow> delivery list" where
  "due_deliveries now event limit a =
     take (max 1 limit) (sort_key (\<lambda>l. (dl_created_at l, dl_id l))
       (filter (\<lambda>l. delivery_due now l \<and> is_summary a (dl_event l)
                  \<and> (case event of None \<Rightarrow> True | Some e \<Rightarrow> dl_event l = e)) (al_deliveries a)))"

text \<open>\<open>_event_status\<close>\<close>

definition outbox_status :: "delivery_status list \<Rightarrow> event_status" where
  "outbox_status ss =
     (if ss \<noteq> [] \<and> list_all (\<lambda>s. s = DSent) ss then EsDelivered
      else if DSent \<in> set ss then EsPartial
      else if ss \<noteq> [] \<and> list_all (\<lambda>s. s = DFailed) ss then EsFailed
      else if DSending \<in> set ss then EsSending
      else EsPending)"

definition refresh_event :: "ustring \<Rightarrow> alerts \<Rightarrow> alerts" where
  "refresh_event i a = a\<lparr>al_events := upd_row ae_id i
     (\<lambda>e. e\<lparr>ae_status := outbox_status (map dl_status (filter (\<lambda>l. dl_event l = i) (al_deliveries a)))\<rparr>) (al_events a)\<rparr>"

text \<open>A save of a delivery; the database refuses a row that breaks a check constraint.\<close>

definition save_delivery :: "delivery \<Rightarrow> alerts \<Rightarrow> alerts res" where
  "save_delivery l a = (if delivery_ck l then Inr (a\<lparr>al_deliveries := upd_row dl_id (dl_id l) (\<lambda>_. l) (al_deliveries a)\<rparr>)
     else Inl IntegrityError)"

definition exhausted_delivery :: "delivery \<Rightarrow> delivery" where
  "exhausted_delivery l = l\<lparr>dl_status := DFailed, dl_lease_expires_at := None, dl_lease_token := [],
     dl_error_summary := asc ''Delivery lease expired after the final attempt.''\<rparr>"

definition claimed_delivery :: "time \<Rightarrow> ustring \<Rightarrow> delivery \<Rightarrow> delivery" where
  "claimed_delivery now token l = l\<lparr>dl_status := DSending, dl_attempt_count := dl_attempt_count l + 1,
     dl_attempted_at := Some now, dl_lease_expires_at := Some (now + delivery_lease), dl_lease_token := token,
     dl_next_attempt_at := None\<rparr>"

definition exhausted :: "delivery \<Rightarrow> bool" where
  "exhausted l \<longleftrightarrow> dl_status l = DSending \<and> dl_attempt_count l \<ge> dl_max_attempts l"

definition claim_one :: "(ustring \<Rightarrow> ustring) \<Rightarrow> time \<Rightarrow> delivery \<Rightarrow> alerts \<times> (ustring \<times> ustring) list
    \<Rightarrow> (alerts \<times> (ustring \<times> ustring) list) res" where
  "claim_one token now l acc =
     (if exhausted l
      then bindr (save_delivery (exhausted_delivery l) (fst acc)) (\<lambda>a. Inr (refresh_event (dl_event l) a, snd acc))
      else bindr (save_delivery (claimed_delivery now (token (dl_id l)) l) (fst acc))
             (\<lambda>a. Inr (a, snd acc @ [(dl_id l, token (dl_id l))])))"

definition claim_deliveries :: "(ustring \<Rightarrow> ustring) \<Rightarrow> time \<Rightarrow> ustring option \<Rightarrow> nat \<Rightarrow> alerts
    \<Rightarrow> (alerts \<times> (ustring \<times> ustring) list) res" where
  "claim_deliveries token now event limit a = foldr_res (claim_one token now) (due_deliveries now event limit a) (a, [])"

section \<open>Results\<close>

text \<open>The result of a send; \<open>dr_summary\<close> is already summarised without the secrets of the channel.\<close>

record delivery_result =
  dr_success :: bool
  dr_summary :: ustring
  dr_retryable :: bool

definition finished_delivery :: "time \<Rightarrow> delivery_result \<Rightarrow> delivery \<Rightarrow> delivery" where
  "finished_delivery now r l =
     (let l = l\<lparr>dl_response_summary := dr_summary r, dl_error_summary := (if dr_success r then [] else dr_summary r),
                dl_lease_expires_at := None, dl_lease_token := []\<rparr>
      in if dr_success r then l\<lparr>dl_status := DSent, dl_delivered_at := Some now, dl_next_attempt_at := None\<rparr>
         else if dr_retryable r \<and> dl_attempt_count l < dl_max_attempts l
         then l\<lparr>dl_status := DRetry, dl_next_attempt_at := Some (now + retry_delay), dl_delivered_at := None\<rparr>
         else l\<lparr>dl_status := DFailed, dl_next_attempt_at := None, dl_delivered_at := None\<rparr>)"

definition finish_delivery :: "time \<Rightarrow> ustring \<Rightarrow> ustring \<Rightarrow> delivery_result \<Rightarrow> alerts \<Rightarrow> (alerts \<times> delivery) res" where
  "finish_delivery now i token r a = (case find_row dl_id i (al_deliveries a) of
     None \<Rightarrow> Inl LookupError
   | Some l \<Rightarrow>
       if dl_status l \<noteq> DSending \<or> dl_lease_token l \<noteq> token then Inr (a, l)
       else bindr (save_delivery (finished_delivery now r l) a)
              (\<lambda>a. Inr (refresh_event (dl_event l) a, finished_delivery now r l)))"

section \<open>The summary of a task\<close>

definition summary_task_types :: "task_type list" where
  "summary_task_types = [Inspection, ComputerAnalysis]"

definition summary_scope :: "task \<Rightarrow> ustring \<times> ustring" where
  "summary_scope t = (if t_type t = Inspection
     then (asc ''inspection_profile'', case t_inspection_profile t of Some p \<Rightarrow> p | None \<Rightarrow> asc ''None'')
     else (asc ''computer_analysis_profile'', case t_analysis_profile t of Some p \<Rightarrow> p | None \<Rightarrow> asc ''None''))"

definition msg_no_channel :: ustring where
  "msg_no_channel = [65288, 26410, 37197, 32622, 21487, 29992, 21578, 35686, 28192, 36947, 65289]"

definition summary_channels :: "alerts \<Rightarrow> task \<Rightarrow> policy option \<Rightarrow> channel list res" where
  "summary_channels a t pol = (case jget_or ''alert_routing'' JNull (t_profile_snapshot t) of
     JNull \<Rightarrow> (case pol of None \<Rightarrow> Inr [] | Some p \<Rightarrow> effective_channels (al_channels a) (al_policies a) p)
   | routing \<Rightarrow>
       let ids = List.map_filter text_of (list_of (jget_or ''channel_ids'' (JList []) routing))
       in Inr (filter (\<lambda>c. ch_id c \<in> set ids \<and> ch_enabled c) (al_channels a)))"

definition new_delivery :: "ustring \<Rightarrow> time \<Rightarrow> ustring \<Rightarrow> ustring \<Rightarrow> delivery" where
  "new_delivery i now event channel = \<lparr>dl_id = i, dl_event = event, dl_channel = channel, dl_status = DPending,
     dl_attempt_count = 0, dl_max_attempts = 3, dl_next_attempt_at = None, dl_attempted_at = None,
     dl_delivered_at = None, dl_lease_expires_at = None, dl_lease_token = [], dl_response_summary = [],
     dl_error_summary = [], dl_created_at = now\<rparr>"

text \<open>The summary event; \<open>title\<close> is the rendered title and \<open>abnormal\<close> whether the counts have an abnormal target.\<close>

definition summary_event :: "ustring \<Rightarrow> time \<Rightarrow> task \<Rightarrow> policy option \<Rightarrow> ustring \<Rightarrow> bool \<Rightarrow> alert_event" where
  "summary_event i now t pol title abnormal = \<lparr>ae_id = i, ae_task = t_id t, ae_target = None,
     ae_summary_task = Some (t_id t), ae_type = EvSummary, ae_status = EsPending, ae_policy = map_option po_id pol,
     ae_scope = (fst (summary_scope t), snd (summary_scope t), asc ''task'', t_id t), ae_findings = [],
     ae_severity = (if abnormal then asc ''warning'' else asc ''info''), ae_summary = title,
     ae_occurred_at = now, ae_states = []\<rparr>"

text \<open>One delivery per channel; without a channel the event is a failed one that says so.\<close>

definition with_deliveries ::
    "ustring \<Rightarrow> (ustring \<Rightarrow> ustring) \<Rightarrow> time \<Rightarrow> alert_event \<Rightarrow> channel list \<Rightarrow> alerts \<Rightarrow> alerts res" where
  "with_deliveries i did now e chs a =
     (if \<not> distinct (map dl_id (al_deliveries a) @ map (\<lambda>c. did (ch_id c)) chs) then Inl IntegrityError
      else Inr (a\<lparr>al_events := al_events a @
                 [if chs = [] then e\<lparr>ae_status := EsFailed, ae_summary := ae_summary e @ msg_no_channel\<rparr> else e],
               al_deliveries := al_deliveries a @ map (\<lambda>c. new_delivery (did (ch_id c)) now i (ch_id c)) chs\<rparr>))"

definition add_summary ::
    "runtime \<Rightarrow> ustring \<Rightarrow> (ustring \<Rightarrow> ustring) \<Rightarrow> time \<Rightarrow> task \<Rightarrow> ustring \<Rightarrow> bool \<Rightarrow> alerts \<Rightarrow> alerts res" where
  "add_summary rt i did now t title abnormal a =
     (if list_ex (\<lambda>e. ae_summary_task e = Some (t_id t)) (al_events a) then Inr a
      else
        let pol = routed_policy a t (fst (summary_scope t)) (snd (summary_scope t))
        in bindr (validate_event_scope rt a None (Some t) None (summary_event i now t pol title abnormal)) (\<lambda>e.
           bindr (summary_channels a t pol) (\<lambda>chs. with_deliveries i did now e chs a)))"

definition summarised_task :: "time \<Rightarrow> task \<Rightarrow> task" where
  "summarised_task now t = t\<lparr>t_alert_summary_attempted_at := Some now, t_alert_summary_processed_at := Some now,
     t_alert_summary_error := []\<rparr>"

definition msg_summary_failed :: "exc \<Rightarrow> ustring" where
  "msg_summary_failed e = [20219, 21153, 24635, 32467, 29983, 25104, 22833, 36133, 65288] @ exc_name e @ [65289, 65292, 31245, 21518, 33258, 21160, 37325, 35797, 12290]"

text \<open>\<open>process_task_summary\<close>: summary, outbox and completion mark are one transaction.\<close>

definition process_task_summary ::
    "runtime \<Rightarrow> ustring \<Rightarrow> (ustring \<Rightarrow> ustring) \<Rightarrow> time \<Rightarrow> time \<Rightarrow> (task \<Rightarrow> ustring \<times> bool) \<Rightarrow> ustring \<Rightarrow> db \<times> alerts
     \<Rightarrow> db \<times> alerts" where
  "process_task_summary rt i did now later render tid da = (case da of (d, a) \<Rightarrow>
     (case find_row t_id tid (tasks d) of
        None \<Rightarrow> da
      | Some t \<Rightarrow>
          if t_type t \<notin> set summary_task_types \<or> \<not> terminal_status (t_status t) \<or> t_alert_summary_processed_at t \<noteq> None then da
          else if \<not> list_all (\<lambda>g. target_is_terminal g \<and> g_alert_processed_at g \<noteq> None) (targets_of tid d)
          then (d\<lparr>tasks := upd_row t_id tid (\<lambda>t. t\<lparr>t_alert_summary_attempted_at := Some now\<rparr>) (tasks d)\<rparr>, a)
          else case add_summary rt i did now t (fst (render t)) (snd (render t)) a of
            Inr a' \<Rightarrow> (d\<lparr>tasks := upd_row t_id tid (summarised_task now) (tasks d)\<rparr>, a')
          | Inl e \<Rightarrow> (d\<lparr>tasks := upd_rows (\<lambda>t. t_id t = tid \<and> t_alert_summary_processed_at t = None)
                        (\<lambda>t. t\<lparr>t_alert_summary_attempted_at := Some later,
                              t_alert_summary_error := msg_summary_failed e\<rparr>) (tasks d)\<rparr>, a)))"

section \<open>The outbox as a system\<close>

inductive dstep :: "runtime \<Rightarrow> alerts \<Rightarrow> alerts \<Rightarrow> bool" for rt where
  claim: "claim_deliveries token now event limit a = Inr (a', c) \<Longrightarrow> dstep rt a a'"
| finish: "finish_delivery now i token r a = Inr (a', l) \<Longrightarrow> dstep rt a a'"
| summary: "add_summary rt i did now t title abnormal a = Inr a' \<Longrightarrow> dstep rt a a'"
| findings: "process_target_findings rt i now computer t g fs a = Inr a' \<Longrightarrow> dstep rt a a'"

text \<open>A waiting delivery has an attempt left, so that a claim of it does not break the attempt limit.\<close>

definition delivery_ok :: "delivery \<Rightarrow> bool" where
  "delivery_ok l \<longleftrightarrow> delivery_ck l \<and> (dl_status l = DPending \<longrightarrow> dl_attempt_count l < dl_max_attempts l)"

definition outbox_ok :: "alerts \<Rightarrow> bool" where
  "outbox_ok a \<longleftrightarrow> distinct (map dl_id (al_deliveries a)) \<and> (\<forall>l \<in> set (al_deliveries a). delivery_ok l)"

definition delivery_ended :: "delivery \<Rightarrow> bool" where
  "delivery_ended l \<longleftrightarrow> dl_status l = DSent \<or> dl_status l = DFailed"

definition delivery_view :: "alerts \<Rightarrow> ustring \<Rightarrow> delivery option" where
  "delivery_view a i = find_row dl_id i (al_deliveries a)"

definition delivery_attempts :: "alerts \<Rightarrow> ustring \<Rightarrow> nat" where
  "delivery_attempts a i = (case delivery_view a i of None \<Rightarrow> 0 | Some l \<Rightarrow> dl_attempt_count l)"

lemma refresh_deliveries [simp]: "al_deliveries (refresh_event i a) = al_deliveries a"
  by (simp add: refresh_event_def)

lemma claimed_simps [simp]:
  "dl_id (claimed_delivery now tk l) = dl_id l" "dl_id (exhausted_delivery l) = dl_id l"
  "dl_id (finished_delivery now r l) = dl_id l"
  "dl_event (claimed_delivery now tk l) = dl_event l" "dl_event (exhausted_delivery l) = dl_event l"
  "dl_event (finished_delivery now r l) = dl_event l"
  by (simp_all add: claimed_delivery_def exhausted_delivery_def finished_delivery_def Let_def)

lemma not_pending [simp]:
  "dl_status (claimed_delivery now tk l) \<noteq> DPending" "dl_status (exhausted_delivery l) \<noteq> DPending"
  "dl_status (finished_delivery now r l) \<noteq> DPending"
  by (simp_all add: claimed_delivery_def exhausted_delivery_def finished_delivery_def Let_def)

lemma save_delivery_Inr:
  assumes "save_delivery l a = Inr a'" and "outbox_ok a" and "dl_status l \<noteq> DPending"
  shows "a' = a\<lparr>al_deliveries := upd_row dl_id (dl_id l) (\<lambda>_. l) (al_deliveries a)\<rparr>" and "outbox_ok a'"
proof -
  from assms(1) have e: "a' = a\<lparr>al_deliveries := upd_row dl_id (dl_id l) (\<lambda>_. l) (al_deliveries a)\<rparr>" and ck: "delivery_ck l"
    by (simp_all add: save_delivery_def split: if_split_asm)
  show "a' = a\<lparr>al_deliveries := upd_row dl_id (dl_id l) (\<lambda>_. l) (al_deliveries a)\<rparr>" by (rule e)
  show "outbox_ok a'" using assms(2,3) ck by (auto simp: outbox_ok_def delivery_ok_def e keys_replace set_upd_rows)
qed

lemma find_delivery: "outbox_ok a \<Longrightarrow> l \<in> set (al_deliveries a) \<Longrightarrow> find_row dl_id (dl_id l) (al_deliveries a) = Some l"
  by (simp add: outbox_ok_def find_row_mem)

text \<open>What a claim does to a delivery it reads.\<close>

definition taken :: "(ustring \<Rightarrow> ustring) \<Rightarrow> time \<Rightarrow> delivery \<Rightarrow> delivery" where
  "taken token now l = (if exhausted l then exhausted_delivery l else claimed_delivery now (token (dl_id l)) l)"

lemma claim_one_Inr:
  assumes "claim_one token now l acc = Inr (a', cl)" and "outbox_ok (fst acc)"
    and "find_row dl_id (dl_id l) (al_deliveries (fst acc)) = Some l"
  shows "outbox_ok a'"
    and "find_row dl_id k (al_deliveries a') = (if k = dl_id l then Some (taken token now l) else find_row dl_id k (al_deliveries (fst acc)))"
    and "cl = snd acc @ (if exhausted l then [] else [(dl_id l, token (dl_id l))])"
proof -
  have id: "dl_id (taken token now l) = dl_id l" by (simp add: taken_def)
  from assms(1) obtain b where b: "save_delivery (taken token now l) (fst acc) = Inr b"
    and r: "al_deliveries a' = al_deliveries b" "cl = snd acc @ (if exhausted l then [] else [(dl_id l, token (dl_id l))])"
    by (auto simp: claim_one_def bindr_Inr_iff taken_def split: if_split_asm)
  have "dl_status (taken token now l) \<noteq> DPending" by (simp add: taken_def)
  note s = save_delivery_Inr [OF b assms(2) this]
  show "outbox_ok a'" using s(2) r(1) by (simp add: outbox_ok_def)
  show "find_row dl_id k (al_deliveries a') = (if k = dl_id l then Some (taken token now l) else find_row dl_id k (al_deliveries (fst acc)))"
    using assms(3) find_row_replace [of dl_id k "taken token now l"] unfolding r(1) s(1) id by auto
  show "cl = snd acc @ (if exhausted l then [] else [(dl_id l, token (dl_id l))])" by (rule r(2))
qed

lemma claim_loop:
  assumes "foldr_res (claim_one token now) ls acc = Inr (a', cl)" and "outbox_ok (fst acc)" and "distinct (map dl_id ls)"
    and "\<And>l. l \<in> set ls \<Longrightarrow> find_row dl_id (dl_id l) (al_deliveries (fst acc)) = Some l"
  shows "outbox_ok a' \<and> (\<forall>k. find_row dl_id k (al_deliveries a') =
      (case find_row dl_id k ls of Some l \<Rightarrow> Some (taken token now l) | None \<Rightarrow> find_row dl_id k (al_deliveries (fst acc))))
    \<and> cl = snd acc @ map (\<lambda>l. (dl_id l, token (dl_id l))) (filter (\<lambda>l. \<not> exhausted l) ls)"
  using assms
proof (induction ls arbitrary: acc)
  case Nil
  then show ?case by (cases acc) (simp add: find_row_def)
next
  case (Cons l ls)
  from Cons.prems(1) obtain b c where b: "claim_one token now l acc = Inr (b, c)"
    and r: "foldr_res (claim_one token now) ls (b, c) = Inr (a', cl)"
    by (auto simp: bindr_Inr_iff)
  note one = claim_one_Inr [OF b Cons.prems(2) Cons.prems(4) [of l, simplified]]
  have rows: "find_row dl_id (dl_id m) (al_deliveries b) = Some m" if "m \<in> set ls" for m
  proof -
    have "dl_id m \<noteq> dl_id l" using Cons.prems(3) that by (metis distinct.simps(2) image_eqI list.set_map list.simps(9))
    then show ?thesis using one(2) Cons.prems(4) that by simp
  qed
  have IH: "outbox_ok a' \<and> (\<forall>k. find_row dl_id k (al_deliveries a') =
      (case find_row dl_id k ls of Some l \<Rightarrow> Some (taken token now l) | None \<Rightarrow> find_row dl_id k (al_deliveries b)))
    \<and> cl = c @ map (\<lambda>l. (dl_id l, token (dl_id l))) (filter (\<lambda>l. \<not> exhausted l) ls)"
    using Cons.IH [OF r] one(1) Cons.prems(3) rows unfolding fst_conv snd_conv by simp
  have k: "find_row dl_id (dl_id l) ls = None" using Cons.prems(3) by (simp add: find_row_None)
  have hd: "find_row dl_id k (l # ls) = (if k = dl_id l then Some l else find_row dl_id k ls)" for k
    by (simp add: find_row_def)
  have "find_row dl_id k (al_deliveries a') =
      (case find_row dl_id k (l # ls) of Some l \<Rightarrow> Some (taken token now l) | None \<Rightarrow> find_row dl_id k (al_deliveries (fst acc)))" for k
    using IH one(2) k by (cases "k = dl_id l") (simp_all add: hd split: option.splits)
  then show ?case using IH one(3) by simp
qed

lemma due_deliveries_rows:
  assumes "outbox_ok a"
  shows "distinct (map dl_id (due_deliveries now event limit a))"
    and "l \<in> set (due_deliveries now event limit a) \<Longrightarrow> l \<in> set (al_deliveries a) \<and> delivery_due now l \<and> is_summary a (dl_event l)
      \<and> (case event of None \<Rightarrow> True | Some e \<Rightarrow> dl_event l = e)"
    and "length (due_deliveries now event limit a) \<le> max 1 limit"
proof -
  let ?due = "filter (\<lambda>l. delivery_due now l \<and> is_summary a (dl_event l)
                  \<and> (case event of None \<Rightarrow> True | Some e \<Rightarrow> dl_event l = e)) (al_deliveries a)"
  let ?s = "sort_key (\<lambda>l. (dl_created_at l, dl_id l)) ?due"
  have e: "mset (map dl_id ?s) = mset (map dl_id ?due)" by simp
  have "distinct (map dl_id ?due)" using assms by (simp add: outbox_ok_def distinct_map_filter)
  then have "distinct (map dl_id ?s)" by (rule mset_eq_imp_distinct_iff [OF e, THEN iffD2])
  then show "distinct (map dl_id (due_deliveries now event limit a))"
    unfolding due_deliveries_def by (simp only: take_map [symmetric] distinct_take)
  show "l \<in> set (due_deliveries now event limit a) \<Longrightarrow> l \<in> set (al_deliveries a) \<and> delivery_due now l \<and> is_summary a (dl_event l)
      \<and> (case event of None \<Rightarrow> True | Some e \<Rightarrow> dl_event l = e)"
    unfolding due_deliveries_def by (drule in_set_takeD) simp
  show "length (due_deliveries now event limit a) \<le> max 1 limit" by (simp add: due_deliveries_def)
qed

lemma claim_deliveries_Inr:
  assumes "claim_deliveries token now event limit a = Inr (a', cl)" and "outbox_ok a"
  shows "outbox_ok a' \<and> (\<forall>k. find_row dl_id k (al_deliveries a') =
      (case find_row dl_id k (due_deliveries now event limit a) of
         Some l \<Rightarrow> Some (taken token now l) | None \<Rightarrow> find_row dl_id k (al_deliveries a)))
    \<and> cl = map (\<lambda>l. (dl_id l, token (dl_id l))) (filter (\<lambda>l. \<not> exhausted l) (due_deliveries now event limit a))"
  using claim_loop [OF assms(1) [unfolded claim_deliveries_def], unfolded fst_conv snd_conv append_Nil, OF assms(2)
      due_deliveries_rows(1) [OF assms(2)] find_delivery [OF assms(2)]] due_deliveries_rows(2) [OF assms(2)]
  by blast

lemma find_row_due:
  assumes "outbox_ok a" and "find_row dl_id k (due_deliveries now event limit a) = Some l"
  shows "find_row dl_id k (al_deliveries a) = Some l \<and> delivery_due now l"
  using find_row_Some [OF assms(2)] due_deliveries_rows(2) [OF assms(1)] find_delivery [OF assms(1)] by auto

lemma finish_delivery_Inr:
  assumes "finish_delivery now i token r a = Inr (a', l')" and "outbox_ok a"
  shows "outbox_ok a'" and "a' = a \<or> (\<exists>l. find_row dl_id i (al_deliveries a) = Some l \<and> dl_status l = DSending \<and> dl_lease_token l = token
      \<and> l' = finished_delivery now r l
      \<and> a' = refresh_event (dl_event l) (a\<lparr>al_deliveries := upd_row dl_id i (\<lambda>_. finished_delivery now r l) (al_deliveries a)\<rparr>))"
proof -
  from assms(1) obtain l where l: "find_row dl_id i (al_deliveries a) = Some l" and
    c: "(a' = a \<and> l' = l) \<or> (dl_status l = DSending \<and> dl_lease_token l = token \<and> l' = finished_delivery now r l
       \<and> (\<exists>b. save_delivery (finished_delivery now r l) a = Inr b \<and> a' = refresh_event (dl_event l) b))"
    by (auto simp: finish_delivery_def bindr_Inr_iff split: option.split_asm if_split_asm)
  have id: "dl_id l = i" using find_row_Some [OF l] by simp
  from c show "outbox_ok a'" using save_delivery_Inr(2) [OF _ assms(2) not_pending(3)] assms(2) by (auto simp: outbox_ok_def)
  from c show "a' = a \<or> (\<exists>l. find_row dl_id i (al_deliveries a) = Some l \<and> dl_status l = DSending \<and> dl_lease_token l = token
      \<and> l' = finished_delivery now r l
      \<and> a' = refresh_event (dl_event l) (a\<lparr>al_deliveries := upd_row dl_id i (\<lambda>_. finished_delivery now r l) (al_deliveries a)\<rparr>))"
    using save_delivery_Inr(1) [OF _ assms(2) not_pending(3)] l id by fastforce
qed

text \<open>A claim of a waiting or expired delivery with attempts left satisfies the constraints.\<close>

lemma taken_ck:
  assumes "delivery_ok l" and "delivery_due now l" and "token (dl_id l) \<noteq> []"
  shows "delivery_ck (taken token now l)"
  using assms by (cases "dl_status l")
    (auto simp: taken_def exhausted_def delivery_ok_def delivery_ck_def delivery_attempts_ck_def delivery_time_ck_def
      delivery_due_def claimed_delivery_def exhausted_delivery_def)

lemma claim_loop_total:
  assumes "\<And>l. l \<in> set ls \<Longrightarrow> delivery_ck (taken token now l)"
  shows "\<exists>r. foldr_res (claim_one token now) ls acc = Inr r"
  using assms
proof (induction ls arbitrary: acc)
  case (Cons l ls)
  have "\<exists>r. claim_one token now l acc = Inr r"
    using Cons.prems [of l] by (cases "exhausted l") (simp_all add: claim_one_def taken_def save_delivery_def)
  then show ?case using Cons by auto
qed simp

lemma claim_total:
  assumes "outbox_ok a" and "\<And>i. token i \<noteq> []"
  shows "\<exists>r. claim_deliveries token now event limit a = Inr r"
  unfolding claim_deliveries_def
  by (rule claim_loop_total, rule taken_ck)
    (use due_deliveries_rows(2) [OF assms(1)] assms in \<open>auto simp: outbox_ok_def\<close>)

section \<open>Other transactions\<close>

lemma add_event_deliveries: "add_event rt i ty t0 c sc t g pol os a = Inr a' \<Longrightarrow> al_deliveries a' = al_deliveries a"
  by (auto simp: add_event_def bindr_Inr_iff split: if_split_asm)

lemma findings_deliveries:
  "process_target_findings rt i now computer t g fs a = Inr a' \<Longrightarrow> al_deliveries a' = al_deliveries a"
  by (auto simp: process_target_findings_def bindr_Inr_iff Let_def case_prod_beta dest!: add_event_deliveries
      split: if_split_asm)

lemma add_summary_deliveries:
  assumes "add_summary rt i did now t title abnormal a = Inr a'"
  shows "\<exists>ls. al_deliveries a' = al_deliveries a @ ls \<and> (\<forall>l \<in> set ls. delivery_ok l)
    \<and> (distinct (map dl_id (al_deliveries a)) \<longrightarrow> distinct (map dl_id (al_deliveries a')))"
proof -
  have ok: "delivery_ok (new_delivery j now i c)" for j c
    by (simp add: new_delivery_def delivery_ok_def delivery_ck_def delivery_attempts_ck_def delivery_time_ck_def max_delivery_attempts_def)
  have id: "dl_id (new_delivery j now i c) = j" for j c by (simp add: new_delivery_def)
  show ?thesis using assms
    by (auto simp: add_summary_def with_deliveries_def bindr_Inr_iff Let_def ok id comp_def split: if_split_asm)
qed

section \<open>The outbox invariant\<close>

lemma dstep_ok:
  assumes "dstep rt a a'" and "outbox_ok a"
  shows "outbox_ok a'"
  using assms
proof cases
  case (claim token now event limit c)
  then show ?thesis using claim_deliveries_Inr assms(2) by blast
next
  case (finish now i token r l)
  then show ?thesis using finish_delivery_Inr(1) assms(2) by blast
next
  case (summary i did now t title abnormal)
  from add_summary_deliveries [OF this] show ?thesis using assms(2) by (auto simp: outbox_ok_def)
next
  case (findings i now computer t g fs)
  from findings_deliveries [OF this] show ?thesis using assms(2) by (simp add: outbox_ok_def)
qed

text \<open>What one transaction does to one delivery.\<close>

lemma dstep_view:
  assumes "dstep rt a a'" and "outbox_ok a" and "delivery_view a k = Some l"
  shows "delivery_view a' k = Some l
    \<or> (\<exists>token now. delivery_due now l \<and> delivery_view a' k = Some (taken token now l))
    \<or> (\<exists>now r. dl_status l = DSending \<and> delivery_view a' k = Some (finished_delivery now r l))"
  using assms(1)
proof cases
  case (claim token now event limit c)
  note c = claim_deliveries_Inr [OF claim assms(2)]
  show ?thesis
  proof (cases "find_row dl_id k (due_deliveries now event limit a)")
    case None
    then show ?thesis using c assms(3) by (simp add: delivery_view_def)
  next
    case (Some m)
    from find_row_due [OF assms(2) Some] have "m = l" "delivery_due now l" using assms(3) by (auto simp: delivery_view_def)
    then show ?thesis using c Some by (auto simp: delivery_view_def)
  qed
next
  case (finish now i token r l')
  from finish_delivery_Inr(2) [OF this assms(2)] show ?thesis
  proof (elim disjE exE conjE)
    fix m assume m: "find_row dl_id i (al_deliveries a) = Some m" "dl_status m = DSending"
      and a': "a' = refresh_event (dl_event m) (a\<lparr>al_deliveries := upd_row dl_id i (\<lambda>_. finished_delivery now r m) (al_deliveries a)\<rparr>)"
    have id: "dl_id (finished_delivery now r m) = i" using find_row_Some [OF m(1)] by simp
    show ?thesis using assms(3) m find_row_replace [of dl_id k "finished_delivery now r m" "al_deliveries a"]
      unfolding id by (cases "k = i") (auto simp: delivery_view_def a')
  qed (use assms(3) in simp)
next
  case (summary i did now t title abnormal)
  from add_summary_deliveries [OF this] show ?thesis using assms(3)
    by (auto simp: delivery_view_def find_row_append)
next
  case (findings i now computer t g fs)
  from findings_deliveries [OF this] show ?thesis using assms(3) by (simp add: delivery_view_def)
qed

interpretation outbox: ending_system "dstep rt" outbox_ok delivery_view delivery_ended for rt
proof
  show "outbox_ok t" if "dstep rt s t" "outbox_ok s" for s t using that by (rule dstep_ok)
  show "delivery_view t k = Some v"
    if "dstep rt s t" "outbox_ok s" "delivery_view s k = Some v" "delivery_ended v" for s t k v
    using dstep_view [OF that(1,2,3)] that(4) by (auto simp: delivery_ended_def delivery_due_def)
qed

lemma taken_attempts: "dl_attempt_count l \<le> dl_attempt_count (taken token now l)"
  by (simp add: taken_def exhausted_delivery_def claimed_delivery_def)

lemma finished_attempts [simp]: "dl_attempt_count (finished_delivery now r l) = dl_attempt_count l"
  by (simp add: finished_delivery_def Let_def)

lemma delivery_bound: "outbox_ok a \<Longrightarrow> delivery_attempts a k \<le> max_delivery_attempts"
  by (auto simp: delivery_attempts_def delivery_view_def outbox_ok_def delivery_ok_def delivery_ck_def delivery_attempts_ck_def
      dest!: find_row_Some split: option.split)

interpretation sends: bounded_claims "dstep rt" outbox_ok delivery_attempts "\<lambda>_ _. max_delivery_attempts" for rt
proof
  show "delivery_attempts s k \<le> max_delivery_attempts" if "outbox_ok s" for s k using that by (rule delivery_bound)
  show "delivery_attempts s k \<le> delivery_attempts t k" if "dstep rt s t" "outbox_ok s" for s t k
  proof (cases "delivery_view s k")
    case (Some l)
    from dstep_view [OF that Some] show ?thesis using taken_attempts Some by (auto simp: delivery_attempts_def)
  qed (simp add: delivery_attempts_def)
qed simp

end
