(* ===== verification/AlertProperties.thy ===== *)
theory AlertProperties
  imports AlertDelivery Demo
begin

text \<open>
  Properties of the alerts: the merge of findings, the states and events of a target, the transaction that
  processes it, the outbox and the task summary.
\<close>

section \<open>Findings\<close>

lemma normalised_sorted:
  "sorted (map ob_key (normalised_findings rt fs))" "distinct (map ob_key (normalised_findings rt fs))"
proof -
  let ?g = "fold group_observation (List.map_filter (finding_dict rt) fs) []"
  have "mset (map fst (sort_key fst ?g)) = mset (map fst ?g)" by simp
  moreover have "distinct (map fst ?g)" by (rule distinct_fold_group) simp
  ultimately show "distinct (map ob_key (normalised_findings rt fs))"
    unfolding normalised_keys using mset_eq_imp_distinct_iff [THEN iffD2] by blast
  show "sorted (map ob_key (normalised_findings rt fs))" unfolding normalised_keys by simp
qed

lemma normalised_member:
  assumes "v \<in> set (normalised_findings rt fs)"
  shows "v \<in> set (List.map_filter (finding_dict rt) fs)
    \<and> (ob_state v = SeenAbnormal
        \<longleftrightarrow> (\<exists>w \<in> set (List.map_filter (finding_dict rt) fs). ob_key w = ob_key v \<and> ob_state w = SeenAbnormal))"
proof -
  from assms obtain k where
    k: "fold kept_of (filter (\<lambda>v. ob_key v = k) (List.map_filter (finding_dict rt) fs)) None = Some v"
    unfolding normalised_map by blast
  from fold_kept_None [OF k] show ?thesis by auto
qed

lemma normalised_covers:
  assumes "w \<in> set (List.map_filter (finding_dict rt) fs)"
  shows "\<exists>v \<in> set (normalised_findings rt fs). ob_key v = ob_key w"
proof -
  let ?os = "filter (\<lambda>v. ob_key v = ob_key w) (List.map_filter (finding_dict rt) fs)"
  from assms have "?os \<noteq> []" by (auto simp: filter_empty_conv)
  then obtain x xs where os: "?os = x # xs" by (cases ?os) auto
  have "fold kept_of ?os None = fold kept_of xs (Some x)" unfolding os by (simp add: kept_of_def)
  then obtain v where v: "fold kept_of ?os None = Some v" using fold_kept_nonempty by (metis not_None_eq)
  then have "v \<in> set (normalised_findings rt fs)" unfolding normalised_map by blast
  moreover have "ob_key v = ob_key w" using fold_kept_None [OF v] by simp
  ultimately show ?thesis by blast
qed

text \<open>C27. The findings of a target are merged to one per key, in key order: nothing observed is lost, nothing
  is invented, and a key is kept as abnormal exactly when one of its observations is, whatever their order.\<close>

theorem findings_merged_per_key:
  fixes rt fs
  defines "seen \<equiv> set (List.map_filter (finding_dict rt) fs)"
  shows "sorted (map ob_key (normalised_findings rt fs)) \<and> distinct (map ob_key (normalised_findings rt fs))
    \<and> ob_key ` set (normalised_findings rt fs) = ob_key ` seen
    \<and> (\<forall>v \<in> set (normalised_findings rt fs). v \<in> seen
         \<and> (ob_state v = SeenAbnormal \<longleftrightarrow> (\<exists>w \<in> seen. ob_key w = ob_key v \<and> ob_state w = SeenAbnormal)))"
proof -
  have "ob_key ` set (normalised_findings rt fs) = ob_key ` seen"
  proof
    show "ob_key ` set (normalised_findings rt fs) \<subseteq> ob_key ` seen" using normalised_member unfolding seen_def by blast
    show "ob_key ` seen \<subseteq> ob_key ` set (normalised_findings rt fs)"
    proof
      fix k assume "k \<in> ob_key ` seen"
      then obtain w where w: "w \<in> seen" "k = ob_key w" by blast
      from normalised_covers [OF w(1) [unfolded seen_def]] obtain v
        where "v \<in> set (normalised_findings rt fs)" "ob_key v = ob_key w" ..
      with w(2) show "k \<in> ob_key ` set (normalised_findings rt fs)" by (simp add: rev_image_eqI)
    qed
  qed
  then show ?thesis using normalised_sorted normalised_member unfolding seen_def by blast
qed

lemma first_max_mem: "first_max f xs = Some x \<Longrightarrow> x \<in> set xs"
  by (auto simp: first_max_def find_Some_iff)

lemma first_max_None:
  assumes "first_max f xs = None"
  shows "xs = []"
proof (rule ccontr)
  assume "xs \<noteq> []"
  then have "Max (f ` set xs) \<in> f ` set xs" by (intro Max_in) auto
  then obtain x where x: "x \<in> set xs" "Max (f ` set xs) = f x" by blast
  then have "list_all (\<lambda>y. f y \<le> f x) xs" by (auto simp: list_all_iff x(2) [symmetric])
  with x(1) assms show False by (auto simp: first_max_def find_None_iff)
qed

lemma state_names:
  "graded_state s \<noteq> asc ''normal''" "asc ''abnormal'' \<noteq> asc ''normal''"
  by (simp_all add: graded_state_def asc_def)

lemma graded_not_normal: "graded_finding rt key status j = Inr f \<Longrightarrow> fd_state f \<noteq> asc ''normal''"
  by (auto simp: graded_finding_def bindr_Inr_iff state_names)

lemma itemised_no_recovery:
  assumes r: "itemised_findings rt status detail issues normal = Inr fs" and "status \<noteq> asc ''success''"
    and "\<And>i. i \<in> set normal \<Longrightarrow> py_str rt i \<noteq> asc ''collection''"
    and "f \<in> set fs" and "fd_key f = asc ''inspection.collection''"
  shows "fd_state f \<noteq> asc ''normal''"
proof -
  let ?lost = "lost_collection status issues"
  let ?failed = "(if ?lost then [JStr collection_item] else []) @ map (uget (asc ''analysis_item'')) issues"
  from r obtain graded where m: "map_res (issue_finding rt status) issues = Inr graded"
    and fs: "fs = graded @ (if ?lost then [collection_finding (asc ''critical'') detail (asc ''abnormal'')] else [])
      @ map (normal_item rt) (filter (\<lambda>i. i \<notin> set ?failed) normal)"
    unfolding itemised_findings_def Let_def bindr_Inr_iff by blast
  have c: "JStr collection_item \<in> set ?failed" using assms(2) by (auto simp: lost_collection_def)
  from assms(4) consider "f \<in> set graded" | "f = collection_finding (asc ''critical'') detail (asc ''abnormal'')"
    | i where "i \<in> set normal" "i \<notin> set ?failed" "f = normal_item rt i"
    unfolding fs by (auto split: if_split_asm)
  then show ?thesis
  proof cases
    case 1
    then obtain j where "issue_finding rt status j = Inr f"
      using m unfolding map_res_Inr list_all2_conv_all_nth in_set_conv_nth by metis
    then show ?thesis by (auto simp: issue_finding_def bindr_Inr_iff dest: graded_not_normal)
  next
    case 2
    then show ?thesis by (simp add: collection_finding_def state_names)
  next
    case (3 i)
    have "i \<noteq> JStr collection_item" using 3(2) c by blast
    then have "fd_key f = asc ''inspection.'' @ py_str rt i" by (simp add: 3(3) normal_item_def item_key_def)
    then have "asc ''inspection.'' @ py_str rt i = asc ''inspection.'' @ asc ''collection''" using assms(5) by (simp add: asc_def)
    then have "py_str rt i = asc ''collection''" by simp
    then show ?thesis using assms(3) [OF 3(1)] by blast
  qed
qed

lemma legacy_no_recovery:
  assumes "legacy_findings rt status detail issues = Inr fs" and "status \<noteq> asc ''success''" and "f \<in> set fs"
  shows "fd_state f \<noteq> asc ''normal''"
  using assms by (auto simp: legacy_findings_def bindr_Inr_iff collection_finding_def state_names
      dest: graded_not_normal split: if_split_asm option.split_asm)

text \<open>C28. A record of an inspection that is not successful never yields normal evidence of the collection,
  so a failed or partial run never recovers a collection alert. No item is called ``collection''.\<close>

theorem unsuccessful_run_recovers_no_collection:
  assumes "inspection_findings rt g snapshot = Inr fs"
    and "str_or rt (uget (asc ''status'') snapshot) (status_value (g_status g)) \<noteq> asc ''success''"
    and "\<And>normal i. iter_json (jget_or ''normal_issue_items'' JNull (jget_or ''details'' (JObj []) snapshot)) = Inr normal
           \<Longrightarrow> i \<in> set normal \<Longrightarrow> py_str rt i \<noteq> asc ''collection''"
    and "f \<in> set fs" and "fd_key f = asc ''inspection.collection''"
  shows "fd_state f \<noteq> asc ''normal''"
proof -
  let ?status = "str_or rt (uget (asc ''status'') snapshot) (status_value (g_status g))"
  let ?details = "jget_or ''details'' (JObj []) snapshot"
  let ?detail = "str_or rt (uget (asc ''summary'') snapshot) (if g_error_message g \<noteq> [] then g_error_message g else ?status)"
  from assms(1) have d: "is_obj ?details" by (auto simp: inspection_findings_def Let_def split: if_split_asm)
  show ?thesis
  proof (cases "jget ''normal_issue_items'' ?details")
    case None
    then obtain issues where "legacy_findings rt ?status ?detail issues = Inr fs"
      using assms(1) d by (auto simp: inspection_findings_def Let_def bindr_Inr_iff split: if_split_asm)
    from legacy_no_recovery [OF this assms(2,4)] show ?thesis .
  next
    case (Some raw)
    then obtain issues normal where n: "iter_json raw = Inr normal"
      and i: "itemised_findings rt ?status ?detail issues normal = Inr fs"
      using assms(1) d by (auto simp: inspection_findings_def Let_def bindr_Inr_iff)
    have "jget_or ''normal_issue_items'' JNull ?details = raw" using Some by (simp add: jget_or_def)
    then have "py_str rt i \<noteq> asc ''collection''" if "i \<in> set normal" for i using assms(3) n that by blast
    from itemised_no_recovery [OF i assms(2) this assms(4,5)] show ?thesis .
  qed
qed
section \<open>States and events\<close>

text \<open>A state without the link to its last event.\<close>

definition st_core :: "alert_state \<Rightarrow> bool \<times> time \<times> stored_finding option \<times> time option \<times> time option" where
  "st_core s = (st_abnormal s, st_last_seen s, st_snapshot s, st_last_abnormal s, st_last_normal s)"

lemma find_state_link:
  "map_option st_core (find_state sc' k (link_states i sc os ss)) = map_option st_core (find_state sc' k ss)"
  by (induction ss) (auto simp: find_state_def link_states_def upd_rows_def st_core_def)

lemma target_event_simps [simp]:
  "ae_type (target_event i ty u sc g pol os) = ty" "ae_target (target_event i ty u sc g pol os) = Some (g_id g)"
  "ae_scope (target_event i ty u sc g pol os) = sc" "ae_status (target_event i ty u sc g pol os) = EsRecorded"
  "ae_findings (target_event i ty u sc g pol os) = map stored_finding.truncate os"
  by (simp_all add: target_event_def)

lemma rescoped_Inr: "rescoped rt a t sc e = Inr e' \<Longrightarrow> e' = e\<lparr>ae_scope := sc\<rparr>"
  by (auto simp: rescoped_def Let_def split: if_split_asm)

lemma add_event_Inr:
  assumes "add_event rt i ty u c sc t g pol os a = Inr a'" and "target_scope c t g = Inr sc" and "ty \<noteq> EvSummary"
  shows "a' = a \<and> (os = [] \<or> list_ex (\<lambda>e. ae_target e = Some (g_id g) \<and> ae_type e = ty) (al_events a))
    \<or> (os \<noteq> [] \<and> \<not> list_ex (\<lambda>e. ae_target e = Some (g_id g) \<and> ae_type e = ty) (al_events a)
       \<and> a' = a\<lparr>al_events := al_events a @ [target_event i ty u sc g pol os], al_states := link_states i sc os (al_states a)\<rparr>)"
proof (cases "os = [] \<or> list_ex (\<lambda>e. ae_target e = Some (g_id g) \<and> ae_type e = ty) (al_events a)")
  case True
  with assms(1) show ?thesis by (simp add: add_event_def)
next
  case False
  let ?e = "target_event i ty u sc g pol os"
  from assms(1) False obtain e where v: "validate_event_scope rt a c (Some t) (Some g) ?e = Inr e"
    and a': "a' = a\<lparr>al_events := al_events a @ [e], al_states := link_states i sc os (al_states a)\<rparr>"
    unfolding add_event_def if_not_P [OF False] bindr_Inr_iff by auto
  from v assms(2,3) have "rescoped rt a t sc ?e = Inr e"
    by (auto simp: validate_event_scope_def bindr_Inr_iff split: if_split_asm)
  from rescoped_Inr [OF this] have "e = ?e" by (simp add: target_event_def)
  with a' False show ?thesis by simp
qed

text \<open>The two events of a target, in the terms of the states before.\<close>

definition reported :: "scope \<Rightarrow> time \<Rightarrow> alert_state list \<Rightarrow> event_type \<Rightarrow> observation list \<Rightarrow> observation list" where
  "reported sc u states ty os = filter (\<lambda>o1. accepted sc u states o1
     \<and> (if ty = EvAbnormal then ob_state o1 = SeenAbnormal
        else ob_state o1 = SeenNormal \<and> was_abnormal sc states (ob_key o1))) os"

definition seen_at :: "time \<Rightarrow> target \<Rightarrow> time" where
  "seen_at now g = (case g_finished_at g of Some f \<Rightarrow> f | None \<Rightarrow> now)"

lemma process_findings_Inr:
  assumes r: "process_target_findings rt i now c t g fs a = Inr a'" and sc: "target_scope c t g = Inr sc"
    and n: "normalised_findings rt fs \<noteq> []"
  obtains states b pol where
    "\<And>sc' k. find_state sc' k states = (if sc' = sc then next_state sc now (seen_at now g) (normalised_findings rt fs) (al_states a) k
        else find_state sc' k (al_states a))"
    "add_event rt (i EvAbnormal) EvAbnormal (seen_at now g) c sc t g pol
       (reported sc (seen_at now g) (al_states a) EvAbnormal (normalised_findings rt fs)) (a\<lparr>al_states := states\<rparr>) = Inr b"
    "add_event rt (i EvRecovery) EvRecovery (seen_at now g) c sc t g pol
       (reported sc (seen_at now g) (al_states a) EvRecovery (normalised_findings rt fs)) b = Inr a'"
proof -
  let ?os = "normalised_findings rt fs"
  let ?acc = "fold (observe_one sc now (seen_at now g)) ?os (al_states a, [], [])"
  note f = observe_fold [where sc = sc and now = now and u = "seen_at now g" and acc = "(al_states a, [], [])",
      OF normalised_sorted(2) [of rt fs], unfolded fst_conv snd_conv append_Nil]
  have s: "fst (snd ?acc) = reported sc (seen_at now g) (al_states a) EvAbnormal ?os"
    "snd (snd ?acc) = reported sc (seen_at now g) (al_states a) EvRecovery ?os"
    by (simp_all add: f(2) reported_def)
  from r n sc obtain b where
    "add_event rt (i EvAbnormal) EvAbnormal (seen_at now g) c sc t g (routed_policy a t (fst sc) (fst (snd sc)))
       (fst (snd ?acc)) (a\<lparr>al_states := fst ?acc\<rparr>) = Inr b"
    "add_event rt (i EvRecovery) EvRecovery (seen_at now g) c sc t g (routed_policy a t (fst sc) (fst (snd sc)))
       (snd (snd ?acc)) b = Inr a'"
    by (auto simp: process_target_findings_def Let_def case_prod_beta bindr_Inr_iff observe_all_def seen_at_def)
  from that [OF f(1) this [unfolded s]] show thesis .
qed



section \<open>One target\<close>

lemma find_upd_rows_other:
  "(\<And>r. p r \<Longrightarrow> key r \<noteq> h) \<Longrightarrow> (\<And>r. key (f r) = key r) \<Longrightarrow> find_row key h (upd_rows p f rows) = find_row key h rows"
  by (induction rows) (auto simp: find_row_def upd_rows_def)

text \<open>C31. The alerts of an ended target are made exactly once: states, events and the completion mark are
  one transaction, a failure leaves the alerts as they were and the target open for a later attempt, and a
  processed target is never processed again. Other targets, all tasks and the outcome of the target stay.\<close>

theorem target_processed_once:
  assumes "process_persisted_target rt i now later c an ex gid (d, a) = (d', a')"
  shows "tasks d' = tasks d \<and> (\<forall>h. h \<noteq> gid \<longrightarrow> find_row g_id h (targets d') = find_row g_id h (targets d))
    \<and> (case (find_row g_id gid (targets d), find_row g_id gid (targets d')) of
         (Some g, Some g') \<Rightarrow> g_status g' = g_status g \<and> g_finished_at g' = g_finished_at g
           \<and> (g_alert_processed_at g \<noteq> None \<or> \<not> target_is_terminal g \<longrightarrow> (d', a') = (d, a))
           \<and> (g_alert_processed_at g' = None \<longrightarrow> a' = a)
           \<and> (g_alert_processed_at g' \<noteq> None \<longrightarrow>
                (\<forall>i now later c an ex. process_persisted_target rt i now later c an ex gid (d', a') = (d', a')))
       | (g, g') \<Rightarrow> g = None \<and> g' = None \<and> (d', a') = (d, a))"
proof (cases "find_row g_id gid (targets d)")
  case None
  with assms show ?thesis by (simp add: process_persisted_target_def)
next
  case g: (Some g)
  have id: "g_id g = gid" using find_row_Some [OF g] by simp
  show ?thesis
  proof (cases "(d', a') = (d, a)")
    case True
    then show ?thesis using g
      by (auto simp: process_persisted_target_def split: option.split)
  next
    case False
    then obtain t where t: "find_row t_id (g_task g) (tasks d) = Some t"
      and open_g: "target_is_terminal g" "g_alert_processed_at g = None"
      using assms by (auto simp: process_persisted_target_def g split: option.split_asm if_split_asm)
    have ids: "g_id (processed_target u os r) = g_id r" "g_id (attempted_target u e r) = g_id r"
      "g_status (processed_target u os r) = g_status r" "g_status (attempted_target u e r) = g_status r"
      "g_finished_at (processed_target u os r) = g_finished_at r" "g_finished_at (attempted_target u e r) = g_finished_at r"
      "g_alert_processed_at (processed_target u os r) = Some u" "g_alert_processed_at (attempted_target u e r) = g_alert_processed_at r"
      for u os e r
      by (simp_all add: processed_target_def attempted_target_def)
    let ?m = "bindr (findings_for_target rt an ex g) (\<lambda>fs.
                         bindr (process_target_findings rt i now c t g fs a) (\<lambda>a'. Inr (fs, a')))"
    have r: "(d', a') = (case ?m of
        Inr (fs, a') \<Rightarrow> (d\<lparr>targets := upd_row g_id gid (processed_target now (normalised_findings rt fs)) (targets d)\<rparr>, a')
      | Inl e \<Rightarrow> (d\<lparr>targets := upd_rows (\<lambda>g. g_id g = gid \<and> g_alert_processed_at g = None)
                                    (attempted_target later e) (targets d)\<rparr>, a))"
      using assms False open_g by (simp add: process_persisted_target_def g t split: if_split_asm)
    have other: "tasks d' = tasks d" "find_row g_id h (targets d') = find_row g_id h (targets d)" if "h \<noteq> gid" for h
    proof -
      show "tasks d' = tasks d" using r by (simp split: sum.split_asm prod.split_asm)
      show "find_row g_id h (targets d') = find_row g_id h (targets d)" using r that
        by (auto intro!: find_upd_rows_other simp: ids split: sum.split_asm prod.split_asm)
    qed
    show ?thesis
    proof (cases ?m)
      case (Inl e)
      with r have d': "targets d' = upd_rows (\<lambda>g. g_id g = gid \<and> g_alert_processed_at g = None) (attempted_target later e) (targets d)"
        "tasks d' = tasks d" "a' = a" by simp_all
      have "find_row g_id gid (targets d') = Some (attempted_target later e g)"
        using g id open_g by (simp add: d'(1) find_row_upd ids)
      then show ?thesis using other(2) g open_g d'(2,3) by (simp add: ids)
    next
      case (Inr y)
      with r have d': "targets d' = upd_row g_id gid (processed_target now (normalised_findings rt (fst y))) (targets d)"
        "tasks d' = tasks d" by (simp_all add: case_prod_beta)
      have g': "find_row g_id gid (targets d') = Some (processed_target now (normalised_findings rt (fst y)) g)"
        using g id by (simp add: d'(1) find_row_upd ids)
      have again: "process_persisted_target rt i now later c an ex gid (d', a') = (d', a')" for i now later c an ex
        by (simp add: process_persisted_target_def g' ids split: option.split)
      show ?thesis using other(2) g g' open_g d'(2) again by (simp add: ids)
    qed
  qed
qed

section \<open>The outbox\<close>


text \<open>C33. A sent or failed delivery stays as it is, whatever is claimed, finished or summarised later.\<close>

theorem ended_delivery_frozen:
  assumes "(dstep rt)\<^sup>*\<^sup>* a a'" and "outbox_ok a" and "delivery_view a k = Some l" and "delivery_ended l"
  shows "delivery_view a' k = Some l"
  by (rule outbox.ended_forever [OF assms])

text \<open>A claim never fails: it hands out at most the requested number of due summary deliveries, each with
  its own token, a fresh lease and one more attempt, and leaves every delivery that is not due alone.\<close>

theorem claim_hands_out_due_deliveries:
  assumes "outbox_ok a" and "\<And>i. token i \<noteq> []"
  shows "\<exists>a' cl. claim_deliveries token now event limit a = Inr (a', cl) \<and> length cl \<le> max 1 limit \<and> distinct (map fst cl)
    \<and> (\<forall>x \<in> set cl. \<exists>l. delivery_view a (fst x) = Some l \<and> delivery_due now l \<and> is_summary a (dl_event l)
          \<and> delivery_view a' (fst x) = Some (claimed_delivery now (snd x) l) \<and> snd x = token (fst x))
    \<and> (\<forall>k l. delivery_view a k = Some l \<and> \<not> delivery_due now l \<longrightarrow> delivery_view a' k = Some l)"
proof -
  let ?due = "due_deliveries now event limit a"
  obtain a' cl where r: "claim_deliveries token now event limit a = Inr (a', cl)"
    using claim_total [where token = token and now = now and event = event and limit = limit, OF assms(1)] assms(2) by auto
  note c = claim_deliveries_Inr [OF r assms(1)]
  note due = due_deliveries_rows [where now = now and event = event and limit = limit, OF assms(1)]
  from c have rows: "find_row dl_id k (al_deliveries a') = (case find_row dl_id k ?due of
      Some l \<Rightarrow> Some (taken token now l) | None \<Rightarrow> find_row dl_id k (al_deliveries a))" for k by blast
  from c have cl: "cl = map (\<lambda>l. (dl_id l, token (dl_id l))) (filter (\<lambda>l. \<not> exhausted l) ?due)" by blast
  have "length cl \<le> max 1 limit" unfolding cl using due(3) by (simp add: le_trans [OF length_filter_le])
  moreover have "distinct (map fst cl)" unfolding cl using due(1) by (simp add: comp_def distinct_map_filter)
  moreover have "\<exists>l. delivery_view a (fst x) = Some l \<and> delivery_due now l \<and> is_summary a (dl_event l)
          \<and> delivery_view a' (fst x) = Some (claimed_delivery now (snd x) l) \<and> snd x = token (fst x)" if "x \<in> set cl" for x
  proof -
    from that obtain l where l: "l \<in> set ?due" "\<not> exhausted l" "x = (dl_id l, token (dl_id l))" unfolding cl by auto
    have "find_row dl_id (dl_id l) ?due = Some l" using due(1) l(1) by (simp add: find_row_mem)
    then have "delivery_view a' (dl_id l) = Some (taken token now l)" using rows by (simp add: delivery_view_def)
    moreover have "delivery_view a (dl_id l) = Some l" using find_delivery [OF assms(1)] due(2) [OF l(1)] by (simp add: delivery_view_def)
    ultimately show ?thesis using due(2) [OF l(1)] l(2,3) by (simp add: taken_def)
  qed
  moreover have "delivery_view a' k = Some l" if "delivery_view a k = Some l" "\<not> delivery_due now l" for k l
  proof (cases "find_row dl_id k ?due")
    case None
    then show ?thesis using rows that by (simp add: delivery_view_def)
  next
    case (Some m)
    from find_row_due [OF assms(1) Some] that show ?thesis by (auto simp: delivery_view_def)
  qed
  ultimately show ?thesis using r by blast
qed

lemma finished_status:
  "dl_status (finished_delivery now r l) = (if dr_success r then DSent
     else if dr_retryable r \<and> dl_attempt_count l < dl_max_attempts l then DRetry else DFailed)"
  by (simp add: finished_delivery_def Let_def)

lemma finished_ck: "delivery_ok l \<Longrightarrow> dl_status l = DSending \<Longrightarrow> delivery_ck (finished_delivery now r l)"
  by (auto simp: delivery_ok_def delivery_ck_def delivery_attempts_ck_def delivery_time_ck_def finished_delivery_def Let_def)

text \<open>C34. The result of a send counts only for the holder of the current claim. It then ends the delivery as sent,
  puts it back for a retry while attempts are left, or fails it; no other delivery changes, and the status of its
  event is the one of the deliveries after it.\<close>

theorem result_needs_current_claim:
  assumes "outbox_ok a" and "delivery_view a i = Some l"
  shows "(dl_status l \<noteq> DSending \<or> dl_lease_token l \<noteq> token \<longrightarrow> finish_delivery now i token r a = Inr (a, l))
    \<and> (dl_status l = DSending \<and> dl_lease_token l = token \<longrightarrow>
        (\<exists>a' l'. finish_delivery now i token r a = Inr (a', l') \<and> delivery_view a' i = Some l'
           \<and> dl_status l' = (if dr_success r then DSent
               else if dr_retryable r \<and> dl_attempt_count l < dl_max_attempts l then DRetry else DFailed)
           \<and> dl_attempt_count l' = dl_attempt_count l \<and> dl_lease_token l' = []
           \<and> (\<forall>k. k \<noteq> i \<longrightarrow> delivery_view a' k = delivery_view a k)
           \<and> (\<forall>e \<in> set (al_events a'). ae_id e = dl_event l \<longrightarrow>
                ae_status e = outbox_status (map dl_status (filter (\<lambda>m. dl_event m = dl_event l) (al_deliveries a'))))))"
proof (intro conjI impI)
  have f: "find_row dl_id i (al_deliveries a) = Some l" using assms(2) by (simp add: delivery_view_def)
  show "finish_delivery now i token r a = Inr (a, l)" if "dl_status l \<noteq> DSending \<or> dl_lease_token l \<noteq> token"
    using that by (simp add: finish_delivery_def f)
  assume s: "dl_status l = DSending \<and> dl_lease_token l = token"
  let ?l = "finished_delivery now r l"
  let ?b = "a\<lparr>al_deliveries := upd_row dl_id (dl_id ?l) (\<lambda>_. ?l) (al_deliveries a)\<rparr>"
  have id: "dl_id ?l = i" using find_row_Some [OF f] by simp
  have "delivery_ok l" using assms(1) find_row_Some [OF f] by (simp add: outbox_ok_def)
  then have "finish_delivery now i token r a = Inr (refresh_event (dl_event l) ?b, ?l)"
    using s finished_ck by (simp add: finish_delivery_def f save_delivery_def)
  moreover have "delivery_view (refresh_event (dl_event l) ?b) k = (if k = i then Some ?l else delivery_view a k)" for k
    using find_row_replace [of dl_id k ?l "al_deliveries a"] f unfolding id by (auto simp: delivery_view_def)
  moreover have "\<forall>e \<in> set (al_events (refresh_event (dl_event l) ?b)). ae_id e = dl_event l \<longrightarrow>
      ae_status e = outbox_status (map dl_status (filter (\<lambda>m. dl_event m = dl_event l) (al_deliveries (refresh_event (dl_event l) ?b))))"
    by (auto simp: refresh_event_def set_upd_rows)
  moreover have "dl_lease_token ?l = []" by (simp add: finished_delivery_def Let_def)
  ultimately show "\<exists>a' l'. finish_delivery now i token r a = Inr (a', l') \<and> delivery_view a' i = Some l'
           \<and> dl_status l' = (if dr_success r then DSent
               else if dr_retryable r \<and> dl_attempt_count l < dl_max_attempts l then DRetry else DFailed)
           \<and> dl_attempt_count l' = dl_attempt_count l \<and> dl_lease_token l' = []
           \<and> (\<forall>k. k \<noteq> i \<longrightarrow> delivery_view a' k = delivery_view a k)
           \<and> (\<forall>e \<in> set (al_events a'). ae_id e = dl_event l \<longrightarrow>
                ae_status e = outbox_status (map dl_status (filter (\<lambda>m. dl_event m = dl_event l) (al_deliveries a'))))"
    using finished_status finished_attempts by auto
qed

section \<open>The task summary\<close>

lemma add_summary_Inr:
  assumes "add_summary rt i did now t title abnormal a = Inr a'"
  shows "(a' = a \<and> list_ex (\<lambda>e. ae_summary_task e = Some (t_id t)) (al_events a))
    \<or> (\<not> list_ex (\<lambda>e. ae_summary_task e = Some (t_id t)) (al_events a)
       \<and> (\<exists>e (chs :: channel list). al_events a' = al_events a @ [e] \<and> ae_summary_task e = Some (t_id t) \<and> ae_type e = EvSummary
            \<and> ae_status e = (if chs = [] then EsFailed else EsPending)
            \<and> al_deliveries a' = al_deliveries a @ map (\<lambda>c. new_delivery (did (ch_id c)) now i (ch_id c)) chs))"
proof (cases "list_ex (\<lambda>e. ae_summary_task e = Some (t_id t)) (al_events a)")
  case True
  then show ?thesis using assms by (simp add: add_summary_def)
next
  case False
  let ?pol = "routed_policy a t (fst (summary_scope t)) (snd (summary_scope t))"
  let ?e0 = "summary_event i now t ?pol title abnormal"
  from assms False obtain e chs where v: "validate_event_scope rt a None (Some t) None ?e0 = Inr e"
    and w: "with_deliveries i did now e chs a = Inr a'"
    unfolding add_summary_def if_not_P [OF False] Let_def bindr_Inr_iff by blast
  from w have e: "al_events a' = al_events a @ [if chs = [] then e\<lparr>ae_status := EsFailed, ae_summary := ae_summary e @ msg_no_channel\<rparr> else e]"
    and l: "al_deliveries a' = al_deliveries a @ map (\<lambda>c. new_delivery (did (ch_id c)) now i (ch_id c)) chs"
    by (auto simp: with_deliveries_def split: if_split_asm)
  have "ae_type ?e0 = EvSummary" by (simp add: summary_event_def)
  then obtain sc where "rescoped rt a t sc ?e0 = Inr e"
    using v by (auto simp: validate_event_scope_def bindr_Inr_iff split: if_split_asm)
  from rescoped_Inr [OF this] have "ae_summary_task e = Some (t_id t)" "ae_type e = EvSummary" "ae_status e = EsPending"
    by (simp_all add: summary_event_def)
  note f = this
  let ?e = "if chs = [] then e\<lparr>ae_status := EsFailed, ae_summary := ae_summary e @ msg_no_channel\<rparr> else e"
  have "ae_summary_task ?e = Some (t_id t)" "ae_type ?e = EvSummary" "ae_status ?e = (if chs = [] then EsFailed else EsPending)"
    using f by simp_all
  with False e l show ?thesis by blast
qed

text \<open>C35. A task is summarised once, and only when it and all its targets are ended and the evidence of every target is
  processed: the summary event, its deliveries and the completion mark of the task appear together, and from then on
  the summary of that task is never written again. Alert states are not touched.\<close>

theorem summary_written_once:
  assumes "process_task_summary rt i did now later render tid (d, a) = (d', a')"
  shows "targets d' = targets d
    \<and> (a' \<noteq> a \<longrightarrow> (\<exists>t e (chs :: channel list). find_row t_id tid (tasks d) = Some t \<and> terminal_status (t_status t)
          \<and> t_type t \<in> set summary_task_types
          \<and> (\<forall>g \<in> set (targets_of tid d). target_is_terminal g \<and> g_alert_processed_at g \<noteq> None)
          \<and> al_events a' = al_events a @ [e] \<and> ae_type e = EvSummary \<and> ae_summary_task e = Some tid
          \<and> \<not> (\<exists>e0 \<in> set (al_events a). ae_summary_task e0 = Some tid)
          \<and> al_deliveries a' = al_deliveries a @ map (\<lambda>c. new_delivery (did (ch_id c)) now i (ch_id c)) chs))
    \<and> (\<forall>t'. find_row t_id tid (tasks d') = Some t' \<longrightarrow>
          (t_alert_summary_processed_at t' = None \<longrightarrow> a' = a)
        \<and> (t_alert_summary_processed_at t' \<noteq> None \<longrightarrow>
             (\<forall>i did now later render. process_task_summary rt i did now later render tid (d', a') = (d', a'))))"
proof (cases "find_row t_id tid (tasks d)")
  case None
  with assms show ?thesis by (simp add: process_task_summary_def)
next
  case t: (Some t)
  have id: "t_id t = tid" using find_row_Some [OF t] by simp
  let ?ready = "t_type t \<in> set summary_task_types \<and> terminal_status (t_status t) \<and> t_alert_summary_processed_at t = None"
  let ?all = "list_all (\<lambda>g. target_is_terminal g \<and> g_alert_processed_at g \<noteq> None) (targets_of tid d)"
  have again: "process_task_summary rt i did now later render tid (e, b) = (e, b)"
    if "find_row t_id tid (tasks e) = Some u" "t_alert_summary_processed_at u \<noteq> None" for e b u i did now later render
    using that by (simp add: process_task_summary_def)
  consider "\<not> ?ready" | "?ready" "\<not> ?all" | x where "?ready" "?all" "add_summary rt i did now t (fst (render t)) (snd (render t)) a = Inl x"
    | b where "?ready" "?all" "add_summary rt i did now t (fst (render t)) (snd (render t)) a = Inr b"
    by (cases "add_summary rt i did now t (fst (render t)) (snd (render t)) a") blast+
  then show ?thesis
  proof cases
    case 1
    then have "(d', a') = (d, a)" using assms t by (auto simp: process_task_summary_def)
    then show ?thesis using again by auto
  next
    case 2
    then have "d' = d\<lparr>tasks := upd_row t_id tid (\<lambda>t. t\<lparr>t_alert_summary_attempted_at := Some now\<rparr>) (tasks d)\<rparr>" "a' = a"
      using assms t by (simp_all add: process_task_summary_def)
    then show ?thesis using again by auto
  next
    case (3 x)
    then have "d' = d\<lparr>tasks := upd_rows (\<lambda>t. t_id t = tid \<and> t_alert_summary_processed_at t = None)
                        (\<lambda>t. t\<lparr>t_alert_summary_attempted_at := Some later,
                              t_alert_summary_error := msg_summary_failed x\<rparr>) (tasks d)\<rparr>" "a' = a"
      using assms t by (simp_all add: process_task_summary_def)
    then show ?thesis using again by auto
  next
    case (4 b)
    then have d': "d' = d\<lparr>tasks := upd_row t_id tid (summarised_task now) (tasks d)\<rparr>" "a' = b"
      using assms t by (simp_all add: process_task_summary_def)
    have "find_row t_id tid (tasks d') = Some (summarised_task now t)"
      using t id by (simp add: d' find_row_upd summarised_task_def)
    moreover have "t_alert_summary_processed_at (summarised_task now t) \<noteq> None" by (simp add: summarised_task_def)
    moreover note again [OF calculation]
    ultimately show ?thesis using add_summary_Inr [OF 4(3)] 4(1,2) t id
      by (auto simp: d' list_all_iff list_ex_iff)
  qed
qed

section \<open>Witnesses\<close>

text \<open>A partial inspection of a device with one grave item, one normal item and a lost collection.\<close>

definition demo_dup :: "finding list" where
  "demo_dup = [\<lparr>fd_key = asc ''k'', fd_severity = asc ''critical'', fd_title = asc ''t'', fd_detail = [], fd_state = asc ''normal''\<rparr>,
     \<lparr>fd_key = asc ''k'', fd_severity = asc ''info'', fd_title = asc ''t'', fd_detail = [], fd_state = asc ''abnormal''\<rparr>]"

definition demo_record :: json where
  "demo_record = JObj [(asc ''status'', JStr (asc ''partial'')), (asc ''details'', JObj
     [(asc ''normal_issue_items'', JList [JStr (asc ''cpu''), JStr collection_item]),
      (asc ''issue_findings'', JList [JObj [(asc ''project'', JStr (asc ''networks'')), (asc ''analysis_item'', JStr (asc ''memory'')),
         (key_title, JStr [20869, 23384]), (key_detail, JStr [57])]])])]"

definition demo_ended_target :: target where
  "demo_ended_target = demo_insp_target\<lparr>g_status := Partial, g_finished_at := Some 500,
     g_result_type := asc ''network_inspection''\<rparr>"

definition demo_ended_task :: task where
  "demo_ended_task = demo_insp_task\<lparr>t_status := Partial, t_finished_at := Some 500\<rparr>"

definition demo_scope :: scope where
  "demo_scope = (asc ''inspection_profile'', asc ''p'', asc ''network_device'', asc ''d1'')"

definition demo_alerts :: alerts where
  "demo_alerts = \<lparr>al_channels = [\<lparr>ch_id = asc ''c'', ch_name = asc ''ops'', ch_enabled = True\<rparr>],
     al_policies = [\<lparr>po_id = asc ''p0'', po_default = True, po_override = True, po_inspection = None, po_analysis = None,
                      po_channels = [asc ''c'']\<rparr>],
     al_states = [observed_state 100 \<lparr>ob_key = asc ''inspection.cpu'', ob_severity = asc ''warning'', ob_title = asc ''cpu'',
                    ob_detail = [], ob_state = SeenAbnormal\<rparr> (new_state demo_scope (asc ''inspection.cpu'') 100)],
     al_events = [], al_deliveries = []\<rparr>"

definition demo_found :: "finding list" where
  "demo_found = projr (findings_for_target demo_rt None (Some demo_record) demo_ended_target)"

definition demo_event_id :: "event_type \<Rightarrow> ustring" where
  "demo_event_id ty = (if ty = EvAbnormal then asc ''e1'' else asc ''e2'')"

abbreviation demo_observed :: "alerts res" where
  "demo_observed \<equiv> process_target_findings demo_rt demo_event_id 600 None demo_ended_task demo_ended_target demo_found demo_alerts"

definition demo_processed :: "db \<times> alerts" where
  "demo_processed = process_persisted_target demo_rt demo_event_id 600 610 None None (Some demo_record) (asc ''g2'')
     (demo_store [demo_ended_task] [demo_ended_target], demo_alerts)"

definition demo_summarised :: "db \<times> alerts" where
  "demo_summarised = process_task_summary demo_rt (asc ''e3'') (\<lambda>c. asc ''l'' @ c) 700 710 (\<lambda>_. (asc ''title'', True)) (asc ''t2'')
     demo_processed"

definition demo_outbox :: alerts where
  "demo_outbox = demo_alerts\<lparr>al_events := [summary_event (asc ''e3'') 700 demo_ended_task None (asc ''title'') True],
     al_deliveries := [new_delivery (asc ''lc'') 700 (asc ''e3'') (asc ''c''),
       (new_delivery (asc ''done'') 650 (asc ''e3'') (asc ''c''))\<lparr>dl_status := DSent, dl_attempt_count := 1, dl_delivered_at := Some 660\<rparr>]\<rparr>"

definition demo_token :: "ustring \<Rightarrow> ustring" where "demo_token i = asc ''tok'' @ i"

lemma demo_token_nonempty: "demo_token i \<noteq> []" by (simp add: demo_token_def asc_def)

theorem findings_merged_per_key_witness:
  "distinct (map ob_key (normalised_findings demo_rt demo_dup)) \<and> map ob_state (normalised_findings demo_rt demo_dup) = [SeenAbnormal]"
proof
  show "distinct (map ob_key (normalised_findings demo_rt demo_dup))" using findings_merged_per_key by blast
  show "map ob_state (normalised_findings demo_rt demo_dup) = [SeenAbnormal]" by code_simp
qed

theorem unsuccessful_run_recovers_no_collection_witness:
  "\<exists>fs. inspection_findings demo_rt demo_ended_target demo_record = Inr fs
    \<and> (\<exists>f \<in> set fs. fd_key f = asc ''inspection.collection'' \<and> fd_state f \<noteq> asc ''normal'')"
proof -
  have i: "\<not> isl (inspection_findings demo_rt demo_ended_target demo_record)" by code_simp
  then obtain fs where fs: "inspection_findings demo_rt demo_ended_target demo_record = Inr fs"
    by (cases "inspection_findings demo_rt demo_ended_target demo_record") auto
  have "list_ex (\<lambda>f. fd_key f = asc ''inspection.collection'') (projr (inspection_findings demo_rt demo_ended_target demo_record))"
    by code_simp
  then obtain f where f: "f \<in> set fs" "fd_key f = asc ''inspection.collection''" unfolding fs by (auto simp: list_ex_iff)
  have n: "iter_json (jget_or ''normal_issue_items'' JNull (jget_or ''details'' (JObj []) demo_record))
      = Inr [JStr (asc ''cpu''), JStr collection_item]" by code_simp
  have p: "py_str demo_rt (JStr (asc ''cpu'')) \<noteq> asc ''collection''" "py_str demo_rt (JStr collection_item) \<noteq> asc ''collection''"
    by code_simp+
  have s: "str_or demo_rt (uget (asc ''status'') demo_record) (status_value (g_status demo_ended_target)) \<noteq> asc ''success''" by code_simp
  have "fd_state f \<noteq> asc ''normal''"
    by (rule unsuccessful_run_recovers_no_collection [OF fs s _ f]) (use n p in auto)
  with fs f show ?thesis by blast
qed

lemma demo_observed_types: "map_sum id (\<lambda>a. map ae_type (al_events a)) demo_observed = Inr [EvAbnormal, EvRecovery]"
  by code_simp

lemma demo_observed_Inr: obtains a' where "demo_observed = Inr a'"
  using map_sum_Inr [OF demo_observed_types] that by blast

lemma demo_target_scope: "target_scope None demo_ended_task demo_ended_target = Inr demo_scope" by code_simp



theorem target_processed_once_witness:
  "length (al_events (snd demo_processed)) = 2
    \<and> process_persisted_target demo_rt demo_event_id 800 810 None None (Some demo_record) (asc ''g2'') demo_processed = demo_processed"
proof -
  have "(case demo_processed of (d, a) \<Rightarrow>
      (length (al_events a), map_option g_alert_processed_at (find_row g_id (asc ''g2'') (targets d)))) = (2, Some (Some 600))"
    by code_simp
  then have n: "length (al_events (snd demo_processed)) = 2"
    and m: "map_option g_alert_processed_at (find_row g_id (asc ''g2'') (targets (fst demo_processed))) = Some (Some 600)"
    by (simp_all add: case_prod_beta)
  have g: "find_row g_id (asc ''g2'') (targets (demo_store [demo_ended_task] [demo_ended_target])) = Some demo_ended_target" by code_simp
  from m obtain g' where g': "find_row g_id (asc ''g2'') (targets (fst demo_processed)) = Some g'" "g_alert_processed_at g' \<noteq> None" by auto
  have e: "process_persisted_target demo_rt demo_event_id 600 610 None None (Some demo_record) (asc ''g2'')
     (demo_store [demo_ended_task] [demo_ended_target], demo_alerts) = (fst demo_processed, snd demo_processed)"
    by (simp add: demo_processed_def)
  from target_processed_once [OF e] g g' n show ?thesis by simp
qed

lemma demo_outbox_ok: "outbox_ok demo_outbox" by code_simp

lemma demo_claim_writes:
  "map_sum id (\<lambda>x. map dl_status (al_deliveries (fst x))) (claim_deliveries demo_token 900 None 10 demo_outbox) = Inr [DSending, DSent]"
  by code_simp

lemma demo_claim_step: obtains a' cl where "claim_deliveries demo_token 900 None 10 demo_outbox = Inr (a', cl)"
proof -
  obtain x where "claim_deliveries demo_token 900 None 10 demo_outbox = Inr x" using map_sum_Inr [OF demo_claim_writes] by blast
  then show thesis by (intro that [of "fst x" "snd x"]) simp
qed


theorem ended_delivery_frozen_witness:
  "\<exists>a' l. a' \<noteq> demo_outbox \<and> (dstep demo_rt)\<^sup>*\<^sup>* demo_outbox a' \<and> delivery_view demo_outbox (asc ''done'') = Some l
     \<and> delivery_view a' (asc ''done'') = Some l"
proof -
  obtain a' cl where c: "claim_deliveries demo_token 900 None 10 demo_outbox = Inr (a', cl)" by (rule demo_claim_step)
  then have r: "(dstep demo_rt)\<^sup>*\<^sup>* demo_outbox a'" by (blast intro: dstep.claim)
  have "map_option delivery_ended (delivery_view demo_outbox (asc ''done'')) = Some True" by code_simp
  then obtain l where l: "delivery_view demo_outbox (asc ''done'') = Some l" "delivery_ended l" by auto
  have "map dl_status (al_deliveries demo_outbox) \<noteq> [DSending, DSent]" by code_simp
  then have "a' \<noteq> demo_outbox" using demo_claim_writes unfolding c by auto
  with ended_delivery_frozen [OF r demo_outbox_ok l] r l show ?thesis by blast
qed

theorem claim_hands_out_due_deliveries_witness:
  "\<exists>a' cl. claim_deliveries demo_token 900 None 10 demo_outbox = Inr (a', cl) \<and> length cl \<le> max 1 10 \<and> distinct (map fst cl)"
  using claim_hands_out_due_deliveries [where token = demo_token and now = 900 and event = None and limit = 10,
      OF demo_outbox_ok demo_token_nonempty] by blast

definition demo_sending :: alerts where
  "demo_sending = fst (projr (claim_deliveries demo_token 900 None 10 demo_outbox))"

theorem result_needs_current_claim_witness:
  "\<exists>a' l. finish_delivery 950 (asc ''lc'') (demo_token (asc ''lc'')) \<lparr>dr_success = False, dr_summary = [], dr_retryable = True\<rparr> demo_sending
     = Inr (a', l) \<and> dl_status l = DRetry"
proof -
  obtain a' cl where c: "claim_deliveries demo_token 900 None 10 demo_outbox = Inr (a', cl)" by (rule demo_claim_step)
  have "(dstep demo_rt)\<^sup>*\<^sup>* demo_outbox a'" using dstep.claim [OF c] by blast
  then have ok: "outbox_ok demo_sending" using outbox.runs_inv demo_outbox_ok by (fastforce simp: demo_sending_def c)
  have "map_option (\<lambda>l. (dl_status l, dl_lease_token l, dl_attempt_count l, dl_max_attempts l)) (delivery_view demo_sending (asc ''lc''))
      = Some (DSending, demo_token (asc ''lc''), 1, 3)" by code_simp
  then obtain l where l: "delivery_view demo_sending (asc ''lc'') = Some l" "dl_status l = DSending"
      "dl_lease_token l = demo_token (asc ''lc'')" "dl_attempt_count l < dl_max_attempts l" by auto
  from result_needs_current_claim [OF ok l(1), of "demo_token (asc ''lc'')" 950 "\<lparr>dr_success = False, dr_summary = [], dr_retryable = True\<rparr>"] l
  show ?thesis by auto
qed

theorem summary_written_once_witness:
  "length (al_events (snd demo_summarised)) = 3 \<and> length (al_deliveries (snd demo_summarised)) = 1
    \<and> process_task_summary demo_rt (asc ''e4'') (\<lambda>c. c) 800 810 (\<lambda>_. ([], False)) (asc ''t2'') demo_summarised = demo_summarised"
proof -
  have "(case demo_summarised of (d, a) \<Rightarrow> (length (al_events a), length (al_deliveries a),
      map_option t_alert_summary_processed_at (find_row t_id (asc ''t2'') (tasks d)))) = (3, 1, Some (Some 700))" by code_simp
  then have n: "length (al_events (snd demo_summarised)) = 3 \<and> length (al_deliveries (snd demo_summarised)) = 1"
    and m: "map_option t_alert_summary_processed_at (find_row t_id (asc ''t2'') (tasks (fst demo_summarised))) = Some (Some 700)"
    by (simp_all add: case_prod_beta)
  from m obtain t' where t': "find_row t_id (asc ''t2'') (tasks (fst demo_summarised)) = Some t'"
      "t_alert_summary_processed_at t' \<noteq> None" by auto
  have e: "process_task_summary demo_rt (asc ''e3'') (\<lambda>c. asc ''l'' @ c) 700 710 (\<lambda>_. (asc ''title'', True)) (asc ''t2'')
     (fst demo_processed, snd demo_processed) = (fst demo_summarised, snd demo_summarised)"
    by (simp add: demo_summarised_def)
  from summary_written_once [OF e] t' n show ?thesis by simp
qed

end
