(* ===== verification/Retention.thy ===== *)
theory Retention
  imports TaskExec
begin

text \<open>
  What is deleted when: \<open>net/inspections/retention.py\<close>. The rows of the three inspection tables are results of the task
  store; an archive adds the asset of each, and the other rows that protect tasks and targets from deletion. A row without a
  task target matches no retention setting and is left out.
\<close>

section \<open>Rows\<close>

text \<open>The foreign key of an inspection record to its asset, by table and key, and the protecting references: the model that
  refers and the task or target it refers to.\<close>

record archive =
  av_db :: db
  av_asset :: "ustring \<Rightarrow> ustring \<Rightarrow> ustring"
  av_task_links :: "(string \<times> ustring) list"
  av_target_links :: "(string \<times> ustring) list"

abbreviation av_results :: "archive \<Rightarrow> result list" where
  "av_results a \<equiv> results (av_db a)"

text \<open>\<open>INSPECTION_RETENTION_TARGETS\<close>: the tables, as the result types the executor writes.\<close>

definition inspection_kinds :: "ustring list" where
  "inspection_kinds = [asc ''network_device_inspection'', asc ''server_inspection'', asc ''monitor_inspection'']"

section \<open>Records\<close>

text \<open>The setting a record was made under: that of the snapshot of its task, or, where a snapshot has no such key, the current
  one of the profile (\<open>profiles\<close>).\<close>

definition record_task :: "db \<Rightarrow> result \<Rightarrow> task option" where
  "record_task d r = (case find_row g_id (r_target r) (targets d) of None \<Rightarrow> None
     | Some g \<Rightarrow> find_row t_id (g_task g) (tasks d))"

definition record_setting :: "(ustring \<Rightarrow> json option) \<Rightarrow> db \<Rightarrow> result \<Rightarrow> json option" where
  "record_setting profiles d r = (case record_task d r of None \<Rightarrow> None
     | Some t \<Rightarrow> (case jget ''record_retention'' (t_profile_snapshot t) of
         Some v \<Rightarrow> Some v
       | None \<Rightarrow> (case t_inspection_profile t of None \<Rightarrow> None | Some p \<Rightarrow> profiles p)))"

text \<open>\<open>_newest_per_asset\<close>: the first row in the order of descending creation times, then keys.\<close>

definition newest_record :: "archive \<Rightarrow> ustring \<Rightarrow> ustring \<Rightarrow> result option" where
  "newest_record a kind asset =
     first_row (rev (sort_key (\<lambda>r. (r_created_at r, r_id r))
       (filter (\<lambda>r. r_kind r = kind \<and> av_asset a kind (r_id r) = asset) (av_results a))))"

definition is_newest :: "archive \<Rightarrow> result \<Rightarrow> bool" where
  "is_newest a r \<longleftrightarrow> map_option r_id (newest_record a (r_kind r) (av_asset a (r_kind r) (r_id r))) = Some (r_id r)"

definition days_ago :: "time \<Rightarrow> nat \<Rightarrow> time" where
  "days_ago now days = now - seconds (int days * 86400)"

definition expired_record :: "(ustring \<Rightarrow> json option) \<Rightarrow> time \<Rightarrow> archive \<Rightarrow> ustring \<Rightarrow> string \<times> nat \<Rightarrow> result \<Rightarrow> bool" where
  "expired_record profiles now a kind sd r \<longleftrightarrow> r_kind r = kind \<and> r_created_at r < days_ago now (snd sd)
     \<and> record_setting profiles (av_db a) r = Some (JStr (asc (fst sd))) \<and> \<not> is_newest a r
     \<and> alert_processing_complete (av_db a) r"

text \<open>One table and one choice of the retention: the keys that are read, and the deletion, which looks at the alerts again.\<close>

definition expired_ids ::
    "(ustring \<Rightarrow> json option) \<Rightarrow> time \<Rightarrow> nat \<Rightarrow> archive \<Rightarrow> ustring \<Rightarrow> string \<times> nat \<Rightarrow> ustring list" where
  "expired_ids profiles now limit a kind sd =
     map r_id (take limit (sort_key r_created_at (filter (expired_record profiles now a kind sd) (av_results a))))"

definition delete_records :: "ustring \<Rightarrow> ustring list \<Rightarrow> archive \<Rightarrow> archive" where
  "delete_records kind ids a = a\<lparr>av_db := (av_db a)\<lparr>results :=
     filter (\<lambda>r. \<not> (r_kind r = kind \<and> r_id r \<in> set ids \<and> alert_processing_complete (av_db a) r)) (av_results a)\<rparr>\<rparr>"

definition cleanup_setting ::
    "(ustring \<Rightarrow> json option) \<Rightarrow> time \<Rightarrow> nat \<Rightarrow> ustring \<times> string \<times> nat \<Rightarrow> archive \<times> nat \<Rightarrow> archive \<times> nat" where
  "cleanup_setting profiles now limit ksd acc =
     (let ids = expired_ids profiles now limit (fst acc) (fst ksd) (snd ksd)
      in (delete_records (fst ksd) ids (fst acc), snd acc + length ids))"

definition cleanup_inspection_records :: "(ustring \<Rightarrow> json option) \<Rightarrow> time \<Rightarrow> nat \<Rightarrow> archive \<Rightarrow> archive \<times> nat" where
  "cleanup_inspection_records profiles now limit a =
     fold (cleanup_setting profiles now limit) (List.product inspection_kinds record_retention_days) (a, 0)"

section \<open>Task history\<close>

definition task_blockers :: "string list" where
  "task_blockers = [''AlertEvent'', ''DomainOperation'', ''TopologyDiscoveryBatch'']"

definition target_blockers :: "string list" where
  "target_blockers = [''AlertEvent'', ''ComputerAnalysis'', ''Network_Device_Inspection'', ''Server_Inspection'',
     ''Monitor_Inspection'', ''TopologyDiscoveryBatch'', ''NetworkTopologyObservation'']"

text \<open>The model of a result, and every row that protects a target.\<close>

definition result_model :: "ustring \<Rightarrow> string" where
  "result_model kind =
     (if kind = asc ''computer_analysis'' then ''ComputerAnalysis''
      else if kind = asc ''network_device_inspection'' then ''Network_Device_Inspection''
      else if kind = asc ''server_inspection'' then ''Server_Inspection'' else ''Monitor_Inspection'')"

definition all_target_links :: "archive \<Rightarrow> (string \<times> ustring) list" where
  "all_target_links a = av_target_links a @ map (\<lambda>r. (result_model (r_kind r), r_target r)) (av_results a)"

text \<open>\<open>_strongly_referenced\<close>\<close>

definition strongly_referenced :: "(string \<times> ustring) list \<Rightarrow> string list \<Rightarrow> ustring \<Rightarrow> bool" where
  "strongly_referenced links names i \<longleftrightarrow> list_ex (\<lambda>(model, j). j = i \<and> model \<in> set names) links"

definition finished_before :: "time \<Rightarrow> task \<Rightarrow> bool" where
  "finished_before cutoff t \<longleftrightarrow> terminal_status (t_status t)
     \<and> (case t_finished_at t of None \<Rightarrow> False | Some f \<Rightarrow> f < cutoff)"

definition history_candidates :: "nat \<Rightarrow> time \<Rightarrow> nat \<Rightarrow> archive \<Rightarrow> task list" where
  "history_candidates days now limit a =
     take limit (sort_key (\<lambda>t. (t_finished_at t, t_id t)) (filter (finished_before (days_ago now days)) (tasks (av_db a))))"

definition task_held :: "archive \<Rightarrow> task \<Rightarrow> bool" where
  "task_held a t \<longleftrightarrow> strongly_referenced (av_task_links a) task_blockers (t_id t)
     \<or> list_ex (\<lambda>g. g_task g = t_id t \<and> strongly_referenced (all_target_links a) target_blockers (g_id g)) (targets (av_db a))"

definition remove_task :: "task \<Rightarrow> archive \<Rightarrow> archive" where
  "remove_task t a = a\<lparr>av_db := (av_db a)\<lparr>targets := filter (\<lambda>g. g_task g \<noteq> t_id t) (targets (av_db a)),
     tasks := filter (\<lambda>u. t_id u \<noteq> t_id t) (tasks (av_db a))\<rparr>\<rparr>"

definition cleanup_task :: "task \<Rightarrow> archive \<times> nat \<Rightarrow> archive \<times> nat" where
  "cleanup_task t acc = (if task_held (fst acc) t then acc else (remove_task t (fst acc), snd acc + 1))"

definition cleanup_task_history :: "nat \<Rightarrow> time \<Rightarrow> nat \<Rightarrow> archive \<Rightarrow> archive \<times> nat" where
  "cleanup_task_history days now limit a = fold cleanup_task (history_candidates days now limit a) (a, 0)"

end
