(* ===== verification/RetentionProperties.thy ===== *)
theory RetentionProperties
  imports Retention Demo
begin

text \<open>
  The retention deletes only what nothing needs: the newest record of an asset and the records of unprocessed alerts stay, and
  a task goes only with all its targets and when nothing refers to any of them.
\<close>

section \<open>Records\<close>

text \<open>The keys of a table are unique.\<close>

definition keys_unique :: "archive \<Rightarrow> bool" where
  "keys_unique a \<longleftrightarrow> distinct (map (\<lambda>r. (r_kind r, r_id r)) (av_results a))"

lemma same_record:
  "keys_unique a \<Longrightarrow> r \<in> set (av_results a) \<Longrightarrow> s \<in> set (av_results a) \<Longrightarrow> r_kind r = r_kind s \<Longrightarrow> r_id r = r_id s \<Longrightarrow> r = s"
  by (auto simp: keys_unique_def distinct_map dest: inj_onD)

text \<open>The last row of a sorted list without some other rows is still the last row.\<close>

lemma last_filter: "xs \<noteq> [] \<Longrightarrow> P (last xs) \<Longrightarrow> filter P xs \<noteq> [] \<and> last (filter P xs) = last xs"
  by (induction xs rule: rev_induct) auto

lemma first_row_rev: "first_row (rev xs) = (if xs = [] then None else Some (last xs))"
  by (cases xs rule: rev_cases) (auto simp: first_row_def)

lemma newest_mem:
  "newest_record a kind asset = Some r \<Longrightarrow> r \<in> set (av_results a) \<and> r_kind r = kind \<and> av_asset a kind (r_id r) = asset"
  unfolding newest_record_def by (drule first_row_Some) simp

lemma newest_filter:
  assumes "results (av_db b) = filter P (av_results a)" and "av_asset b = av_asset a"
    and "\<And>r. newest_record a kind asset = Some r \<Longrightarrow> P r"
  shows "newest_record b kind asset = newest_record a kind asset"
proof -
  let ?k = "\<lambda>r. (r_created_at r, r_id r)" and ?Q = "\<lambda>r. r_kind r = kind \<and> av_asset a kind (r_id r) = asset"
  define xs where "xs = sort_key ?k (filter ?Q (av_results a))"
  have "filter ?Q (filter P (av_results a)) = filter P (filter ?Q (av_results a))"
    by (simp add: conj_commute)
  then have b: "newest_record b kind asset = first_row (rev (filter P xs))"
    by (simp only: newest_record_def assms(1,2) filter_sort [symmetric] xs_def)
  have a: "newest_record a kind asset = first_row (rev xs)" by (simp add: newest_record_def xs_def)
  show ?thesis
  proof (cases "xs = []")
    case False
    then have "P (last xs)" using assms(3) by (simp add: a first_row_rev)
    from last_filter [where P = P, OF False this] False show ?thesis unfolding a b first_row_rev by simp
  qed (simp add: a b)
qed

lemma length_filter_not_conj:
  "length (filter (\<lambda>x. \<not> (P x \<and> Q x)) xs) = length (filter (\<lambda>x. \<not> P x) xs) + length (filter (\<lambda>x. \<not> Q x) (filter P xs))"
  by (induction xs) auto

text \<open>What one step keeps and what it removes.\<close>

definition removable :: "(ustring \<Rightarrow> json option) \<Rightarrow> time \<Rightarrow> archive \<Rightarrow> result \<Rightarrow> bool" where
  "removable profiles now a r \<longleftrightarrow> r_kind r \<in> set inspection_kinds \<and> alert_processing_complete (av_db a) r
     \<and> (\<exists>(setting, days) \<in> set record_retention_days. record_setting profiles (av_db a) r = Some (JStr (asc setting))
          \<and> r_created_at r < days_ago now days)"

definition cleaned :: "(ustring \<Rightarrow> json option) \<Rightarrow> time \<Rightarrow> archive \<Rightarrow> archive \<times> nat \<Rightarrow> bool" where
  "cleaned profiles now a acc \<longleftrightarrow> (\<exists>P. fst acc = a\<lparr>av_db := (av_db a)\<lparr>results := filter P (av_results a)\<rparr>\<rparr>
     \<and> snd acc = length (filter (\<lambda>r. \<not> P r) (av_results a))
     \<and> (\<forall>r \<in> set (av_results a). \<not> P r \<longrightarrow> removable profiles now a r)
     \<and> (\<forall>kind asset. newest_record (fst acc) kind asset = newest_record a kind asset))"

lemma same_db [simp]:
  "record_setting profiles (d\<lparr>results := rs\<rparr>) r = record_setting profiles d r"
  "alert_processing_complete (d\<lparr>results := rs\<rparr>) r = alert_processing_complete d r"
  by (simp_all add: record_setting_def record_task_def alert_processing_complete_def cong: option.case_cong)

lemma cleanup_setting_cleaned:
  assumes keys: "keys_unique a" and acc: "cleaned profiles now a acc"
    and ksd: "fst ksd \<in> set inspection_kinds" "snd ksd \<in> set record_retention_days"
  shows "cleaned profiles now a (cleanup_setting profiles now limit ksd acc)"
proof -
  obtain P where P: "fst acc = a\<lparr>av_db := (av_db a)\<lparr>results := filter P (av_results a)\<rparr>\<rparr>"
      "snd acc = length (filter (\<lambda>r. \<not> P r) (av_results a))"
      "\<forall>r \<in> set (av_results a). \<not> P r \<longrightarrow> removable profiles now a r"
      "\<forall>kind asset. newest_record (fst acc) kind asset = newest_record a kind asset"
    using acc unfolding cleaned_def by blast
  let ?b = "fst acc" and ?e = "expired_record profiles now (fst acc) (fst ksd) (snd ksd)"
  define sel where "sel = take limit (sort_key r_created_at (filter ?e (av_results ?b)))"
  let ?ids = "map r_id sel"
  have ids: "expired_ids profiles now limit ?b (fst ksd) (snd ksd) = ?ids" by (simp add: expired_ids_def sel_def)
  have chosen: "r \<in> set (filter P (av_results a)) \<and> ?e r" if "r \<in> set sel" for r
    using in_set_takeD [OF that [unfolded sel_def]] by (simp add: P(1))
  have gone: "(r_kind r = fst ksd \<and> r_id r \<in> set ?ids \<and> alert_processing_complete (av_db ?b) r) \<longleftrightarrow> r \<in> set sel"
    if r: "r \<in> set (filter P (av_results a))" for r
  proof
    assume "r_kind r = fst ksd \<and> r_id r \<in> set ?ids \<and> alert_processing_complete (av_db ?b) r"
    then obtain s where s: "s \<in> set sel" "r_id r = r_id s" "r_kind r = fst ksd" by auto
    with chosen [OF s(1)] r have "r = s" by (intro same_record [OF keys]) (auto simp: expired_record_def)
    with s show "r \<in> set sel" by simp
  next
    assume "r \<in> set sel"
    with chosen [OF this] show "r_kind r = fst ksd \<and> r_id r \<in> set ?ids \<and> alert_processing_complete (av_db ?b) r"
      by (auto simp: expired_record_def)
  qed
  let ?P = "\<lambda>r. P r \<and> r \<notin> set sel"
  have "filter (\<lambda>r. \<not> (r_kind r = fst ksd \<and> r_id r \<in> set ?ids \<and> alert_processing_complete (av_db ?b) r)) (filter P (av_results a))
      = filter (\<lambda>r. r \<notin> set sel) (filter P (av_results a))"
    using gone by (intro filter_cong) simp_all
  then have eq: "delete_records (fst ksd) ?ids ?b = a\<lparr>av_db := (av_db a)\<lparr>results := filter ?P (av_results a)\<rparr>\<rparr>"
    by (simp add: delete_records_def P(1) filter_filter conj_commute)
  have dist: "distinct (av_results a)" using keys by (simp add: keys_unique_def distinct_map)
  then have "distinct sel" by (simp add: P(1) sel_def)
  then have "length sel = card (set sel)" by (rule distinct_card [symmetric])
  also have "set sel = set (filter (\<lambda>r. \<not> r \<notin> set sel) (filter P (av_results a)))" using chosen by auto
  also have "card \<dots> = length (filter (\<lambda>r. \<not> r \<notin> set sel) (filter P (av_results a)))"
    by (rule distinct_card) (simp add: dist)
  finally have count: "snd acc + length ?ids = length (filter (\<lambda>r. \<not> ?P r) (av_results a))"
    unfolding length_filter_not_conj P(2) by simp
  have removed: "removable profiles now a r" if "r \<in> set (av_results a)" "\<not> ?P r" for r
  proof (cases "P r")
    case True
    then have "?e r" using that chosen by blast
    then show ?thesis using ksd unfolding expired_record_def removable_def by (auto simp: P(1) intro!: bexI [of _ "snd ksd"])
  qed (use P(3) that in blast)
  have newest: "newest_record (delete_records (fst ksd) ?ids ?b) kind asset = newest_record a kind asset" for kind asset
  proof (rule newest_filter)
    show "results (av_db (delete_records (fst ksd) ?ids ?b)) = filter ?P (av_results a)"
      "av_asset (delete_records (fst ksd) ?ids ?b) = av_asset a" by (simp_all add: eq)
    fix r assume "newest_record a kind asset = Some r"
    then have n: "newest_record ?b kind asset = Some r" using P(4) by simp
    from newest_mem [OF n] n have "is_newest ?b r" and "P r" by (auto simp: is_newest_def P(1))
    then show "?P r" using chosen [of r] by (auto simp: expired_record_def)
  qed
  show ?thesis unfolding cleaned_def cleanup_setting_def Let_def ids fst_conv snd_conv
    using eq count removed newest by (intro exI [of _ ?P] conjI) auto
qed

lemma cleanup_cleaned:
  assumes "keys_unique a" and "\<forall>ksd \<in> set steps. fst ksd \<in> set inspection_kinds \<and> snd ksd \<in> set record_retention_days"
    and "cleaned profiles now a acc"
  shows "cleaned profiles now a (fold (cleanup_setting profiles now limit) steps acc)"
  using assms(2,3)
proof (induction steps arbitrary: acc)
  case (Cons ksd steps)
  then have "cleaned profiles now a (cleanup_setting profiles now limit ksd acc)"
    by (intro cleanup_setting_cleaned [OF assms(1)]) simp_all
  with Cons show ?case by simp
qed simp

lemma cleaned_start: "cleaned profiles now a (a, 0)"
  unfolding cleaned_def by (intro exI [of _ "\<lambda>_. True"]) simp

text \<open>C16. A cleanup of inspection records touches nothing but records past the window of the retention they were made under,
  whose alerts are all processed, and of every asset it leaves the newest record, so that the state of the asset lists
  stays what it was; it reports how many records went.\<close>

theorem cleanup_keeps_newest_records:
  assumes "keys_unique a" and "cleanup_inspection_records profiles now limit a = (b, n)"
  shows "\<exists>kept. b = a\<lparr>av_db := (av_db a)\<lparr>results := filter kept (av_results a)\<rparr>\<rparr>
    \<and> n = length (filter (\<lambda>r. \<not> kept r) (av_results a))
    \<and> (\<forall>r \<in> set (av_results a). \<not> kept r \<longrightarrow> removable profiles now a r)
    \<and> (\<forall>kind asset. newest_record b kind asset = newest_record a kind asset)"
proof -
  have "cleaned profiles now a (b, n)"
    using cleanup_cleaned [OF assms(1), of "List.product inspection_kinds record_retention_days" profiles now "(a, 0)" limit]
      cleaned_start assms(2) by (simp add: cleanup_inspection_records_def)
  then show ?thesis by (simp add: cleaned_def)
qed

section \<open>Task history\<close>

text \<open>The references of an archive: they come from the listed models and lead to rows that exist.\<close>

definition links_resolve :: "archive \<Rightarrow> bool" where
  "links_resolve a \<longleftrightarrow> (\<forall>(m, i) \<in> set (av_task_links a). m \<in> set task_blockers \<and> i \<in> t_id ` set (tasks (av_db a)))
     \<and> (\<forall>(m, i) \<in> set (all_target_links a). m \<in> set target_blockers \<and> i \<in> g_id ` set (targets (av_db a)))
     \<and> (\<forall>g \<in> set (targets (av_db a)). g_task g \<in> t_id ` set (tasks (av_db a)))"

definition tidied :: "nat \<Rightarrow> time \<Rightarrow> archive \<Rightarrow> archive \<times> nat \<Rightarrow> bool" where
  "tidied days now a acc \<longleftrightarrow> (\<exists>gone. finite gone
     \<and> fst acc = a\<lparr>av_db := (av_db a)\<lparr>targets := filter (\<lambda>g. g_task g \<notin> gone) (targets (av_db a)),
         tasks := filter (\<lambda>t. t_id t \<notin> gone) (tasks (av_db a))\<rparr>\<rparr>
     \<and> (\<forall>t \<in> set (tasks (av_db a)). t_id t \<in> gone \<longrightarrow> finished_before (days_ago now days) t \<and> \<not> task_held a t))"

lemma cleanup_task_tidied:
  assumes "tidied days now a acc" and "finished_before (days_ago now days) t"
    and "\<And>u. u \<in> set (tasks (av_db a)) \<Longrightarrow> t_id u = t_id t \<Longrightarrow> u = t"
  shows "tidied days now a (cleanup_task t acc)"
proof (cases "task_held (fst acc) t")
  case True
  with assms(1) show ?thesis by (simp add: cleanup_task_def)
next
  case False
  obtain gone where gone: "finite gone" "fst acc = a\<lparr>av_db := (av_db a)\<lparr>targets := filter (\<lambda>g. g_task g \<notin> gone) (targets (av_db a)),
         tasks := filter (\<lambda>t. t_id t \<notin> gone) (tasks (av_db a))\<rparr>\<rparr>"
      "\<forall>t \<in> set (tasks (av_db a)). t_id t \<in> gone \<longrightarrow> finished_before (days_ago now days) t \<and> \<not> task_held a t"
    using assms(1) unfolding tidied_def by blast
  have free: "\<not> task_held a t" if "t_id t \<notin> gone"
    using False that by (auto simp: task_held_def gone(2) all_target_links_def list_ex_iff)
  have "fst (cleanup_task t acc) = a\<lparr>av_db := (av_db a)\<lparr>targets := filter (\<lambda>g. g_task g \<notin> insert (t_id t) gone) (targets (av_db a)),
         tasks := filter (\<lambda>u. t_id u \<notin> insert (t_id t) gone) (tasks (av_db a))\<rparr>\<rparr>"
    using False by (simp add: cleanup_task_def remove_task_def gone(2) conj_commute)
  moreover have "finished_before (days_ago now days) u \<and> \<not> task_held a u"
    if "u \<in> set (tasks (av_db a))" "t_id u \<in> insert (t_id t) gone" for u
    using that gone(3) free assms(2,3) by (cases "t_id u \<in> gone") auto
  ultimately show ?thesis unfolding tidied_def using gone(1) by (intro exI [of _ "insert (t_id t) gone"]) blast
qed

lemma cleanup_tasks_tidied:
  assumes "distinct (map t_id (tasks (av_db a)))" and "\<forall>t \<in> set ts. t \<in> set (tasks (av_db a)) \<and> finished_before (days_ago now days) t"
    and "tidied days now a acc"
  shows "tidied days now a (fold cleanup_task ts acc)"
  using assms(2,3)
proof (induction ts arbitrary: acc)
  case (Cons t ts)
  have "u = t" if "u \<in> set (tasks (av_db a))" "t_id u = t_id t" for u
    using assms(1) Cons.prems(1) that by (auto simp: distinct_map dest: inj_onD)
  with Cons show ?case by (simp add: cleanup_task_tidied)
qed simp

lemma tidied_start: "tidied days now a (a, 0)"
  unfolding tidied_def by (intro exI [of _ "{}"]) simp

lemma cleanup_count: "snd (fold cleanup_task ts acc) \<le> snd acc + length ts"
proof (induction ts arbitrary: acc)
  case (Cons t ts)
  show ?case using Cons [of "cleanup_task t acc"] by (auto simp: cleanup_task_def split: if_splits)
qed simp

lemma history_candidates_mem:
  "t \<in> set (history_candidates days now limit a) \<Longrightarrow> t \<in> set (tasks (av_db a)) \<and> finished_before (days_ago now days) t"
  unfolding history_candidates_def by (auto dest: in_set_takeD)

text \<open>A candidate that is held keeps its place among the oldest: when all of them are held, no younger task is ever looked at.\<close>

lemma held_candidates_block_cleanup:
  assumes "\<forall>t \<in> set (history_candidates days now limit a). task_held a t"
  shows "cleanup_task_history days now limit a = (a, 0)"
proof -
  have "fold cleanup_task ts (a, 0) = (a, 0)" if "\<forall>t \<in> set ts. task_held a t" for ts
    using that by (induction ts) (simp_all add: cleanup_task_def)
  then show ?thesis using assms by (simp add: cleanup_task_history_def)
qed


section \<open>An example\<close>

text \<open>Two records of one device, and an ended task that nothing refers to.\<close>

definition demo_archive_db :: db where
  "demo_archive_db = demo_store
     [demo_finished\<lparr>t_profile_snapshot := JObj [(asc ''record_retention'', JStr (asc ''30''))], t_alert_summary_processed_at := Some 0\<rparr>,
      demo_finished\<lparr>t_id := asc ''t9''\<rparr>]
     [demo_done\<lparr>g_alert_processed_at := Some 0\<rparr>, demo_done\<lparr>g_id := asc ''g9'', g_task := asc ''t9''\<rparr>]"

definition demo_archived :: "ustring \<Rightarrow> time \<Rightarrow> result" where
  "demo_archived i t = \<lparr>r_kind = asc ''network_device_inspection'', r_id = i, r_target = asc ''g1'', r_status = Success, r_summary = [],
     r_daily = None, r_created_at = t\<rparr>"

definition demo_archive :: archive where
  "demo_archive = \<lparr>av_db = demo_archive_db\<lparr>results := [demo_archived (asc ''r1'') 0, demo_archived (asc ''r2'') 5]\<rparr>,
     av_asset = (\<lambda>_ _. asc ''d''), av_task_links = [], av_target_links = []\<rparr>"

lemma cleanup_keeps_newest_records_witness:
  "map r_id (av_results (fst (cleanup_inspection_records (\<lambda>_. None) (seconds 8640000) 200 demo_archive))) = [asc ''r2'']
    \<and> newest_record (fst (cleanup_inspection_records (\<lambda>_. None) (seconds 8640000) 200 demo_archive)) (asc ''network_device_inspection'') (asc ''d'')
      = Some (demo_archived (asc ''r2'') 5)"
proof -
  have keys: "keys_unique demo_archive" unfolding keys_unique_def by code_simp
  obtain b n where b: "cleanup_inspection_records (\<lambda>_. None) (seconds 8640000) 200 demo_archive = (b, n)" by fastforce
  have "map r_id (av_results (fst (cleanup_inspection_records (\<lambda>_. None) (seconds 8640000) 200 demo_archive))) = [asc ''r2'']"
    by code_simp
  moreover have "newest_record demo_archive (asc ''network_device_inspection'') (asc ''d'') = Some (demo_archived (asc ''r2'') 5)"
    by code_simp
  ultimately show ?thesis using cleanup_keeps_newest_records [OF keys b] b by auto
qed


end
