(* ===== verification/Directory.thy ===== *)
theory Directory
  imports Json
begin

text \<open>
  The personnel directory of \<open>net/people/directory/sync.py\<close> with the rows of \<open>net/models/people.py\<close> and
  \<open>net/models/integrations.py\<close>: a preview computes the difference between a snapshot of the provider and the local
  people and signs it; an apply verifies the signature and the unchanged state and writes the difference in one
  transaction. Signing, hashing and the calendar are arguments.
\<close>

section \<open>Rows\<close>

type_synonym day = int

record person =
  pe_id :: ustring
  pe_name :: "ustring option"
  pe_employee :: "ustring option"
  pe_email :: "ustring option"
  pe_phone :: ustring
  pe_department :: "ustring option"
  pe_leader :: "ustring option"
  pe_active :: bool
  pe_source :: ustring
  pe_sync_source :: "ustring option"
  pe_platform :: ustring
  pe_last_synced :: "time option"
  pe_hire :: "day option"
  pe_departure :: "day option"

record source_row =
  ds_id :: ustring
  ds_type :: ustring
  ds_name :: ustring
  ds_key :: ustring
  ds_credentials :: "(ustring \<times> ustring) list"
  ds_roots :: "ustring list"
  ds_enabled :: bool
  ds_last_synced :: "time option"
  ds_updated_at :: "time option"

record directory =
  dr_people :: "person list"
  dr_sources :: "source_row list"

text \<open>\<open>_SOURCE_KEY_RE\<close> and \<open>PeopleSyncSource.clean\<close> with the field checks of \<open>full_clean\<close>.\<close>

definition ascii_alnum :: "nat \<Rightarrow> bool" where
  "ascii_alnum c \<longleftrightarrow> (48 \<le> c \<and> c \<le> 57) \<or> (65 \<le> c \<and> c \<le> 90) \<or> (97 \<le> c \<and> c \<le> 122)"

definition source_key_ok :: "ustring \<Rightarrow> bool" where
  "source_key_ok s \<longleftrightarrow> (case s of [] \<Rightarrow> False
     | c # cs \<Rightarrow> ascii_alnum c \<and> length cs \<le> 190 \<and> (\<forall>x \<in> set cs. ascii_alnum x \<or> x \<in> {45, 46, 58, 95}))"

definition credential_fields :: "ustring \<Rightarrow> ustring list option" where
  "credential_fields ty =
     (if ty = asc ''feishu'' then Some [asc ''app_id'', asc ''app_secret'']
      else if ty = asc ''dingtalk'' then Some [asc ''app_key'', asc ''app_secret'']
      else None)"

definition credentials_ok :: "ustring \<Rightarrow> (ustring \<times> ustring) list \<Rightarrow> bool" where
  "credentials_ok ty cs \<longleftrightarrow> (case credential_fields ty of None \<Rightarrow> False
     | Some fs \<Rightarrow> set (map fst cs) = set fs \<and> (\<forall>(k, v) \<in> set cs. strip v \<noteq> []))"

definition root_departments_ok :: "ustring list \<Rightarrow> bool" where
  "root_departments_ok rs \<longleftrightarrow> (\<forall>r \<in> set rs. strip r \<noteq> []) \<and> distinct (map strip rs)"

definition source_valid :: "source_row list \<Rightarrow> source_row \<Rightarrow> bool" where
  "source_valid rows s \<longleftrightarrow>
     ds_type s \<in> {asc ''feishu'', asc ''dingtalk''} \<and> ds_name s \<noteq> [] \<and> length (ds_name s) \<le> 255
     \<and> length (ds_key s) \<le> 191 \<and> source_key_ok (ds_key s)
     \<and> credentials_ok (ds_type s) (ds_credentials s) \<and> root_departments_ok (ds_roots s)
     \<and> (\<forall>r \<in> set rows. ds_key r = ds_key s \<longrightarrow> ds_id r = ds_id s)"

text \<open>The field checks of \<open>People.full_clean(validate_unique=False)\<close> (\<open>_validate_person\<close>).\<close>

definition short_text :: "ustring option \<Rightarrow> bool" where
  "short_text v \<longleftrightarrow> (case v of None \<Rightarrow> True | Some s \<Rightarrow> length s \<le> 255)"

definition person_valid :: "source_row list \<Rightarrow> person \<Rightarrow> bool" where
  "person_valid rows p \<longleftrightarrow>
     short_text (pe_name p) \<and> short_text (pe_employee p) \<and> short_text (pe_email p) \<and> length (pe_phone p) \<le> 64
     \<and> short_text (pe_department p) \<and> short_text (pe_leader p) \<and> pe_source p \<noteq> [] \<and> length (pe_source p) \<le> 20
     \<and> length (pe_platform p) \<le> 255
     \<and> (case pe_sync_source p of None \<Rightarrow> True | Some i \<Rightarrow> find_row ds_id i rows \<noteq> None)"

section \<open>Provider records\<close>

text \<open>\<open>DirectoryPerson\<close>: its texts are stripped and its employee number is not empty.\<close>

record directory_person =
  dp_employee :: ustring
  dp_name :: ustring
  dp_email :: ustring
  dp_department :: ustring
  dp_leader :: ustring
  dp_external :: ustring
  dp_phone :: ustring
  dp_hire :: ustring
  dp_departure :: ustring

text \<open>The dictionary \<open>record\<close>: a date is a key of it only when it is not empty.\<close>

record sync_record =
  sr_employee :: ustring
  sr_name :: ustring
  sr_email :: ustring
  sr_department :: ustring
  sr_leader :: ustring
  sr_external :: ustring
  sr_phone :: ustring
  sr_hire :: "ustring option"
  sr_departure :: "ustring option"

record sync_preview =
  sp_source_key :: ustring
  sp_creates :: "sync_record list"
  sp_updates :: "sync_record list"
  sp_unchanged :: "ustring list"
  sp_deactivations :: "ustring option list"
  sp_skipped :: "(ustring \<times> ustring) list"
  sp_messages :: "string list"

text \<open>\<open>_source_config\<close>, and the signed payload: version, source, its configuration, the fingerprint of the people and the
  hash of the preview.\<close>

record source_config =
  sc_id :: ustring
  sc_key :: ustring
  sc_type :: ustring
  sc_roots :: "ustring list"
  sc_enabled :: bool
  sc_updated_at :: "time option"
  sc_last_synced :: "time option"
  sc_identity :: "ustring \<times> ustring"

record signed_preview =
  sg_version :: int
  sg_source :: ustring
  sg_config :: source_config
  sg_fingerprint :: ustring
  sg_hash :: ustring

text \<open>
  The library: \<open>date.fromisoformat\<close>, \<open>timezone.localdate\<close>, \<open>signing.dumps\<close> at an instant, \<open>signing.loads\<close> at an instant
  with a maximal age in seconds, the SHA-256 of the canonical JSON of the people and of a preview, and the keyed digest of the
  fetch configuration.
\<close>

record sync_lib =
  iso_date :: "ustring \<Rightarrow> day option"
  local_date :: "time \<Rightarrow> day"
  dumps :: "signed_preview \<Rightarrow> time \<Rightarrow> ustring"
  loads :: "ustring \<Rightarrow> int \<Rightarrow> time \<Rightarrow> signed_preview option"
  hash_people :: "person list \<Rightarrow> ustring"
  hash_preview :: "sync_preview \<Rightarrow> ustring"
  fetch_digest :: "ustring \<times> ustring \<times> ustring list \<times> bool \<times> (ustring \<times> ustring) list \<Rightarrow> ustring"

text \<open>\<open>directory_source_configuration_identity\<close>.\<close>

definition fetch_identity :: "sync_lib \<Rightarrow> source_row \<Rightarrow> ustring \<times> ustring" where
  "fetch_identity lib s =
     (ds_key s, fetch_digest lib (ds_key s, ds_type s, ds_roots s, ds_enabled s, ds_credentials s))"

definition source_config_of :: "sync_lib \<Rightarrow> source_row \<Rightarrow> source_config" where
  "source_config_of lib s =
     \<lparr>sc_id = ds_id s, sc_key = ds_key s, sc_type = ds_type s, sc_roots = ds_roots s, sc_enabled = ds_enabled s,
      sc_updated_at = ds_updated_at s, sc_last_synced = ds_last_synced s, sc_identity = fetch_identity lib s\<rparr>"

section \<open>Records and people\<close>

definition record_date :: "sync_lib \<Rightarrow> ustring option \<Rightarrow> day option" where
  "record_date lib v = (case v of None \<Rightarrow> None | Some s \<Rightarrow> if s = [] then None else iso_date lib s)"

text \<open>\<open>_validate_record_shape\<close>: the keys and the types are those of the record type; the dates that are present parse.\<close>

definition record_shape_ok :: "sync_lib \<Rightarrow> sync_record \<Rightarrow> bool" where
  "record_shape_ok lib r \<longleftrightarrow>
     (case sr_hire r of None \<Rightarrow> True | Some s \<Rightarrow> iso_date lib s \<noteq> None)
     \<and> (case sr_departure r of None \<Rightarrow> True | Some s \<Rightarrow> iso_date lib s \<noteq> None)"

definition person_from_record :: "sync_lib \<Rightarrow> ustring \<Rightarrow> source_row \<Rightarrow> sync_record \<Rightarrow> time option \<Rightarrow> person" where
  "person_from_record lib i s r synced =
     \<lparr>pe_id = i, pe_name = Some (sr_name r), pe_employee = Some (sr_employee r), pe_email = Some (sr_email r),
      pe_phone = sr_phone r, pe_department = Some (sr_department r), pe_leader = Some (sr_leader r), pe_active = True,
      pe_source = ds_type s, pe_sync_source = Some (ds_id s), pe_platform = sr_external r, pe_last_synced = synced,
      pe_hire = record_date lib (sr_hire r), pe_departure = record_date lib (sr_departure r)\<rparr>"

definition set_person_record :: "sync_lib \<Rightarrow> source_row \<Rightarrow> sync_record \<Rightarrow> time \<Rightarrow> person \<Rightarrow> person" where
  "set_person_record lib s r now p =
     p\<lparr>pe_name := Some (sr_name r), pe_email := Some (sr_email r), pe_phone := sr_phone r,
       pe_department := Some (sr_department r), pe_leader := Some (sr_leader r), pe_platform := sr_external r,
       pe_source := ds_type s, pe_sync_source := Some (ds_id s), pe_active := True, pe_last_synced := Some now,
       pe_hire := (if sr_hire r = None then pe_hire p else record_date lib (sr_hire r)),
       pe_departure := (if sr_departure r = None then pe_departure p else record_date lib (sr_departure r))\<rparr>"

definition deactivated :: "sync_lib \<Rightarrow> time \<Rightarrow> person \<Rightarrow> person" where
  "deactivated lib now p =
     p\<lparr>pe_active := False, pe_departure := (case pe_departure p of None \<Rightarrow> Some (local_date lib now) | Some d \<Rightarrow> Some d),
       pe_last_synced := Some now\<rparr>"

definition owned_by_source :: "source_row \<Rightarrow> person \<Rightarrow> bool" where
  "owned_by_source s p \<longleftrightarrow> pe_sync_source p = Some (ds_id s) \<and> pe_source p = ds_type s"

definition claimable_by_source :: "person \<Rightarrow> bool" where
  "claimable_by_source p \<longleftrightarrow> pe_sync_source p = None \<and> pe_source p \<in> {asc ''manual'', asc ''csv''}"

definition text_or_empty :: "ustring option \<Rightarrow> ustring" where
  "text_or_empty v = (case v of None \<Rightarrow> [] | Some s \<Rightarrow> s)"

definition person_matches_record :: "sync_lib \<Rightarrow> person \<Rightarrow> sync_record \<Rightarrow> bool" where
  "person_matches_record lib p r \<longleftrightarrow>
     text_or_empty (pe_name p) = sr_name r \<and> text_or_empty (pe_email p) = sr_email r
     \<and> text_or_empty (pe_department p) = sr_department r \<and> text_or_empty (pe_leader p) = sr_leader r
     \<and> pe_platform p = sr_external r \<and> pe_active p \<and> pe_phone p = sr_phone r
     \<and> (sr_hire r = None \<or> pe_hire p = record_date lib (sr_hire r))
     \<and> (sr_departure r = None \<or> pe_departure p = record_date lib (sr_departure r))"

section \<open>The snapshot\<close>

text \<open>\<open>_record_from_directory_person\<close>; \<open>None\<close> is an object of another class.\<close>

definition record_of_person :: "directory_person \<Rightarrow> sync_record" where
  "record_of_person q =
     \<lparr>sr_employee = dp_employee q, sr_name = dp_name q, sr_email = dp_email q, sr_department = dp_department q,
      sr_leader = dp_leader q, sr_external = dp_external q, sr_phone = dp_phone q,
      sr_hire = (if dp_hire q = [] then None else Some (dp_hire q)),
      sr_departure = (if dp_departure q = [] then None else Some (dp_departure q))\<rparr>"

definition checked_record ::
    "sync_lib \<Rightarrow> source_row list \<Rightarrow> source_row \<Rightarrow> directory_person option \<Rightarrow> sync_record option" where
  "checked_record lib rows s q = (case q of None \<Rightarrow> None
     | Some q \<Rightarrow> (let r = record_of_person q
        in if record_shape_ok lib r \<and> person_valid rows (person_from_record lib [] s r None) then Some r else None))"

text \<open>\<open>_normalize_remote_people\<close>: the records by employee number, in the order of their first occurrence.\<close>

definition normalize_one ::
    "sync_lib \<Rightarrow> source_row list \<Rightarrow> source_row \<Rightarrow> directory_person option
      \<Rightarrow> sync_record list \<times> string list \<Rightarrow> sync_record list \<times> string list" where
  "normalize_one lib rows s q acc = (case acc of (records, messages) \<Rightarrow>
     (case checked_record lib rows s q of
        None \<Rightarrow> (records, messages @ [''invalid_record''])
      | Some r \<Rightarrow> (case find_row sr_employee (sr_employee r) records of
           None \<Rightarrow> (records @ [r], messages)
         | Some old \<Rightarrow> if old \<noteq> r then (records, messages @ [''duplicate_employee'']) else (records, messages))))"

definition deduplicated :: "'a list \<Rightarrow> 'a list" where
  "deduplicated xs = rev (remdups (rev xs))"

definition normalize_remote_people ::
    "sync_lib \<Rightarrow> source_row list \<Rightarrow> source_row \<Rightarrow> directory_person option list \<Rightarrow> sync_record list \<times> string list" where
  "normalize_remote_people lib rows s people =
     (case fold (normalize_one lib rows s) people ([], []) of (records, messages) \<Rightarrow> (records, deduplicated messages))"

text \<open>\<open>_safe_skipped_records\<close>; \<open>None\<close> is a value that is neither a list nor a tuple.\<close>

definition reason_ok :: "ustring \<Rightarrow> bool" where
  "reason_ok s \<longleftrightarrow> 1 \<le> length s \<and> length s \<le> 64
     \<and> (\<forall>c \<in> set s. (97 \<le> c \<and> c \<le> 122) \<or> (48 \<le> c \<and> c \<le> 57) \<or> c \<in> {45, 58, 95})"

definition skipped_record :: "json \<Rightarrow> (ustring \<times> ustring) option" where
  "skipped_record j = (case (j, jget ''external_user_id'' j, jget ''reason'' j) of
     (JObj kvs, Some (JStr e), Some (JStr r)) \<Rightarrow>
       if set (map fst kvs) = {asc ''external_user_id'', asc ''reason''} \<and> strip e \<noteq> [] \<and> length (strip e) \<le> 255
          \<and> reason_ok r
       then Some (strip e, r) else None
   | _ \<Rightarrow> None)"

definition safe_skipped_records :: "json list option \<Rightarrow> (ustring \<times> ustring) list \<times> string list" where
  "safe_skipped_records js = (case js of
     None \<Rightarrow> ([], [''invalid_skipped''])
   | Some js \<Rightarrow>
       (sort (fold (\<lambda>j safe. case skipped_record j of None \<Rightarrow> safe | Some x \<Rightarrow> if x \<in> set safe then safe else safe @ [x]) js []),
        if list_all (\<lambda>j. skipped_record j \<noteq> None) js then [] else [''invalid_skipped'']))"

section \<open>Preview\<close>

text \<open>What an adapter answers: its source key and identity (\<open>None\<close> when they are malformed), the people or the exception of
  \<open>iter_people\<close>, whether the snapshot is complete, and the skipped records.\<close>

datatype fetch_error = DirectoryAdapterError | OtherError

record adapter =
  ad_key :: "ustring option"
  ad_identity :: "(ustring \<times> ustring) option"
  ad_people :: "fetch_error + directory_person option list"
  ad_complete :: bool
  ad_skipped :: "json list option"

text \<open>The exceptions of a preview: the adapter's own, \<open>PeopleSyncPreviewError\<close> and the \<open>TypeError\<close> of comparing \<open>None\<close> with a
  text.\<close>

datatype preview_error = AdapterFailed | PeopleSyncPreviewError | UnorderedTypes

definition person_index :: "person list \<Rightarrow> ustring \<Rightarrow> person option" where
  "person_index people =
     fold (\<lambda>p m. case pe_employee p of None \<Rightarrow> m | Some e \<Rightarrow> if e = [] then m else m(e \<mapsto> p)) people Map.empty"

datatype difference = Create | Update | Unchanged | Conflict

definition difference_of :: "sync_lib \<Rightarrow> source_row \<Rightarrow> person list \<Rightarrow> sync_record \<Rightarrow> difference" where
  "difference_of lib s people r = (case person_index people (sr_employee r) of
     None \<Rightarrow> Create
   | Some p \<Rightarrow>
       if owned_by_source s p \<or> claimable_by_source p
       then (if person_matches_record lib p r then Unchanged else Update) else Conflict)"

definition invalid_preview :: "ustring \<Rightarrow> string list \<Rightarrow> (ustring \<times> ustring) list \<Rightarrow> sync_preview" where
  "invalid_preview key messages skipped =
     \<lparr>sp_source_key = key, sp_creates = [], sp_updates = [], sp_unchanged = [], sp_deactivations = [],
      sp_skipped = skipped, sp_messages = deduplicated messages\<rparr>"

definition missing_people :: "source_row \<Rightarrow> sync_record list \<Rightarrow> (ustring \<times> ustring) list \<Rightarrow> person list \<Rightarrow> person list" where
  "missing_people s records skipped people =
     filter (\<lambda>p. owned_by_source s p \<and> pe_active p \<and> pe_employee p \<notin> Some ` sr_employee ` set records
        \<and> pe_platform p \<notin> fst ` set skipped) people"

text \<open>\<open>deactivations.sort\<close> compares the employee numbers: a \<open>None\<close> among two or more raises.\<close>

definition sorted_numbers :: "ustring option list \<Rightarrow> (preview_error, ustring option list) sum" where
  "sorted_numbers es = (if length es \<ge> 2 \<and> None \<in> set es then Inl UnorderedTypes else Inr (sort es))"

definition signed_payload :: "sync_lib \<Rightarrow> source_row \<Rightarrow> person list \<Rightarrow> sync_preview \<Rightarrow> signed_preview" where
  "signed_payload lib s people v =
     \<lparr>sg_version = 3, sg_source = ds_id s, sg_config = source_config_of lib s,
      sg_fingerprint = hash_people lib people, sg_hash = hash_preview lib v\<rparr>"

definition sign_preview :: "sync_lib \<Rightarrow> source_row \<Rightarrow> person list \<Rightarrow> sync_preview \<Rightarrow> time \<Rightarrow> ustring" where
  "sign_preview lib s people v t = dumps lib (signed_payload lib s people v) t"

definition valid_preview ::
    "sync_lib \<Rightarrow> source_row \<Rightarrow> person list \<Rightarrow> sync_record list \<Rightarrow> (ustring \<times> ustring) list \<Rightarrow> ustring \<Rightarrow> time
      \<Rightarrow> preview_error + sync_preview \<times> ustring" where
  "valid_preview lib s people records skipped key t =
     (let ordered = sort_key sr_employee records; kind = difference_of lib s people
      in if \<exists>r \<in> set ordered. kind r = Conflict
         then Inr (invalid_preview key [''protected_person''] skipped, [])
         else (case sorted_numbers (map pe_employee (missing_people s records skipped people)) of
            Inl e \<Rightarrow> Inl e
          | Inr gone \<Rightarrow>
              let v = \<lparr>sp_source_key = key, sp_creates = filter (\<lambda>r. kind r = Create) ordered,
                    sp_updates = filter (\<lambda>r. kind r = Update) ordered,
                    sp_unchanged = map sr_employee (filter (\<lambda>r. kind r = Unchanged) ordered),
                    sp_deactivations = gone, sp_skipped = skipped, sp_messages = []\<rparr>
              in Inr (v, sign_preview lib s people v t)))"

text \<open>\<open>preview_people_sync\<close> of the row \<open>src\<close> in the caller's hands: \<open>d0\<close> is the database before the fetch, \<open>d1\<close> after it.
  The result is the preview and its token.\<close>

definition preview_people_sync ::
    "sync_lib \<Rightarrow> source_row \<Rightarrow> directory \<Rightarrow> adapter \<Rightarrow> directory \<Rightarrow> time \<Rightarrow> preview_error + sync_preview \<times> ustring" where
  "preview_people_sync lib src d0 ad d1 t =
     (case find_row ds_id (ds_id src) (dr_sources d0) of
        None \<Rightarrow> Inr (invalid_preview (ds_key src) [''invalid_source''] [], [])
      | Some s0 \<Rightarrow>
          if ad_key ad \<noteq> Some (ds_key s0) then Inr (invalid_preview (ds_key s0) [''other_source''] [], [])
          else if ad_identity ad \<noteq> Some (fetch_identity lib s0)
          then Inr (invalid_preview (ds_key s0) [''other_configuration''] [], [])
          else (case ad_people ad of
             Inl DirectoryAdapterError \<Rightarrow> Inl AdapterFailed
           | Inl OtherError \<Rightarrow> Inl PeopleSyncPreviewError
           | Inr people \<Rightarrow>
               if \<not> ad_complete ad then Inr (invalid_preview (ds_key s0) [''incomplete_snapshot''] [], [])
               else (case find_row ds_id (ds_id s0) (dr_sources d1) of
                  None \<Rightarrow> Inr (invalid_preview (ds_key s0) [''invalid_source''] [], [])
                | Some s \<Rightarrow>
                    if ad_identity ad \<noteq> Some (fetch_identity lib s)
                    then Inr (invalid_preview (ds_key s0) [''changed_configuration''] [], [])
                    else (case (safe_skipped_records (ad_skipped ad), normalize_remote_people lib (dr_sources d1) s people) of
                       ((skipped, m1), (records, m2)) \<Rightarrow>
                         if m1 @ m2 \<noteq> [] then Inr (invalid_preview (ds_key s0) (m1 @ m2) skipped, [])
                         else valid_preview lib s (sort_key pe_id (dr_people d1)) records skipped (ds_key s0) t))))"

section \<open>Apply\<close>

text \<open>The people of a transaction: the rows and the dictionary from employee numbers to the objects.\<close>

record staged =
  st_rows :: "person list"
  st_index :: "ustring \<Rightarrow> ustring option"

definition staged_person :: "staged \<Rightarrow> ustring \<Rightarrow> person option" where
  "staged_person st e = (case st_index st e of None \<Rightarrow> None | Some i \<Rightarrow> find_row pe_id i (st_rows st))"

abbreviation "apply_failed \<equiv> Inl PeopleSyncApplyError"

text \<open>The three loops of \<open>_apply_locked_preview\<close>. The key of a created person is drawn by \<open>uuid4\<close>: \<open>new_id\<close>; a key in use is
  an \<open>IntegrityError\<close>, which the caller turns into the same exception.\<close>

definition create_person ::
    "sync_lib \<Rightarrow> (ustring \<Rightarrow> ustring) \<Rightarrow> source_row list \<Rightarrow> source_row \<Rightarrow> time \<Rightarrow> sync_record \<Rightarrow> staged \<Rightarrow> staged res" where
  "create_person lib new_id rows s now r st =
     (let p = person_from_record lib (new_id (sr_employee r)) s r (Some now)
      in if \<not> record_shape_ok lib r \<or> st_index st (sr_employee r) \<noteq> None \<or> \<not> person_valid rows p
            \<or> pe_id p \<in> pe_id ` set (st_rows st)
         then apply_failed
         else Inr (st\<lparr>st_rows := st_rows st @ [p], st_index := (st_index st)(sr_employee r \<mapsto> pe_id p)\<rparr>))"

definition write_person :: "source_row list \<Rightarrow> person \<Rightarrow> (person \<Rightarrow> person) \<Rightarrow> staged \<Rightarrow> staged res" where
  "write_person rows p f st =
     (if person_valid rows (f p) then Inr (st\<lparr>st_rows := upd_row pe_id (pe_id p) f (st_rows st)\<rparr>) else apply_failed)"

definition update_person ::
    "sync_lib \<Rightarrow> source_row list \<Rightarrow> source_row \<Rightarrow> time \<Rightarrow> sync_record \<Rightarrow> staged \<Rightarrow> staged res" where
  "update_person lib rows s now r st =
     (case staged_person st (sr_employee r) of
        None \<Rightarrow> apply_failed
      | Some p \<Rightarrow>
          if \<not> record_shape_ok lib r \<or> \<not> (owned_by_source s p \<or> claimable_by_source p) then apply_failed
          else write_person rows p (set_person_record lib s r now) st)"

definition deactivate_person ::
    "sync_lib \<Rightarrow> source_row list \<Rightarrow> source_row \<Rightarrow> time \<Rightarrow> ustring option \<Rightarrow> staged \<Rightarrow> staged res" where
  "deactivate_person lib rows s now e st =
     (case e of None \<Rightarrow> apply_failed
      | Some e \<Rightarrow> (case staged_person st e of
          None \<Rightarrow> apply_failed
        | Some p \<Rightarrow> if \<not> owned_by_source s p then apply_failed else write_person rows p (deactivated lib now) st))"

record sync_result =
  created_count :: nat
  updated_count :: nat
  deactivated_count :: nat
  unchanged_count :: nat

definition apply_locked_preview ::
    "sync_lib \<Rightarrow> (ustring \<Rightarrow> ustring) \<Rightarrow> directory \<Rightarrow> source_row \<Rightarrow> sync_preview \<Rightarrow> time \<Rightarrow> (directory \<times> sync_result) res" where
  "apply_locked_preview lib new_id d s v now =
     (let rows = dr_sources d;
          st = \<lparr>st_rows = dr_people d, st_index = (\<lambda>e. map_option pe_id (person_index (sort_key pe_id (dr_people d)) e))\<rparr>
      in bindr (foldr_res (create_person lib new_id rows s now) (sp_creates v) st) (\<lambda>st1.
         bindr (foldr_res (update_person lib rows s now) (sp_updates v) st1) (\<lambda>st2.
         bindr (foldr_res (deactivate_person lib rows s now) (sp_deactivations v) st2) (\<lambda>st3.
           Inr (d\<lparr>dr_people := st_rows st3,
                  dr_sources := upd_row ds_id (ds_id s) (\<lambda>s. s\<lparr>ds_last_synced := Some now\<rparr>) (dr_sources d)\<rparr>,
                \<lparr>created_count = length (sp_creates v), updated_count = length (sp_updates v),
                 deactivated_count = length (sp_deactivations v), unchanged_count = length (sp_unchanged v)\<rparr>)))))"

text \<open>\<open>_load_signed_preview\<close> of the source \<open>i\<close>, then \<open>apply_people_sync\<close>: the age is checked at \<open>checked\<close>, the rows are
  written with \<open>now\<close>.\<close>

definition preview_max_age :: int where
  "preview_max_age = 300"

definition load_signed_preview :: "sync_lib \<Rightarrow> ustring \<Rightarrow> sync_preview \<Rightarrow> ustring \<Rightarrow> time \<Rightarrow> signed_preview res" where
  "load_signed_preview lib i v token checked =
     (case loads lib token preview_max_age checked of
        None \<Rightarrow> apply_failed
      | Some g \<Rightarrow> if sg_version g \<noteq> 3 \<or> sg_source g \<noteq> i \<or> sg_hash g \<noteq> hash_preview lib v then apply_failed else Inr g)"

definition apply_people_sync ::
    "sync_lib \<Rightarrow> (ustring \<Rightarrow> ustring) \<Rightarrow> directory \<Rightarrow> ustring \<Rightarrow> sync_preview \<Rightarrow> ustring \<Rightarrow> time \<Rightarrow> time
      \<Rightarrow> (directory \<times> sync_result) res" where
  "apply_people_sync lib new_id d i v token checked now =
     (if sp_messages v \<noteq> [] \<or> token = [] then apply_failed
      else bindr (load_signed_preview lib i v token checked) (\<lambda>g.
        case find_row ds_id i (dr_sources d) of
          None \<Rightarrow> apply_failed
        | Some s \<Rightarrow>
            if source_config_of lib s \<noteq> sg_config g
               \<or> hash_people lib (sort_key pe_id (dr_people d)) \<noteq> sg_fingerprint g
               \<or> \<not> source_valid (dr_sources d) s
            then apply_failed
            else apply_locked_preview lib new_id d s v now))"

end
