(* ===== verification/DirectoryWalk.thy ===== *)
theory DirectoryWalk
  imports Directory
begin

text \<open>
  The reader of a DingTalk directory, \<open>net/people/directory/dingtalk.py\<close>, with the record of \<open>base.py\<close> it yields. The HTTP
  session is an argument: what it answers to the \<open>n\<close>-th request. The two loops of the reader end only as far as the
  provider lets them, so they are partial: \<open>None\<close> is a run that never ends.
\<close>

section \<open>Requests\<close>

datatype request =
    TokenRequest ustring ustring
  | UsersRequest ustring ustring int
  | ChildrenRequest ustring ustring
  | DepartmentRequest ustring ustring
  | UserRequest ustring ustring

text \<open>An answer: a \<open>RequestException\<close>, or a response with its status code, if that is an integer, and its JSON body, if it has
  one.\<close>

datatype answer = NoAnswer | Response "int option" "json option"

type_synonym session = "nat \<Rightarrow> request \<Rightarrow> answer"

text \<open>The subclasses of \<open>DirectoryAdapterError\<close>; \<open>BaseError\<close> is the class itself.\<close>

datatype dir_error = BaseError | AuthenticationError | RateLimitError | PayloadError | ReferenceError

type_synonym 'a dir = "dir_error + 'a"

fun bindd :: "'a dir \<Rightarrow> ('a \<Rightarrow> 'b dir) \<Rightarrow> 'b dir" where
  "bindd (Inl e) f = Inl e"
| "bindd (Inr x) f = f x"

lemma bindd_Inr_iff: "bindd m f = Inr y \<longleftrightarrow> (\<exists>x. m = Inr x \<and> f x = Inr y)"
  by (cases m) auto

lemma bindd_cong [fundef_cong]:
  "m = m' \<Longrightarrow> (\<And>x. m' = Inr x \<Longrightarrow> f x = g x) \<Longrightarrow> bindd m f = bindd m' g"
  by (cases m') auto

text \<open>\<open>_request_json\<close> with \<open>tries\<close> further attempts after the first; \<open>n\<close> requests were made before. \<open>max_retries\<close> is two.\<close>

definition max_retries :: nat where
  "max_retries = 2"

fun request_json :: "session \<Rightarrow> request \<Rightarrow> nat \<Rightarrow> nat \<Rightarrow> (json \<times> nat) dir" where
  "request_json http q tries n = (case http n q of
     NoAnswer \<Rightarrow> (case tries of 0 \<Rightarrow> Inl BaseError | Suc t \<Rightarrow> request_json http q t (n + 1))
   | Response code body \<Rightarrow>
       if code = Some 429 then (case tries of 0 \<Rightarrow> Inl RateLimitError | Suc t \<Rightarrow> request_json http q t (n + 1))
       else (case code of
           None \<Rightarrow> Inl PayloadError
         | Some c \<Rightarrow>
             if c = 401 \<or> c = 403 then Inl AuthenticationError
             else if \<not> (200 \<le> c \<and> c < 300) then Inl BaseError
             else (case body of Some (JObj kvs) \<Rightarrow> Inr (JObj kvs, n + 1) | _ \<Rightarrow> Inl PayloadError)))"

declare request_json.simps [simp del]

section \<open>Values\<close>

definition success_code :: "json \<Rightarrow> int dir" where
  "success_code payload = (case jget ''errcode'' payload of Some (JInt i) \<Rightarrow> Inr i | _ \<Rightarrow> Inl PayloadError)"

definition require_success :: "json \<Rightarrow> unit dir" where
  "require_success payload = bindd (success_code payload) (\<lambda>c. if c \<noteq> 0 then Inl BaseError else Inr ())"

text \<open>\<open>_optional_text\<close> of a value that may be missing, and \<open>_required_text\<close>.\<close>

definition optional_text :: "json option \<Rightarrow> ustring dir" where
  "optional_text v = (case v of None \<Rightarrow> Inr [] | Some JNull \<Rightarrow> Inr [] | Some (JStr s) \<Rightarrow> Inr (strip s) | _ \<Rightarrow> Inl PayloadError)"

definition required_text :: "json option \<Rightarrow> ustring dir" where
  "required_text v = bindd (optional_text v) (\<lambda>s. if s = [] then Inl PayloadError else Inr s)"

text \<open>\<open>_department_id\<close>: a positive number, as digits without leading zeros. \<open>int\<close> and \<open>str\<close> refuse more than 4300 digits.\<close>

definition digits_value :: "ustring \<Rightarrow> nat" where
  "digits_value s = fold (\<lambda>c n. n * 10 + (c - 48)) s 0"

definition positive_id :: "int \<Rightarrow> ustring dir" where
  "positive_id i =
     (if i \<le> 0 then Inl PayloadError
      else let s = nat_digits (nat i) in if length s > 4300 then Inl PayloadError else Inr s)"

definition department_id :: "json option \<Rightarrow> ustring dir" where
  "department_id v = (case v of
     Some (JInt i) \<Rightarrow> positive_id i
   | Some (JStr s) \<Rightarrow>
       let t = strip s
       in if t = [] \<or> \<not> list_all (\<lambda>c. 48 \<le> c \<and> c \<le> 57) t \<or> length t > 4300 then Inl PayloadError
          else positive_id (int (digits_value t))
   | _ \<Rightarrow> Inl PayloadError)"

section \<open>People of a department\<close>

record raw_person =
  rp_employee :: ustring
  rp_name :: ustring
  rp_email :: ustring
  rp_phone :: ustring
  rp_leader :: ustring
  rp_departments :: "ustring list"
  rp_hire :: ustring
  rp_departure :: ustring

text \<open>The reader: the number of requests made, the records by user in the order of their first occurrence, the skipped users and
  the two caches of names.\<close>

record reader =
  rd_requests :: nat
  rd_people :: "(ustring \<times> raw_person) list"
  rd_skipped :: "ustring list"
  rd_departments :: "(ustring \<times> ustring) list"
  rd_users :: "(ustring \<times> ustring) list"

definition new_reader :: reader where
  "new_reader = \<lparr>rd_requests = 0, rd_people = [], rd_skipped = [], rd_departments = [], rd_users = []\<rparr>"

definition map_dir :: "('a \<Rightarrow> 'b dir) \<Rightarrow> 'a list \<Rightarrow> 'b list dir" where
  "map_dir f xs = foldr (\<lambda>x r. bindd (f x) (\<lambda>y. bindd r (\<lambda>ys. Inr (y # ys)))) xs (Inr [])"

text \<open>\<open>item.get(a, item.get(b))\<close>\<close>

definition jget_else :: "string \<Rightarrow> string \<Rightarrow> json \<Rightarrow> json option" where
  "jget_else a b item = (case jget a item of Some v \<Rightarrow> Some v | None \<Rightarrow> jget b item)"

text \<open>The record of an item: \<open>details\<close>, after the list of its departments, the current one when the list is missing or empty.\<close>

definition item_departments :: "json \<Rightarrow> ustring \<Rightarrow> ustring list dir" where
  "item_departments item current = (case jget ''dept_id_list'' item of
     None \<Rightarrow> bindd (department_id (Some (JStr current))) (\<lambda>d. Inr [d])
   | Some (JList vs) \<Rightarrow> bindd (map_dir (\<lambda>v. department_id (Some v)) vs) (\<lambda>ds. Inr (if ds = [] then [current] else remdups ds))
   | _ \<Rightarrow> Inl PayloadError)"

definition item_details :: "json \<Rightarrow> ustring \<Rightarrow> ustring \<Rightarrow> raw_person dir" where
  "item_details item current employee =
     bindd (item_departments item current) (\<lambda>ds.
     bindd (optional_text (jget ''name'' item)) (\<lambda>name.
     bindd (optional_text (jget ''email'' item)) (\<lambda>email.
     bindd (optional_text (jget ''mobile'' item)) (\<lambda>phone.
     bindd (optional_text (jget ''manager_userid'' item)) (\<lambda>leader.
     bindd (optional_text (jget_else ''hire_date'' ''hired_date'' item)) (\<lambda>hire.
     bindd (optional_text (jget_else ''departure_date'' ''leave_date'' item)) (\<lambda>departure.
       Inr \<lparr>rp_employee = employee, rp_name = name, rp_email = email, rp_phone = phone, rp_leader = leader,
         rp_departments = ds, rp_hire = hire, rp_departure = departure\<rparr>)))))))"

definition keep :: "ustring \<Rightarrow> ustring \<Rightarrow> ustring" where
  "keep old new = (if old = [] \<and> new \<noteq> [] then new else old)"

text \<open>A second record of a user adds its departments and fills what was empty.\<close>

definition fill_person :: "raw_person \<Rightarrow> raw_person \<Rightarrow> raw_person" where
  "fill_person old new =
     old\<lparr>rp_departments := remdups (rp_departments old @ rp_departments new),
        rp_name := keep (rp_name old) (rp_name new), rp_email := keep (rp_email old) (rp_email new),
        rp_phone := keep (rp_phone old) (rp_phone new), rp_leader := keep (rp_leader old) (rp_leader new),
        rp_hire := keep (rp_hire old) (rp_hire new), rp_departure := keep (rp_departure old) (rp_departure new)\<rparr>"

definition merge_person_record :: "ustring \<Rightarrow> json \<Rightarrow> reader \<Rightarrow> reader dir" where
  "merge_person_record current item rd =
     (if \<not> is_obj item then Inl PayloadError
      else bindd (required_text (jget ''userid'' item)) (\<lambda>user.
        bindd (optional_text (jget ''name'' item)) (\<lambda>name.
          let rd = (if name \<noteq> [] then rd\<lparr>rd_users := AList.update user name (rd_users rd)\<rparr> else rd)
          in bindd (optional_text (jget ''job_number'' item)) (\<lambda>employee.
            if employee = []
            then Inr (if user \<in> set (rd_skipped rd) then rd else rd\<lparr>rd_skipped := rd_skipped rd @ [user]\<rparr>)
            else bindd (item_details item current employee) (\<lambda>new.
              case map_of (rd_people rd) user of
                None \<Rightarrow> Inr (rd\<lparr>rd_people := rd_people rd @ [(user, new)]\<rparr>)
              | Some old \<Rightarrow>
                  if rp_employee old \<noteq> employee then Inl PayloadError
                  else Inr (rd\<lparr>rd_people := AList.update user (fill_person old new) (rd_people rd)\<rparr>))))))"

primrec merge_items :: "ustring \<Rightarrow> json list \<Rightarrow> reader \<Rightarrow> reader dir" where
  "merge_items current [] rd = Inr rd"
| "merge_items current (item # items) rd = bindd (merge_person_record current item rd) (merge_items current items)"

text \<open>One page of \<open>_read_department_people\<close>; the result is the next cursor, if there is one.\<close>

definition next_cursor :: "json \<Rightarrow> int option dir" where
  "next_cursor result = (case jget ''has_more'' result of
     Some (JBool False) \<Rightarrow> Inr None
   | Some (JBool True) \<Rightarrow> (case jget ''next_cursor'' result of Some (JInt c) \<Rightarrow> Inr (Some c) | _ \<Rightarrow> Inl PayloadError)
   | _ \<Rightarrow> Inl PayloadError)"

definition users_page :: "session \<Rightarrow> ustring \<Rightarrow> ustring \<Rightarrow> int \<Rightarrow> reader \<Rightarrow> (int option \<times> reader) dir" where
  "users_page http token department cursor rd =
     bindd (request_json http (UsersRequest token department cursor) max_retries (rd_requests rd)) (\<lambda>(payload, n).
     bindd (require_success payload) (\<lambda>_.
       case jget ''result'' payload of
         Some result \<Rightarrow> (case jget ''list'' result of
             Some (JList items) \<Rightarrow> bindd (merge_items department items (rd\<lparr>rd_requests := n\<rparr>)) (\<lambda>rd.
               bindd (next_cursor result) (\<lambda>c. Inr (c, rd)))
           | _ \<Rightarrow> Inl PayloadError)
       | None \<Rightarrow> Inl PayloadError))"

partial_function (option) read_department_people ::
    "session \<Rightarrow> ustring \<Rightarrow> ustring \<Rightarrow> int \<Rightarrow> int set \<Rightarrow> reader \<Rightarrow> reader dir option" where
  "read_department_people http token department cursor seen rd =
     (case users_page http token department cursor rd of
        Inl e \<Rightarrow> Some (Inl e)
      | Inr (None, rd') \<Rightarrow> Some (Inr rd')
      | Inr (Some c, rd') \<Rightarrow>
          if c \<in> seen then Some (Inl PayloadError)
          else read_department_people http token department c (insert c seen) rd')"

section \<open>Departments\<close>

text \<open>\<open>_read_child_departments\<close>: the identifiers, and the names they come with.\<close>

definition child_of :: "json \<Rightarrow> (ustring \<times> ustring) dir" where
  "child_of item =
     (if \<not> is_obj item then Inl PayloadError
      else bindd (department_id (jget ''dept_id'' item)) (\<lambda>i. bindd (optional_text (jget ''name'' item)) (\<lambda>name. Inr (i, name))))"

definition read_child_departments :: "session \<Rightarrow> ustring \<Rightarrow> ustring \<Rightarrow> reader \<Rightarrow> (ustring list \<times> reader) dir" where
  "read_child_departments http token department rd =
     bindd (request_json http (ChildrenRequest token department) max_retries (rd_requests rd)) (\<lambda>(payload, n).
     bindd (require_success payload) (\<lambda>_.
       case jget ''result'' payload of
         Some (JList items) \<Rightarrow> bindd (map_dir child_of items) (\<lambda>cs.
           Inr (map fst cs, rd\<lparr>rd_requests := n,
             rd_departments := fold (\<lambda>(i, name) m. if name \<noteq> [] then AList.update i name m else m) cs (rd_departments rd)\<rparr>))
       | _ \<Rightarrow> Inl PayloadError))"

partial_function (option) walk_departments ::
    "session \<Rightarrow> ustring \<Rightarrow> ustring list \<Rightarrow> ustring set \<Rightarrow> reader \<Rightarrow> reader dir option" where
  "walk_departments http token pending visited rd = (case pending of
     [] \<Rightarrow> Some (Inr rd)
   | d # rest \<Rightarrow>
       if d \<in> visited then walk_departments http token rest visited rd
       else Option.bind (read_department_people http token d 0 {} rd) (\<lambda>r. case r of
           Inl e \<Rightarrow> Some (Inl e)
         | Inr rd1 \<Rightarrow> (case read_child_departments http token d rd1 of
             Inl e \<Rightarrow> Some (Inl e)
           | Inr (children, rd2) \<Rightarrow>
               walk_departments http token (rest @ filter (\<lambda>c. c \<notin> insert d visited) children) (insert d visited) rd2)))"

section \<open>Names and people\<close>

text \<open>\<open>_load_reference_name\<close> of a department or a user; every error becomes a \<open>DirectoryReferenceError\<close>.\<close>

definition load_name :: "session \<Rightarrow> request \<Rightarrow> nat \<Rightarrow> (ustring \<times> nat) dir" where
  "load_name http q n =
     (case bindd (request_json http q max_retries n) (\<lambda>(payload, n).
        bindd (require_success payload) (\<lambda>_.
          case jget ''result'' payload of
            Some (JObj kvs) \<Rightarrow> bindd (required_text (jget ''name'' (JObj kvs))) (\<lambda>name. Inr (name, n))
          | _ \<Rightarrow> Inl PayloadError)) of
        Inl _ \<Rightarrow> Inl ReferenceError
      | Inr r \<Rightarrow> Inr r)"

definition department_name :: "session \<Rightarrow> ustring \<Rightarrow> ustring \<Rightarrow> reader \<Rightarrow> (ustring \<times> reader) dir" where
  "department_name http token i rd =
     (if i = [] then Inr ([], rd)
      else case map_of (rd_departments rd) i of
        Some name \<Rightarrow> Inr (name, rd)
      | None \<Rightarrow> bindd (load_name http (DepartmentRequest token i) (rd_requests rd)) (\<lambda>(name, n).
          Inr (name, rd\<lparr>rd_requests := n, rd_departments := AList.update i name (rd_departments rd)\<rparr>)))"

definition user_name :: "session \<Rightarrow> ustring \<Rightarrow> ustring \<Rightarrow> reader \<Rightarrow> (ustring \<times> reader) dir" where
  "user_name http token i rd =
     (if i = [] then Inr ([], rd)
      else case map_of (rd_users rd) i of
        Some name \<Rightarrow> Inr (name, rd)
      | None \<Rightarrow> bindd (load_name http (UserRequest token i) (rd_requests rd)) (\<lambda>(name, n).
          Inr (name, rd\<lparr>rd_requests := n, rd_users := AList.update i name (rd_users rd)\<rparr>)))"

primrec department_names :: "session \<Rightarrow> ustring \<Rightarrow> ustring list \<Rightarrow> reader \<Rightarrow> (ustring list \<times> reader) dir" where
  "department_names http token [] rd = Inr ([], rd)"
| "department_names http token (i # is) rd =
     bindd (department_name http token i rd) (\<lambda>(name, rd).
     bindd (department_names http token is rd) (\<lambda>(names, rd). Inr (name # names, rd)))"

text \<open>\<open>DirectoryPerson.__post_init__\<close>. \<open>day_text t\<close> is \<open>date.fromisoformat(t).isoformat()\<close>, if \<open>t\<close> is a date.\<close>

definition person_date :: "(ustring \<Rightarrow> ustring option) \<Rightarrow> ustring \<Rightarrow> ustring dir" where
  "person_date day_text s =
     (let t = strip s in if t = [] then Inr [] else case day_text (take 10 t) of None \<Rightarrow> Inl PayloadError | Some d \<Rightarrow> Inr d)"

definition make_person ::
    "(ustring \<Rightarrow> ustring option) \<Rightarrow> ustring \<Rightarrow> raw_person \<Rightarrow> ustring \<Rightarrow> ustring \<Rightarrow> directory_person dir" where
  "make_person day_text user p department leader =
     (if strip (rp_employee p) = [] then Inl PayloadError
      else bindd (person_date day_text (rp_hire p)) (\<lambda>hire. bindd (person_date day_text (rp_departure p)) (\<lambda>departure.
        Inr \<lparr>dp_employee = strip (rp_employee p), dp_name = strip (rp_name p), dp_email = strip (rp_email p),
          dp_department = strip department, dp_leader = strip leader, dp_external = strip user,
          dp_phone = strip (rp_phone p), dp_hire = hire, dp_departure = departure\<rparr>)))"

fun comma_join :: "ustring list \<Rightarrow> ustring" where
  "comma_join [] = []"
| "comma_join [s] = s"
| "comma_join (s # ss) = s @ 44 # comma_join ss"

primrec directory_people ::
    "session \<Rightarrow> (ustring \<Rightarrow> ustring option) \<Rightarrow> ustring \<Rightarrow> (ustring \<times> raw_person) list \<Rightarrow> reader
      \<Rightarrow> (directory_person list \<times> reader) dir" where
  "directory_people http day_text token [] rd = Inr ([], rd)"
| "directory_people http day_text token (up # ups) rd =
     bindd (department_names http token (sort (rp_departments (snd up))) rd) (\<lambda>(names, rd).
     bindd (user_name http token (rp_leader (snd up)) rd) (\<lambda>(leader, rd).
     bindd (make_person day_text (fst up) (snd up) (comma_join names) leader) (\<lambda>p.
     bindd (directory_people http day_text token ups rd) (\<lambda>(ps, rd). Inr (p # ps, rd)))))"

section \<open>The adapter\<close>

text \<open>\<open>_validate_source\<close> of the frozen source.\<close>

definition dingtalk_source_ok :: "source_row \<Rightarrow> unit dir" where
  "dingtalk_source_ok s =
     (if ds_type s \<noteq> asc ''dingtalk'' then Inl PayloadError
      else if \<not> ds_enabled s then Inl BaseError
      else if strip (ds_key s) = [] \<or> \<not> credentials_ok (asc ''dingtalk'') (ds_credentials s)
         \<or> ds_roots s = [] \<or> list_ex (\<lambda>r. strip r = []) (ds_roots s) then Inl PayloadError
      else bindd (map_dir (\<lambda>r. department_id (Some (JStr r))) (ds_roots s)) (\<lambda>_. Inr ()))"

definition access_token :: "session \<Rightarrow> source_row \<Rightarrow> nat \<Rightarrow> (ustring \<times> nat) dir" where
  "access_token http s n =
     (let secret = (\<lambda>k. case map_of (ds_credentials s) (asc k) of None \<Rightarrow> [] | Some v \<Rightarrow> v)
      in bindd (request_json http (TokenRequest (secret ''app_key'') (secret ''app_secret'')) max_retries n) (\<lambda>(payload, n).
         bindd (success_code payload) (\<lambda>c.
           if c \<noteq> 0 then Inl AuthenticationError
           else case jget ''access_token'' payload of
               Some (JStr t) \<Rightarrow> if strip t = [] then Inl PayloadError else Inr (t, n)
             | _ \<Rightarrow> Inl PayloadError)))"

text \<open>\<open>iter_people\<close>: the people and the skipped users of one complete snapshot.\<close>

definition iter_people ::
    "session \<Rightarrow> (ustring \<Rightarrow> ustring option) \<Rightarrow> source_row \<Rightarrow> (directory_person list \<times> ustring list) dir option" where
  "iter_people http day_text s =
     (case bindd (dingtalk_source_ok s) (\<lambda>_. access_token http s 0) of
        Inl e \<Rightarrow> Some (Inl e)
      | Inr (token, n) \<Rightarrow> (case map_dir (\<lambda>r. department_id (Some (JStr r))) (ds_roots s) of
          Inl e \<Rightarrow> Some (Inl e)
        | Inr roots \<Rightarrow> map_option (\<lambda>r. bindd r (\<lambda>rd.
              bindd (directory_people http day_text token (rd_people rd) rd) (\<lambda>(ps, rd). Inr (ps, rd_skipped rd))))
            (walk_departments http token roots {} (new_reader\<lparr>rd_requests := n\<rparr>))))"

text \<open>What \<open>preview_people_sync\<close> finds in the adapter after the call.\<close>

definition skip_json :: "ustring \<Rightarrow> json" where
  "skip_json user = JObj [(asc ''external_user_id'', JStr user), (asc ''reason'', JStr (asc ''missing_employee_id''))]"

definition dingtalk_adapter :: "sync_lib \<Rightarrow> session \<Rightarrow> (ustring \<Rightarrow> ustring option) \<Rightarrow> source_row \<Rightarrow> adapter option" where
  "dingtalk_adapter lib http day_text s = map_option (\<lambda>r.
     \<lparr>ad_key = Some (ds_key s), ad_identity = Some (fetch_identity lib s),
      ad_people = (case r of Inl _ \<Rightarrow> Inl DirectoryAdapterError | Inr (ps, _) \<Rightarrow> Inr (map Some ps)),
      ad_complete = \<not> isl r, ad_skipped = Some (case r of Inl _ \<Rightarrow> [] | Inr (_, us) \<Rightarrow> map skip_json us)\<rparr>)
     (iter_people http day_text s)"

end
