(* ===== verification/DirectoryProofs.thy ===== *)
theory DirectoryProofs
  imports Directory
begin

text \<open>
  The facts behind the properties of the directory: what the dictionaries of a preview hold, what the loops of an apply
  write, and the merge that preview and apply implement together.
\<close>

section \<open>Indexes\<close>

lemma find_row_Cons: "find_row k e (x # xs) = (if k x = e then Some x else find_row k e xs)"
  by (simp add: find_row_def)

lemma distinct_keys_Cons: "distinct (map k (x # xs)) \<Longrightarrow> y \<in> set xs \<Longrightarrow> k y \<noteq> k x"
  by (metis distinct.simps(2) image_eqI list.simps(9) set_map)

definition people_ok :: "person list \<Rightarrow> bool" where
  "people_ok people \<longleftrightarrow> distinct (map pe_id people) \<and> inj_on pe_employee {p \<in> set people. pe_employee p \<noteq> None}"

text \<open>What the table holds at any time: keys are unique and the rows passed their checks.\<close>

definition directory_ok :: "directory \<Rightarrow> bool" where
  "directory_ok d \<longleftrightarrow> people_ok (dr_people d) \<and> distinct (map ds_id (dr_sources d))
     \<and> (\<forall>p \<in> set (dr_people d). person_valid (dr_sources d) p)"

lemma people_okD: "people_ok people \<Longrightarrow> p \<in> set people \<Longrightarrow> q \<in> set people \<Longrightarrow> pe_employee p = Some e \<Longrightarrow> pe_employee q = Some e \<Longrightarrow> p = q"
  unfolding people_ok_def by (simp add: inj_on_def)

lemma people_ok_id: "people_ok people \<Longrightarrow> p \<in> set people \<Longrightarrow> q \<in> set people \<Longrightarrow> pe_id p = pe_id q \<Longrightarrow> p = q"
  unfolding people_ok_def by (auto simp: distinct_map dest: inj_onD)

lemma people_ok_sort [simp]: "people_ok (sort_key pe_id people) = people_ok people"
  by (simp add: people_ok_def distinct_map)

lemma person_index_snoc:
  "person_index (people @ [p]) = (case pe_employee p of None \<Rightarrow> person_index people
     | Some e \<Rightarrow> if e = [] then person_index people else (person_index people)(e \<mapsto> p))"
  unfolding person_index_def by (simp split: option.splits)

lemma person_index_Some:
  "people_ok people \<Longrightarrow> person_index people e = Some p \<longleftrightarrow> p \<in> set people \<and> pe_employee p = Some e \<and> e \<noteq> []"
proof (induction people rule: rev_induct)
  case Nil
  then show ?case by (simp add: person_index_def)
next
  case (snoc q people)
  have ok: "people_ok people" using snoc.prems by (auto simp: people_ok_def intro: inj_on_subset)
  have "q' = q" if "q' \<in> set people" "pe_employee q' = Some a" "pe_employee q = Some a" for q' a
    using people_okD [OF snoc.prems, of q' q a] that by simp
  with snoc.IH [OF ok] show ?case by (auto simp: person_index_snoc split: option.splits)
qed

lemma person_index_None:
  "people_ok people \<Longrightarrow> person_index people e = None \<longleftrightarrow> e = [] \<or> (\<forall>p \<in> set people. pe_employee p \<noteq> Some e)"
  using person_index_Some [of people e] by (cases "person_index people e") auto

section \<open>The snapshot\<close>

abbreviation checked_records ::
    "sync_lib \<Rightarrow> source_row list \<Rightarrow> source_row \<Rightarrow> directory_person option list \<Rightarrow> sync_record list" where
  "checked_records lib rows s people \<equiv> List.map_filter (checked_record lib rows s) people"

lemma normalize_messages:
  "snd acc \<noteq> [] \<Longrightarrow> snd (fold (normalize_one lib rows s) people acc) \<noteq> []"
proof (induction people arbitrary: acc)
  case (Cons q people)
  have "snd (normalize_one lib rows s q acc) \<noteq> []"
    using Cons.prems by (cases acc) (auto simp: normalize_one_def split: option.splits)
  then show ?case using Cons.IH by simp
qed simp

lemma normalize_fold:
  assumes "fold (normalize_one lib rows s) people (R, []) = (R', [])" and "distinct (map sr_employee R)"
  shows "distinct (map sr_employee R')
    \<and> (\<forall>e. find_row sr_employee e R' = find_row sr_employee e (R @ checked_records lib rows s people))
    \<and> set R' \<subseteq> set R \<union> set (checked_records lib rows s people)"
  using assms
proof (induction people arbitrary: R)
  case Nil
  then show ?case by (simp add: List.map_filter_def)
next
  case (Cons q people)
  from Cons.prems(1) normalize_messages [of "normalize_one lib rows s q (R, [])" lib rows s people]
  have silent: "snd (normalize_one lib rows s q (R, [])) = []" by auto
  then obtain r where r: "checked_record lib rows s q = Some r"
    by (auto simp: normalize_one_def split: option.splits)
  have recs: "checked_records lib rows s (q # people) = r # checked_records lib rows s people"
    by (simp add: List.map_filter_def r)
  show ?case
  proof (cases "find_row sr_employee (sr_employee r) R")
    case None
    then have step: "normalize_one lib rows s q (R, []) = (R @ [r], [])" by (simp add: normalize_one_def r)
    have "distinct (map sr_employee (R @ [r]))"
      using Cons.prems(2) None by (auto simp: find_row_None)
    with Cons.IH [of "R @ [r]"] Cons.prems(1) show ?thesis by (auto simp: step recs simp del: List.map_filter_simps)
  next
    case (Some old)
    with silent have step: "normalize_one lib rows s q (R, []) = (R, [])" and old: "old = r"
      by (auto simp: normalize_one_def r split: if_splits)
    have "find_row sr_employee e (R @ r # xs) = find_row sr_employee e (R @ xs)" for e xs
      using Some old by (auto simp: find_row_append find_row_Cons split: option.splits)
    with Cons.IH [of R] Cons.prems show ?thesis by (auto simp: step recs simp del: List.map_filter_simps)
  qed
qed

lemma deduplicated_Nil [simp]: "deduplicated xs = [] \<longleftrightarrow> xs = []"
proof -
  have "set (deduplicated xs) = set xs" by (simp add: deduplicated_def)
  then show ?thesis by (metis set_empty)
qed

lemma normalize_snapshot:
  assumes "normalize_remote_people lib rows s people = (R, [])"
  shows "distinct (map sr_employee R)"
    and "find_row sr_employee e R = find_row sr_employee e (checked_records lib rows s people)"
    and "set R \<subseteq> set (checked_records lib rows s people)"
proof -
  have "fold (normalize_one lib rows s) people ([], []) = (R, [])"
    using assms by (auto simp: normalize_remote_people_def split: prod.splits)
  from normalize_fold [OF this] show "distinct (map sr_employee R)"
    "find_row sr_employee e R = find_row sr_employee e (checked_records lib rows s people)"
    "set R \<subseteq> set (checked_records lib rows s people)" by auto
qed

lemma checked_recordD:
  "r \<in> set (checked_records lib rows s people) \<Longrightarrow>
     record_shape_ok lib r \<and> person_valid rows (person_from_record lib [] s r None)
     \<and> (\<exists>q. Some q \<in> set people \<and> r = record_of_person q)"
  by (fastforce simp: map_filter_def checked_record_def Let_def split: option.splits if_splits)

section \<open>Loops that write people\<close>

definition staged_ok :: "staged \<Rightarrow> bool" where
  "staged_ok st \<longleftrightarrow> people_ok (st_rows st)
     \<and> (\<forall>e i. st_index st e = Some i \<longleftrightarrow> (\<exists>p \<in> set (st_rows st). pe_id p = i \<and> pe_employee p = Some e \<and> e \<noteq> []))"

lemma staged_person_Some:
  assumes "staged_ok st" and "p \<in> set (st_rows st)" and "pe_employee p = Some e" and "e \<noteq> []"
  shows "staged_person st e = Some p"
proof -
  have "st_index st e = Some (pe_id p)" using assms by (auto simp: staged_ok_def)
  moreover have "find_row pe_id (pe_id p) (st_rows st) = Some p"
    using assms by (intro find_row_mem) (auto simp: staged_ok_def people_ok_def)
  ultimately show ?thesis by (simp add: staged_person_def)
qed

lemma staged_ok_map:
  assumes ok: "staged_ok st" and keeps: "\<And>p. pe_id (g p) = pe_id p" "\<And>p. pe_employee (g p) = pe_employee p"
  shows "staged_ok (st\<lparr>st_rows := map g (st_rows st)\<rparr>)"
proof -
  have ids: "pe_id \<circ> g = pe_id" by (simp add: fun_eq_iff keeps)
  have "inj_on pe_employee {p \<in> g ` set (st_rows st). pe_employee p \<noteq> None}"
  proof (rule inj_onI)
    fix a b
    assume ab: "a \<in> {p \<in> g ` set (st_rows st). pe_employee p \<noteq> None}" "b \<in> {p \<in> g ` set (st_rows st). pe_employee p \<noteq> None}"
      and eq: "pe_employee a = pe_employee b"
    then obtain x y where xy: "x \<in> set (st_rows st)" "y \<in> set (st_rows st)" "a = g x" "b = g y" by blast
    moreover obtain e where "pe_employee a = Some e" using ab(1) by auto
    ultimately have "x = y" using people_okD [of "st_rows st" x y e] ok eq unfolding staged_ok_def xy keeps by simp
    then show "a = b" using xy by simp
  qed
  moreover have "(\<exists>p \<in> g ` set (st_rows st). pe_id p = j \<and> pe_employee p = Some e \<and> e \<noteq> [])
      \<longleftrightarrow> (\<exists>p \<in> set (st_rows st). pe_id p = j \<and> pe_employee p = Some e \<and> e \<noteq> [])" for j e
    unfolding bex_simps(7) keeps by (rule refl)
  ultimately show ?thesis using ok unfolding staged_ok_def people_ok_def by (simp add: ids)
qed

lemma staged_ok_upd:
  assumes "staged_ok st" and "\<And>p. pe_id (f p) = pe_id p" "\<And>p. pe_employee (f p) = pe_employee p"
  shows "staged_ok (st\<lparr>st_rows := upd_row pe_id i f (st_rows st)\<rparr>)"
  unfolding upd_rows_def by (rule staged_ok_map [OF assms(1)]) (simp_all add: assms(2,3))

definition writes :: "('x \<Rightarrow> ustring) \<Rightarrow> ('x \<Rightarrow> person \<Rightarrow> person) \<Rightarrow> 'x list \<Rightarrow> person \<Rightarrow> person" where
  "writes k f xs p = (case pe_employee p of None \<Rightarrow> p
     | Some e \<Rightarrow> (case find_row k e xs of None \<Rightarrow> p | Some x \<Rightarrow> f x p))"

lemma writes_keeps:
  assumes "\<And>x p. pe_id (f x p) = pe_id p" "\<And>x p. pe_employee (f x p) = pe_employee p"
  shows "pe_id (writes k f xs p) = pe_id p" and "pe_employee (writes k f xs p) = pe_employee p"
  using assms by (simp_all add: writes_def split: option.splits)

text \<open>A loop whose body writes the person of its number writes exactly the people of its numbers, each once.\<close>

lemma write_loop:
  assumes "staged_ok st" and "distinct (map k xs)"
    and "\<And>x. x \<in> set xs \<Longrightarrow> \<exists>p \<in> set (st_rows st). pe_employee p = Some (k x) \<and> k x \<noteq> [] \<and> good x p"
    and body: "\<And>x st p. x \<in> set xs \<Longrightarrow> staged_person st (k x) = Some p \<Longrightarrow> good x p \<Longrightarrow>
      step x st = Inr (st\<lparr>st_rows := upd_row pe_id (pe_id p) (f x) (st_rows st)\<rparr>)"
    and keeps: "\<And>x p. pe_id (f x p) = pe_id p" "\<And>x p. pe_employee (f x p) = pe_employee p"
  shows "foldr_res step xs st = Inr (st\<lparr>st_rows := map (writes k f xs) (st_rows st)\<rparr>)"
  using assms(1-4)
proof (induction xs arbitrary: st)
  case Nil
  have "writes k f [] = id" by (auto simp: writes_def find_row_def fun_eq_iff split: option.splits)
  then show ?case by simp
next
  case (Cons x xs)
  obtain p where p: "p \<in> set (st_rows st)" "pe_employee p = Some (k x)" "k x \<noteq> []" "good x p"
    using Cons.prems(3) [of x] by auto
  let ?st = "st\<lparr>st_rows := upd_row pe_id (pe_id p) (f x) (st_rows st)\<rparr>"
  have first: "step x st = Inr ?st"
    using Cons.prems(4) [of x st p] staged_person_Some [OF Cons.prems(1) p(1-3)] p(4) by simp
  have ok: "people_ok (st_rows st)" using Cons.prems(1) by (simp add: staged_ok_def)
  have "\<exists>q \<in> set (st_rows ?st). pe_employee q = Some (k y) \<and> k y \<noteq> [] \<and> good y q" if y: "y \<in> set xs" for y
  proof -
    obtain q where q: "q \<in> set (st_rows st)" "pe_employee q = Some (k y)" "k y \<noteq> []" "good y q"
      using Cons.prems(3) [of y] y by auto
    have "k y \<noteq> k x" using distinct_keys_Cons [OF Cons.prems(2) y] .
    then have "pe_id q \<noteq> pe_id p" using people_ok_id [OF ok q(1) p(1)] q(2) p(2) by auto
    then show ?thesis using q by (intro bexI [of _ q]) (auto simp: set_upd_rows image_iff)
  qed
  then have rest: "foldr_res step xs ?st = Inr (?st\<lparr>st_rows := map (writes k f xs) (st_rows ?st)\<rparr>)"
    using Cons.prems(2,4) staged_ok_upd [OF Cons.prems(1) keeps [of x]] by (intro Cons.IH) auto
  have "writes k f xs (if pe_id q = pe_id p then f x q else q) = writes k f (x # xs) q" if q: "q \<in> set (st_rows st)" for q
  proof (cases "pe_employee q = Some (k x)")
    case True
    then have "q = p" using people_okD [OF ok q p(1)] p(2) by blast
    moreover have "find_row k (k x) xs = None" using Cons.prems(2) by (simp add: find_row_None)
    ultimately show ?thesis using p(2) by (simp add: writes_def keeps find_row_Cons)
  next
    case False
    then have "pe_id q \<noteq> pe_id p" using people_ok_id [OF ok q p(1)] p(2) by auto
    with False show ?thesis by (auto simp: writes_def find_row_def split: option.splits)
  qed
  then have "map (writes k f xs) (st_rows ?st) = map (writes k f (x # xs)) (st_rows st)"
    by (simp add: upd_rows_def)
  then show ?case by (simp add: first rest)
qed

lemma create_loop:
  assumes "staged_ok st" and "distinct (map sr_employee cs)" and "inj_on new_id (sr_employee ` set cs)"
    and "\<And>r. r \<in> set cs \<Longrightarrow> record_shape_ok lib r \<and> sr_employee r \<noteq> [] \<and> person_valid rows (person_from_record lib [] s r None)
      \<and> new_id (sr_employee r) \<notin> pe_id ` set (st_rows st) \<and> (\<forall>p \<in> set (st_rows st). pe_employee p \<noteq> Some (sr_employee r))"
  shows "\<exists>st'. foldr_res (create_person lib new_id rows s now) cs st = Inr st' \<and> staged_ok st'
    \<and> st_rows st' = st_rows st @ map (\<lambda>r. person_from_record lib (new_id (sr_employee r)) s r (Some now)) cs"
  using assms
proof (induction cs arbitrary: st)
  case (Cons r cs)
  let ?p = "person_from_record lib (new_id (sr_employee r)) s r (Some now)"
  let ?st = "st\<lparr>st_rows := st_rows st @ [?p], st_index := (st_index st)(sr_employee r \<mapsto> pe_id ?p)\<rparr>"
  note r = Cons.prems(4) [of r, simplified]
  have p: "pe_id ?p = new_id (sr_employee r)" "pe_employee ?p = Some (sr_employee r)"
    by (simp_all add: person_from_record_def)
  have "person_valid rows ?p" using r by (simp add: person_valid_def person_from_record_def)
  moreover have "st_index st (sr_employee r) = None"
    using r Cons.prems(1) by (cases "st_index st (sr_employee r)") (auto simp: staged_ok_def)
  ultimately have first: "create_person lib new_id rows s now r st = Inr ?st"
    using r p by (simp add: create_person_def Let_def)
  have ok: "people_ok (st_rows st @ [?p])"
    using Cons.prems(1) r p by (auto simp: staged_ok_def people_ok_def inj_on_def)
  have ix: "st_index ?st e = Some i \<longleftrightarrow> (\<exists>q \<in> set (st_rows ?st). pe_id q = i \<and> pe_employee q = Some e \<and> e \<noteq> [])" for e i
    using Cons.prems(1) r p unfolding staged_ok_def by (cases "e = sr_employee r") auto
  have "staged_ok ?st" using ok ix by (simp add: staged_ok_def)
  moreover have "inj_on new_id (sr_employee ` set cs)" using Cons.prems(3) by (auto intro: inj_on_subset)
  moreover have "record_shape_ok lib r' \<and> sr_employee r' \<noteq> [] \<and> person_valid rows (person_from_record lib [] s r' None)
      \<and> new_id (sr_employee r') \<notin> pe_id ` set (st_rows ?st) \<and> (\<forall>p \<in> set (st_rows ?st). pe_employee p \<noteq> Some (sr_employee r'))"
    if r': "r' \<in> set cs" for r'
  proof -
    have ne: "sr_employee r' \<noteq> sr_employee r" using distinct_keys_Cons [OF Cons.prems(2) r'] .
    then have "new_id (sr_employee r') \<noteq> new_id (sr_employee r)" using inj_on_eq_iff [OF Cons.prems(3), of "sr_employee r'" "sr_employee r"] r' by simp
    with ne Cons.prems(4) [of r'] r' p show ?thesis by auto
  qed
  ultimately show ?case using Cons.IH [of ?st] Cons.prems(2) by (auto simp: first)
qed simp

end
