(* ===== verification/DirectoryMerge.thy ===== *)
theory DirectoryMerge
  imports DirectoryProofs
begin

text \<open>
  The merge that a synchronisation of the personnel directory promises, and the proof that the loops of an apply write it
  when the preview was made from the same people.
\<close>

section \<open>Documented behaviour of the signature\<close>

text \<open>\<open>django.core.signing\<close> with a timestamp of whole seconds: a token yields its payload while it is younger than the
  maximal age less that second, nothing after it, and never another payload.\<close>

definition signing_ok :: "sync_lib \<Rightarrow> signed_preview \<Rightarrow> time \<Rightarrow> bool" where
  "signing_ok lib g t \<longleftrightarrow> dumps lib g t \<noteq> []
     \<and> (\<forall>age now. t \<le> now \<and> now \<le> t + seconds (age - 1) \<longrightarrow> loads lib (dumps lib g t) age now = Some g)
     \<and> (\<forall>age now. t + seconds age < now \<longrightarrow> loads lib (dumps lib g t) age now = None)
     \<and> (\<forall>age now h. loads lib (dumps lib g t) age now = Some h \<longrightarrow> h = g)"

section \<open>The merge\<close>

text \<open>
  What a synchronisation promises, without previews: a local person with the number of a record of the snapshot takes over
  the record, unless nothing differs; an active person of the source that is neither in the snapshot nor skipped is
  deactivated; everybody else stays; records without a local person become people of the source.
\<close>

definition snapshot_record ::
    "sync_lib \<Rightarrow> source_row list \<Rightarrow> source_row \<Rightarrow> directory_person option list \<Rightarrow> ustring \<Rightarrow> sync_record option" where
  "snapshot_record lib rows s people e = find_row sr_employee e (checked_records lib rows s people)"

definition merge_person ::
    "sync_lib \<Rightarrow> source_row \<Rightarrow> (ustring \<Rightarrow> sync_record option) \<Rightarrow> ustring set \<Rightarrow> time \<Rightarrow> person \<Rightarrow> person" where
  "merge_person lib s wanted skipped now p =
     (case (case pe_employee p of None \<Rightarrow> None | Some e \<Rightarrow> wanted e) of
        Some r \<Rightarrow> if person_matches_record lib p r then p else set_person_record lib s r now p
      | None \<Rightarrow> if owned_by_source s p \<and> pe_active p \<and> pe_platform p \<notin> skipped then deactivated lib now p else p)"

definition new_people ::
    "sync_lib \<Rightarrow> (ustring \<Rightarrow> ustring) \<Rightarrow> source_row \<Rightarrow> sync_record list \<Rightarrow> person list \<Rightarrow> time \<Rightarrow> person list" where
  "new_people lib new_id s records people now =
     map (\<lambda>r. person_from_record lib (new_id (sr_employee r)) s r (Some now))
       (filter (\<lambda>r. Some (sr_employee r) \<notin> pe_employee ` set people) (sort_key sr_employee records))"

definition merged_directory ::
    "sync_lib \<Rightarrow> (ustring \<Rightarrow> ustring) \<Rightarrow> directory \<Rightarrow> source_row \<Rightarrow> directory_person option list \<Rightarrow> ustring set \<Rightarrow> time
      \<Rightarrow> directory" where
  "merged_directory lib new_id d s people skipped now =
     d\<lparr>dr_people := map (merge_person lib s (snapshot_record lib (dr_sources d) s people) skipped now) (dr_people d)
          @ new_people lib new_id s (fst (normalize_remote_people lib (dr_sources d) s people)) (dr_people d) now,
       dr_sources := upd_row ds_id (ds_id s) (\<lambda>s. s\<lparr>ds_last_synced := Some now\<rparr>) (dr_sources d)\<rparr>"

section \<open>What a valid preview says\<close>

lemma preview_valid:
  assumes "preview_people_sync lib src d0 ad d1 t = Inr (v, token)" and "sp_messages v = []"
  shows "\<exists>s key people skipped records. find_row ds_id (ds_id src) (dr_sources d1) = Some s \<and> ad_people ad = Inr people
    \<and> safe_skipped_records (ad_skipped ad) = (skipped, []) \<and> normalize_remote_people lib (dr_sources d1) s people = (records, [])
    \<and> valid_preview lib s (sort_key pe_id (dr_people d1)) records skipped key t = Inr (v, token)"
proof -
  have refused: "invalid_preview k (m # ms) sk \<noteq> v" for k m ms sk
    using assms(2) by (auto simp: invalid_preview_def)
  note pr = assms(1) [unfolded preview_people_sync_def]
  obtain s0 where s0: "find_row ds_id (ds_id src) (dr_sources d0) = Some s0"
    using pr by (cases "find_row ds_id (ds_id src) (dr_sources d0)") (simp_all add: refused)
  have id0: "ds_id s0 = ds_id src" using find_row_Some [OF s0] by simp
  note pr = pr [unfolded s0 option.case id0]
  have key: "ad_key ad = Some (ds_key s0)" using pr by (rule contrapos_pp) (simp add: refused)
  have ident: "ad_identity ad = Some (fetch_identity lib s0)" using pr by (rule contrapos_pp) (simp add: refused key)
  note pr = pr [unfolded key ident, simplified]
  obtain people where p: "ad_people ad = Inr people"
    using pr by (cases "ad_people ad") (auto split: fetch_error.splits)
  note pr = pr [unfolded p sum.case]
  have complete: "ad_complete ad" using pr by (rule contrapos_pp) (simp add: refused)
  obtain s where s: "find_row ds_id (ds_id src) (dr_sources d1) = Some s"
    using pr complete by (cases "find_row ds_id (ds_id src) (dr_sources d1)") (simp_all add: refused)
  have same: "fetch_identity lib s0 = fetch_identity lib s" using pr by (rule contrapos_pp) (simp add: refused complete s)
  obtain skipped m1 where sk: "safe_skipped_records (ad_skipped ad) = (skipped, m1)" by fastforce
  obtain records m2 where nr: "normalize_remote_people lib (dr_sources d1) s people = (records, m2)" by fastforce
  have "m1 @ m2 = []" using pr by (rule contrapos_pp) (cases m1; cases m2; simp add: refused complete s same sk nr)
  moreover from this have "valid_preview lib s (sort_key pe_id (dr_people d1)) records skipped (ds_key s0) t = Inr (v, token)"
    using pr by (simp add: complete s same sk nr)
  ultimately show ?thesis using s p sk nr by auto
qed

lemma valid_preview_contents:
  assumes "valid_preview lib s people records skipped key t = Inr (v, token)" and "sp_messages v = []"
  defines "of_kind \<equiv> \<lambda>k. filter (\<lambda>r. difference_of lib s people r = k) (sort_key sr_employee records)"
  shows "sp_creates v = of_kind Create" and "sp_updates v = of_kind Update"
    and "sp_deactivations v = sort (map pe_employee (missing_people s records skipped people))"
    and "token = sign_preview lib s people v t" and "\<forall>r \<in> set records. difference_of lib s people r \<noteq> Conflict"
  using assms by (auto simp: valid_preview_def Let_def sorted_numbers_def invalid_preview_def split: if_splits sum.splits)

section \<open>An apply of the previewed state\<close>

lemma apply_unchanged:
  assumes lib: "signing_ok lib (signed_payload lib s (sort_key pe_id (dr_people d)) v) t"
    and s: "find_row ds_id i (dr_sources d) = Some s" "source_valid (dr_sources d) s"
    and token: "token = sign_preview lib s (sort_key pe_id (dr_people d)) v t" and "sp_messages v = []"
    and "t \<le> checked" "checked \<le> t + seconds 299"
  shows "apply_people_sync lib new_id d i v token checked now = apply_locked_preview lib new_id d s v now"
proof -
  let ?g = "signed_payload lib s (sort_key pe_id (dr_people d)) v"
  have "loads lib token preview_max_age checked = Some ?g" and "token \<noteq> []"
    using lib assms(6,7) unfolding signing_ok_def token sign_preview_def preview_max_age_def by simp_all
  then show ?thesis using s assms(5) find_row_Some [OF s(1)]
    by (simp add: apply_people_sync_def load_signed_preview_def signed_payload_def)
qed

section \<open>The merge is what an apply writes\<close>

lemma difference_cases:
  assumes "people_ok people" and "sr_employee r \<noteq> []"
  shows "difference_of lib s people r = Create \<longleftrightarrow> (\<forall>p \<in> set people. pe_employee p \<noteq> Some (sr_employee r))"
    and "p \<in> set people \<Longrightarrow> pe_employee p = Some (sr_employee r) \<Longrightarrow> difference_of lib s people r =
      (if owned_by_source s p \<or> claimable_by_source p
       then (if person_matches_record lib p r then Unchanged else Update) else Conflict)"
proof -
  show "difference_of lib s people r = Create \<longleftrightarrow> (\<forall>p \<in> set people. pe_employee p \<noteq> Some (sr_employee r))"
    using person_index_None [OF assms(1), of "sr_employee r"] assms(2)
    by (auto simp: difference_of_def split: option.splits if_splits)
  show "difference_of lib s people r = (if owned_by_source s p \<or> claimable_by_source p
       then (if person_matches_record lib p r then Unchanged else Update) else Conflict)"
    if "p \<in> set people" "pe_employee p = Some (sr_employee r)"
    using person_index_Some [OF assms(1), of "sr_employee r" p] that assms(2) by (simp add: difference_of_def)
qed

lemma set_person_record_keeps [simp]:
  "pe_id (set_person_record lib s r now p) = pe_id p" "pe_employee (set_person_record lib s r now p) = pe_employee p"
  by (simp_all add: set_person_record_def)

lemma deactivated_keeps [simp]:
  "pe_id (deactivated lib now p) = pe_id p" "pe_employee (deactivated lib now p) = pe_employee p"
  by (simp_all add: deactivated_def)

lemma person_valid_deactivated [simp]: "person_valid rows (deactivated lib now p) = person_valid rows p"
  by (simp add: person_valid_def deactivated_def)

lemma person_valid_set_record:
  "person_valid rows (person_from_record lib i s r u) \<Longrightarrow> pe_employee p = Some (sr_employee r) \<Longrightarrow>
   person_valid rows (set_person_record lib s r now p)"
  by (simp add: person_valid_def set_person_record_def person_from_record_def)

lemma person_valid_upd [simp]:
  "person_valid (upd_row ds_id i (\<lambda>s. s\<lparr>ds_last_synced := u\<rparr>) rows) p = person_valid rows p"
proof -
  have "find_row ds_id j (upd_row ds_id i (\<lambda>s. s\<lparr>ds_last_synced := u\<rparr>) rows) = None \<longleftrightarrow> find_row ds_id j rows = None" for j
    by (simp add: find_row_upd)
  then show ?thesis unfolding person_valid_def by (cases "pe_sync_source p") simp_all
qed

lemma merge_person_valid:
  assumes "person_valid rows p"
  shows "person_valid rows (merge_person lib s (snapshot_record lib rows s people) skipped now p)"
proof (cases "\<exists>n r. pe_employee p = Some n \<and> snapshot_record lib rows s people n = Some r")
  case True
  then obtain n r where r: "pe_employee p = Some n" "snapshot_record lib rows s people n = Some r" by blast
  have "r \<in> set (checked_records lib rows s people)" "sr_employee r = n"
    using find_row_Some [OF r(2) [unfolded snapshot_record_def]] by simp_all
  with r assms checked_recordD [of r lib rows s people] show ?thesis
    by (auto simp: merge_person_def intro: person_valid_set_record)
next
  case False
  with assms show ?thesis by (cases "pe_employee p") (auto simp: merge_person_def split: option.splits)
qed

text \<open>A previewed difference: the records of the snapshot, none of them in conflict, and local people that can be named by
  their numbers.\<close>

definition merge_ready ::
    "sync_lib \<Rightarrow> directory \<Rightarrow> source_row \<Rightarrow> directory_person option list \<Rightarrow> sync_record list \<Rightarrow> bool" where
  "merge_ready lib d s people records \<longleftrightarrow> directory_ok d
     \<and> normalize_remote_people lib (dr_sources d) s people = (records, [])
     \<and> (\<forall>q. Some q \<in> set people \<longrightarrow> dp_employee q \<noteq> [])
     \<and> (\<forall>r \<in> set records. difference_of lib s (sort_key pe_id (dr_people d)) r \<noteq> Conflict)
     \<and> (\<forall>p \<in> set (dr_people d). owned_by_source s p \<and> pe_active p \<longrightarrow> pe_employee p \<notin> {None, Some []})"

abbreviation kind_in :: "sync_lib \<Rightarrow> directory \<Rightarrow> source_row \<Rightarrow> sync_record \<Rightarrow> difference" where
  "kind_in lib d s \<equiv> difference_of lib s (sort_key pe_id (dr_people d))"

abbreviation of_kind :: "sync_lib \<Rightarrow> directory \<Rightarrow> source_row \<Rightarrow> sync_record list \<Rightarrow> difference \<Rightarrow> sync_record list" where
  "of_kind lib d s records k \<equiv> filter (\<lambda>r. kind_in lib d s r = k) (sort_key sr_employee records)"

abbreviation gone_people :: "directory \<Rightarrow> source_row \<Rightarrow> sync_record list \<Rightarrow> (ustring \<times> ustring) list \<Rightarrow> person list" where
  "gone_people d s records skipped \<equiv> missing_people s records skipped (sort_key pe_id (dr_people d))"

abbreviation write_updates ::
    "sync_lib \<Rightarrow> directory \<Rightarrow> source_row \<Rightarrow> sync_record list \<Rightarrow> time \<Rightarrow> person \<Rightarrow> person" where
  "write_updates lib d s records now \<equiv>
     writes sr_employee (\<lambda>r. set_person_record lib s r now) (of_kind lib d s records Update)"

abbreviation write_gone ::
    "sync_lib \<Rightarrow> directory \<Rightarrow> source_row \<Rightarrow> sync_record list \<Rightarrow> (ustring \<times> ustring) list \<Rightarrow> time \<Rightarrow> person \<Rightarrow> person" where
  "write_gone lib d s records skipped now \<equiv>
     writes the (\<lambda>_. deactivated lib now) (sort (map pe_employee (gone_people d s records skipped)))"

abbreviation created_person :: "sync_lib \<Rightarrow> (ustring \<Rightarrow> ustring) \<Rightarrow> source_row \<Rightarrow> time \<Rightarrow> sync_record \<Rightarrow> person" where
  "created_person lib new_id s now r \<equiv> person_from_record lib (new_id (sr_employee r)) s r (Some now)"

lemma ready_people:
  assumes "merge_ready lib d s people records"
  shows "people_ok (dr_people d)" and "p \<in> set (dr_people d) \<Longrightarrow> person_valid (dr_sources d) p"
    and "distinct (map sr_employee records)"
    and "find_row sr_employee e records = snapshot_record lib (dr_sources d) s people e"
  using assms normalize_snapshot [of lib "dr_sources d" s people records]
  by (simp_all add: merge_ready_def directory_ok_def snapshot_record_def)

lemma ready_record:
  assumes "merge_ready lib d s people records" and "r \<in> set records"
  shows "record_shape_ok lib r" and "person_valid (dr_sources d) (person_from_record lib [] s r None)" and "sr_employee r \<noteq> []"
    and "kind_in lib d s r = Create \<longleftrightarrow> (\<forall>p \<in> set (dr_people d). pe_employee p \<noteq> Some (sr_employee r))"
    and "p \<in> set (dr_people d) \<Longrightarrow> pe_employee p = Some (sr_employee r) \<Longrightarrow>
      (owned_by_source s p \<or> claimable_by_source p)
      \<and> kind_in lib d s r = (if person_matches_record lib p r then Unchanged else Update)"
proof -
  have "r \<in> set (checked_records lib (dr_sources d) s people)"
    using assms normalize_snapshot(3) [of lib "dr_sources d" s people records] by (auto simp: merge_ready_def)
  from checked_recordD [OF this] assms(1)
  show r: "record_shape_ok lib r" "person_valid (dr_sources d) (person_from_record lib [] s r None)" "sr_employee r \<noteq> []"
    by (auto simp: merge_ready_def record_of_person_def)
  note dc = difference_cases [of "sort_key pe_id (dr_people d)" r, simplified, OF ready_people(1) [OF assms(1)] r(3)]
  show "kind_in lib d s r = Create \<longleftrightarrow> (\<forall>p \<in> set (dr_people d). pe_employee p \<noteq> Some (sr_employee r))"
    by (rule dc(1))
  show "(owned_by_source s p \<or> claimable_by_source p)
      \<and> kind_in lib d s r = (if person_matches_record lib p r then Unchanged else Update)"
    if "p \<in> set (dr_people d)" "pe_employee p = Some (sr_employee r)"
    using dc(2) [OF that, where lib = lib and s = s] assms by (auto simp: merge_ready_def split: if_splits)
qed

lemma not_of_kind:
  assumes "merge_ready lib d s people records" and "r \<in> set records" and "kind_in lib d s r \<noteq> k"
  shows "find_row sr_employee (sr_employee r) (of_kind lib d s records k) = None"
proof -
  have "r' = r" if "r' \<in> set records" "sr_employee r' = sr_employee r" for r'
    using ready_people(3) [OF assms(1)] assms(2) that unfolding distinct_map inj_on_def by blast
  then have "sr_employee r \<notin> sr_employee ` set (of_kind lib d s records k)" using assms(3) by auto
  then show ?thesis unfolding find_row_None .
qed

lemma none_of_kind:
  "find_row sr_employee n records = None \<Longrightarrow> find_row sr_employee n (of_kind lib d s records k) = None"
  unfolding find_row_None by auto

lemma distinct_of_kind:
  "merge_ready lib d s people records \<Longrightarrow> distinct (map sr_employee (of_kind lib d s records k))"
  using ready_people(3) [of lib d s people records]
  by (simp add: distinct_map inj_on_subset [of sr_employee "set records"] subset_eq)

lemma gone_person:
  assumes "merge_ready lib d s people records" and "p \<in> set (gone_people d s records skipped)"
  shows "\<exists>n. pe_employee p = Some n \<and> n \<noteq> [] \<and> find_row sr_employee n records = None"
  using assms by (auto simp: merge_ready_def missing_people_def find_row_None image_iff)

lemma gone_people_iff:
  "p \<in> set (gone_people d s records skipped) \<longleftrightarrow> p \<in> set (dr_people d) \<and> owned_by_source s p \<and> pe_active p
    \<and> pe_employee p \<notin> Some ` sr_employee ` set records \<and> pe_platform p \<notin> fst ` set skipped"
  by (simp add: missing_people_def)

lemma distinct_gone:
  assumes ready: "merge_ready lib d s people records"
  shows "distinct (map the (sort (map pe_employee (gone_people d s records skipped))))"
proof -
  let ?gone = "gone_people d s records skipped"
  note P = ready_people(1) [OF ready]
  have "distinct (dr_people d)" using P by (simp add: people_ok_def distinct_map)
  then have "distinct ?gone" by (simp add: missing_people_def)
  moreover have "inj_on pe_employee (set ?gone)"
  proof (rule inj_onI)
    fix p q assume pq: "p \<in> set ?gone" "q \<in> set ?gone" "pe_employee p = pe_employee q"
    obtain n where "pe_employee p = Some n" using gone_person [OF ready pq(1)] by blast
    then show "p = q" using people_okD [OF P, of p q n] pq gone_people_iff by metis
  qed
  ultimately have "distinct (sort (map pe_employee ?gone))" by (simp add: distinct_map)
  moreover have "\<forall>e \<in> set (sort (map pe_employee ?gone)). \<exists>n. e = Some n" using gone_person [OF ready] by fastforce
  then have "inj_on the (set (sort (map pe_employee ?gone)))"
    by (intro inj_onI) (metis option.sel)
  ultimately show ?thesis by (simp only: distinct_map)
qed

lemma not_gone:
  assumes "merge_ready lib d s people records" and r: "r \<in> set records"
  shows "find_row the (sr_employee r) (sort (map pe_employee (gone_people d s records skipped))) = None"
proof -
  have "the (pe_employee q) \<noteq> sr_employee r" if "q \<in> set (gone_people d s records skipped)" for q
    using gone_person [OF assms(1) that] r by (auto simp: find_row_None)
  then have "sr_employee r \<notin> (the \<circ> pe_employee) ` set (gone_people d s records skipped)"
    unfolding image_iff by (metis comp_apply)
  then show ?thesis unfolding find_row_None by (simp add: image_comp)
qed

text \<open>The two writing loops leave the created people alone; together they merge the others.\<close>

lemma writes_created:
  assumes "merge_ready lib d s people records" and "r \<in> set (of_kind lib d s records Create)"
  shows "write_updates lib d s records now (created_person lib new_id s now r) = created_person lib new_id s now r"
    and "write_gone lib d s records skipped now (created_person lib new_id s now r) = created_person lib new_id s now r"
  using not_of_kind [OF assms(1), of r Update] not_gone [OF assms(1), of r skipped] assms(2)
  by (simp_all add: writes_def person_from_record_def)

lemma write_gone_iff:
  assumes ready: "merge_ready lib d s people records" and p: "p \<in> set (dr_people d)"
  shows "write_gone lib d s records skipped now p
    = (if p \<in> set (gone_people d s records skipped) then deactivated lib now p else p)"
proof (cases "pe_employee p")
  case None
  then show ?thesis using gone_person [OF ready, of p] by (auto simp: writes_def)
next
  case (Some n)
  let ?gone = "gone_people d s records skipped"
  have "find_row the n (sort (map pe_employee ?gone)) = None" if "p \<notin> set ?gone"
  proof -
    have "the (pe_employee q) \<noteq> n" if "q \<in> set ?gone" for q
      using gone_person [OF ready that] gone_people_iff [of q] that people_okD [OF ready_people(1) [OF ready] p, of q n]
        Some \<open>p \<notin> set ?gone\<close> by auto
    then show ?thesis unfolding find_row_None by auto
  qed
  moreover have "find_row the n (sort (map pe_employee ?gone)) \<noteq> None" if "p \<in> set ?gone"
    unfolding find_row_None using that Some by force
  ultimately show ?thesis using Some by (auto simp: writes_def split: option.splits)
qed

lemma writes_merge:
  assumes ready: "merge_ready lib d s people records" and p: "p \<in> set (dr_people d)"
  shows "write_gone lib d s records skipped now (write_updates lib d s records now p)
    = merge_person lib s (snapshot_record lib (dr_sources d) s people) (fst ` set skipped) now p"
proof (cases "\<exists>n r. pe_employee p = Some n \<and> find_row sr_employee n records = Some r")
  case True
  then obtain n r where r: "pe_employee p = Some n" "find_row sr_employee n records = Some r" by blast
  then have R: "r \<in> set records" "sr_employee r = n" using find_row_Some [OF r(2)] by simp_all
  have kind: "kind_in lib d s r = (if person_matches_record lib p r then Unchanged else Update)"
    using ready_record(5) [OF ready R(1) p] r(1) R(2) by simp
  have "find_row sr_employee n (of_kind lib d s records Update) = (if person_matches_record lib p r then None else Some r)"
  proof (cases "person_matches_record lib p r")
    case True
    then show ?thesis using kind not_of_kind [OF ready R(1), of Update] R(2) by simp
  next
    case False
    then show ?thesis using find_row_mem [OF distinct_of_kind [OF ready, of Update], of r] kind R by simp
  qed
  then show ?thesis
    using r not_gone [OF ready R(1), of skipped] R(2) ready_people(4) [OF ready, of n]
    by (simp add: writes_def merge_person_def)
next
  case False
  then have none: "pe_employee p = Some n \<Longrightarrow> find_row sr_employee n records = None" for n by simp
  then have "write_updates lib d s records now p = p"
    using none_of_kind by (cases "pe_employee p") (simp_all add: writes_def)
  moreover have "(p \<in> set (gone_people d s records skipped)) = (owned_by_source s p \<and> pe_active p \<and> pe_platform p \<notin> fst ` set skipped)"
    using gone_people_iff [of p s records skipped d] p none by (cases "pe_employee p") (auto simp: find_row_None)
  ultimately show ?thesis
    using none ready_people(4) [OF ready] write_gone_iff [OF ready p, where skipped = skipped and now = now]
    by (cases "pe_employee p") (simp_all add: merge_person_def)
qed

text \<open>The loops succeed.\<close>

lemma create_succeeds:
  assumes ready: "merge_ready lib d s people records" and fresh: "inj_on new_id (sr_employee ` set records)"
      "\<forall>r \<in> set records. new_id (sr_employee r) \<notin> pe_id ` set (dr_people d)"
  shows "\<exists>st. foldr_res (create_person lib new_id (dr_sources d) s now) (of_kind lib d s records Create)
      \<lparr>st_rows = dr_people d, st_index = (\<lambda>e. map_option pe_id (person_index (sort_key pe_id (dr_people d)) e))\<rparr> = Inr st
    \<and> staged_ok st \<and> st_rows st = dr_people d @ map (created_person lib new_id s now) (of_kind lib d s records Create)"
proof -
  let ?st = "\<lparr>st_rows = dr_people d, st_index = (\<lambda>e. map_option pe_id (person_index (sort_key pe_id (dr_people d)) e))\<rparr>"
  note P = ready_people(1) [OF ready]
  have "staged_ok ?st" using P person_index_Some [of "sort_key pe_id (dr_people d)"] by (auto simp: staged_ok_def)
  moreover have "inj_on new_id (sr_employee ` set (of_kind lib d s records Create))"
    using fresh(1) by (rule inj_on_subset) auto
  moreover have "record_shape_ok lib r \<and> sr_employee r \<noteq> [] \<and> person_valid (dr_sources d) (person_from_record lib [] s r None)
      \<and> new_id (sr_employee r) \<notin> pe_id ` set (st_rows ?st) \<and> (\<forall>p \<in> set (st_rows ?st). pe_employee p \<noteq> Some (sr_employee r))"
    if "r \<in> set (of_kind lib d s records Create)" for r
    using that ready_record(1-4) [OF ready, of r] fresh(2) by simp
  ultimately show ?thesis
    using create_loop [OF _ distinct_of_kind [OF ready], of ?st new_id Create lib "dr_sources d" s now] by simp
qed

lemma update_succeeds:
  assumes ready: "merge_ready lib d s people records" and st: "staged_ok st" "set (dr_people d) \<subseteq> set (st_rows st)"
  shows "foldr_res (update_person lib (dr_sources d) s now) (of_kind lib d s records Update) st
    = Inr (st\<lparr>st_rows := map (write_updates lib d s records now) (st_rows st)\<rparr>)"
proof (rule write_loop [OF st(1) distinct_of_kind [OF ready],
      where good = "\<lambda>r p. pe_employee p = Some (sr_employee r) \<and> (owned_by_source s p \<or> claimable_by_source p)"])
  fix r assume "r \<in> set (of_kind lib d s records Update)"
  then have r: "r \<in> set records" "kind_in lib d s r = Update" by simp_all
  then obtain p where p: "p \<in> set (dr_people d)" "pe_employee p = Some (sr_employee r)"
    using ready_record(4) [OF ready r(1)] by auto
  then show "\<exists>p \<in> set (st_rows st). pe_employee p = Some (sr_employee r) \<and> sr_employee r \<noteq> []
      \<and> (pe_employee p = Some (sr_employee r) \<and> (owned_by_source s p \<or> claimable_by_source p))"
    using ready_record(3,5) [OF ready r(1)] st(2) by (intro bexI [of _ p]) auto
next
  fix r st p assume "r \<in> set (of_kind lib d s records Update)" "staged_person st (sr_employee r) = Some p"
    "pe_employee p = Some (sr_employee r) \<and> (owned_by_source s p \<or> claimable_by_source p)"
  with ready_record(1,2) [OF ready, of r] show "update_person lib (dr_sources d) s now r st
      = Inr (st\<lparr>st_rows := upd_row pe_id (pe_id p) (set_person_record lib s r now) (st_rows st)\<rparr>)"
    by (auto simp: update_person_def write_person_def intro: person_valid_set_record)
qed simp_all

lemma deactivate_succeeds:
  assumes ready: "merge_ready lib d s people records" and st: "staged_ok st"
    and kept: "set (gone_people d s records skipped) \<subseteq> set (st_rows st)"
  shows "foldr_res (deactivate_person lib (dr_sources d) s now) (sort (map pe_employee (gone_people d s records skipped))) st
    = Inr (st\<lparr>st_rows := map (write_gone lib d s records skipped now) (st_rows st)\<rparr>)"
proof (rule write_loop [OF st distinct_gone [OF ready],
      where good = "\<lambda>e p. e = pe_employee p \<and> owned_by_source s p \<and> person_valid (dr_sources d) p"])
  fix e assume "e \<in> set (sort (map pe_employee (gone_people d s records skipped)))"
  then obtain p where p: "p \<in> set (gone_people d s records skipped)" "e = pe_employee p" by auto
  then show "\<exists>p \<in> set (st_rows st). pe_employee p = Some (the e) \<and> the e \<noteq> []
      \<and> (e = pe_employee p \<and> owned_by_source s p \<and> person_valid (dr_sources d) p)"
    using gone_person [OF ready p(1)] gone_people_iff [of p s records skipped d] ready_people(2) [OF ready, of p] kept
    by (intro bexI [of _ p]) auto
next
  fix e st p assume e: "e \<in> set (sort (map pe_employee (gone_people d s records skipped)))"
    "staged_person st (the e) = Some p" "e = pe_employee p \<and> owned_by_source s p \<and> person_valid (dr_sources d) p"
  then obtain n where n: "e = Some n" using gone_person [OF ready] by fastforce
  have "pe_employee p = Some n" using e(3) n by simp
  with e(2,3) n show "deactivate_person lib (dr_sources d) s now e st
      = Inr (st\<lparr>st_rows := upd_row pe_id (pe_id p) (deactivated lib now) (st_rows st)\<rparr>)"
    by (simp add: deactivate_person_def write_person_def)
qed simp_all

lemma new_people_created:
  assumes "merge_ready lib d s people records"
  shows "map (created_person lib new_id s now) (of_kind lib d s records Create) = new_people lib new_id s records (dr_people d) now"
    and "p \<in> set (new_people lib new_id s records (dr_people d) now) \<Longrightarrow> person_valid (dr_sources d) p"
proof -
  have "(kind_in lib d s r = Create) = (Some (sr_employee r) \<notin> pe_employee ` set (dr_people d))" if "r \<in> set records" for r
    using ready_record(4) [OF assms that] by (force simp: image_iff)
  then have "of_kind lib d s records Create
      = filter (\<lambda>r. Some (sr_employee r) \<notin> pe_employee ` set (dr_people d)) (sort_key sr_employee records)"
    by (intro filter_cong) simp_all
  then show "map (created_person lib new_id s now) (of_kind lib d s records Create)
      = new_people lib new_id s records (dr_people d) now" by (simp add: new_people_def)
  show "person_valid (dr_sources d) p" if "p \<in> set (new_people lib new_id s records (dr_people d) now)"
    using that ready_record(2) [OF assms] by (auto simp: new_people_def person_valid_def person_from_record_def)
qed

lemma apply_locked_merges:
  assumes ready: "merge_ready lib d s people records"
    and v: "sp_creates v = of_kind lib d s records Create" "sp_updates v = of_kind lib d s records Update"
      "sp_deactivations v = sort (map pe_employee (gone_people d s records skipped))"
    and fresh: "inj_on new_id (sr_employee ` set records)"
      "\<forall>r \<in> set records. new_id (sr_employee r) \<notin> pe_id ` set (dr_people d)"
  shows "\<exists>result. apply_locked_preview lib new_id d s v now
    = Inr (merged_directory lib new_id d s people (fst ` set skipped) now, result)
    \<and> directory_ok (merged_directory lib new_id d s people (fst ` set skipped) now)"
proof -
  let ?up = "write_updates lib d s records now" and ?gone = "write_gone lib d s records skipped now"
  let ?new = "map (created_person lib new_id s now) (of_kind lib d s records Create)"
  obtain st1 where st1: "foldr_res (create_person lib new_id (dr_sources d) s now) (sp_creates v)
      \<lparr>st_rows = dr_people d, st_index = (\<lambda>e. map_option pe_id (person_index (sort_key pe_id (dr_people d)) e))\<rparr> = Inr st1"
      "staged_ok st1" "st_rows st1 = dr_people d @ ?new"
    using create_succeeds [OF ready fresh] unfolding v(1) by blast
  let ?st2 = "st1\<lparr>st_rows := map ?up (st_rows st1)\<rparr>"
  have st2: "foldr_res (update_person lib (dr_sources d) s now) (sp_updates v) st1 = Inr ?st2"
    unfolding v(2) by (rule update_succeeds [OF ready st1(2)]) (simp add: st1(3))
  have ok2: "staged_ok ?st2" by (rule staged_ok_map [OF st1(2)]) (simp_all add: writes_keeps)
  have "?up p = p" if "p \<in> set (gone_people d s records skipped)" for p
    using gone_person [OF ready that] none_of_kind by (auto simp: writes_def)
  then have "set (gone_people d s records skipped) \<subseteq> set (st_rows ?st2)"
    unfolding st1(3) using gone_people_iff [of _ s records skipped d] by (auto simp del: set_filter intro!: image_eqI [where f = ?up])
  then have st3: "foldr_res (deactivate_person lib (dr_sources d) s now) (sp_deactivations v) ?st2
      = Inr (?st2\<lparr>st_rows := map ?gone (st_rows ?st2)\<rparr>)"
    unfolding v(3) by (rule deactivate_succeeds [OF ready ok2])
  have rows: "map ?gone (st_rows ?st2)
      = map (merge_person lib s (snapshot_record lib (dr_sources d) s people) (fst ` set skipped) now) (dr_people d)
        @ new_people lib new_id s records (dr_people d) now"
    unfolding new_people_created(1) [OF ready, symmetric]
    using writes_merge [OF ready] writes_created [OF ready] by (simp add: st1(3))
  moreover have "people_ok (map ?gone (st_rows ?st2))"
    using staged_ok_map [OF ok2, of ?gone] by (simp add: writes_keeps staged_ok_def)
  ultimately show ?thesis
    using ready merge_person_valid [of "dr_sources d" _ lib s people] ready_people(2) [OF ready] new_people_created(2) [OF ready]
    unfolding apply_locked_preview_def Let_def st1(1) bindr.simps st2 st3
    by (auto simp: merged_directory_def directory_ok_def merge_ready_def upd_rows_keys)
qed

end
