(* ===== verification/DirectoryProperties.thy ===== *)
theory DirectoryProperties
  imports DirectoryMerge
begin

text \<open>
  The properties of the personnel directory: preview and apply together implement one merge of the snapshot into the local
  people, and an apply accepts nothing but the previewed change of the previewed state, once.
\<close>

section \<open>An example\<close>

definition demo_source :: source_row where
  "demo_source = \<lparr>ds_id = asc ''s'', ds_type = asc ''feishu'', ds_name = asc ''n'', ds_key = asc ''k'',
     ds_credentials = [(asc ''app_id'', asc ''a''), (asc ''app_secret'', asc ''b'')], ds_roots = [], ds_enabled = True,
     ds_last_synced = None, ds_updated_at = Some 0\<rparr>"

definition demo_payload :: signed_preview where
  "demo_payload = \<lparr>sg_version = 3, sg_source = asc ''s'', sg_config = \<lparr>sc_id = asc ''s'', sc_key = asc ''k'', sc_type = asc ''feishu'',
     sc_roots = [], sc_enabled = True, sc_updated_at = Some 0, sc_last_synced = None, sc_identity = (asc ''k'', [9])\<rparr>,
     sg_fingerprint = [7], sg_hash = [8]\<rparr>"

definition demo_lib :: sync_lib where
  "demo_lib = \<lparr>iso_date = (\<lambda>_. None), local_date = (\<lambda>t. t), dumps = (\<lambda>_ _. [1]),
     loads = (\<lambda>token age now. if now \<le> seconds age then Some demo_payload else None),
     hash_people = (\<lambda>_. [7]), hash_preview = (\<lambda>_. [8]), fetch_digest = (\<lambda>_. [9])\<rparr>"

definition demo_person :: "nat \<Rightarrow> person" where
  "demo_person n = \<lparr>pe_id = [n], pe_name = Some (asc ''old''), pe_employee = Some [n], pe_email = Some [], pe_phone = [],
     pe_department = Some [], pe_leader = Some [], pe_active = True, pe_source = asc ''feishu'',
     pe_sync_source = Some (asc ''s''), pe_platform = [n], pe_last_synced = None, pe_hire = None, pe_departure = None\<rparr>"

definition demo_remote :: "nat \<Rightarrow> directory_person option" where
  "demo_remote n = Some \<lparr>dp_employee = [n], dp_name = asc ''new'', dp_email = [], dp_department = [], dp_leader = [],
     dp_external = [n], dp_phone = [], dp_hire = [], dp_departure = []\<rparr>"

definition demo_record :: "nat \<Rightarrow> sync_record" where
  "demo_record n = \<lparr>sr_employee = [n], sr_name = asc ''new'', sr_email = [], sr_department = [], sr_leader = [],
     sr_external = [n], sr_phone = [], sr_hire = None, sr_departure = None\<rparr>"

definition demo_directory :: directory where
  "demo_directory = \<lparr>dr_people = [demo_person 49, demo_person 50], dr_sources = [demo_source]\<rparr>"

definition demo_adapter :: adapter where
  "demo_adapter = \<lparr>ad_key = Some (asc ''k''), ad_identity = Some (asc ''k'', [9]),
     ad_people = Inr [demo_remote 51, demo_remote 49], ad_complete = True, ad_skipped = Some []\<rparr>"

definition demo_sync_preview :: sync_preview where
  "demo_sync_preview = \<lparr>sp_source_key = asc ''k'', sp_creates = [demo_record 51], sp_updates = [demo_record 49], sp_unchanged = [],
     sp_deactivations = [Some [50]], sp_skipped = [], sp_messages = []\<rparr>"

lemma demo_previewed:
  "preview_people_sync demo_lib demo_source demo_directory demo_adapter demo_directory 0 = Inr (demo_sync_preview, [1])"
  by code_simp

lemma demo_found: "find_row ds_id (ds_id demo_source) (dr_sources demo_directory) = Some demo_source"
  by code_simp

lemma demo_signed: "signed_payload demo_lib demo_source people v = demo_payload"
  by (simp add: signed_payload_def demo_payload_def demo_lib_def source_config_of_def demo_source_def fetch_identity_def)

lemma demo_signing: "signing_ok demo_lib demo_payload 0"
  by (auto simp: signing_ok_def demo_lib_def seconds_def)

lemma demo_directory_ok: "directory_ok demo_directory"
proof -
  have "\<forall>p \<in> set (dr_people demo_directory). person_valid (dr_sources demo_directory) p" by code_simp
  moreover have "people_ok (dr_people demo_directory)"
    by (auto simp: people_ok_def demo_directory_def demo_person_def inj_on_def)
  ultimately show ?thesis by (simp add: directory_ok_def demo_directory_def)
qed

text \<open>C14. Preview and apply refine one merge: when nothing was written between the two and the token is still young, applying
  the preview succeeds and leaves the directory that merging the snapshot into the local people describes - every person of
  another source, every skipped account and every unchanged row as it was, no number or key twice, every row valid.\<close>

theorem apply_realises_merge:
  assumes "directory_ok d" and "find_row ds_id (ds_id src) (dr_sources d) = Some s" and "source_valid (dr_sources d) s"
    and "preview_people_sync lib src d0 ad d t = Inr (v, token)" and "sp_messages v = []"
    and "ad_people ad = Inr people" and "\<forall>q. Some q \<in> set people \<longrightarrow> dp_employee q \<noteq> []"
    and "\<forall>p \<in> set (dr_people d). owned_by_source s p \<and> pe_active p \<longrightarrow> pe_employee p \<notin> {None, Some []}"
    and "inj_on new_id (sr_employee ` set (checked_records lib (dr_sources d) s people))"
    and "\<forall>r \<in> set (checked_records lib (dr_sources d) s people). new_id (sr_employee r) \<notin> pe_id ` set (dr_people d)"
    and "signing_ok lib (signed_payload lib s (sort_key pe_id (dr_people d)) v) t"
    and "t \<le> checked" and "checked \<le> t + seconds 299"
  shows "\<exists>result. apply_people_sync lib new_id d (ds_id src) v token checked now
      = Inr (merged_directory lib new_id d s people (fst ` set (sp_skipped v)) now, result)
    \<and> directory_ok (merged_directory lib new_id d s people (fst ` set (sp_skipped v)) now)"
proof -
  obtain skipped records key where r: "safe_skipped_records (ad_skipped ad) = (skipped, [])"
      "normalize_remote_people lib (dr_sources d) s people = (records, [])"
      "valid_preview lib s (sort_key pe_id (dr_people d)) records skipped key t = Inr (v, token)"
    using preview_valid [OF assms(4,5)] assms(2,6) by auto
  note v = valid_preview_contents [OF r(3) assms(5)]
  have "sp_skipped v = skipped"
    using r(3) by (auto simp: valid_preview_def Let_def invalid_preview_def split: if_splits sum.splits)
  moreover have "set records \<subseteq> set (checked_records lib (dr_sources d) s people)" by (rule normalize_snapshot [OF r(2)])
  then have "inj_on new_id (sr_employee ` set records)" "\<forall>r \<in> set records. new_id (sr_employee r) \<notin> pe_id ` set (dr_people d)"
    using assms(9,10) by (blast intro: inj_on_subset)+
  from apply_locked_merges [OF _ v(1,2,3) this, of people now] assms(1,7,8) r(2) v(5)
  have "\<exists>result. apply_locked_preview lib new_id d s v now
      = Inr (merged_directory lib new_id d s people (fst ` set skipped) now, result)
      \<and> directory_ok (merged_directory lib new_id d s people (fst ` set skipped) now)" by (simp add: merge_ready_def)
  ultimately show ?thesis
    using apply_unchanged [OF assms(11,2,3) v(4) assms(5,12,13)] by simp
qed

lemma apply_realises_merge_witness:
  "\<exists>d result. apply_people_sync demo_lib (\<lambda>e. e @ e) demo_directory (asc ''s'') demo_sync_preview [1] 5 (seconds 6) = Inr (d, result)
     \<and> map pe_active (dr_people d) = [True, False, True] \<and> map pe_employee (dr_people d) = [Some [49], Some [50], Some [51]]
     \<and> directory_ok d"
proof -
  have recs: "checked_records demo_lib (dr_sources demo_directory) demo_source [demo_remote 51, demo_remote 49]
      = [demo_record 51, demo_record 49]" by code_simp
  have valid: "source_valid (dr_sources demo_directory) demo_source" by code_simp
  have empty: "sp_messages demo_sync_preview = []" by (simp add: demo_sync_preview_def)
  have people: "ad_people demo_adapter = Inr [demo_remote 51, demo_remote 49]" by (simp add: demo_adapter_def)
  let ?d = "merged_directory demo_lib (\<lambda>e. e @ e) demo_directory demo_source [demo_remote 51, demo_remote 49]
    (fst ` set (sp_skipped demo_sync_preview)) (seconds 6)"
  have numbers: "\<forall>q. Some q \<in> set [demo_remote 51, demo_remote 49] \<longrightarrow> dp_employee q \<noteq> []"
    by (auto simp: demo_remote_def)
  have numbered: "\<forall>p \<in> set (dr_people demo_directory). owned_by_source demo_source p \<and> pe_active p \<longrightarrow> pe_employee p \<notin> {None, Some []}"
    by (simp add: demo_directory_def demo_person_def)
  have fresh: "\<forall>r \<in> set (checked_records demo_lib (dr_sources demo_directory) demo_source [demo_remote 51, demo_remote 49]).
      (\<lambda>e. e @ e) (sr_employee r) \<notin> pe_id ` set (dr_people demo_directory)"
    unfolding recs by (simp add: demo_record_def demo_directory_def demo_person_def)
  have signing: "signing_ok demo_lib (signed_payload demo_lib demo_source (sort_key pe_id (dr_people demo_directory)) demo_sync_preview) 0"
    using demo_signing by (simp add: demo_signed)
  have inj: "inj_on (\<lambda>e. e @ e) (sr_employee ` set (checked_records demo_lib (dr_sources demo_directory) demo_source
      [demo_remote 51, demo_remote 49]))"
    unfolding recs by (simp add: demo_record_def)
  obtain result where "apply_people_sync demo_lib (\<lambda>e. e @ e) demo_directory (ds_id demo_source) demo_sync_preview [1] 5 (seconds 6)
      = Inr (?d, result)" and "directory_ok ?d"
    using apply_realises_merge [where checked = 5 and now = "seconds 6" and new_id = "\<lambda>e. e @ e", OF demo_directory_ok demo_found valid demo_previewed empty
      people numbers numbered inj fresh signing]
    by (auto simp: seconds_def)
  moreover have "map pe_active (dr_people ?d) = [True, False, True]"
    "map pe_employee (dr_people ?d) = [Some [49], Some [50], Some [51]]" by code_simp+
  ultimately show ?thesis by (auto simp: demo_source_def)
qed

text \<open>C15. An apply accepts only what was previewed: the same preview, the same configuration of the source and the same people
  as when it was signed, within five minutes - anything else is refused and writes nothing; and once applied, the preview
  is refused ever after, so that no change is made twice.\<close>

theorem stale_preview_refused:
  assumes "preview_people_sync lib src d0 ad d1 t = Inr (v, token)" and "sp_messages v = []"
    and "find_row ds_id (ds_id src) (dr_sources d1) = Some s"
    and "signing_ok lib (signed_payload lib s (sort_key pe_id (dr_people d1)) v) t"
    and "hash_preview lib v' = hash_preview lib v \<longrightarrow> v' = v"
    and "hash_people lib (sort_key pe_id (dr_people d)) = hash_people lib (sort_key pe_id (dr_people d1))
      \<longrightarrow> sort_key pe_id (dr_people d) = sort_key pe_id (dr_people d1)"
    and "apply_people_sync lib new_id d i v' token checked now = Inr (d', result)"
  shows "v' = v \<and> i = ds_id src \<and> map_option (source_config_of lib) (find_row ds_id i (dr_sources d)) = Some (source_config_of lib s)
    \<and> sort_key pe_id (dr_people d) = sort_key pe_id (dr_people d1) \<and> checked \<le> t + seconds preview_max_age
    \<and> (ds_last_synced s \<noteq> Some now \<longrightarrow> (\<forall>new_id' v'' checked' now'.
          apply_people_sync lib new_id' d' i v'' token checked' now' = apply_failed))"
proof -
  let ?g = "signed_payload lib s (sort_key pe_id (dr_people d1)) v"
  obtain s' people skipped records key where s': "find_row ds_id (ds_id src) (dr_sources d1) = Some s'"
      "valid_preview lib s' (sort_key pe_id (dr_people d1)) records skipped key t = Inr (v, token)"
    using preview_valid [OF assms(1,2)] by blast
  have token: "token = dumps lib ?g t"
    using valid_preview_contents(4) [OF s'(2) assms(2)] s'(1) assms(3) by (simp add: sign_preview_def)
  have src: "ds_id s = ds_id src" using find_row_Some [OF assms(3)] by simp
  have loaded: "loads lib token a c = Some h \<Longrightarrow> h = ?g" for a c h
    using assms(4) unfolding signing_ok_def token by blast
  obtain g s1 where g: "load_signed_preview lib i v' token checked = Inr g" and s1: "find_row ds_id i (dr_sources d) = Some s1"
    and same: "source_config_of lib s1 = sg_config g" "hash_people lib (sort_key pe_id (dr_people d)) = sg_fingerprint g"
    and applied: "apply_locked_preview lib new_id d s1 v' now = Inr (d', result)"
    using assms(7) by (auto simp: apply_people_sync_def bindr_Inr_iff split: if_splits option.splits)
  have lg: "loads lib token preview_max_age checked = Some g" "sg_source g = i" "sg_hash g = hash_preview lib v'"
    using g by (auto simp: load_signed_preview_def split: option.splits if_splits)
  have g': "g = ?g" by (rule loaded [OF lg(1)])
  have l: "loads lib token preview_max_age checked = Some ?g" and id: "i = ds_id s" and "hash_preview lib v' = hash_preview lib v"
    using lg unfolding g' by (simp_all add: signed_payload_def)
  then have "v' = v" using assms(5) by blast
  moreover have "sort_key pe_id (dr_people d) = sort_key pe_id (dr_people d1)"
    using same(2) assms(6) by (simp add: g' signed_payload_def)
  moreover have "source_config_of lib s1 = source_config_of lib s" using same(1) by (simp add: g' signed_payload_def)
  moreover have "checked \<le> t + seconds preview_max_age"
    using l assms(4) unfolding signing_ok_def token by (metis linorder_not_less option.distinct(1))
  moreover have "apply_people_sync lib new_id' d' i v'' token checked' now' = apply_failed"
    if "ds_last_synced s \<noteq> Some now" for new_id' v'' checked' now'
  proof -
    have "dr_sources d' = upd_row ds_id (ds_id s1) (\<lambda>s. s\<lparr>ds_last_synced := Some now\<rparr>) (dr_sources d)"
      using applied by (auto simp: apply_locked_preview_def Let_def bindr_Inr_iff)
    then have "find_row ds_id i (dr_sources d') = Some (s1\<lparr>ds_last_synced := Some now\<rparr>)"
      using s1 find_row_Some [OF s1] by (simp add: find_row_upd)
    moreover have "source_config_of lib (s1\<lparr>ds_last_synced := Some now\<rparr>) \<noteq> sg_config ?g"
      using that by (simp add: signed_payload_def source_config_of_def)
    ultimately show ?thesis
      using loaded by (auto simp: apply_people_sync_def load_signed_preview_def split: option.splits)
  qed
  ultimately show ?thesis using s1 id src by simp
qed

lemma stale_preview_refused_witness:
  "\<exists>d. map_sum id fst (apply_people_sync demo_lib (\<lambda>e. e @ e) demo_directory (asc ''s'') demo_sync_preview [1] 5 (seconds 6)) = Inr d
     \<and> apply_people_sync demo_lib (\<lambda>e. e @ e) d (asc ''s'') demo_sync_preview [1] 7 (seconds 8) = apply_failed"
proof -
  have empty: "sp_messages demo_sync_preview = []" by (simp add: demo_sync_preview_def)
  have "\<not> isl (apply_people_sync demo_lib (\<lambda>e. e @ e) demo_directory (asc ''s'') demo_sync_preview [1] 5 (seconds 6))"
    by code_simp
  then obtain d result where r:
      "apply_people_sync demo_lib (\<lambda>e. e @ e) demo_directory (asc ''s'') demo_sync_preview [1] 5 (seconds 6) = Inr (d, result)"
    by (cases "apply_people_sync demo_lib (\<lambda>e. e @ e) demo_directory (asc ''s'') demo_sync_preview [1] 5 (seconds 6)") auto
  note stale_preview_refused [OF demo_previewed empty demo_found, unfolded demo_signed, OF demo_signing _ _ r]
  then have "apply_people_sync demo_lib (\<lambda>e. e @ e) d (asc ''s'') demo_sync_preview [1] 7 (seconds 8) = apply_failed"
    by (simp add: demo_source_def)
  with r show ?thesis by simp
qed

end
