(* ===== verification/DirectoryWalkProperties.thy ===== *)
theory DirectoryWalkProperties
  imports DirectoryWalk DirectoryProperties
begin

text \<open>
  The reader of a DingTalk directory ends for every organisation of finitely many departments whose pages are finitely many,
  whatever cycles the departments form, and what it yields is fit for a synchronisation.
\<close>

section \<open>What a provider may answer\<close>

text \<open>The provider knows finitely many departments and hands out finitely many cursors.\<close>

definition finite_provider :: "session \<Rightarrow> ustring set \<Rightarrow> int set \<Rightarrow> bool" where
  "finite_provider http departments cursors \<longleftrightarrow> finite departments \<and> finite cursors
     \<and> (\<forall>n token d cursor code body result c. http n (UsersRequest token d cursor) = Response code (Some body)
          \<and> jget ''result'' body = Some result \<and> jget ''next_cursor'' result = Some (JInt c) \<longrightarrow> c \<in> cursors)
     \<and> (\<forall>n token d code body items item i. http n (ChildrenRequest token d) = Response code (Some body)
          \<and> jget ''result'' body = Some (JList items) \<and> item \<in> set items \<and> department_id (jget ''dept_id'' item) = Inr i
          \<longrightarrow> i \<in> departments)"

lemma request_json_answered:
  "request_json http q tries n = Inr (payload, m) \<Longrightarrow> \<exists>k code. http k q = Response code (Some payload)"
proof (induction http q tries n rule: request_json.induct)
  case (1 http q tries n)
  then show ?case
    by (subst (asm) (3) request_json.simps) (auto split: answer.splits nat.splits if_splits option.splits json.splits)
qed

lemma map_dir_mem: "map_dir f xs = Inr ys \<Longrightarrow> y \<in> set ys \<Longrightarrow> \<exists>x \<in> set xs. f x = Inr y"
  by (induction xs arbitrary: ys) (auto simp: map_dir_def bindd_Inr_iff)

section \<open>The loop over the pages\<close>

lemma users_page_cursor:
  assumes "finite_provider http D C" and "users_page http token d cursor rd = Inr (Some c, rd')"
  shows "c \<in> C"
proof -
  obtain payload n where p: "request_json http (UsersRequest token d cursor) max_retries (rd_requests rd) = Inr (payload, n)"
    and rest: "(case jget ''result'' payload of
         Some result \<Rightarrow> (case jget ''list'' result of
             Some (JList items) \<Rightarrow> bindd (merge_items d items (rd\<lparr>rd_requests := n\<rparr>)) (\<lambda>rd.
               bindd (next_cursor result) (\<lambda>c. Inr (c, rd)))
           | _ \<Rightarrow> Inl PayloadError)
       | None \<Rightarrow> Inl PayloadError) = Inr (Some c, rd')"
    using assms(2) unfolding users_page_def by (auto simp only: bindd_Inr_iff prod.case split: prod.splits)
  obtain result where result: "jget ''result'' payload = Some result"
    using rest by (cases "jget ''result'' payload") simp_all
  obtain items where "jget ''list'' result = Some (JList items)"
    using rest result by (simp split: option.splits json.splits)
  with rest result have p3: "next_cursor result = Inr (Some c)" by (simp add: bindd_Inr_iff)
  have "jget ''next_cursor'' result = Some (JInt c)"
    using p3 by (simp add: next_cursor_def split: option.splits json.splits bool.splits)
  with request_json_answered [OF p] result assms(1) show ?thesis unfolding finite_provider_def by blast
qed

lemma pages_end:
  assumes "finite_provider http D C"
  shows "\<exists>r. read_department_people http token d cursor seen rd = Some r"
proof (induction "card (C - seen)" arbitrary: cursor seen rd rule: less_induct)
  case less
  have fin: "finite C" using assms by (simp add: finite_provider_def)
  show ?case
  proof (cases "\<exists>c rd'. users_page http token d cursor rd = Inr (Some c, rd') \<and> c \<notin> seen")
    case False
    then show ?thesis by (subst read_department_people.simps) (auto split: sum.splits prod.splits option.splits)
  next
    case True
    then obtain c rd' where c: "users_page http token d cursor rd = Inr (Some c, rd')" "c \<notin> seen" by blast
    have "C - insert c seen \<subset> C - seen" using users_page_cursor [OF assms c(1)] c(2) by blast
    then have "card (C - insert c seen) < card (C - seen)" using fin by (intro psubset_card_mono) auto
    from less [OF this] c show ?thesis by (subst read_department_people.simps) simp
  qed
qed

section \<open>The loop over the departments\<close>

lemma children_known:
  assumes "finite_provider http D C" and "read_child_departments http token d rd = Inr (children, rd')"
  shows "set children \<subseteq> D"
proof -
  obtain payload n where q: "request_json http (ChildrenRequest token d) max_retries (rd_requests rd) = Inr (payload, n)"
    and rest: "(case jget ''result'' payload of
         Some (JList items) \<Rightarrow> bindd (map_dir child_of items) (\<lambda>cs.
           Inr (map fst cs, rd\<lparr>rd_requests := n,
             rd_departments := fold (\<lambda>(i, name) m. if name \<noteq> [] then AList.update i name m else m) cs (rd_departments rd)\<rparr>))
       | _ \<Rightarrow> Inl PayloadError) = Inr (children, rd')"
    using assms(2) unfolding read_child_departments_def by (auto simp only: bindd_Inr_iff prod.case split: prod.splits)
  obtain items where items: "jget ''result'' payload = Some (JList items)"
    using rest by (simp split: option.splits json.splits)
  obtain cs where cs: "map_dir child_of items = Inr cs" "children = map fst cs"
    using rest items by (auto simp: bindd_Inr_iff)
  note p = q items cs
  have "i \<in> D" if i: "i \<in> set children" for i
  proof -
    obtain name where "(i, name) \<in> set cs" using i p(4) by auto
    from map_dir_mem [OF p(3) this] obtain item where "item \<in> set items" "child_of item = Inr (i, name)" by blast
    moreover from this have "department_id (jget ''dept_id'' item) = Inr i"
      by (auto simp: child_of_def bindd_Inr_iff split: if_splits)
    ultimately show ?thesis using request_json_answered [OF p(1)] p(2) assms(1) unfolding finite_provider_def by blast
  qed
  then show ?thesis by blast
qed

lemma walk_ends:
  assumes "finite_provider http D C" and "set pending \<subseteq> D"
  shows "\<exists>r. walk_departments http token pending visited rd = Some r"
  using assms(2)
proof (induction "card (D - visited)" arbitrary: pending visited rd rule: less_induct)
  case less
  note outer = less(1)
  have fin: "finite D" using assms(1) by (simp add: finite_provider_def)
  from less(2) show ?case
  proof (induction pending)
    case Nil
    then show ?case by (subst walk_departments.simps) simp
  next
    case (Cons d rest)
    show ?case
    proof (cases "d \<in> visited")
      case True
      with Cons show ?thesis by (subst walk_departments.simps) simp
    next
      case False
      obtain r where r: "read_department_people http token d 0 {} rd = Some r" using pages_end [OF assms(1)] by blast
      show ?thesis
      proof (cases "\<exists>rd1 children rd2. r = Inr rd1 \<and> read_child_departments http token d rd1 = Inr (children, rd2)")
        case True
        then obtain rd1 children rd2 where c: "r = Inr rd1" "read_child_departments http token d rd1 = Inr (children, rd2)" by blast
        have "D - insert d visited \<subset> D - visited" using Cons.prems False by auto
        then have "card (D - insert d visited) < card (D - visited)" using fin by (intro psubset_card_mono) auto
        moreover have "set (rest @ filter (\<lambda>c. c \<notin> insert d visited) children) \<subseteq> D"
          using Cons.prems children_known [OF assms(1) c(2)] by auto
        ultimately show ?thesis using False r c outer by (subst walk_departments.simps) simp
      next
        case no: False
        with False r show ?thesis by (subst walk_departments.simps) (auto split: sum.splits)
      qed
    qed
  qed
qed

section \<open>The snapshot\<close>

lemma make_person_number: "make_person day_text u p dep leader = Inr q \<Longrightarrow> dp_employee q \<noteq> []"
  by (auto simp: make_person_def bindd_Inr_iff split: if_splits)

lemma directory_people_numbers:
  "directory_people http day_text token ups rd = Inr (ps, rd') \<Longrightarrow> q \<in> set ps \<Longrightarrow> dp_employee q \<noteq> []"
  by (induction ups arbitrary: rd ps rd') (auto simp: bindd_Inr_iff dest!: make_person_number)

text \<open>C38. Reading a directory ends, with a complete snapshot or with an error, however the departments refer to each other
  and however the provider pages. Every person of a snapshot has an employee number, which is what a synchronisation needs
  of them, and a snapshot is called complete exactly when the reading did not fail.\<close>

theorem directory_read_ends:
  assumes "finite_provider http departments cursors"
  shows "\<exists>ad. dingtalk_adapter lib http day_text s = Some ad \<and> (ad_complete ad \<longleftrightarrow> \<not> isl (ad_people ad))
    \<and> (\<forall>people. ad_people ad = Inr people \<longrightarrow> (\<forall>q \<in> set people. \<exists>p. q = Some p \<and> dp_employee p \<noteq> []))"
proof -
  have "\<exists>r. iter_people http day_text s = Some r
      \<and> (\<forall>ps us. r = Inr (ps, us) \<longrightarrow> (\<forall>q \<in> set ps. dp_employee q \<noteq> []))"
  proof (cases "\<exists>token n roots. bindd (dingtalk_source_ok s) (\<lambda>_. access_token http s 0) = Inr (token, n)
      \<and> map_dir (\<lambda>r. department_id (Some (JStr r))) (ds_roots s) = Inr roots")
    case False
    then show ?thesis by (auto simp: iter_people_def split: sum.splits)
  next
    case True
    then obtain token n roots where t: "bindd (dingtalk_source_ok s) (\<lambda>_. access_token http s 0) = Inr (token, n)"
      "map_dir (\<lambda>r. department_id (Some (JStr r))) (ds_roots s) = Inr roots" by blast
    have "finite_provider http (departments \<union> set roots) cursors"
      using assms unfolding finite_provider_def by blast
    from walk_ends [OF this, of roots token "{}" "new_reader\<lparr>rd_requests := n\<rparr>"]
    obtain r where r: "walk_departments http token roots {} (new_reader\<lparr>rd_requests := n\<rparr>) = Some r" by auto
    show ?thesis
      by (cases r) (auto simp: iter_people_def t r bindd_Inr_iff dest: directory_people_numbers)
  qed
  then obtain r where r: "iter_people http day_text s = Some r"
    "\<forall>ps us. r = Inr (ps, us) \<longrightarrow> (\<forall>q \<in> set ps. dp_employee q \<noteq> [])" by blast
  show ?thesis
  proof (cases r)
    case (Inr pu)
    with r show ?thesis by (cases pu) (simp add: dingtalk_adapter_def)
  qed (simp add: dingtalk_adapter_def r)
qed

text \<open>A provider with two departments that name each other as children and one person in each.\<close>

definition demo_session :: session where
  "demo_session n q = (case q of
     TokenRequest k v \<Rightarrow> Response (Some 200) (Some (JObj [(asc ''errcode'', JInt 0), (asc ''access_token'', JStr (asc ''t''))]))
   | UsersRequest t d c \<Rightarrow> Response (Some 200) (Some (JObj [(asc ''errcode'', JInt 0), (asc ''result'', JObj
       [(asc ''list'', JList [JObj [(asc ''userid'', JStr d), (asc ''job_number'', JStr d), (asc ''name'', JStr (asc ''n''))]]),
        (asc ''has_more'', JBool False)])]))
   | ChildrenRequest t d \<Rightarrow> Response (Some 200) (Some (JObj [(asc ''errcode'', JInt 0), (asc ''result'', JList
       [JObj [(asc ''dept_id'', JInt 1), (asc ''name'', JStr (asc ''a''))], JObj [(asc ''dept_id'', JInt 2), (asc ''name'', JStr (asc ''b''))]])]))
   | _ \<Rightarrow> NoAnswer)"

definition demo_dingtalk :: source_row where
  "demo_dingtalk = demo_source\<lparr>ds_type := asc ''dingtalk'', ds_roots := [asc ''1''],
     ds_credentials := [(asc ''app_key'', asc ''a''), (asc ''app_secret'', asc ''b'')]\<rparr>"

lemma demo_provider: "finite_provider demo_session {asc ''1'', asc ''2''} {}"
proof -
  have "department_id (jget ''dept_id'' (JObj [(asc ''dept_id'', JInt 1), (asc ''name'', JStr (asc ''a''))])) = Inr (asc ''1'')"
    "department_id (jget ''dept_id'' (JObj [(asc ''dept_id'', JInt 2), (asc ''name'', JStr (asc ''b''))])) = Inr (asc ''2'')"
    by code_simp+
  then show ?thesis
    by (auto simp: finite_provider_def demo_session_def jget_def asc_def split: if_splits)
qed

declare read_department_people.simps [code] walk_departments.simps [code]

lemma directory_read_ends_witness:
  "\<exists>ad. dingtalk_adapter demo_lib demo_session (\<lambda>_. None) demo_dingtalk = Some ad \<and> ad_complete ad
     \<and> map_sum id (map (map_option dp_employee)) (ad_people ad) = Inr [Some (asc ''1''), Some (asc ''2'')]"
proof -
  obtain ad where ad: "dingtalk_adapter demo_lib demo_session (\<lambda>_. None) demo_dingtalk = Some ad"
      "ad_complete ad \<longleftrightarrow> \<not> isl (ad_people ad)"
    using directory_read_ends [OF demo_provider, of demo_lib "\<lambda>_. None" demo_dingtalk] by blast
  have "map_option (\<lambda>ad. map_sum id (map (map_option dp_employee)) (ad_people ad))
      (dingtalk_adapter demo_lib demo_session (\<lambda>_. None) demo_dingtalk) = Some (Inr [Some (asc ''1''), Some (asc ''2'')])"
    by code_simp
  with ad show ?thesis by (cases "ad_people ad") auto
qed

end
