(* ===== verification/Traffic.thy ===== *)
theory Traffic
  imports Prelude "HOL-Library.Word"
begin

text \<open>
  Interface rates from two samples of the octet counters: \<open>calculate_rates\<close> of
  \<open>net/devices/network/traffic.py\<close>. A counter is read from a register of 32 or 64 bits; a float is its exact
  rational value.
\<close>

section \<open>Samples\<close>

record counter_row =
  cr_name :: ustring
  cr_bits :: nat
  cr_in :: "int option"
  cr_out :: "int option"
  cr_speed :: "rat option"
  cr_discontinuity :: "int option"

record counter_sample =
  cs_time :: rat
  cs_uptime :: "int option"
  cs_interfaces :: "(ustring \<times> counter_row) list"

datatype rate_reason = MissingSample | Restarted | Reconfigured | BadCounter | MayWrapTwice | WentBack | OverCapacity

text \<open>\<open>round(x, n)\<close>, half to even.\<close>

definition half_even :: "rat \<Rightarrow> int" where
  "half_even x = (let f = \<lfloor>x\<rfloor>; r = x - of_int f
     in if r < 1 / 2 then f else if r > 1 / 2 then f + 1 else if even f then f else f + 1)"

definition py_round :: "nat \<Rightarrow> rat \<Rightarrow> rat" where
  "py_round n x = of_int (half_even (x * 10 ^ n)) / 10 ^ n"

section \<open>One counter\<close>

definition mega :: rat where "mega = 1000000"

definition may_wrap_twice :: "nat \<Rightarrow> rat option \<Rightarrow> rat \<Rightarrow> bool" where
  "may_wrap_twice bits speed elapsed \<longleftrightarrow> bits = 32 \<and>
     (case speed of None \<Rightarrow> True | Some s \<Rightarrow> s = 0 \<or> s * mega * elapsed / 8 \<ge> 2 ^ 32)"

definition counter_delta :: "nat \<Rightarrow> int \<Rightarrow> int \<Rightarrow> int" where
  "counter_delta bits a b = (if b - a < 0 \<and> bits = 32 then b - a + 2 ^ 32 else b - a)"

definition octet_rate :: "rat \<Rightarrow> nat \<Rightarrow> rat option \<Rightarrow> int option \<Rightarrow> int option \<Rightarrow> rate_reason + rat" where
  "octet_rate elapsed bits speed before current = (case (before, current) of
     (Some a, Some b) \<Rightarrow>
       if a < 0 \<or> b < 0 then Inl BadCounter
       else if may_wrap_twice bits speed elapsed then Inl MayWrapTwice
       else
         let delta = counter_delta bits a b; rate = of_int delta * 8 / elapsed
         in if delta < 0 then Inl WentBack
            else if (case speed of None \<Rightarrow> False | Some s \<Rightarrow> s \<noteq> 0 \<and> rate > s * mega * (105 / 100)) then Inl OverCapacity
            else Inr rate
   | _ \<Rightarrow> Inl BadCounter)"

section \<open>One interface\<close>

record rate_row =
  rr_index :: ustring
  rr_name :: ustring
  rr_speed :: "rat option"
  rr_rx_bps :: "rat option"
  rr_tx_bps :: "rat option"
  rr_rx_mbps :: "rat option"
  rr_tx_mbps :: "rat option"
  rr_utilization :: "rat option"
  rr_known :: bool
  rr_reason :: "rate_reason option"

text \<open>The two rates, or the first reason that forbids them.\<close>

definition interface_rates :: "rat \<Rightarrow> int option \<Rightarrow> int option \<Rightarrow> counter_row option \<Rightarrow> counter_row \<Rightarrow> rate_reason + rat \<times> rat" where
  "interface_rates elapsed up1 up2 before current = (case (before, up1, up2) of
     (Some b, Some u1, Some u2) \<Rightarrow>
       if elapsed \<le> 0 then Inl MissingSample
       else if u2 < u1 \<or> cr_discontinuity current \<noteq> cr_discontinuity b then Inl Restarted
       else if cr_bits current \<noteq> cr_bits b \<or> cr_speed current \<noteq> cr_speed b then Inl Reconfigured
       else (case octet_rate elapsed (cr_bits current) (cr_speed current) (cr_in b) (cr_in current) of
           Inl e \<Rightarrow> Inl e
         | Inr rx \<Rightarrow> (case octet_rate elapsed (cr_bits current) (cr_speed current) (cr_out b) (cr_out current) of
             Inl e \<Rightarrow> Inl e
           | Inr tx \<Rightarrow> Inr (rx, tx)))
   | _ \<Rightarrow> Inl MissingSample)"

definition rate_row_of ::
    "rat \<Rightarrow> int option \<Rightarrow> int option \<Rightarrow> counter_row option \<Rightarrow> ustring \<times> counter_row \<Rightarrow> rate_row" where
  "rate_row_of elapsed up1 up2 before ic =
     (let i = fst ic; c = snd ic; name = (if cr_name c = [] then i else cr_name c)
      in case interface_rates elapsed up1 up2 before c of
           Inl e \<Rightarrow> \<lparr>rr_index = i, rr_name = name, rr_speed = cr_speed c, rr_rx_bps = None, rr_tx_bps = None,
              rr_rx_mbps = None, rr_tx_mbps = None, rr_utilization = None, rr_known = False, rr_reason = Some e\<rparr>
         | Inr (rx, tx) \<Rightarrow> \<lparr>rr_index = i, rr_name = name, rr_speed = cr_speed c,
              rr_rx_bps = Some (py_round 2 rx), rr_tx_bps = Some (py_round 2 tx),
              rr_rx_mbps = Some (py_round 4 (rx / mega)), rr_tx_mbps = Some (py_round 4 (tx / mega)),
              rr_utilization = (case cr_speed c of None \<Rightarrow> None
                | Some s \<Rightarrow> if s = 0 then None else Some (py_round 2 (max rx tx / (s * mega) * 100))),
              rr_known = True, rr_reason = None\<rparr>)"

text \<open>The sampling interval, the rows in the order of the second sample, and whether every row is known.\<close>

definition calculate_rates :: "counter_sample \<Rightarrow> counter_sample \<Rightarrow> rat \<times> rate_row list \<times> bool" where
  "calculate_rates first second =
     (let elapsed = cs_time second - cs_time first;
          rows = map (\<lambda>ic. rate_row_of elapsed (cs_uptime first) (cs_uptime second)
                   (map_of (cs_interfaces first) (fst ic)) ic) (cs_interfaces second)
      in (py_round 3 elapsed, rows, rows \<noteq> [] \<and> list_all rr_known rows))"

section \<open>The counter as a register\<close>

text \<open>What a register of 32 bits shows after \<open>n\<close> octets.\<close>

definition shown32 :: "nat \<Rightarrow> int" where
  "shown32 n = uint (of_nat n :: 32 word)"

lemma shown32_mod: "shown32 n = int n mod 2 ^ 32"
  by (simp add: shown32_def uint_nat unat_of_nat zmod_int)

text \<open>The corrected difference is the subtraction of the registers.\<close>

lemma counter_delta_word: "counter_delta 32 (uint a) (uint b) = uint (b - a)" for a b :: "32 word"
proof -
  have a: "0 \<le> uint a" "uint a < 2 ^ 32" and b: "0 \<le> uint b" "uint b < 2 ^ 32"
    using uint_lt2p [of a] uint_lt2p [of b] by simp_all
  have "uint (b - a) = (uint b - uint a) mod 2 ^ 32" by (simp add: uint_word_ariths)
  also have "\<dots> = counter_delta 32 (uint a) (uint b)"
  proof (cases "uint b - uint a < 0")
    case True
    have "(uint b - uint a) mod 2 ^ 32 = (uint b - uint a + 2 ^ 32) mod 2 ^ 32" by simp
    also have "\<dots> = uint b - uint a + 2 ^ 32"
    proof (rule mod_pos_pos_trivial)
      show "0 \<le> uint b - uint a + 2 ^ 32" using a(2) b(1) by linarith
      show "uint b - uint a + 2 ^ 32 < 2 ^ 32" using True by linarith
    qed
    finally show ?thesis using True by (simp add: counter_delta_def)
  next
    case False
    have "(uint b - uint a) mod 2 ^ 32 = uint b - uint a"
      by (rule mod_pos_pos_trivial) (use False a(1) b(2) in linarith)+
    then show ?thesis using False by (simp add: counter_delta_def)
  qed
  finally show ?thesis ..
qed

lemma counter_delta_true:
  assumes "m \<le> n" and "n - m < 2 ^ 32"
  shows "counter_delta 32 (shown32 m) (shown32 n) = int (n - m)"
proof -
  have "of_nat n - of_nat m = (of_nat (n - m) :: 32 word)" using assms(1) by (simp add: of_nat_diff)
  then have "counter_delta 32 (shown32 m) (shown32 n) = uint (of_nat (n - m) :: 32 word)"
    unfolding shown32_def counter_delta_word by simp
  also have "\<dots> = int (n - m)" using assms(2) by (simp add: uint_nat unat_of_nat)
  finally show ?thesis .
qed

lemma octet_rate_true:
  assumes m: "m \<le> n" and e: "0 < elapsed" and s: "0 < s"
    and cap: "of_nat (n - m) * 8 \<le> s * mega * elapsed" and safe: "s * mega * elapsed / 8 < 2 ^ 32"
  shows "octet_rate elapsed 32 (Some s) (Some (shown32 m)) (Some (shown32 n)) = Inr (of_nat (n - m) * 8 / elapsed)"
proof -
  have "(of_nat (n - m) :: rat) \<le> s * mega * elapsed / 8" using cap by (simp add: field_simps)
  also note safe
  finally have "(of_nat (n - m) :: rat) < of_nat (2 ^ 32)" by simp
  then have small: "n - m < 2 ^ 32" by (simp only: of_nat_less_iff)
  have d: "counter_delta 32 (shown32 m) (shown32 n) = int (n - m)" by (rule counter_delta_true [OF m small])
  have pos: "0 \<le> shown32 m" "0 \<le> shown32 n" by (simp_all add: shown32_def)
  have wrap: "\<not> may_wrap_twice 32 (Some s) elapsed" using safe s by (simp add: may_wrap_twice_def)
  have "of_nat (n - m) * 8 / elapsed \<le> s * mega" using cap e by (simp add: field_simps)
  also have "\<dots> \<le> s * mega * (105 / 100)" using s by (simp add: mega_def)
  finally have "\<not> of_nat (n - m) * 8 / elapsed > s * mega * (105 / 100)" by simp
  then show ?thesis using pos wrap by (simp add: octet_rate_def d Let_def)
qed

lemma octet_rate_bounds:
  assumes "octet_rate elapsed bits speed a b = Inr r" and "0 < elapsed"
  shows "0 \<le> r \<and> (\<forall>s. speed = Some s \<longrightarrow> s \<noteq> 0 \<longrightarrow> r \<le> s * mega * (105 / 100))"
  using assms by (auto simp: octet_rate_def Let_def split: option.split_asm if_split_asm)

section \<open>The published rates\<close>

text \<open>An interface of bandwidth \<open>s\<close> whose registers were read after \<open>rx\<close> and \<open>tx\<close> octets.\<close>

definition read_interface :: "ustring \<Rightarrow> rat \<Rightarrow> int option \<Rightarrow> nat \<Rightarrow> nat \<Rightarrow> counter_row" where
  "read_interface name s disc rx tx = \<lparr>cr_name = name, cr_bits = 32, cr_in = Some (shown32 rx), cr_out = Some (shown32 tx),
     cr_speed = Some s, cr_discontinuity = disc\<rparr>"

text \<open>C39. Whatever the 32-bit counters show and however they wrapped, the published rates of an interface are the true
  averages of the octets that passed between the two samples, as long as no more passed than the bandwidth
  allows and the interval is too short for a second wrap.\<close>

theorem rates_are_true_averages:
  assumes "cs_time first < cs_time second"
    and up: "cs_uptime first = Some u1" "cs_uptime second = Some u2" "u1 \<le> u2"
    and before: "map_of (cs_interfaces first) i = Some (read_interface name s disc rx1 tx1)"
    and current: "(i, read_interface name' s disc rx2 tx2) \<in> set (cs_interfaces second)"
    and true_octets: "rx1 \<le> rx2" "tx1 \<le> tx2" and "0 < s"
    and cap: "of_nat (rx2 - rx1) * 8 \<le> s * mega * (cs_time second - cs_time first)"
      "of_nat (tx2 - tx1) * 8 \<le> s * mega * (cs_time second - cs_time first)"
    and safe: "s * mega * (cs_time second - cs_time first) / 8 < 2 ^ 32"
  shows "\<exists>row \<in> set (fst (snd (calculate_rates first second))). rr_index row = i \<and> rr_known row
    \<and> rr_rx_bps row = Some (py_round 2 (of_nat (rx2 - rx1) * 8 / (cs_time second - cs_time first)))
    \<and> rr_tx_bps row = Some (py_round 2 (of_nat (tx2 - tx1) * 8 / (cs_time second - cs_time first)))"
proof -
  let ?e = "cs_time second - cs_time first"
  have e: "0 < ?e" using assms(1) by simp
  have r: "interface_rates ?e (cs_uptime first) (cs_uptime second) (Some (read_interface name s disc rx1 tx1))
      (read_interface name' s disc rx2 tx2) = Inr (of_nat (rx2 - rx1) * 8 / ?e, of_nat (tx2 - tx1) * 8 / ?e)"
    using up e octet_rate_true [OF true_octets(1) e \<open>0 < s\<close> cap(1) safe]
      octet_rate_true [OF true_octets(2) e \<open>0 < s\<close> cap(2) safe]
    by (simp add: interface_rates_def read_interface_def)
  let ?row = "rate_row_of ?e (cs_uptime first) (cs_uptime second) (map_of (cs_interfaces first) i)
      (i, read_interface name' s disc rx2 tx2)"
  have "?row \<in> set (fst (snd (calculate_rates first second)))"
    using current by (force simp: calculate_rates_def Let_def)
  moreover have "rr_index ?row = i \<and> rr_known ?row
    \<and> rr_rx_bps ?row = Some (py_round 2 (of_nat (rx2 - rx1) * 8 / ?e))
    \<and> rr_tx_bps ?row = Some (py_round 2 (of_nat (tx2 - tx1) * 8 / ?e))"
    by (simp add: rate_row_of_def before r Let_def)
  ultimately show ?thesis by blast
qed

text \<open>A rate is published only from two readings without a restart, a reset or a reconfiguration in between; it is
  never negative and never above 105 percent of the bandwidth.\<close>

theorem published_rates_are_plausible:
  assumes "row \<in> set (fst (snd (calculate_rates first second)))" and "rr_known row"
  shows "\<exists>b c u1 u2 rx tx. map_of (cs_interfaces first) (rr_index row) = Some b \<and> (rr_index row, c) \<in> set (cs_interfaces second)
    \<and> cs_uptime first = Some u1 \<and> cs_uptime second = Some u2 \<and> u1 \<le> u2 \<and> cs_time first < cs_time second
    \<and> cr_discontinuity c = cr_discontinuity b \<and> cr_bits c = cr_bits b \<and> cr_speed c = cr_speed b
    \<and> rr_rx_bps row = Some (py_round 2 rx) \<and> rr_tx_bps row = Some (py_round 2 tx) \<and> 0 \<le> rx \<and> 0 \<le> tx
    \<and> (\<forall>s. cr_speed c = Some s \<longrightarrow> s \<noteq> 0 \<longrightarrow> rx \<le> s * mega * (105 / 100) \<and> tx \<le> s * mega * (105 / 100))"
proof -
  let ?e = "cs_time second - cs_time first"
  from assms(1) obtain i c where c: "(i, c) \<in> set (cs_interfaces second)"
    and row: "row = rate_row_of ?e (cs_uptime first) (cs_uptime second) (map_of (cs_interfaces first) i) (i, c)"
    by (auto simp: calculate_rates_def Let_def)
  from assms(2) obtain rx tx where r: "interface_rates ?e (cs_uptime first) (cs_uptime second) (map_of (cs_interfaces first) i) c = Inr (rx, tx)"
    by (auto simp: row rate_row_of_def Let_def split: sum.split_asm)
  from r obtain b u1 u2 where b: "map_of (cs_interfaces first) i = Some b" and u: "cs_uptime first = Some u1" "cs_uptime second = Some u2"
    and g: "\<not> ?e \<le> 0" "\<not> u2 < u1" "cr_discontinuity c = cr_discontinuity b" "cr_bits c = cr_bits b" "cr_speed c = cr_speed b"
    and rates: "octet_rate ?e (cr_bits c) (cr_speed c) (cr_in b) (cr_in c) = Inr rx"
      "octet_rate ?e (cr_bits c) (cr_speed c) (cr_out b) (cr_out c) = Inr tx"
    by (auto simp: interface_rates_def split: option.split_asm if_split_asm sum.split_asm)
  have e: "0 < ?e" using g(1) by simp
  have "rr_index row = i" "rr_rx_bps row = Some (py_round 2 rx)" "rr_tx_bps row = Some (py_round 2 tx)"
    by (simp_all add: row rate_row_of_def r Let_def)
  moreover have "0 \<le> rx" "0 \<le> tx"
    "\<forall>s. cr_speed c = Some s \<longrightarrow> s \<noteq> 0 \<longrightarrow> rx \<le> s * mega * (105 / 100) \<and> tx \<le> s * mega * (105 / 100)"
    using octet_rate_bounds [OF rates(1) e] octet_rate_bounds [OF rates(2) e] by blast+
  moreover have "cs_time first < cs_time second" using e by simp
  moreover have "u1 \<le> u2" using g(2) by simp
  ultimately show ?thesis using b c u g(3-5) by blast
qed

definition demo_first :: counter_sample where
  "demo_first = \<lparr>cs_time = 10, cs_uptime = Some 5, cs_interfaces = [(asc ''1'', read_interface (asc ''eth'') 100 None 4294967000 10)]\<rparr>"

definition demo_second :: counter_sample where
  "demo_second = \<lparr>cs_time = 12, cs_uptime = Some 7, cs_interfaces = [(asc ''1'', read_interface (asc ''eth'') 100 None 4294968000 20)]\<rparr>"

lemma rates_are_true_averages_witness:
  "\<exists>row \<in> set (fst (snd (calculate_rates demo_first demo_second))). rr_rx_bps row = Some (py_round 2 4000)"
  using rates_are_true_averages [of demo_first demo_second 5 7 "asc ''1''" "asc ''eth''" 100 None 4294967000 10 "asc ''eth''" 4294968000 20]
  by (auto simp: demo_first_def demo_second_def mega_def)

lemma published_rates_are_plausible_witness:
  "\<exists>row rx. row \<in> set (fst (snd (calculate_rates demo_first demo_second))) \<and> rr_rx_bps row = Some (py_round 2 rx) \<and> 0 \<le> rx"
proof -
  have "\<exists>row. row \<in> set (fst (snd (calculate_rates demo_first demo_second))) \<and> rr_known row"
    by (simp add: calculate_rates_def rate_row_of_def interface_rates_def octet_rate_def may_wrap_twice_def counter_delta_def
        demo_first_def demo_second_def read_interface_def shown32_mod mega_def Let_def)
  then obtain row where row: "row \<in> set (fst (snd (calculate_rates demo_first demo_second)))" "rr_known row" by blast
  from published_rates_are_plausible [OF row] row(1) show ?thesis by blast
qed

end
