(* ===== verification/PcChecks.thy ===== *)
theory PcChecks
  imports Findings Traffic Schedules
begin

text \<open>
  The checks of an imported computer log, \<open>net/devices/pc/checks.py\<close>. A check is given the payload of the log and
  returns the issues it appends, or the exception it raises. The keys and texts of the logs are Chinese and written as
  lists of code points; a naive datetime is its number of microseconds on the local clock.
\<close>

section \<open>The standard library\<close>

text \<open>
  What the checks use of Unicode and of the standard library: the value of a character that \<open>\d\<close> matches, \<open>\w\<close>, the case
  folding of \<open>re.IGNORECASE\<close>, \<open>str.upper\<close>, \<open>datetime.strptime\<close>, \<open>Decimal(text)\<close> when it is finite, \<open>int(text)\<close>, the formats
  \<open>.2f\<close>, \<open>%Y-%m-%d\<close> and \<open>%Y-%m-%d %H:%M:%S\<close> of a local clock, the environment variable \<open>MIN_WINDOWS_RELEASE\<close> with its default, the folding of the case-insensitive
  comparisons of the database, and the parsers of \<open>ipaddress\<close> (a network is version, address and prefix length).
\<close>

record pc_lib =
  pl_digit :: "nat \<Rightarrow> nat option"
  pl_word :: "nat \<Rightarrow> bool"
  pl_fold :: "nat \<Rightarrow> nat"
  pl_upper :: "ustring \<Rightarrow> ustring"
  pl_strptime :: "ustring \<Rightarrow> ustring \<Rightarrow> time option"
  pl_decimal :: "ustring \<Rightarrow> rat option"
  pl_int :: "ustring \<Rightarrow> int option"
  pl_fixed2 :: "rat \<Rightarrow> ustring"
  pl_day_text :: "time \<Rightarrow> ustring"
  pl_stamp_text :: "time \<Rightarrow> ustring"
  pl_env_release :: ustring
  pl_db_fold :: "nat \<Rightarrow> nat"
  pl_network :: "ustring \<Rightarrow> (nat \<times> nat \<times> nat) option"
  pl_network_text :: "nat \<times> nat \<times> nat \<Rightarrow> ustring"
  pl_address :: "ustring \<Rightarrow> (nat \<times> nat) option"

definition is_digit :: "pc_lib \<Rightarrow> nat \<Rightarrow> bool" where
  "is_digit lib c \<longleftrightarrow> pl_digit lib c \<noteq> None"

definition number_of_digits :: "pc_lib \<Rightarrow> ustring \<Rightarrow> nat" where
  "number_of_digits lib s = fold (\<lambda>c n. 10 * n + (case pl_digit lib c of Some v \<Rightarrow> v | None \<Rightarrow> 0)) s 0"

definition lstrip :: "ustring \<Rightarrow> ustring" where
  "lstrip s = dropWhile is_space s"

definition rstrip :: "ustring \<Rightarrow> ustring" where
  "rstrip s = rev (dropWhile is_space (rev s))"

text \<open>\<open>s.rsplit(c, 1)[-1]\<close> and \<open>s.split(c, 1)[0]\<close>\<close>

definition after_last :: "nat \<Rightarrow> ustring \<Rightarrow> ustring" where
  "after_last c s = rev (takeWhile (\<lambda>x. x \<noteq> c) (rev s))"

definition before_first :: "nat \<Rightarrow> ustring \<Rightarrow> ustring" where
  "before_first c s = takeWhile (\<lambda>x. x \<noteq> c) s"

section \<open>Access to a payload\<close>

definition uget_or :: "ustring \<Rightarrow> json \<Rightarrow> json \<Rightarrow> json" where
  "uget_or k v j = (case j of JObj kvs \<Rightarrow> (case map_of kvs k of Some x \<Rightarrow> x | None \<Rightarrow> v) | _ \<Rightarrow> v)"

definition has_key :: "ustring \<Rightarrow> json \<Rightarrow> bool" where
  "has_key k j \<longleftrightarrow> (case j of JObj kvs \<Rightarrow> k \<in> fst ` set kvs | _ \<Rightarrow> False)"

text \<open>\<open>x or {}\<close>, and a value whose methods are those of a dict\<close>

definition or_dict :: "json \<Rightarrow> json" where
  "or_dict j = (if truthy j then j else JObj [])"

definition dict_of :: "json \<Rightarrow> json res" where
  "dict_of j = (if is_obj j then Inr j else Inl AttributeError)"

text \<open>A number to compare with; a bool is one in Python.\<close>

fun num_of :: "json \<Rightarrow> rat res" where
  "num_of (JInt i) = Inr (of_int i)"
| "num_of (JNum q) = Inr q"
| "num_of (JBool b) = Inr (if b then 1 else 0)"
| "num_of _ = Inl TypeError"

abbreviation key_system :: ustring where "key_system \<equiv> [31995, 32479, 20449, 24687, 27010, 35272]"
abbreviation key_hardware :: ustring where "key_hardware \<equiv> [35745, 31639, 26426, 30828, 20214, 36164, 28304, 24773, 20917]"
abbreviation key_software :: ustring where "key_software \<equiv> [24050, 23433, 35013, 36719, 20214, 21015, 34920]"
abbreviation key_processes :: ustring where "key_processes \<equiv> [24403, 21069, 36816, 34892, 36827, 31243, 28165, 21333]"
abbreviation key_bitlocker :: ustring where "key_bitlocker \<equiv> [66, 105, 116, 76, 111, 99, 107, 101, 114, 29366, 24577]"
abbreviation key_defender :: ustring where "key_defender \<equiv> [87, 105, 110, 100, 111, 119, 115, 68, 101, 102, 101, 110, 100, 101, 114, 29366, 24577]"
abbreviation key_updates :: ustring where "key_updates \<equiv> [31995, 32479, 26356, 26032, 21382, 21490]"
abbreviation key_activation :: ustring where "key_activation \<equiv> [87, 105, 110, 100, 111, 119, 115, 28608, 27963, 20449, 24687]"
abbreviation key_kms :: ustring where "key_kms \<equiv> [75, 77, 83, 26381, 21153, 22120, 36830, 36890, 24773, 20917]"
abbreviation key_volumes :: ustring where "key_volumes \<equiv> [30913, 30424, 21367, 20449, 24687]"
abbreviation key_login :: ustring where "key_login \<equiv> [24403, 21069, 30331, 24405, 29992, 25143, 24037, 21495]"
abbreviation key_computer :: ustring where "key_computer \<equiv> [35745, 31639, 26426, 21517]"

section \<open>Issues\<close>

definition add_issue :: "ustring \<Rightarrow> ustring \<Rightarrow> raw_issue" where
  "add_issue title detail = \<lparr>ri_project = None, ri_item = [], ri_title = title, ri_detail = detail, ri_data_state = None,
     ri_severity = None\<rparr>"

text \<open>One issue that joins the problems found, or none.\<close>

definition issue_of :: "ustring \<Rightarrow> ustring \<Rightarrow> ustring list \<Rightarrow> raw_issue list" where
  "issue_of title sep problems = (if problems = [] then [] else [add_issue title (joined sep problems)])"

section \<open>Dates\<close>

definition datetime_formats :: "ustring list" where
  "datetime_formats = [asc ''%Y-%m-%d %H:%M:%S'', asc ''%Y-%m-%d'']"

definition parse_local_datetime :: "runtime \<Rightarrow> pc_lib \<Rightarrow> json \<Rightarrow> time option" where
  "parse_local_datetime rt lib v =
     (if \<not> truthy v then None
      else first_row (List.map_filter (\<lambda>f. pl_strptime lib f (strip (py_str rt v))) datetime_formats))"

text \<open>\<open>_local_naive\<close> of an aware datetime, and whole days between two local clocks\<close>

definition local_naive :: "time \<Rightarrow> time" where
  "local_naive t = t + zone_offset"

definition days_since :: "time \<Rightarrow> time \<Rightarrow> int" where
  "days_since collected t = (local_naive collected - t) div day_us"

section \<open>Software\<close>

type_synonym policy = "(ustring \<times> (ustring \<times> ustring list) list) list"

definition policy_section :: "string \<Rightarrow> policy \<Rightarrow> (ustring \<times> ustring list) list" where
  "policy_section k p = (case map_of p (asc k) of Some s \<Rightarrow> s | None \<Rightarrow> [])"

definition blacklisted :: "runtime \<Rightarrow> policy \<Rightarrow> ustring \<Rightarrow> bool" where
  "blacklisted rt p name = list_ex (\<lambda>k. contains_text (str_lower rt k) name)
     (case map_of (policy_section ''BLACKLIST'' p) (asc ''keywords'') of Some ks \<Rightarrow> ks | None \<Rightarrow> [])"

definition whitelisted :: "runtime \<Rightarrow> policy \<Rightarrow> ustring \<Rightarrow> ustring \<Rightarrow> bool" where
  "whitelisted rt p identity name \<longleftrightarrow>
     list_ex (\<lambda>k. contains_text (str_lower rt k) name) (concat (map snd (policy_section ''WHITELIST'' p)))
   \<or> list_ex (\<lambda>(s, ids). contains_text (str_lower rt s) name \<and> identity \<in> set ids) (policy_section ''SPECIAL_WHITELIST'' p)"

definition bad_software :: "runtime \<Rightarrow> policy \<Rightarrow> ustring \<Rightarrow> ustring \<Rightarrow> ustring \<Rightarrow> bool" where
  "bad_software rt p mode identity name =
     (let lowered = str_lower rt name
      in if mode \<noteq> asc ''whitelist'' \<and> blacklisted rt p lowered then True
         else if mode = asc ''blacklist'' then False
         else \<not> whitelisted rt p identity lowered)"

definition software_names :: "runtime \<Rightarrow> json \<Rightarrow> ustring list" where
  "software_names rt payload = filter (\<lambda>n. n \<noteq> [])
     (map (\<lambda>s. strip (str_or rt (uget [36719, 20214, 21517] s) [])) (filter is_obj (list_of (uget key_software payload))))"

text \<open>A \<open>ValueError\<close> is its message, which the caller shows.\<close>

definition check_software :: "runtime \<Rightarrow> json \<Rightarrow> ustring \<Rightarrow> policy \<Rightarrow> ustring \<Rightarrow> ustring + raw_issue list" where
  "check_software rt payload identity p mode =
     (if mode \<notin> {asc ''whitelist'', asc ''blacklist'', asc ''legacy''} then Inl [36719, 20214, 20998, 26512, 27169, 24335, 26080, 25928, 12290]
      else Inr (issue_of [36719, 20214, 38382, 39064] [65292] (sort (remdups (filter (bad_software rt p mode identity) (software_names rt payload))))))"

section \<open>Encryption, virus protection and updates\<close>

definition encrypted_states :: "ustring list" where
  "encrypted_states = [[23436, 20840, 21152, 23494], [20165, 21152, 23494, 20102, 24050, 29992, 31354, 38388], [21152, 23494, 36827, 34892, 20013]]"

definition volume_problem :: "runtime \<Rightarrow> json \<Rightarrow> ustring option res" where
  "volume_problem rt volume =
     (let status = uget_or [36716, 25442, 29366, 24577] (JStr []) volume
      in if \<exists>s \<in> set encrypted_states. status = JStr s then Inr None
         else bindr (dict_of volume) (\<lambda>volume.
           Inr (Some (py_str rt (uget_or [21367] (JStr []) volume) @ [21367, 65288] @ str_or rt status [29366, 24577, 26410, 30693] @ [65289]))))"

definition check_bitlocker :: "runtime \<Rightarrow> json \<Rightarrow> raw_issue list res" where
  "check_bitlocker rt payload =
     bindr (dict_of (or_dict (uget key_bitlocker payload))) (\<lambda>section.
       case list_of (uget key_volumes section) of
         [] \<Rightarrow> Inr [add_issue [66, 105, 116, 76, 111, 99, 107, 101, 114, 25968, 25454, 32570, 22833] [26410, 37319, 38598, 21040, 30913, 30424, 21152, 23494, 29366, 24577]]
       | volumes \<Rightarrow> bindr (map_res (volume_problem rt) volumes) (\<lambda>ps.
           Inr (issue_of [66, 105, 116, 76, 111, 99, 107, 101, 114, 38382, 39064] [65292] (List.map_filter id ps))))"

definition too_old :: "time \<Rightarrow> json \<Rightarrow> time \<Rightarrow> (int \<Rightarrow> ustring) \<Rightarrow> ustring list res" where
  "too_old collected limit t text =
     bindr (num_of limit) (\<lambda>n. let d = days_since collected t in Inr (if n < of_int d then [text d] else []))"

definition check_defender :: "runtime \<Rightarrow> pc_lib \<Rightarrow> json \<Rightarrow> time \<Rightarrow> json \<Rightarrow> json \<Rightarrow> raw_issue list res" where
  "check_defender rt lib payload collected update_max scan_max =
     (let defender = or_dict (uget key_defender payload)
      in if defender = JObj [] then Inr [add_issue [87, 105, 110, 100, 111, 119, 115, 68, 101, 102, 101, 110, 100, 101, 114, 25968, 25454, 32570, 22833] [26410, 37319, 38598, 21040, 32, 68, 101, 102, 101, 110, 100, 101, 114, 32, 29366, 24577]]
         else bindr (dict_of defender) (\<lambda>defender.
           let update = uget [19978, 27425, 26356, 26032, 26102, 38388] defender
           in bindr (case parse_local_datetime rt lib update of
                None \<Rightarrow> Inr [[30149, 27602, 24211, 26356, 26032, 26102, 38388, 32570, 22833, 25110, 26684, 24335, 38169, 35823]]
              | Some t \<Rightarrow> too_old collected update_max t
                  (\<lambda>d. [30149, 27602, 24211, 26368, 21518, 26356, 26032, 26102, 38388, 20026, 32] @ py_str rt update @ [65292, 24050, 36807, 32] @ int_str d @ [32, 22825])) (\<lambda>p1.
           bindr (dict_of (or_dict (uget [25195, 25551, 20449, 24687] defender))) (\<lambda>scan.
           let scanned = uget [26102, 38388] scan
           in bindr (case parse_local_datetime rt lib scanned of
                None \<Rightarrow> Inr [[26410, 21457, 29616, 26377, 25928, 30340, 30149, 27602, 25195, 25551, 35760, 24405]]
              | Some t \<Rightarrow> too_old collected scan_max t
                  (\<lambda>d. [19978, 27425, 25195, 25551, 26102, 38388, 20026, 32] @ py_str rt scanned @ [65292, 24050, 36807, 32] @ int_str d @ [32, 22825])) (\<lambda>p2.
           Inr (issue_of [87, 105, 110, 100, 111, 119, 115, 68, 101, 102, 101, 110, 100, 101, 114, 38382, 39064] [65307] (p1 @ p2)))))))"

definition update_dates :: "runtime \<Rightarrow> pc_lib \<Rightarrow> json \<Rightarrow> time list" where
  "update_dates rt lib payload = List.map_filter (\<lambda>row. parse_local_datetime rt lib (uget [26085, 26399] row))
     (filter is_obj (list_of (uget key_updates payload)))"

definition check_update_history :: "runtime \<Rightarrow> pc_lib \<Rightarrow> json \<Rightarrow> time \<Rightarrow> json \<Rightarrow> raw_issue list res" where
  "check_update_history rt lib payload collected max_age =
     (case update_dates rt lib payload of
        [] \<Rightarrow> Inr [add_issue [31995, 32479, 26356, 26032, 25968, 25454, 32570, 22833] [26410, 37319, 38598, 21040, 26377, 25928, 30340, 31995, 32479, 26356, 26032, 35760, 24405]]
      | d # ds \<Rightarrow>
          let latest = fold max ds d
          in map_sum id (map (add_issue [31995, 32479, 26356, 26032, 21382, 21490, 38382, 39064])) (too_old collected max_age latest
               (\<lambda>days. [19978, 27425, 26356, 26032, 26085, 26399, 20026, 32] @ pl_day_text lib latest @ [65292, 36317, 20170, 32] @ int_str days @ [32, 22825])))"

end
