(* ===== verification/PcMachine.thy ===== *)
theory PcMachine
  imports PcChecks
begin

text \<open>
  The checks of the machine itself: version, activation, uptime and load (\<open>net/devices/pc/checks.py\<close>), and the capacity
  of its volumes (\<open>net/devices/pc/disk.py\<close>).
\<close>

section \<open>System version\<close>

text \<open>\<open>_release_key\<close>: year and half year of a release such as 23H2.\<close>

definition release_key :: "pc_lib \<Rightarrow> ustring \<Rightarrow> (nat \<times> nat) option" where
  "release_key lib s = (case strip (pl_upper lib s) of
     [a, b, h, n] \<Rightarrow>
       if is_digit lib a \<and> is_digit lib b \<and> h = 72 \<and> (n = 49 \<or> n = 50) then Some (number_of_digits lib [a, b], n - 48) else None
   | _ \<Rightarrow> None)"

text \<open>\<open>re.search(r'\b(\d{2}H[12])\b', text, re.IGNORECASE)\<close>; \<open>inside\<close> says whether a word character comes before.\<close>

fun find_release :: "pc_lib \<Rightarrow> bool \<Rightarrow> ustring \<Rightarrow> ustring option" where
  "find_release lib inside (a # b # h # n # s) =
     (if \<not> inside \<and> is_digit lib a \<and> is_digit lib b \<and> pl_fold lib h = 104 \<and> (n = 49 \<or> n = 50)
         \<and> (s = [] \<or> \<not> pl_word lib (hd s))
      then Some [a, b, h, n] else find_release lib (pl_word lib a) (b # h # n # s))"
| "find_release lib inside _ = None"

text \<open>\<open>re.match(r'^(?:microsoft\s+)?windows\b', text, re.IGNORECASE)\<close>\<close>

definition folded_prefix :: "pc_lib \<Rightarrow> string \<Rightarrow> ustring \<Rightarrow> bool" where
  "folded_prefix lib word s \<longleftrightarrow> map (pl_fold lib) (take (length word) s) = asc word"

definition windows_word :: "pc_lib \<Rightarrow> ustring \<Rightarrow> bool" where
  "windows_word lib s \<longleftrightarrow> folded_prefix lib ''windows'' s \<and> (length s = 7 \<or> \<not> pl_word lib (s ! 7))"

definition windows_caption :: "pc_lib \<Rightarrow> ustring \<Rightarrow> bool" where
  "windows_caption lib s \<longleftrightarrow> windows_word lib s
     \<or> (folded_prefix lib ''microsoft'' s \<and> is_space (hd (drop 9 s @ [0])) \<and> windows_word lib (lstrip (drop 9 s)))"

text \<open>\<open>re.fullmatch(r'10\.0\.(\d+)(?:\.\d+)?', text)\<close>\<close>

definition build_number :: "pc_lib \<Rightarrow> ustring \<Rightarrow> nat option" where
  "build_number lib s =
     (let rest = drop 5 s; n = takeWhile (is_digit lib) rest; after = dropWhile (is_digit lib) rest
      in if take 5 s = asc ''10.0.'' \<and> n \<noteq> []
            \<and> (after = [] \<or> (hd after = 46 \<and> tl after \<noteq> [] \<and> list_all (is_digit lib) (tl after)))
         then Some (number_of_digits lib n) else None)"

definition windows_releases :: "(nat \<times> string) list" where
  "windows_releases = [(19044, ''21H2''), (19045, ''22H2''), (22000, ''21H2''), (22621, ''22H2''), (22631, ''23H2''), (26100, ''24H2'')]"

definition system_release :: "runtime \<Rightarrow> pc_lib \<Rightarrow> json \<Rightarrow> (nat \<times> nat) option" where
  "system_release rt lib system =
     (let version = uget_or [31995, 32479, 20027, 35201, 29256, 26412, 21517] (JStr []) system; text = py_str rt version
      in case release_key lib (str_or rt version []) of
           Some k \<Rightarrow> Some k
         | None \<Rightarrow> (case find_release lib False text of
             Some r \<Rightarrow> release_key lib r
           | None \<Rightarrow>
               if windows_caption lib (strip text)
               then (case build_number lib (strip (py_str rt (uget_or [31995, 32479, 35814, 32454, 29256, 26412] (JStr []) system))) of
                       None \<Rightarrow> None
                     | Some n \<Rightarrow> (case map_of windows_releases n of None \<Rightarrow> None | Some r \<Rightarrow> release_key lib (asc r)))
               else None))"

definition check_system_version :: "runtime \<Rightarrow> pc_lib \<Rightarrow> json \<Rightarrow> ustring \<Rightarrow> raw_issue list res" where
  "check_system_version rt lib payload minimum =
     (let least = (if minimum = [] then pl_env_release lib else minimum)
      in bindr (dict_of (or_dict (uget key_system payload))) (\<lambda>system.
           let version = uget_or [31995, 32479, 20027, 35201, 29256, 26412, 21517] (JStr []) system
           in Inr (case system_release rt lib system of
                None \<Rightarrow> [add_issue [31995, 32479, 29256, 26412, 25968, 25454, 32570, 22833] ([26080, 27861, 35782, 21035, 31995, 32479, 29256, 26412, 65306] @ str_or rt version [31354])]
              | Some actual \<Rightarrow> (case release_key lib least of
                  None \<Rightarrow> []
                | Some wanted \<Rightarrow> if actual < wanted
                    then [add_issue [31995, 32479, 29256, 26412, 36807, 26087] ([31995, 32479, 29256, 26412, 20026, 32] @ py_str rt version @ [65292, 26368, 20302, 35201, 27714, 20026, 32] @ least)] else []))))"

section \<open>Activation\<close>

definition windows_state :: "runtime \<Rightarrow> json \<Rightarrow> ustring" where
  "windows_state rt v =
     (let text = casefold rt (strip (str_or rt v []))
      in if text \<in> {[27491, 24120], [27491, 24120, 36890, 35759], [25104, 21151], asc ''true'', asc ''ok'', asc ''success'', asc ''healthy''} then asc ''known''
         else if text \<in> {[22833, 36133], [26080, 27861, 35775, 38382], [26410, 21152, 20837, 22495], asc ''false'', asc ''failed'', asc ''error''} then asc ''failed''
         else asc ''unknown'')"

definition kms_problems :: "runtime \<Rightarrow> json \<Rightarrow> json \<Rightarrow> ustring list \<Rightarrow> ustring list" where
  "kms_problems rt payload activation servers =
     (let state = uget_or key_kms (JStr []) payload;
          name = (\<lambda>s. casefold rt (strip s));
          expected = map name (filter (\<lambda>s. strip s \<noteq> []) servers);
          actual = [name (py_str rt (uget_or [75, 77, 83, 32, 35745, 31639, 26426, 32, 73, 80, 32, 22320, 22336] (JStr []) activation)),
            name (before_first 58 (py_str rt (uget_or [24050, 27880, 20876, 30340, 32, 75, 77, 83, 32, 35745, 31639, 26426, 21517, 31216] (JStr []) activation)))]
      in (if windows_state rt state \<noteq> asc ''known'' then [[75, 77, 83, 26381, 21153, 22120, 36890, 35759, 29366, 24577, 65306] @ str_or rt state [26410, 30693]] else [])
         @ (if expected \<noteq> [] \<and> set expected \<inter> set actual = {} then [[26410, 20351, 29992, 37197, 32622, 20013, 20801, 35768, 30340, 32, 75, 77, 83, 32, 26381, 21153, 22120, 28608, 27963]] else []))"

definition check_activation :: "runtime \<Rightarrow> pc_lib \<Rightarrow> json \<Rightarrow> ustring list \<Rightarrow> raw_issue list res" where
  "check_activation rt lib payload servers =
     (let activation = or_dict (uget key_activation payload)
      in if activation = JObj [] then Inr [add_issue [31995, 32479, 28608, 27963, 25968, 25454, 32570, 22833] [26410, 37319, 38598, 21040, 32, 87, 105, 110, 100, 111, 119, 115, 32, 28608, 27963, 20449, 24687]]
         else bindr (dict_of activation) (\<lambda>activation.
           let licence = uget_or [35768, 21487, 35777, 29366, 24577] (JStr []) activation;
               product = pl_upper lib (py_str rt (uget_or [25551, 36848] (JStr []) activation) @ 32 # py_str rt (uget_or [20135, 21697, 23494, 38053, 36890, 36947] (JStr []) activation))
           in Inr (issue_of [31995, 32479, 28608, 27963, 38382, 39064] [65307]
                ((if licence = JStr [24050, 25480, 26435] then [] else [[35768, 21487, 35777, 29366, 24577, 20026, 65306] @ str_or rt licence [26410, 30693]])
                 @ (if contains_text (asc ''KMS'') product then kms_problems rt payload activation servers else [])))))"

section \<open>Uptime and load\<close>

text \<open>\<open>int(x)\<close> rounds towards zero.\<close>

definition truncate_rat :: "rat \<Rightarrow> int" where
  "truncate_rat x = (if 0 \<le> x then \<lfloor>x\<rfloor> else \<lceil>x\<rceil>)"

definition check_uptime :: "runtime \<Rightarrow> pc_lib \<Rightarrow> json \<Rightarrow> time \<Rightarrow> json \<Rightarrow> raw_issue list res" where
  "check_uptime rt lib payload collected threshold =
     bindr (dict_of (or_dict (uget key_system payload))) (\<lambda>system.
       let boot = uget [24320, 26426, 26102, 38388] system
       in case parse_local_datetime rt lib boot of
            None \<Rightarrow> Inr [add_issue [24320, 26426, 26102, 38388, 25968, 25454, 32570, 22833] [24320, 26426, 26102, 38388, 32570, 22833, 25110, 26684, 24335, 38169, 35823]]
          | Some t \<Rightarrow>
              let hours = of_int (local_naive collected - t) / 3600000000
              in bindr (num_of threshold) (\<lambda>n. Inr (if n \<le> hours
                   then [add_issue [38271, 26102, 38388, 26410, 20851, 26426] ([24320, 26426, 26102, 38388, 65306] @ py_str rt boot @ [65292, 36317, 20170, 32] @ int_str (truncate_rat hours) @ [32, 23567, 26102])]
                   else [])))"

definition load_problem :: "runtime \<Rightarrow> json \<Rightarrow> ustring \<times> ustring \<times> json \<Rightarrow> ustring list res" where
  "load_problem rt resource klt = (case klt of (k, label, threshold) \<Rightarrow>
     (case float_of_text rt (remove_percent (strip (str_or rt (uget k resource) []))) of
        None \<Rightarrow> Inr []
      | Some percent \<Rightarrow> bindr (num_of threshold) (\<lambda>n. Inr (if n < percent
          then [label @ [21344, 29992, 29575, 32] @ text_of_float rt percent @ [37, 32, 36229, 36807, 38408, 20540, 32] @ py_str rt threshold @ [37]] else []))))"

abbreviation key_cpu :: ustring where "key_cpu \<equiv> [24403, 21069, 67, 80, 85, 21344, 29992, 29575]"
abbreviation key_memory :: ustring where "key_memory \<equiv> [24403, 21069, 20869, 23384, 20351, 29992, 29575]"

definition check_resource :: "runtime \<Rightarrow> json \<Rightarrow> json \<Rightarrow> json \<Rightarrow> raw_issue list res" where
  "check_resource rt payload cpu_max memory_max =
     bindr (dict_of (or_dict (uget key_hardware payload))) (\<lambda>resource.
       bindr (map_res (load_problem rt resource) [(key_cpu, asc ''CPU'', cpu_max), (key_memory, [20869, 23384], memory_max)])
         (\<lambda>ps. Inr (issue_of [36164, 28304, 20351, 29992, 38382, 39064] [65307] (concat ps))))"

section \<open>Volumes\<close>

definition gib :: rat where "gib = 1024 ^ 3"

text \<open>\<open>_size_bytes\<close>: a finite decimal number of at most eighteen digits.\<close>

definition size_bytes :: "runtime \<Rightarrow> pc_lib \<Rightarrow> json \<Rightarrow> rat option" where
  "size_bytes rt lib v = (case v of
     JBool _ \<Rightarrow> None
   | _ \<Rightarrow> (case pl_decimal lib (py_str rt v) of
       None \<Rightarrow> None | Some q \<Rightarrow> if 0 \<le> q \<and> q < 10 ^ 18 then Some q else None))"

text \<open>
  A volume of a summary, \<open>C: 100 GB (40 GB free)\<close>. The pattern tries the shortest name first; a number is a run of digits,
  with groups of three after commas and a fraction.
\<close>

definition number_text :: "pc_lib \<Rightarrow> ustring \<Rightarrow> bool" where
  "number_text lib s =
     (let whole = before_first 46 s; fraction = drop (length whole) s; lead = before_first 44 whole
      in lead \<noteq> [] \<and> list_all (is_digit lib) lead
         \<and> (fraction = [] \<or> (tl fraction \<noteq> [] \<and> list_all (is_digit lib) (tl fraction)))
         \<and> length (drop (length lead) whole) mod 4 = 0
         \<and> (\<forall>i < length (drop (length lead) whole).
              if i mod 4 = 0 then drop (length lead) whole ! i = 44 else is_digit lib (drop (length lead) whole ! i)))"

text \<open>A number and its unit at the front of a text: \<open>(number, unit factor, rest)\<close>.\<close>

definition size_unit :: "pc_lib \<Rightarrow> ustring \<Rightarrow> (rat \<times> ustring) option" where
  "size_unit lib s =
     (if folded_prefix lib ''gib'' s then Some (gib, drop 3 s) else if folded_prefix lib ''gb'' s then Some (gib, drop 2 s)
      else if folded_prefix lib ''b'' s then Some (1, drop 1 s) else None)"

definition sized :: "pc_lib \<Rightarrow> ustring \<Rightarrow> (ustring \<times> rat \<times> ustring) option" where
  "sized lib s =
     (let n = takeWhile (\<lambda>c. is_digit lib c \<or> c = 44 \<or> c = 46) s; rest = drop (length n) s
      in if number_text lib n then (case size_unit lib (lstrip rest) of None \<Rightarrow> None | Some (f, after) \<Rightarrow> Some (n, f, after)) else None)"

text \<open>What follows the name: the capacity, and the free space in brackets.\<close>

definition sizes_of :: "pc_lib \<Rightarrow> ustring \<Rightarrow> ((ustring \<times> rat) \<times> (ustring \<times> rat)) option" where
  "sizes_of lib s = (case sized lib s of
     None \<Rightarrow> None
   | Some (capacity, f1, after) \<Rightarrow> (case lstrip after of
       [] \<Rightarrow> None
     | c # rest \<Rightarrow> if c \<noteq> 40 then None else (case sized lib (lstrip rest) of
         None \<Rightarrow> None
       | Some (free, f2, after) \<Rightarrow>
           if after \<noteq> [] \<and> is_space (hd after) \<and> folded_prefix lib ''free'' (lstrip after)
              \<and> lstrip (drop 4 (lstrip after)) = asc '')'' then Some ((capacity, f1), (free, f2)) else None)))"

fun summary_volume :: "pc_lib \<Rightarrow> ustring \<Rightarrow> ustring \<Rightarrow> (ustring \<times> (ustring \<times> rat) \<times> (ustring \<times> rat)) option" where
  "summary_volume lib name [] = None"
| "summary_volume lib name (c # s) =
     (case (if name \<noteq> [] \<and> is_space c then sizes_of lib (lstrip (c # s)) else None) of
        Some (capacity, free) \<Rightarrow> Some (name, capacity, free)
      | None \<Rightarrow> summary_volume lib (name @ [c]) s)"

fun split_at :: "nat \<Rightarrow> ustring \<Rightarrow> ustring list" where
  "split_at sep [] = [[]]"
| "split_at sep (c # s) = (if c = sep then [] # split_at sep s
     else (case split_at sep s of [] \<Rightarrow> [[c]] | w # ws \<Rightarrow> (c # w) # ws))"

definition volume_bytes :: "runtime \<Rightarrow> pc_lib \<Rightarrow> ustring \<times> rat \<Rightarrow> json" where
  "volume_bytes rt lib nf = (case size_bytes rt lib (JStr (filter (\<lambda>c. c \<noteq> 44) (fst nf))) of
     None \<Rightarrow> JNull | Some q \<Rightarrow> JInt (half_even (q * snd nf)))"

definition summary_row :: "runtime \<Rightarrow> pc_lib \<Rightarrow> ustring \<Rightarrow> json" where
  "summary_row rt lib fragment = (case summary_volume lib [] (strip fragment) of
     None \<Rightarrow> JObj []
   | Some (name, capacity, free) \<Rightarrow> JObj [(asc ''device'', JStr (strip name)), (asc ''total_bytes'', volume_bytes rt lib capacity),
       (asc ''free_bytes'', volume_bytes rt lib free)])"

definition summary_volumes :: "runtime \<Rightarrow> pc_lib \<Rightarrow> json \<Rightarrow> json" where
  "summary_volumes rt lib v = (case v of JStr s \<Rightarrow> JList (map (summary_row rt lib) (split_at 59 s)) | _ \<Rightarrow> JNull)"

text \<open>\<open>_optional_gib\<close> of \<open>net/devices/pc/snapshot.py\<close>: a size in GiB with two decimals, from ASCII digits. Decimal
  arithmetic is exact here: the 28 digits of its context are not modelled.\<close>

definition ascii_digit :: "nat \<Rightarrow> bool" where
  "ascii_digit c \<longleftrightarrow> 48 \<le> c \<and> c \<le> 57"

definition size_suffixes :: "ustring list" where
  "size_suffixes = [asc ''tib'', asc ''tb'', asc ''gib'', asc ''gb'', []]"

definition drop_commas :: "ustring \<Rightarrow> ustring" where
  "drop_commas s =
     (let lead = takeWhile ascii_digit s; groups = takeWhile (\<lambda>c. ascii_digit c \<or> c = 44) (drop (length lead) s);
          rest = drop (length lead + length groups) s;
          fraction = (if rest \<noteq> [] \<and> hd rest = 46 then takeWhile ascii_digit (tl rest) else []);
          unit = (if rest \<noteq> [] \<and> hd rest = 46 then drop (Suc (length fraction)) rest else rest)
      in if lead \<noteq> [] \<and> length lead \<le> 3 \<and> groups \<noteq> [] \<and> length groups mod 4 = 0
            \<and> (\<forall>i < length groups. if i mod 4 = 0 then groups ! i = 44 else ascii_digit (groups ! i))
            \<and> (rest \<noteq> [] \<and> hd rest = 46 \<longrightarrow> fraction \<noteq> []) \<and> unit \<in> set size_suffixes
         then filter (\<lambda>c. c \<noteq> 44) s else s)"

definition optional_gib :: "runtime \<Rightarrow> pc_lib \<Rightarrow> json \<Rightarrow> rat option" where
  "optional_gib rt lib v =
     (let text = drop_commas (filter (\<lambda>c. c \<noteq> 32) (str_lower rt (if v = JNull then [] else strip (py_str rt v))));
          number = takeWhile (\<lambda>c. ascii_digit c \<or> c = 46) text; unit = drop (length number) text;
          whole = before_first 46 number; fraction = drop (length whole) number
      in if whole \<noteq> [] \<and> list_all ascii_digit whole \<and> (fraction = [] \<or> (tl fraction \<noteq> [] \<and> list_all ascii_digit (tl fraction)))
            \<and> unit \<in> set size_suffixes
         then (case pl_decimal lib number of
             None \<Rightarrow> None
           | Some q \<Rightarrow> Some (py_round 2 (if unit \<in> {asc ''tib'', asc ''tb''} then q * 1024 else q)))
         else None)"

text \<open>\<open>volumes\<close>: the volume list, the disk section, the summary or the sizes of the encryption report.\<close>

definition bitlocker_row :: "runtime \<Rightarrow> pc_lib \<Rightarrow> json \<Rightarrow> json" where
  "bitlocker_row rt lib row =
     (if is_obj row
      then JObj [(asc ''device'', uget [21367] row),
             (asc ''total_bytes'', case optional_gib rt lib (uget [22823, 23567] row) of None \<Rightarrow> JNull | Some q \<Rightarrow> JInt \<lfloor>q * gib\<rfloor>)]
      else JObj [])"

definition list_or_null :: "json \<Rightarrow> json" where
  "list_or_null v = (if is_list v then v else JNull)"

definition volumes :: "runtime \<Rightarrow> pc_lib \<Rightarrow> json \<Rightarrow> json" where
  "volumes rt lib payload =
     (let hardware = uget key_hardware payload; space = uget [30913, 30424, 31354, 38388, 24773, 20917] payload;
          chinese = uget [30913, 30424, 25688, 35201] hardware; summary = (if truthy chinese then chinese else uget (asc ''disk_summary'') hardware);
          encrypted = uget key_volumes (uget key_bitlocker payload)
      in if has_key key_volumes hardware then list_or_null (uget key_volumes hardware)
         else if space \<noteq> JNull then list_or_null space
         else if is_obj hardware \<and> truthy summary then summary_volumes rt lib summary
         else if is_list encrypted then JList (map (bitlocker_row rt lib) (list_of encrypted)) else JNull)"

text \<open>\<open>check_disk\<close>: the loop keeps the names seen, whether data are missing, and the issues.\<close>

definition device_key :: "runtime \<Rightarrow> ustring \<Rightarrow> ustring" where
  "device_key rt device = casefold rt (rev (dropWhile ((=) 58) (rev device)))"

definition check_volume ::
    "runtime \<Rightarrow> pc_lib \<Rightarrow> json \<Rightarrow> json \<Rightarrow> ustring list \<times> bool \<times> raw_issue list \<Rightarrow> (ustring list \<times> bool \<times> raw_issue list) res" where
  "check_volume rt lib maximum row acc = (case acc of (seen, missing, issues) \<Rightarrow>
     let device = strip (str_or rt (uget (asc ''device'') row) []); key = device_key rt device
     in case (if is_obj row then (size_bytes rt lib (uget (asc ''total_bytes'') row), size_bytes rt lib (uget (asc ''free_bytes'') row))
              else (None, None)) of
          (Some capacity, Some free) \<Rightarrow>
            if key = [] \<or> key \<in> set seen \<or> capacity \<le> 0 \<or> capacity < free then Inr (seen, True, issues)
            else let used = (capacity - free) * 100 / capacity
              in bindr (num_of maximum) (\<lambda>n. Inr (key # seen, missing,
                   if n < used
                   then issues @ [add_issue [30913, 30424, 31354, 38388, 19981, 36275]
                     (device @ [32, 20351, 29992, 29575, 32] @ pl_fixed2 lib used @ [37, 32, 36229, 36807, 38408, 20540, 32] @ py_str rt maximum @ [37])]
                   else issues))
        | _ \<Rightarrow> Inr (seen, True, issues))"

definition with_state :: "ustring \<Rightarrow> raw_issue \<Rightarrow> raw_issue" where
  "with_state state i = i\<lparr>ri_data_state := Some state\<rparr>"

definition check_disk :: "runtime \<Rightarrow> pc_lib \<Rightarrow> json \<Rightarrow> json \<Rightarrow> (json \<times> raw_issue list) res" where
  "check_disk rt lib payload maximum =
     (let rows = volumes rt lib payload
      in bindr (foldr_res (check_volume rt lib maximum) (list_of rows) ([], \<not> truthy rows, [])) (\<lambda>(_, missing, issues).
           Inr (JObj [(asc ''volumes'', rows), (asc ''max_percent'', maximum),
                  (asc ''data_state'', JStr (if missing then asc ''unknown'' else asc ''known''))],
                issues @ (if missing
                  then [with_state (asc ''unknown'') (add_issue [30913, 30424, 31354, 38388, 25968, 25454, 32570, 22833] [32570, 23569, 26377, 25928, 30340, 21367, 23481, 37327, 25110, 21097, 20313, 31354, 38388, 65292, 35831, 26356, 26032, 37319, 38598, 33050, 26412, 24182, 29983, 25104, 26032, 26085, 24535, 12290])]
                  else []))))"

text \<open>\<open>total_gib\<close>: the capacity of all volumes, unless one of them is unknown.\<close>

definition add_volume :: "runtime \<Rightarrow> pc_lib \<Rightarrow> json \<Rightarrow> (ustring list \<times> rat) option \<Rightarrow> (ustring list \<times> rat) option" where
  "add_volume rt lib row acc = (case acc of
     None \<Rightarrow> None
   | Some (seen, capacity) \<Rightarrow>
       let key = device_key rt (strip (str_or rt (uget (asc ''device'') row) []))
       in case (if is_obj row then size_bytes rt lib (uget (asc ''total_bytes'') row) else None) of
            None \<Rightarrow> None
          | Some bytes \<Rightarrow> if key = [] \<or> key \<in> set seen \<or> bytes \<le> 0 then None else Some (key # seen, capacity + bytes))"

definition total_gib :: "runtime \<Rightarrow> pc_lib \<Rightarrow> json \<Rightarrow> rat option" where
  "total_gib rt lib payload =
     (let rows = list_of (volumes rt lib payload)
      in if rows = [] then None
         else map_option (\<lambda>(_, capacity). py_round 2 (capacity / gib)) (fold (add_volume rt lib) rows (Some ([], 0))))"

end
