(* ===== verification/PcIdentity.thy ===== *)
theory PcIdentity
  imports PcMachine
begin

text \<open>
  Who uses a computer, and the checks of remote state: \<open>net/devices/pc/matching.py\<close>, \<open>net/devices/pc/enrichment.py\<close> and
  \<open>check_remote_item\<close> of \<open>net/devices/pc/checks.py\<close>. A roster is what \<open>personnel_snapshot\<close> writes into a task.
\<close>

section \<open>People\<close>

record roster_row =
  rw_id :: ustring
  rw_employee :: "ustring option"
  rw_name :: "ustring option"
  rw_department :: "ustring option"
  rw_active :: bool

text \<open>\<open>str(value)\<close> and \<open>value or ''\<close> of a nullable text\<close>

definition shown_text :: "ustring option \<Rightarrow> ustring" where
  "shown_text v = (case v of None \<Rightarrow> asc ''None'' | Some s \<Rightarrow> s)"

definition blank_text :: "ustring option \<Rightarrow> ustring" where
  "blank_text v = (case v of None \<Rightarrow> [] | Some s \<Rightarrow> s)"

definition first_truthy :: "json list \<Rightarrow> json" where
  "first_truthy vs = (case filter truthy vs of v # _ \<Rightarrow> v | [] \<Rightarrow> (case rev vs of v # _ \<Rightarrow> v | [] \<Rightarrow> JNull))"

definition normalize_login :: "json \<Rightarrow> ustring" where
  "normalize_login v = (case v of JStr s \<Rightarrow> strip (before_first 64 (after_last 92 (strip s))) | _ \<Rightarrow> [])"

definition personnel_name :: "ustring \<Rightarrow> ustring" where
  "personnel_name s = strip (before_first 45 s)"

definition same_identifier :: "runtime \<Rightarrow> ustring \<Rightarrow> roster_row \<Rightarrow> bool" where
  "same_identifier rt identifier p \<longleftrightarrow> casefold rt (shown_text (rw_employee p)) = casefold rt identifier"

abbreviation key_name :: ustring where "key_name \<equiv> [22995, 21517]"

definition person_text :: "runtime \<Rightarrow> json \<Rightarrow> ustring" where
  "person_text rt system = str_or rt (first_truthy (map (\<lambda>k. uget k system) [[24403, 21069, 30331, 24405, 29992, 25143, 22995, 21517], [24403, 21069, 30331, 24405, 29992, 25143, 21517], key_name])) []"

text \<open>\<open>match_person\<close>: by the login, without one by the name, without a name by the name of the computer.\<close>

definition match_person :: "runtime \<Rightarrow> json \<Rightarrow> roster_row list \<Rightarrow> roster_row option \<times> ustring" where
  "match_person rt system roster =
     (let login = normalize_login (first_truthy [uget key_login system, uget [24037, 21495] system]);
          name = personnel_name (person_text rt system);
          computer = normalize_login (uget key_computer system);
          identifier = (if login \<noteq> [] then login else if name \<noteq> [] then [] else computer);
          matches = (if login = [] \<and> name \<noteq> [] then filter (\<lambda>p. personnel_name (blank_text (rw_name p)) = name) roster
            else filter (\<lambda>p. identifier \<noteq> [] \<and> same_identifier rt identifier p) roster)
      in if identifier = [] \<and> name = [] then (None, asc ''missing'')
         else (case matches of [p] \<Rightarrow> (Some p, asc ''matched'') | [] \<Rightarrow> (None, asc ''unmatched'') | _ \<Rightarrow> (None, asc ''ambiguous'')))"

section \<open>Accounts, computers and sites\<close>

record directory_row =
  dy_id :: ustring
  dy_name :: ustring
  dy_active :: bool
  dy_ou :: ustring
  dy_dn :: ustring

definition match_rows :: "bool \<Rightarrow> 'r list \<Rightarrow> 'r option \<times> ustring" where
  "match_rows present rows =
     (if \<not> present then (None, asc ''missing'')
      else case rows of [r] \<Rightarrow> (Some r, asc ''matched'') | [] \<Rightarrow> (None, asc ''unmatched'') | _ \<Rightarrow> (None, asc ''ambiguous''))"

definition same_text :: "pc_lib \<Rightarrow> ustring \<Rightarrow> ustring \<Rightarrow> bool" where
  "same_text lib a b \<longleftrightarrow> map (pl_db_fold lib) a = map (pl_db_fold lib) b"

definition account_matches :: "pc_lib \<Rightarrow> ustring \<Rightarrow> ustring \<Rightarrow> directory_row \<Rightarrow> bool" where
  "account_matches lib login raw r \<longleftrightarrow>
     same_text lib (dy_name r) login \<or> same_text lib (dy_name r) raw
   \<or> same_text lib (take (Suc (length login)) (dy_name r)) (login @ [64])
   \<or> same_text lib (drop (length (dy_name r) - Suc (length login)) (dy_name r)) (92 # login)"

text \<open>\<open>re.split(r'(?<!\\),', dn)\<close>\<close>

fun split_dn :: "bool \<Rightarrow> ustring \<Rightarrow> ustring list" where
  "split_dn escaped [] = [[]]"
| "split_dn escaped (c # s) =
     (if c = 44 \<and> \<not> escaped then [] # split_dn False s
      else case split_dn (c = 92) s of [] \<Rightarrow> [[c]] | w # ws \<Rightarrow> (c # w) # ws)"

definition ou_of :: "pc_lib \<Rightarrow> directory_row option \<Rightarrow> ustring" where
  "ou_of lib row = (case row of
     None \<Rightarrow> []
   | Some r \<Rightarrow> if dy_ou r \<noteq> [] then dy_ou r
       else joined [44] (filter (\<lambda>p. take 3 (pl_upper lib p) = asc ''OU='') (map strip (split_dn False (dy_dn r)))))"

text \<open>A prefix such as \<open>10.1.\<close> names the network of its octets.\<close>

definition network_text :: "ustring \<Rightarrow> ustring option" where
  "network_text prefix =
     (if 47 \<in> set prefix \<or> 58 \<in> set prefix then Some prefix
      else let octets = split_at 46 (rev (dropWhile ((=) 46) (rev prefix)))
        in if length octets \<le> 4
           then Some (joined [46] (octets @ replicate (4 - length octets) [48]) @ 47 # int_str (8 * int (length octets))) else None)"

definition site_networks :: "pc_lib \<Rightarrow> json \<Rightarrow> ((nat \<times> nat \<times> nat) \<times> ustring) list" where
  "site_networks lib prefixes = sort_key (\<lambda>(n, site). (- int (snd (snd n)), pl_network_text lib n, site))
     (List.map_filter (\<lambda>(prefix, site). case site of
        JStr s \<Rightarrow> if strip s = [] then None
          else (case network_text prefix of
              None \<Rightarrow> None | Some t \<Rightarrow> map_option (\<lambda>n. (n, strip s)) (pl_network lib t))
      | _ \<Rightarrow> None) (case prefixes of JObj kvs \<Rightarrow> kvs | _ \<Rightarrow> []))"

definition in_network :: "nat \<times> nat \<Rightarrow> nat \<times> nat \<times> nat \<Rightarrow> bool" where
  "in_network ip net = (case (ip, net) of ((v, a), (w, n, len)) \<Rightarrow>
     v = w \<and> (let block = 2 ^ ((if v = 4 then 32 else 128) - len) in a div block = n div block))"

fun words_of :: "(nat \<Rightarrow> bool) \<Rightarrow> ustring \<Rightarrow> ustring list" where
  "words_of sep [] = [[]]"
| "words_of sep (c # s) = (if sep c then [] # words_of sep s else case words_of sep s of [] \<Rightarrow> [[c]] | w # ws \<Rightarrow> (c # w) # ws)"

definition adapter_addresses :: "runtime \<Rightarrow> json \<Rightarrow> ustring list" where
  "adapter_addresses rt adapter =
     (let v = uget [73, 80, 22320, 22336] adapter
      in if is_list v then map (py_str rt) (list_of v)
         else filter (\<lambda>w. w \<noteq> []) (words_of (\<lambda>c. c \<in> {44, 59, 65292, 65307} \<or> is_space c) (str_or rt v [])))"

definition sites_of :: "runtime \<Rightarrow> pc_lib \<Rightarrow> json \<Rightarrow> json \<Rightarrow> ustring list" where
  "sites_of rt lib payload prefixes =
     (let networks = site_networks lib prefixes; section = uget [32593, 32476, 20449, 24687] payload;
          adapters = (if is_obj section then [section] else filter is_obj (list_of section));
          site = (\<lambda>text. case pl_address lib (strip text) of
            None \<Rightarrow> None | Some ip \<Rightarrow> map_option snd (find (\<lambda>n. in_network ip (fst n)) networks))
      in fold (\<lambda>s seen. if s \<in> set seen then seen else seen @ [s])
           (List.map_filter site (concat (map (adapter_addresses rt) adapters))) [])"

definition found_state :: "'a list \<Rightarrow> ustring" where
  "found_state xs = (if length xs = 1 then asc ''matched'' else if xs \<noteq> [] then asc ''ambiguous'' else asc ''unmatched'')"

definition text_field :: "string \<Rightarrow> ustring \<Rightarrow> ustring \<times> json" where
  "text_field k s = (asc k, JStr s)"

definition active_field :: "string \<Rightarrow> bool option \<Rightarrow> ustring \<times> json" where
  "active_field k b = (asc k, case b of None \<Rightarrow> JNull | Some b \<Rightarrow> JBool b)"

definition row_of :: "('r \<Rightarrow> ustring) \<Rightarrow> 'r option \<Rightarrow> ustring" where
  "row_of f r = (case r of None \<Rightarrow> [] | Some r \<Rightarrow> f r)"

text \<open>\<open>people\<close>, \<open>accounts\<close> and \<open>computers\<close> are the tables; \<open>default_prefixes\<close> is the setting \<open>PC_SITE_IP_PREFIXES\<close>.\<close>

record pc_tables =
  tt_people :: "roster_row list"
  tt_accounts :: "directory_row list"
  tt_computers :: "directory_row list"
  tt_prefixes :: json

definition build_pc_enrichment ::
    "runtime \<Rightarrow> pc_lib \<Rightarrow> pc_tables \<Rightarrow> ustring \<Rightarrow> json \<Rightarrow> json \<Rightarrow> roster_row list option \<Rightarrow> (ustring \<times> json) list" where
  "build_pc_enrichment rt lib tables computer payload prefixes roster =
     (let section = uget key_system payload; system = (if is_obj section then section else JObj []);
          raw = uget key_login system; login = normalize_login raw;
          raw_text = (case raw of JStr s \<Rightarrow> s | _ \<Rightarrow> []);
          (person, person_state) = match_person rt system (case roster of None \<Rightarrow> tt_people tables | Some r \<Rightarrow> r);
          (account, account_state) = match_rows (login \<noteq> []) (filter (account_matches lib login raw_text) (tt_accounts tables));
          (machine, machine_state) = match_rows True (filter (\<lambda>r. same_text lib (dy_name r) computer) (tt_computers tables));
          sites = sites_of rt lib payload (if prefixes = JNull then tt_prefixes tables else prefixes)
      in [text_field ''login_identifier'' login,
          (asc ''employee_number'', case person of None \<Rightarrow> JStr [] | Some p \<Rightarrow> (case rw_employee p of None \<Rightarrow> JNull | Some e \<Rightarrow> JStr e)),
          text_field ''personnel_id'' (row_of rw_id person),
          text_field ''personnel_name'' (row_of (\<lambda>p. blank_text (rw_name p)) person),
          text_field ''department'' (row_of (\<lambda>p. blank_text (rw_department p)) person),
          text_field ''personnel_match'' person_state, active_field ''personnel_active'' (map_option rw_active person),
          text_field ''domain_account_match'' account_state, text_field ''domain_account_id'' (row_of dy_id account),
          text_field ''domain_login_name'' (row_of dy_name account),
          active_field ''domain_account_active'' (map_option dy_active account), text_field ''user_ou'' (ou_of lib account),
          text_field ''domain_computer_match'' machine_state, text_field ''domain_computer_id'' (row_of dy_id machine),
          active_field ''domain_computer_active'' (map_option dy_active machine), text_field ''computer_ou'' (ou_of lib machine),
          text_field ''site'' (if length sites = 1 then hd sites else []), (asc ''sites'', JList (map JStr sites)),
          text_field ''site_match'' (found_state sites)])"

end
