(* ===== verification/PcRemote.thy ===== *)
theory PcRemote
  imports PcIdentity
begin

text \<open>
  \<open>check_remote_item\<close> of \<open>net/devices/pc/checks.py\<close>: trust, processor, identity, browser extensions and group policies. The
  answer of an item is its state, further fields of its result and its issues.
\<close>

section \<open>Measurements\<close>

text \<open>A number at the front of a text, with an optional sign and fraction, and what follows it.\<close>

definition signed_number :: "pc_lib \<Rightarrow> ustring \<Rightarrow> (ustring \<times> ustring) option" where
  "signed_number lib s =
     (let sign = (if s \<noteq> [] \<and> (hd s = 43 \<or> hd s = 45) then [hd s] else []);
          whole = takeWhile (is_digit lib) (drop (length sign) s); rest = drop (length sign + length whole) s;
          digits = (if rest \<noteq> [] \<and> hd rest = 46 then takeWhile (is_digit lib) (tl rest) else []);
          fraction = (if digits = [] then [] else 46 # digits)
      in if whole = [] then None else Some (sign @ whole @ fraction, drop (length fraction) rest))"

text \<open>\<open>_measurement\<close>: the number and its unit; an unknown unit is no measurement.\<close>

definition measured :: "runtime \<Rightarrow> pc_lib \<Rightarrow> json \<Rightarrow> (rat \<times> ustring) option" where
  "measured rt lib v =
     (case v of
        JBool _ \<Rightarrow> None
      | _ \<Rightarrow> (case signed_number lib (strip (py_str rt v)) of
          None \<Rightarrow> None
        | Some (n, rest) \<Rightarrow> map_option (\<lambda>q. (q, casefold rt (lstrip rest))) (float_of_text rt n)))"

definition temperature_of :: "runtime \<Rightarrow> pc_lib \<Rightarrow> json \<Rightarrow> rat option" where
  "temperature_of rt lib v = (case measured rt lib v of
     None \<Rightarrow> None
   | Some (n, unit) \<Rightarrow>
       if unit \<in> {asc ''f'', [176, 102], [8457]} then (let c = (n - 32) * 5 / 9 in if -100 \<le> c \<and> c \<le> 250 then Some c else None)
       else if unit \<in> {[], asc ''c'', [176, 99], [8451]} then (if -100 \<le> n \<and> n \<le> 250 then Some n else None) else None)"

definition frequency_factors :: "(ustring \<times> rat) list" where
  "frequency_factors = [([], 1), (asc ''mhz'', 1), (asc ''ghz'', 1000), (asc ''khz'', 1 / 1000), (asc ''hz'', 1 / 1000000)]"

definition frequency_of :: "runtime \<Rightarrow> pc_lib \<Rightarrow> json \<Rightarrow> rat option" where
  "frequency_of rt lib v = (case measured rt lib v of
     None \<Rightarrow> None
   | Some (n, unit) \<Rightarrow> (case map_of frequency_factors unit of
       None \<Rightarrow> None | Some f \<Rightarrow> if 0 < n then Some (n * f) else None))"

section \<open>Items\<close>

type_synonym remote_answer = "ustring \<times> (ustring \<times> json) list \<times> raw_issue list"

abbreviation st_known :: ustring where "st_known \<equiv> asc ''known''"
abbreviation st_unknown :: ustring where "st_unknown \<equiv> asc ''unknown''"
abbreviation st_partial :: ustring where "st_partial \<equiv> asc ''partial''"
abbreviation st_missing :: ustring where "st_missing \<equiv> asc ''missing''"
abbreviation st_failed :: ustring where "st_failed \<equiv> asc ''failed''"

definition remote_fields :: "(ustring \<times> ustring) list" where
  "remote_fields = [(asc ''browser_extensions'', [27983, 35272, 22120, 25554, 20214, 24773, 20917]), (asc ''group_policy'', [24050, 24212, 29992, 31574, 30053]),
     (asc ''identity_match'', key_system), (asc ''domain_trust'', [24403, 21069, 19982, 22495, 26381, 21153, 22120, 36890, 35759, 24773, 20917]), (asc ''cpu_health'', key_hardware)]"

definition remote_field :: "ustring \<Rightarrow> ustring" where
  "remote_field item = (case map_of remote_fields item of Some f \<Rightarrow> f | None \<Rightarrow> [])"

definition remote_items :: "ustring set" where
  "remote_items = fst ` set remote_fields"

definition domain_trust :: "runtime \<Rightarrow> json \<Rightarrow> json \<Rightarrow> bool \<Rightarrow> remote_answer" where
  "domain_trust rt payload evidence present =
     (let state = (if present then windows_state rt evidence else st_missing)
      in (state, [], if state = st_failed then [add_issue [22495, 20449, 20219, 38382, 39064] ([22495, 36890, 35759, 47, 20449, 20219, 29366, 24577, 65306] @ py_str rt evidence)] else []))"

definition number_json :: "rat option \<Rightarrow> json" where
  "number_json q = (case q of None \<Rightarrow> JNull | Some q \<Rightarrow> JNum q)"

definition cpu_health :: "runtime \<Rightarrow> pc_lib \<Rightarrow> json \<Rightarrow> json \<Rightarrow> remote_answer res" where
  "cpu_health rt lib evidence limit =
     (let t = temperature_of rt lib (uget [24403, 21069, 67, 80, 85, 28201, 24230] evidence); f = frequency_of rt lib (uget [24403, 21069, 67, 80, 85, 39057, 29575] evidence);
          state = (if t \<noteq> None \<and> f \<noteq> None then st_known else if t \<noteq> None \<or> f \<noteq> None then st_partial else st_unknown)
      in bindr (case t of
           None \<Rightarrow> Inr []
         | Some t \<Rightarrow> bindr (num_of limit) (\<lambda>n. Inr (if n < t
             then [add_issue [67, 80, 85, 28201, 24230, 38382, 39064] ([67, 80, 85, 32, 28201, 24230, 32] @ text_of_float rt t @ [176, 67, 32, 36229, 36807, 38408, 20540, 32] @ py_str rt limit @ [176, 67])] else []))) (\<lambda>issues.
           Inr (state, [(asc ''temperature_celsius'', number_json t), (asc ''frequency_mhz'', number_json f),
             (asc ''temperature_max_celsius'', limit)], issues)))"

section \<open>Identity\<close>

text \<open>Two of three signals name a person: the name, the computer and the login.\<close>

definition reference_name :: "pc_lib \<Rightarrow> ustring \<Rightarrow> ustring" where
  "reference_name lib s = rstrip (rev (dropWhile (is_digit lib) (rev (personnel_name s))))"

definition unknown_values :: "ustring list" where
  "unknown_values = [[], [26410, 30693], asc ''unknown'', [26410, 37319, 38598], [26080, 27861, 33719, 21462], asc ''none'', asc ''null'']"

definition signal :: "runtime \<Rightarrow> ustring \<Rightarrow> ustring" where
  "signal rt s = (if casefold rt s \<in> set unknown_values then [] else s)"

definition computer_text :: "json \<Rightarrow> ustring" where
  "computer_text v = (case v of JStr s \<Rightarrow> strip s | _ \<Rightarrow> [])"

definition signals_of :: "runtime \<Rightarrow> pc_lib \<Rightarrow> json \<Rightarrow> (ustring \<times> ustring) list" where
  "signals_of rt lib system =
     [(key_name, signal rt (reference_name lib (strip (person_text rt system)))),
      (key_computer, signal rt (computer_text (uget key_computer system))),
      (key_login, signal rt (normalize_login (uget key_login system)))]"

definition matched_fields :: "runtime \<Rightarrow> pc_lib \<Rightarrow> (ustring \<times> ustring) list \<Rightarrow> roster_row \<Rightarrow> ustring list" where
  "matched_fields rt lib signals p =
     (let employee = strip (blank_text (rw_employee p));
          expected = (\<lambda>k. if k = key_name then reference_name lib (blank_text (rw_name p)) else employee)
      in map fst (filter (\<lambda>(k, v). v \<noteq> [] \<and> expected k \<noteq> [] \<and> casefold rt v = casefold rt (expected k)) signals))"

definition reference_matches ::
    "runtime \<Rightarrow> pc_lib \<Rightarrow> (ustring \<times> ustring) list \<Rightarrow> roster_row list \<Rightarrow> (roster_row \<times> ustring list) list" where
  "reference_matches rt lib signals roster =
     filter (\<lambda>(p, info). strip (blank_text (rw_employee p)) \<noteq> [] \<and> 2 \<le> length info)
       (map (\<lambda>p. (p, matched_fields rt lib signals p)) roster)"

definition match_basis :: "ustring list \<Rightarrow> string" where
  "match_basis info =
     (if info = [key_name, key_computer] then ''person_name_and_computer''
      else if info = [key_name, key_login] then ''person_name_and_login''
      else if info = [key_computer, key_login] then ''person_computer_and_login'' else ''person_all_three'')"

text \<open>Without a roster the people with the number of one of the identifiers are read.\<close>

definition identity_roster :: "pc_lib \<Rightarrow> (ustring \<times> ustring) list \<Rightarrow> roster_row list \<Rightarrow> roster_row list option \<Rightarrow> roster_row list" where
  "identity_roster lib signals people roster = (case roster of
     Some r \<Rightarrow> r
   | None \<Rightarrow>
       let identifiers = filter (\<lambda>i. i \<noteq> []) (map snd (filter (\<lambda>kv. fst kv \<noteq> key_name) signals))
       in filter (\<lambda>p. \<exists>i \<in> set identifiers. \<exists>e \<in> set_option (rw_employee p). same_text lib e i) people)"

definition given_or :: "ustring \<Rightarrow> ustring \<Rightarrow> ustring" where
  "given_or a b = (if a = [] then b else a)"

definition identity_match :: "runtime \<Rightarrow> pc_lib \<Rightarrow> roster_row list \<Rightarrow> json \<Rightarrow> roster_row list option \<Rightarrow> remote_answer" where
  "identity_match rt lib people evidence given =
     (let system = (if is_obj evidence then evidence else JObj []);
          login = normalize_login (uget key_login system); person = strip (person_text rt system);
          computer = computer_text (uget key_computer system);
          signals = signals_of rt lib system; roster = identity_roster lib signals people given;
          info = (\<lambda>ks basis. [(asc ''login_identifier'', JStr login), (asc ''matching_rule'', JStr (asc ''person_two_of_three'')),
            (asc ''matched_fields'', JList (map JStr ks)), (asc ''match_basis'', JStr (asc basis))])
      in case reference_matches rt lib signals roster of
           [(p, ks)] \<Rightarrow> (st_known, info ks (match_basis ks)
             @ [(asc ''reference_employee_id'', JStr (blank_text (rw_employee p))),
                (asc ''reference_person_name'', JStr (blank_text (rw_name p)))], [])
         | _ # _ # _ \<Rightarrow> (st_unknown, info [] ''ambiguous_person'', [])
         | [] \<Rightarrow>
             if length (filter (\<lambda>kv. snd kv \<noteq> []) signals) < 2 \<or> roster = []
             then (st_unknown, info [] ''insufficient_personnel_evidence'', [])
             else (st_failed, info [] ''no_two_fields_match'', [add_issue [35745, 31639, 26426, 21644, 29992, 25143, 19981, 21305, 37197]
               ([22995, 21517, 32] @ given_or person [26410, 37319, 38598] @ [12289, 35745, 31639, 26426, 21517, 32] @ given_or computer [26410, 37319, 38598] @ [12289, 30331, 24405, 24037, 21495, 32] @ given_or login [26410, 37319, 38598]
                @ [32, 26410, 33021, 20197, 20219, 24847, 20004, 39033, 23545, 24212, 21516, 19968, 20154, 21592])]))"

section \<open>Group policies, and the item as a whole\<close>

definition policy_words :: "ustring list" where
  "policy_words = [[26410, 30693], [26816, 27979, 22833, 36133], [33719, 21462, 22833, 36133], [26410, 37319, 38598], asc ''unknown'', asc ''unavailable'']"

definition collected_texts :: "runtime \<Rightarrow> json \<Rightarrow> bool" where
  "collected_texts rt v \<longleftrightarrow> is_list v \<and> list_all (\<lambda>x. case x of
     JStr s \<Rightarrow> strip s \<noteq> [] \<and> casefold rt (strip s) \<notin> set policy_words | _ \<Rightarrow> False) (list_of v)"

definition group_policy_state :: "runtime \<Rightarrow> json \<Rightarrow> ustring" where
  "group_policy_state rt evidence =
     (if \<not> is_obj evidence \<or> evidence = JObj [] then st_unknown
      else let states = map (\<lambda>k. collected_texts rt (uget k evidence)) [[35745, 31639, 26426, 31574, 30053], [29992, 25143, 31574, 30053]]
        in if list_all id states then st_known else if list_ex id states then st_partial else st_unknown)"

definition remote_answer ::
    "runtime \<Rightarrow> pc_lib \<Rightarrow> roster_row list \<Rightarrow> ustring \<Rightarrow> json \<Rightarrow> json \<Rightarrow> roster_row list option \<Rightarrow> remote_answer res" where
  "remote_answer rt lib people item payload limit roster =
     (let evidence = uget (remote_field item) payload
      in if item = asc ''domain_trust'' then Inr (domain_trust rt payload evidence (has_key (remote_field item) payload))
         else if item = asc ''cpu_health'' then cpu_health rt lib evidence limit
         else if item = asc ''identity_match'' then Inr (identity_match rt lib people evidence roster)
         else if item = asc ''browser_extensions'' then Inr (st_known, [], [])
         else Inr (group_policy_state rt evidence, [], []))"

definition incomplete_states :: "ustring list" where
  "incomplete_states = [st_missing, st_unknown, st_partial]"

definition check_remote_item ::
    "runtime \<Rightarrow> pc_lib \<Rightarrow> roster_row list \<Rightarrow> ustring \<Rightarrow> json \<Rightarrow> json \<Rightarrow> roster_row list option
      \<Rightarrow> ((ustring \<times> json) list \<times> raw_issue list) res" where
  "check_remote_item rt lib people item payload limit roster =
     bindr (remote_answer rt lib people item payload limit roster) (\<lambda>(answered, info, issues).
       let state = (if has_key (remote_field item) payload then answered else st_missing)
       in Inr ((asc ''evidence'', uget (remote_field item) payload) # (asc ''data_state'', JStr state) # info,
            issues @ (if state \<in> set incomplete_states
              then [with_state state (add_issue (item @ [25968, 25454, 32570, 22833, 25110, 26410, 30693]) ([25152, 36873, 39033, 30446, 32] @ item @ [32, 25968, 25454, 29366, 24577, 20026, 32] @ state @ [65292, 19981, 33021, 21028, 23450, 27491, 24120, 12290]))]
              else [])))"

end
