(* ===== verification/PcAnalysis.thy ===== *)
theory PcAnalysis
  imports PcRemote TaskExec DeviceIssues
begin

text \<open>
  The analysis of an imported computer log, \<open>net/devices/pc/analysis.py\<close>: which items may be selected, whether the log holds
  the evidence of an item, the checks of the item, and the analysis that is stored.
\<close>

section \<open>Items\<close>

definition analysis_items :: "ustring list" where
  "analysis_items = map asc [''activation'', ''software'', ''processes'', ''bitlocker'', ''defender'', ''patches'', ''resource'', ''disk'',
     ''event_findings'', ''system'', ''uptime'', ''browser_extensions'', ''identity_match'', ''cpu_health'', ''domain_trust'', ''group_policy'']"

definition windows_only_items :: "ustring list" where
  "windows_only_items = map asc [''activation'', ''bitlocker'', ''defender'', ''patches'', ''domain'', ''domain_trust'', ''group_policy'']"

definition expand_item :: "ustring \<Rightarrow> ustring list" where
  "expand_item i = (if i = asc ''domain'' then [asc ''domain_trust'', asc ''group_policy''] else [i])"

text \<open>\<open>_items\<close>: a selection is not empty, known and without repetition; the combined item of old tasks is expanded.\<close>

definition known_item :: "json \<Rightarrow> bool" where
  "known_item v = (case v of JStr s \<Rightarrow> s = asc ''domain'' \<or> s \<in> set analysis_items | _ \<Rightarrow> False)"

definition selected_items :: "json \<Rightarrow> ustring list res" where
  "selected_items v =
     (if list_of v = [] then Inl (ValidationError [(''analysis_items'', ''empty'')])
      else if \<not> list_all known_item (list_of v) then Inl (ValidationError [(''analysis_items'', ''unsupported'')])
      else if \<not> distinct (list_of v) then Inl (ValidationError [(''analysis_items'', ''duplicate'')])
      else Inr (first_occurrences (concat (map (\<lambda>i. expand_item (case i of JStr s \<Rightarrow> s | _ \<Rightarrow> [])) (list_of v)))))"

section \<open>Whether the evidence is there\<close>

definition item_field :: "ustring \<Rightarrow> ustring" where
  "item_field item = (case map_of [(asc ''activation'', key_activation), (asc ''software'', key_software),
       (asc ''processes'', key_processes), (asc ''bitlocker'', key_bitlocker), (asc ''defender'', key_defender),
       (asc ''patches'', key_updates), (asc ''resource'', key_hardware), (asc ''event_findings'', [20107, 20214, 21457, 29616]),
       (asc ''system'', key_system), (asc ''uptime'', key_system)] item of Some f \<Rightarrow> f | None \<Rightarrow> [])"

definition event_log :: ustring where "event_log = [20107, 20214, 26085, 24535]"

definition event_levels :: "ustring list" where
  "event_levels = map asc [''information'', ''informational'', ''info'', ''warning'', ''error'', ''critical'', ''verbose'']
     @ [[20449, 24687], [35686, 21578], [38169, 35823], [20005, 37325]]"

definition known_text :: "runtime \<Rightarrow> json \<Rightarrow> bool" where
  "known_text rt v = (case v of
     JStr s \<Rightarrow> strip s \<noteq> [] \<and> \<not> list_ex (\<lambda>w. contains_text w (str_lower rt s))
       [[26410, 30693], [33719, 21462, 22833, 36133], [26410, 37319, 38598], asc ''unknown'', asc ''unavailable'']
   | _ \<Rightarrow> False)"

definition valid_rows :: "(json \<Rightarrow> bool) \<Rightarrow> json \<Rightarrow> bool" where
  "valid_rows valid v \<longleftrightarrow> is_list v \<and> list_all (\<lambda>row. is_obj row \<and> valid row) (list_of v)"

definition event_level :: "runtime \<Rightarrow> json \<Rightarrow> ustring" where
  "event_level rt row = str_lower rt (str_or rt (first_truthy (map (\<lambda>k. uget k row) [[32423, 21035], asc ''severity'', asc ''Level''])) [])"

text \<open>\<open>\s*(?:\d+(?:\.\d+)?)\s*%\s*\<close>, between 0 and 100\<close>

definition percent_text :: "runtime \<Rightarrow> pc_lib \<Rightarrow> json \<Rightarrow> bool" where
  "percent_text rt lib v = (case v of
     JStr s \<Rightarrow>
       let t = strip s; n = rstrip (butlast t); whole = before_first 46 n; fraction = drop (length whole) n
       in t \<noteq> [] \<and> last t = 37 \<and> whole \<noteq> [] \<and> list_all (is_digit lib) whole
          \<and> (fraction = [] \<or> (tl fraction \<noteq> [] \<and> list_all (is_digit lib) (tl fraction)))
          \<and> (case float_of_text rt (butlast t) of None \<Rightarrow> False | Some q \<Rightarrow> 0 \<le> q \<and> q \<le> 100)
   | _ \<Rightarrow> False)"

definition valid_evidence :: "runtime \<Rightarrow> pc_lib \<Rightarrow> ustring \<Rightarrow> json \<Rightarrow> bool" where
  "valid_evidence rt lib item v =
     (if item = asc ''processes''
      then is_list v \<and> list_all (\<lambda>row. known_text rt (if is_obj row then uget [36827, 31243, 21517] row else row)) (list_of v)
      else if item = asc ''software'' then valid_rows (\<lambda>row. known_text rt (uget [36719, 20214, 21517] row)) v
      else if item = asc ''patches''
      then valid_rows (\<lambda>row. known_text rt (uget [34917, 19969, 21517, 31216] row) \<and> parse_local_datetime rt lib (uget [26085, 26399] row) \<noteq> None) v
      else if item = asc ''event_findings'' then valid_rows (\<lambda>row. event_level rt row \<in> set event_levels) v
      else if \<not> is_obj v then False
      else if item = asc ''activation'' then known_text rt (uget [35768, 21487, 35777, 29366, 24577] v)
      else if item = asc ''bitlocker''
      then valid_rows (\<lambda>row. known_text rt (uget [21367] row) \<and> known_text rt (uget [36716, 25442, 29366, 24577] row)) (uget key_volumes v)
      else if item = asc ''defender''
      then known_text rt (uget [24403, 21069, 30149, 27602, 24211, 29256, 26412] v) \<and> parse_local_datetime rt lib (uget [19978, 27425, 26356, 26032, 26102, 38388] v) \<noteq> None
      else if item = asc ''resource'' then percent_text rt lib (uget key_cpu v) \<and> percent_text rt lib (uget key_memory v)
      else if item = asc ''system'' then known_text rt (uget [31995, 32479, 20027, 35201, 29256, 26412, 21517] v)
      else if item = asc ''uptime'' then parse_local_datetime rt lib (uget [24320, 26426, 26102, 38388] v) \<noteq> None
      else False)"

abbreviation st_empty :: ustring where "st_empty \<equiv> asc ''empty''"

definition schema_state :: "runtime \<Rightarrow> pc_lib \<Rightarrow> ustring \<Rightarrow> json \<Rightarrow> ustring" where
  "schema_state rt lib item payload =
     (let k = (if item = asc ''event_findings'' \<and> \<not> has_key (item_field item) payload \<and> has_key event_log payload
               then event_log else item_field item);
          v = uget k payload
      in if \<not> has_key k payload then st_missing
         else if item = asc ''bitlocker'' \<and> is_obj v \<and> uget key_volumes v = JList [] then st_empty
         else if valid_evidence rt lib item v then st_known else st_unknown)"

section \<open>Rules\<close>

record pc_rules =
  pu_configured :: bool
  pu_policy_path :: ustring
  pu_policy_mode :: ustring
  pu_policy :: "json option"
  pu_minimum_release :: ustring
  pu_defender_update_days :: json
  pu_defender_scan_days :: json
  pu_patch_days :: json
  pu_uptime_hours :: json
  pu_disk_percent :: json
  pu_cpu_percent :: json
  pu_cpu_celsius :: json
  pu_site_prefixes :: json
  pu_roster :: "roster_row list option"
  pu_matching :: json
  pu_overrides :: "(ustring \<times> ustring) list"
  pu_memory_percent :: json
  pu_kms_servers :: "ustring list"

text \<open>The rows of a frozen roster, and the texts of an override table\<close>

definition roster_row_of :: "json \<Rightarrow> roster_row" where
  "roster_row_of j = \<lparr>rw_id = blank_text (text_of (jget_or ''id'' JNull j)), rw_employee = text_of (jget_or ''employee_id'' JNull j),
     rw_name = text_of (jget_or ''name'' JNull j), rw_department = text_of (jget_or ''department'' JNull j),
     rw_active = truthy (jget_or ''is_active'' JNull j)\<rparr>"

definition roster_of :: "json \<Rightarrow> roster_row list option" where
  "roster_of j = (case j of JList rows \<Rightarrow> Some (map roster_row_of rows) | _ \<Rightarrow> None)"

definition overrides_of :: "json \<Rightarrow> (ustring \<times> ustring) list" where
  "overrides_of j = (case j of
     JObj kvs \<Rightarrow> List.map_filter (\<lambda>(k, v). map_option (Pair k) (text_of v)) kvs | _ \<Rightarrow> [])"

text \<open>\<open>_analysis_rules\<close>, with the defaults of tasks that were queued before a rule existed.\<close>

definition analysis_rules :: "runtime \<Rightarrow> json option \<Rightarrow> pc_rules" where
  "analysis_rules rt v =
     (let s = (case v of Some (JObj kvs) \<Rightarrow> JObj kvs | _ \<Rightarrow> JObj []); rule = (\<lambda>k d. jget_or k d s)
      in \<lparr>pu_configured = (v \<noteq> None \<and> v \<noteq> Some JNull), pu_policy_path = str_or rt (rule ''software_policy_path'' JNull) [],
          pu_policy_mode = py_str rt (rule ''software_policy_mode'' (JStr (asc ''legacy''))), pu_policy = jget ''software_policy_snapshot'' s,
          pu_minimum_release = str_or rt (rule ''minimum_windows_release'' JNull) [],
          pu_defender_update_days = rule ''defender_update_max_days'' (JInt 7),
          pu_defender_scan_days = rule ''defender_scan_max_days'' (JInt 7), pu_patch_days = rule ''patch_max_days'' (JInt 30),
          pu_uptime_hours = rule ''uptime_max_hours'' (JInt 168), pu_disk_percent = rule ''disk_max_percent'' (JInt 90),
          pu_cpu_percent = rule ''cpu_max_percent'' (JInt 90), pu_cpu_celsius = rule ''cpu_temperature_max_celsius'' (JInt 85),
          pu_site_prefixes = rule ''site_ip_prefixes'' JNull, pu_roster = roster_of (rule ''personnel_roster'' JNull),
          pu_matching = rule ''matching_mode'' JNull, pu_overrides = overrides_of (rule ''issue_severity_overrides'' JNull),
          pu_memory_percent = rule ''memory_max_percent'' (JInt 90),
          pu_kms_servers = map (py_str rt) (list_of (rule ''kms_servers'' JNull))\<rparr>)"

section \<open>The checks of an item\<close>

text \<open>A policy file is read by \<open>load_config_as_dict\<close> (a parameter), a frozen one taken from the task; an error is its message.\<close>

definition policy_of :: "json \<Rightarrow> policy" where
  "policy_of j = (case j of
     JObj sections \<Rightarrow> map (\<lambda>(k, s). (k, case s of
         JObj kvs \<Rightarrow> map (\<lambda>(k, v). (k, List.map_filter text_of (list_of v))) kvs | _ \<Rightarrow> [])) sections
   | _ \<Rightarrow> [])"

definition frozen_policy :: "runtime \<Rightarrow> json \<Rightarrow> ustring + policy" where
  "frozen_policy rt frozen =
     (let invalid = [36719, 20214, 31574, 30053, 24555, 29031, 26080, 25928, 12290]
      in if \<not> is_obj frozen then Inl invalid
         else if jget ''error'' frozen \<noteq> None then Inl (sanitize rt (py_str rt (jget_or ''error'' JNull frozen)))
         else if \<not> is_obj (jget_or ''content'' JNull frozen) then Inl invalid
         else Inr (policy_of (jget_or ''content'' JNull frozen)))"

definition software_issues :: "runtime \<Rightarrow> (ustring \<Rightarrow> ustring + policy) \<Rightarrow> json \<Rightarrow> pc_rules \<Rightarrow> raw_issue list" where
  "software_issues rt read_policy payload r =
     (if pu_policy r = None \<and> pu_policy_path r = [] then []
      else let failed = (\<lambda>m. [add_issue [36719, 20214, 31574, 30053, 38382, 39064] ([36719, 20214, 31574, 30053, 25991, 20214, 26080, 27861, 35835, 21462, 65306] @ m)]);
               identity = after_last 92 (str_or rt (uget key_login (uget key_system payload)) [])
        in case (case pu_policy r of Some frozen \<Rightarrow> frozen_policy rt frozen | None \<Rightarrow> read_policy (pu_policy_path r)) of
             Inl m \<Rightarrow> failed m
           | Inr p \<Rightarrow>
               if pu_policy_path r = [] \<and> p = [] then []
               else (case check_software rt payload identity p (pu_policy_mode r) of Inl m \<Rightarrow> failed m | Inr is \<Rightarrow> is))"

definition event_issue :: "runtime \<Rightarrow> json \<Rightarrow> raw_issue option" where
  "event_issue rt row =
     (let level = event_level rt row; grave = [asc ''critical'', [20005, 37325]]
      in if is_obj row \<and> level \<in> set (grave @ [asc ''warning'', asc ''error'', [35686, 21578], [38169, 35823]])
         then Some ((add_issue [20107, 20214, 26085, 24535, 38382, 39064] (py_str rt (first_truthy [uget [28040, 24687] row, uget (asc ''message'') row, row])))
           \<lparr>ri_severity := Some (if level \<in> set grave then asc ''critical'' else asc ''warning'')\<rparr>)
         else None)"

definition event_rows :: "json \<Rightarrow> json" where
  "event_rows payload = (if has_key (item_field (asc ''event_findings'')) payload
     then uget (item_field (asc ''event_findings'')) payload else uget event_log payload)"

text \<open>The last part of \<open>_details_for_item\<close>: the evidence is known, or it is a partial list of software.\<close>

definition known_details ::
    "runtime \<Rightarrow> pc_lib \<Rightarrow> (ustring \<Rightarrow> ustring + policy) \<Rightarrow> ustring \<Rightarrow> json \<Rightarrow> pc_rules \<Rightarrow> time \<Rightarrow> bool
      \<Rightarrow> (json \<times> raw_issue list) res" where
  "known_details rt lib read_policy item payload r collected macos =
     (let answer = (\<lambda>v checked. map_sum id (Pair v) checked); section = uget (item_field item) payload;
          dict = (if is_obj section then section else JObj []); rows = JList (list_of section)
      in if item = asc ''activation''
         then answer (JObj [(key_activation, dict), (key_kms, uget_or key_kms (JStr []) payload)])
                (check_activation rt lib payload (pu_kms_servers r))
         else if item = asc ''software'' then Inr (rows, software_issues rt read_policy payload r)
         else if item = asc ''processes'' then Inr (rows, [])
         else if item = asc ''bitlocker'' then answer dict (check_bitlocker rt payload)
         else if item = asc ''defender''
         then answer dict (if pu_configured r
                then check_defender rt lib payload collected (pu_defender_update_days r) (pu_defender_scan_days r) else Inr [])
         else if item = asc ''patches''
         then answer rows (if pu_configured r then check_update_history rt lib payload collected (pu_patch_days r) else Inr [])
         else if item = asc ''resource''
         then answer dict (if pu_configured r
                then check_resource rt payload (pu_cpu_percent r) (pu_memory_percent r) else Inr [])
         else if item = asc ''event_findings'' then Inr (event_rows payload, List.map_filter (event_issue rt) (list_of (event_rows payload)))
         else if item = asc ''system''
         then answer dict (if macos then Inr [] else check_system_version rt lib payload (pu_minimum_release r))
         else answer dict (check_uptime rt lib payload collected (pu_uptime_hours r)))"

abbreviation key_diagnostics :: ustring where "key_diagnostics \<equiv> [37319, 38598, 35786, 26029]"

definition diagnostic_of :: "ustring \<Rightarrow> json \<Rightarrow> json" where
  "diagnostic_of k payload = uget k (uget key_diagnostics payload)"

definition evidence_state :: "runtime \<Rightarrow> pc_lib \<Rightarrow> ustring \<Rightarrow> json \<Rightarrow> ustring" where
  "evidence_state rt lib item payload =
     (let state = schema_state rt lib item payload
      in if truthy (diagnostic_of (item_field item) payload) \<and> state = st_known then st_partial else state)"

definition missing_label :: "ustring \<Rightarrow> ustring" where
  "missing_label item = (case map_of [(asc ''activation'', [31995, 32479, 28608, 27963, 38382, 39064]), (asc ''bitlocker'', [66, 105, 116, 76, 111, 99, 107, 101, 114, 25968, 25454, 32570, 22833]),
       (asc ''defender'', [87, 105, 110, 100, 111, 119, 115, 68, 101, 102, 101, 110, 100, 101, 114, 25968, 25454, 32570, 22833]), (asc ''patches'', [31995, 32479, 26356, 26032, 25968, 25454, 32570, 22833])] item of
     Some l \<Rightarrow> l | None \<Rightarrow> item @ [25968, 25454, 32570, 22833, 25110, 26410, 30693])"

definition state_issue :: "runtime \<Rightarrow> pc_lib \<Rightarrow> ustring \<Rightarrow> json \<Rightarrow> raw_issue" where
  "state_issue rt lib item payload =
     (let state = evidence_state rt lib item payload; d = diagnostic_of (item_field item) payload
      in with_state state (add_issue (missing_label item) ([25152, 36873, 39033, 30446, 32] @ item @ [32, 25968, 25454, 29366, 24577, 20026, 32] @ state @ [65292, 19981, 33021, 21028, 23450, 27491, 24120, 12290]
           @ (if truthy d then [32, 37319, 38598, 35786, 26029, 65306] @ py_str rt d else []))))"

text \<open>A remote item with a diagnostic of its collector is partial.\<close>

definition remote_diagnostic :: "ustring \<Rightarrow> json \<Rightarrow> json" where
  "remote_diagnostic item payload =
     (if item = asc ''cpu_health'' then diagnostic_of [67, 80, 85, 28201, 24230] payload
      else if item = asc ''browser_extensions'' then diagnostic_of [27983, 35272, 22120, 25554, 20214, 24773, 20917] payload else JNull)"

definition with_diagnostic :: "runtime \<Rightarrow> json \<Rightarrow> (ustring \<times> json) list \<times> raw_issue list \<Rightarrow> json \<times> raw_issue list" where
  "with_diagnostic rt d answer = (case answer of (kvs, issues) \<Rightarrow>
     if truthy d
     then (JObj (AList.update (asc ''data_state'') (JStr st_partial) (AList.update (asc ''collection_diagnostic'') d kvs)),
           issues @ [with_state st_partial (add_issue [37319, 38598, 25968, 25454, 19981, 36275] (py_str rt d))])
     else (JObj kvs, issues))"

definition details_for_item ::
    "runtime \<Rightarrow> pc_lib \<Rightarrow> (ustring \<Rightarrow> ustring + policy) \<Rightarrow> roster_row list \<Rightarrow> ustring \<Rightarrow> json \<Rightarrow> pc_rules \<Rightarrow> time \<Rightarrow> ustring
      \<Rightarrow> (json \<times> raw_issue list) res" where
  "details_for_item rt lib read_policy people item payload r collected platform =
     (let macos = platform = asc ''macos''
      in if macos \<and> item \<in> set windows_only_items
         then Inr (JObj [(asc ''data_state'', JStr (asc ''not_applicable'')), (asc ''platform'', JStr platform)], [])
         else if item = asc ''disk'' then check_disk rt lib payload (pu_disk_percent r)
         else if item \<in> remote_items
         then map_sum id (with_diagnostic rt (remote_diagnostic item payload))
                (check_remote_item rt lib people item payload (pu_cpu_celsius r) (pu_roster r))
         else let state = evidence_state rt lib item payload; missing = [state_issue rt lib item payload]
           in if state = st_known then known_details rt lib read_policy item payload r collected macos
              else if item = asc ''software'' \<and> state = st_partial
              then map_sum id (apsnd ((@) missing)) (known_details rt lib read_policy item payload r collected macos)
              else Inr (JObj [(item_field item, uget (item_field item) payload)], missing))"

section \<open>The stored analysis\<close>

text \<open>\<open>_compact_item\<close>: conclusions and numbers, never the evidence itself.\<close>

definition without_key :: "ustring \<Rightarrow> json \<Rightarrow> (ustring \<times> json) list" where
  "without_key k v = (case v of JObj kvs \<Rightarrow> filter (\<lambda>kv. fst kv \<noteq> k) kvs | _ \<Rightarrow> [])"

definition compact_item :: "ustring \<Rightarrow> json \<Rightarrow> json" where
  "compact_item item v =
     (if is_list v then JObj [(asc ''data_state'', JStr st_known), (asc ''count'', JInt (int (length (list_of v))))]
      else if \<not> is_obj v then JObj [(asc ''data_state'', JStr (if v = JNull then st_unknown else st_known))]
      else if item = asc ''resource'' then JObj (map (\<lambda>k. (k, uget k v)) (filter (\<lambda>k. has_key k v) [key_cpu, key_memory]))
      else if item \<in> remote_items then JObj (without_key (asc ''evidence'') v)
      else if item = asc ''disk''
      then JObj (AList.update (asc ''volume_count'') (JInt (int (length (list_of (uget (asc ''volumes'') v))))) (without_key (asc ''volumes'') v))
      else JObj [(asc ''data_state'', jget_or ''data_state'' (JStr st_known) v)])"

record log_input =
  li_id :: ustring
  li_payload :: json
  li_platform :: ustring
  li_collected_at :: time

text \<open>
  What \<open>prepare_log\<close> computes; the details hold the platform, the enrichment and the entry of each item (the rules, the counts
  and the health, which the code stores there too, are fields of their own or arguments).
\<close>

record prepared_analysis =
  pp_computer :: ustring
  pp_log :: ustring
  pp_items :: "ustring list"
  pp_platform :: ustring
  pp_details :: "(ustring \<times> json) list"
  pp_issues :: "issue list"
  pp_counts :: "nat \<times> nat \<times> nat"
  pp_healthy :: bool
  pp_summary :: ustring

definition computer_of_payload :: "runtime \<Rightarrow> (ustring \<times> ustring) list \<Rightarrow> json \<Rightarrow> (ustring \<times> ustring) res" where
  "computer_of_payload rt machines payload =
     (let name = strip (str_or rt (uget key_computer (uget key_system payload)) [])
      in if name = [] then Inl (ValidationError [(''log_file'', ''no_computer_name'')])
         else case map_of machines name of
           None \<Rightarrow> Inl (ValidationError [(''log_file'', ''no_computer'')]) | Some i \<Rightarrow> Inr (name, i))"

definition platform_of :: "runtime \<Rightarrow> log_input \<Rightarrow> ustring" where
  "platform_of rt source =
     (let payload = li_payload source;
          stated = casefold rt (if li_platform source \<noteq> [] then li_platform source else str_or rt (uget (asc ''platform'') payload) [])
      in if stated \<noteq> [] then stated
         else if contains_text (asc ''macos'') (casefold rt (py_str rt (uget_or [31995, 32479, 20027, 35201, 29256, 26412, 21517] (JStr []) (uget key_system payload))))
         then asc ''macos'' else asc ''windows'')"

definition unmatched_issue :: raw_issue where
  "unmatched_issue = (add_issue [26085, 24535, 26410, 21305, 37197, 20154, 21592] [26412, 26085, 24535, 26080, 27861, 21807, 19968, 20851, 32852, 21040, 20219, 21153, 20154, 21592, 21517, 20876, 20013, 30340, 20154, 21592, 65292, 35831, 26680, 23545, 20154, 21592, 36164, 26009, 21644, 26085, 24535, 36523, 20221, 20449, 24687, 12290])
     \<lparr>ri_item := asc ''identity_match'', ri_severity := Some (asc ''warning'')\<rparr>"

text \<open>\<open>severity_counts\<close> grades the graded issues once more, without overrides.\<close>

definition regraded :: "issue \<Rightarrow> raw_issue" where
  "regraded i = \<lparr>ri_project = ri_project i, ri_item = ri_item i, ri_title = ri_title i, ri_detail = ri_detail i,
     ri_data_state = ri_data_state i, ri_severity = Some (severity_value (is_grade i))\<rparr>"

definition analyse_items ::
    "(ustring \<Rightarrow> (json \<times> raw_issue list) res) \<Rightarrow> (ustring \<times> ustring) list \<Rightarrow> ustring list
      \<Rightarrow> ((ustring \<times> json) list \<times> issue list) res" where
  "analyse_items details overrides items =
     bindr (map_res details items) (\<lambda>answers.
       Inr (map (\<lambda>(item, v, _). (item, compact_item item v)) (zip items answers),
            concat (map (\<lambda>(item, _, issues). map (\<lambda>i. grade_issue overrides (i\<lparr>ri_item := item\<rparr>)) issues) (zip items answers))))"

definition analysis_summary :: "nat \<times> nat \<times> nat \<Rightarrow> bool \<Rightarrow> ustring" where
  "analysis_summary counts issues = (case counts of (info, warning, critical) \<Rightarrow>
     if issues then [20998, 26512, 23436, 25104, 65306, 20005, 37325, 32] @ int_str (int critical) @ [65292, 35686, 21578, 32] @ int_str (int warning) @ [65292, 25552, 31034, 32] @ int_str (int info)
     else [20998, 26512, 23436, 25104, 65292, 26410, 21457, 29616, 38382, 39064])"

definition prepare_log ::
    "runtime \<Rightarrow> pc_lib \<Rightarrow> (ustring \<Rightarrow> ustring + policy) \<Rightarrow> pc_tables \<Rightarrow> (ustring \<times> ustring) list \<Rightarrow> log_input \<Rightarrow> json \<Rightarrow> json option
      \<Rightarrow> prepared_analysis res" where
  "prepare_log rt lib read_policy tables machines source selected rules =
     bindr (selected_items selected) (\<lambda>items.
     let r = analysis_rules rt rules; payload = li_payload source
     in if \<not> is_obj payload then Inl (ValidationError [(''log_file'', ''invalid_payload'')])
        else bindr (computer_of_payload rt machines payload) (\<lambda>(name, computer).
        let platform = platform_of rt source;
            enrichment = build_pc_enrichment rt lib tables name payload (pu_site_prefixes r) (pu_roster r);
            unmatched = (if pu_matching r = JStr (asc ''logs'') \<and> pu_roster r \<noteq> None \<and> pu_roster r \<noteq> Some []
                  \<and> map_of enrichment (asc ''personnel_match'') \<noteq> Some (JStr (asc ''matched''))
                then [grade_issue (pu_overrides r) unmatched_issue] else [])
        in bindr (analyse_items (\<lambda>item. details_for_item rt lib read_policy (tt_people tables) item payload r (li_collected_at source) platform)
               (pu_overrides r) items) (\<lambda>(details, found).
           let issues = unmatched @ found; counts = severity_counts (map regraded issues)
           in Inr \<lparr>pp_computer = computer, pp_log = li_id source, pp_items = items, pp_platform = platform,
                pp_details = (asc ''platform'', JStr platform) # (asc ''enrichment'', JObj enrichment) # details, pp_issues = issues,
                pp_counts = counts, pp_healthy = (fst (snd counts) + snd (snd counts) = 0),
                pp_summary = take 4096 (sanitize rt (analysis_summary counts (issues \<noteq> [])))\<rparr>)))"

section \<open>The execution of an analysis target\<close>

definition analysis_of :: "time \<Rightarrow> prepared_analysis \<Rightarrow> analysis" where
  "analysis_of now p = \<lparr>an_status = RSuccess, an_summary = pp_summary p, an_findings = list_ex (\<lambda>i. is_grade i \<noteq> Info) (pp_issues p),
     an_computer = pp_computer p, an_date = local_day now\<rparr>"

text \<open>
  What \<open>execute_computer_target\<close> passes on: nothing when the task starts from people and the log names none of them, the
  message of a refused log, or the analysis. Every other exception leaves the executor. \<open>show\<close> formats an exception.
\<close>

definition analysis_outcome ::
    "runtime \<Rightarrow> pc_lib \<Rightarrow> (ustring \<Rightarrow> ustring + policy) \<Rightarrow> pc_tables \<Rightarrow> (ustring \<times> ustring) list \<Rightarrow> (exc \<Rightarrow> ustring) \<Rightarrow> time
      \<Rightarrow> json \<Rightarrow> json \<Rightarrow> json \<Rightarrow> log_input \<Rightarrow> (ustring + analysis) option res" where
  "analysis_outcome rt lib read_policy tables machines show_exc now profile parameters selected source =
     (let roster = jget_or ''personnel_roster'' JNull parameters; section = uget key_system (li_payload source);
          system = (if is_obj section then section else JObj []);
          rules = (case profile of JObj kvs \<Rightarrow> JObj (AList.update (asc ''personnel_roster'') roster kvs) | _ \<Rightarrow> JObj [])
      in if jget ''matching_mode'' profile = Some (JStr (asc ''people''))
            \<and> fst (match_person rt system (case roster_of roster of None \<Rightarrow> [] | Some r \<Rightarrow> r)) = None
         then Inr None
         else case prepare_log rt lib read_policy tables machines source selected (Some rules) of
             Inr p \<Rightarrow> Inr (Some (Inr (analysis_of now p)))
           | Inl e \<Rightarrow> (case e of
               ValidationError _ \<Rightarrow> Inr (Some (Inl ([26085, 24535, 20998, 26512, 22833, 36133, 65306] @ show_exc e)))
             | ValueError \<Rightarrow> Inr (Some (Inl ([26085, 24535, 20998, 26512, 22833, 36133, 65306] @ show_exc e)))
             | TypeError \<Rightarrow> Inr (Some (Inl ([26085, 24535, 20998, 26512, 22833, 36133, 65306] @ show_exc e)))
             | _ \<Rightarrow> Inl e))"

end
