(* ===== verification/PcIngestion.thy ===== *)
theory PcIngestion
  imports PcAnalysis EnqueueAnalysis
begin

text \<open>
  The upload of a computer log: the static data of the computer (\<open>net/devices/pc/snapshot.py\<close>, \<open>logs.py\<close>), the sections of the
  stored log (\<open>ComputerLogFile\<close> of \<open>net/models/records.py\<close>), the transaction of \<open>ingestion.py\<close> and the removal of superseded logs
  (\<open>retention.py\<close>).
\<close>

section \<open>The static data of a computer\<close>

text \<open>A column of a computer; \<open>Raw\<close> is a value that the code passes on as the log has it.\<close>

datatype column = Text ustring | Whole int | Decimal rat | Flag bool | Raw json

definition trimmed :: "runtime \<Rightarrow> json \<Rightarrow> ustring" where
  "trimmed rt v = (if v = JNull then [] else strip (py_str rt v))"

definition join_unique :: "runtime \<Rightarrow> json list \<Rightarrow> ustring" where
  "join_unique rt vs = joined [44, 32] (first_occurrences (filter (\<lambda>s. s \<noteq> []) (map (trimmed rt) vs)))"

definition first_text :: "runtime \<Rightarrow> json \<Rightarrow> ustring list \<Rightarrow> ustring" where
  "first_text rt v keys = (case filter (\<lambda>s. s \<noteq> []) (map (\<lambda>k. trimmed rt (uget k v)) keys) of s # _ \<Rightarrow> s | [] \<Rightarrow> [])"

definition optional_integer :: "pc_lib \<Rightarrow> ustring \<Rightarrow> int option" where
  "optional_integer lib s = (if s = [] then None else case pl_int lib s of None \<Rightarrow> None | Some n \<Rightarrow> if 0 \<le> n then Some n else None)"

definition text_column :: "string \<Rightarrow> ustring \<Rightarrow> (string \<times> column) list" where
  "text_column k s = (if strip s = [] then [] else [(k, Text s)])"

definition option_column :: "string \<Rightarrow> ('a \<Rightarrow> column) \<Rightarrow> 'a option \<Rightarrow> (string \<times> column) list" where
  "option_column k f v = (case v of None \<Rightarrow> [] | Some x \<Rightarrow> [(k, f x)])"

definition either_text :: "runtime \<Rightarrow> json \<Rightarrow> json \<Rightarrow> ustring list \<Rightarrow> ustring list \<Rightarrow> ustring" where
  "either_text rt system hardware ks hs = (let s = first_text rt system ks in if s \<noteq> [] then s else first_text rt hardware hs)"

text \<open>\<open>extract_computer_snapshot\<close>: columns that are always written, and those of the inventory that are not blank.\<close>

definition extract_computer_snapshot ::
    "runtime \<Rightarrow> pc_lib \<Rightarrow> json \<Rightarrow> json \<Rightarrow> json \<Rightarrow> json option \<Rightarrow> (string \<times> column) list" where
  "extract_computer_snapshot rt lib system network hardware disk_payload =
     (let adapters = filter is_obj (list_of network);
          gib_of = (\<lambda>ks. optional_gib rt lib (JStr (first_text rt hardware ks)));
          count_of = (\<lambda>ks. optional_integer lib (first_text rt hardware ks));
          disk = gib_of [[30913, 30424, 24635, 37327], [30913, 30424, 24635, 23481, 37327], asc ''disk_total_gb'']
      in [(''login_account'', Text (trimmed rt (uget key_login system))),
          (''ip_addresses'', Text (join_unique rt (map (uget [73, 80, 22320, 22336]) adapters))),
          (''mac_addresses'', Text (join_unique rt (map (uget [77, 65, 67, 22320, 22336]) adapters))),
          (''os_version'', Text (trimmed rt (uget [31995, 32479, 20027, 35201, 29256, 26412, 21517] system))),
          (''os_build'', Text (trimmed rt (uget [31995, 32479, 35814, 32454, 29256, 26412] system))),
          (''system_installed_at'', Text (trimmed rt (uget [31995, 32479, 23433, 35013, 26085, 26399] system)))]
         @ text_column ''manufacturer'' (either_text rt system hardware [[21046, 36896, 21830], asc ''manufacturer''] [[21046, 36896, 21830], asc ''manufacturer''])
         @ text_column ''model'' (either_text rt system hardware [[22411, 21495], asc ''model''] [[22411, 21495], asc ''model''])
         @ text_column ''serial_number'' (either_text rt system hardware [[24207, 21015, 21495], [66, 73, 79, 83, 24207, 21015, 21495], asc ''serial_number'']
             [[24207, 21015, 21495], asc ''serial_number''])
         @ text_column ''architecture'' (either_text rt system hardware [[31995, 32479, 26550, 26500], asc ''architecture''] [[31995, 32479, 26550, 26500], asc ''architecture''])
         @ text_column ''cpu_model'' (first_text rt hardware [[67, 80, 85, 22411, 21495], [67, 80, 85, 32, 22411, 21495], asc ''cpu_model''])
         @ option_column ''cpu_physical_core_count'' Whole (count_of [[67, 80, 85, 29289, 29702, 26680, 24515, 25968], [67, 80, 85, 32, 29289, 29702, 26680, 24515, 25968], [29289, 29702, 26680, 24515, 25968],
             asc ''cpu_physical_core_count'', asc ''physical_core_count'', [67, 80, 85, 26680, 24515, 25968], [67, 80, 85, 32, 26680, 24515, 25968], asc ''cpu_core_count''])
         @ option_column ''cpu_logical_processor_count'' Whole (count_of [[67, 80, 85, 36923, 36753, 22788, 29702, 22120, 25968], [67, 80, 85, 32, 36923, 36753, 22788, 29702, 22120, 25968], [36923, 36753, 22788, 29702, 22120, 25968],
             asc ''cpu_logical_processor_count'', asc ''logical_processor_count''])
         @ option_column ''memory_total_gb'' Decimal (gib_of [[24403, 21069, 20869, 23384, 23481, 37327], [20869, 23384, 24635, 37327], asc ''memory_total_gb''])
         @ option_column ''disk_total_gb'' Decimal (case disk_payload of
              Some payload \<Rightarrow> if disk = None \<and> is_obj payload then total_gib rt lib payload else disk | None \<Rightarrow> disk))"

text \<open>\<open>_computer_defaults\<close>: the name, and the columns; \<open>last_report_at\<close> is a field of its own.\<close>

definition raw_column :: "json \<Rightarrow> column" where
  "raw_column v = (case v of JStr s \<Rightarrow> Text s | _ \<Rightarrow> Raw v)"

definition first_or_blank :: "json list \<Rightarrow> json" where
  "first_or_blank vs = first_truthy (vs @ [JStr []])"

definition computer_defaults :: "runtime \<Rightarrow> pc_lib \<Rightarrow> json \<Rightarrow> (ustring \<times> (string \<times> column) list) res" where
  "computer_defaults rt lib payload =
     (let system = uget key_system payload; name = strip (str_or rt (uget key_computer system) [])
      in if \<not> is_obj system then Inl (ValidationError [(''path'', ''no_system_section'')])
         else if name = [] then Inl (ValidationError [(''path'', ''no_computer_name'')])
         else Inr (name, [(''is_active'', Flag True),
            (''os'', raw_column (first_or_blank [uget [31995, 32479, 29256, 26412, 31867, 22411] system, uget [31995, 32479, 20027, 35201, 29256, 26412, 21517] system])),
            (''user_name'', raw_column (first_or_blank [uget [24403, 21069, 30331, 24405, 29992, 25143, 22995, 21517] system]))]
            @ extract_computer_snapshot rt lib system (uget [32593, 32476, 20449, 24687] payload) (uget key_hardware payload) (Some payload)))"

record computer_row =
  cm_id :: ustring
  cm_name :: ustring
  cm_last_report :: "time option"
  cm_columns :: "(string \<times> column) list"

definition column_limit :: "string \<Rightarrow> nat" where
  "column_limit k = (if k = ''ip_addresses'' \<or> k = ''mac_addresses'' then 1024 else 255)"

definition column_fits :: "string \<times> column \<Rightarrow> bool" where
  "column_fits kc = (case snd kc of Text s \<Rightarrow> length s \<le> column_limit (fst kc) | _ \<Rightarrow> True)"

text \<open>\<open>_refresh_static_computer\<close>: a computer is created, or updated by a report that is not older than its last.\<close>

definition refreshed :: "time \<Rightarrow> (string \<times> column) list \<Rightarrow> computer_row \<Rightarrow> computer_row" where
  "refreshed stamp columns c =
     (if (case cm_last_report c of None \<Rightarrow> True | Some t \<Rightarrow> t \<le> stamp)
      then c\<lparr>cm_last_report := Some stamp, cm_columns := fold (\<lambda>(k, v). AList.update k v) columns (cm_columns c)\<rparr> else c)"

definition refresh_computer ::
    "ustring \<Rightarrow> ustring \<Rightarrow> time \<Rightarrow> (string \<times> column) list \<Rightarrow> computer_row list \<Rightarrow> ustring \<times> computer_row list" where
  "refresh_computer new_id name stamp columns rows = (case find_row cm_name name rows of
     Some c \<Rightarrow> (cm_id c, upd_row cm_name name (refreshed stamp columns) rows)
   | None \<Rightarrow> (new_id, rows @ [\<lparr>cm_id = new_id, cm_name = name, cm_last_report = Some stamp, cm_columns = columns\<rparr>]))"

text \<open>\<open>update_computer_snapshot\<close>: the details of an analysis fill the columns, a blank value replaces only a blank one.\<close>

definition is_blank :: "column option \<Rightarrow> bool" where
  "is_blank v = (case v of None \<Rightarrow> True | Some (Text s) \<Rightarrow> strip s = [] | Some (Raw j) \<Rightarrow> j = JNull | Some _ \<Rightarrow> False)"

definition update_computer_snapshot :: "runtime \<Rightarrow> pc_lib \<Rightarrow> json \<Rightarrow> computer_row \<Rightarrow> computer_row" where
  "update_computer_snapshot rt lib details c =
     c\<lparr>cm_columns := fold (\<lambda>(k, v) columns. if is_blank (Some v) \<and> \<not> is_blank (map_of columns k) then columns else AList.update k v columns)
       (extract_computer_snapshot rt lib (uget (asc ''system_info'') details) (uget (asc ''network_info'') details)
         (uget (asc ''computer_info'') details) None) (cm_columns c)\<rparr>"

section \<open>The sections of a stored log\<close>

record stored_log = log_file +
  lf_date :: int
  lf_platform :: ustring
  lf_size :: nat
  lf_present :: "ustring list"
  lf_sections :: "(ustring \<times> json) list"
  lf_extra :: "(ustring \<times> json) list"

definition log_sections :: "ustring list" where
  "log_sections = [key_system, [32593, 32476, 20449, 24687], key_hardware, key_activation, key_kms, [24403, 21069, 19982, 22495, 26381, 21153, 22120, 36890, 35759, 24773, 20917], key_software, key_processes,
     key_bitlocker, key_defender, key_updates, [24050, 24212, 29992, 31574, 30053], [27983, 35272, 22120, 25554, 20214, 24773, 20917], item_field (asc ''event_findings''), key_diagnostics]"

abbreviation key_stamp :: ustring where "key_stamp \<equiv> [26085, 24535, 26102, 38388]"

text \<open>The setter of \<open>payload\<close> splits the payload into columns, the getter puts it together again.\<close>

definition set_payload :: "runtime \<Rightarrow> pc_lib \<Rightarrow> (ustring \<times> json) list \<Rightarrow> stored_log \<Rightarrow> stored_log" where
  "set_payload rt lib kvs r = r\<lparr>
     lf_present := filter (\<lambda>k. k \<in> fst ` set kvs) log_sections,
     lf_extra := filter (\<lambda>kv. fst kv \<notin> set log_sections \<and> fst kv \<noteq> asc ''platform'' \<and> fst kv \<noteq> key_stamp) kvs,
     lf_sections := map (\<lambda>k. (k, uget k (JObj kvs))) log_sections,
     lf_platform := (case map_of kvs (asc ''platform'') of Some (JStr s) \<Rightarrow> s | _ \<Rightarrow> lf_platform r),
     lf_collected_at := (case parse_local_datetime rt lib (uget key_stamp (JObj kvs)) of
        None \<Rightarrow> lf_collected_at r | Some t \<Rightarrow> t - zone_offset)\<rparr>"

definition payload_of :: "pc_lib \<Rightarrow> stored_log \<Rightarrow> (ustring \<times> json) list" where
  "payload_of lib r =
     AList.update key_stamp (JStr (pl_stamp_text lib (local_naive (lf_collected_at r))))
       ((if lf_platform r = [] then id else AList.update (asc ''platform'') (JStr (lf_platform r)))
         (fold (\<lambda>k. AList.update k (uget k (JObj (lf_sections r)))) (filter (\<lambda>k. k \<in> set log_sections) (lf_present r)) (lf_extra r)))"

section \<open>Retention\<close>

record upload_config =
  uc_enabled :: bool
  uc_daily_latest :: bool

record pc_store =
  px_config :: "upload_config option"
  px_computers :: "computer_row list"
  px_logs :: "stored_log list"

definition log_in_use :: "db \<Rightarrow> ustring \<Rightarrow> bool" where
  "log_in_use d i \<longleftrightarrow> (\<exists>g \<in> set (targets d). g_type g = TComputerLog \<and> g_target_id g = i
     \<and> (\<exists>t \<in> set (tasks d). t_id t = g_task g \<and> active_status (t_status t)))"

definition superseded_ids :: "db \<Rightarrow> ustring \<Rightarrow> stored_log list \<Rightarrow> ustring list" where
  "superseded_ids d c logs =
     take 200 (map lf_id (filter (\<lambda>r. lf_computer r = c \<and> \<not> lf_retained r \<and> \<not> log_in_use d (lf_id r)) logs))"

definition cleanup_logs_for_computer :: "db \<Rightarrow> ustring \<Rightarrow> stored_log list \<Rightarrow> stored_log list" where
  "cleanup_logs_for_computer d c logs = filter (\<lambda>r. lf_id r \<notin> set (superseded_ids d c logs)) logs"

section \<open>The upload\<close>

text \<open>An upload: its size, its digest, and the value of its JSON when it can be decoded and is finite, after the scrubber.\<close>

record upload =
  up_size :: nat
  up_digest :: ustring
  up_json :: "json option"

definition max_log_file_bytes :: nat where
  "max_log_file_bytes = 16 * 1024 * 1024"

definition obsolete_fields :: "ustring list" where
  "obsolete_fields = [[26085, 24535, 25991, 20214, 20803, 25968, 25454], [35745, 31639, 26426, 21644, 29992, 25143, 21305, 37197, 24773, 20917]]"

definition read_payload :: "upload \<Rightarrow> (ustring \<times> json) list option" where
  "read_payload u = (case up_json u of
     Some (JObj kvs) \<Rightarrow> Some (filter (\<lambda>kv. fst kv \<notin> set obsolete_fields) kvs) | _ \<Rightarrow> None)"

text \<open>What \<open>ingest_log\<close> reads of an upload before its transaction.\<close>

record reading =
  rg_payload :: "(ustring \<times> json) list"
  rg_stamp :: time
  rg_platform :: ustring
  rg_name :: ustring
  rg_columns :: "(string \<times> column) list"

definition invalid :: "string \<Rightarrow> 'a res" where
  "invalid code = Inl (ValidationError [(''log'', code)])"

definition read_upload :: "runtime \<Rightarrow> pc_lib \<Rightarrow> time \<Rightarrow> upload \<Rightarrow> reading res" where
  "read_upload rt lib now u =
     (if up_size u = 0 \<or> max_log_file_bytes < up_size u then invalid ''size''
      else case read_payload u of
        None \<Rightarrow> invalid ''json''
      | Some kvs \<Rightarrow> (case parse_local_datetime rt lib (uget key_stamp (JObj kvs)) of
          None \<Rightarrow> invalid ''stamp''
        | Some t \<Rightarrow>
            let stamp = t - zone_offset
            in if now + 600000000 < stamp then invalid ''future''
               else case uget (asc ''platform'') (JObj kvs) of
                 JStr platform \<Rightarrow>
                   if platform \<notin> {asc ''windows'', asc ''macos''} then invalid ''platform''
                   else bindr (computer_defaults rt lib (JObj kvs)) (\<lambda>(name, columns).
                     if 255 < length name \<or> (\<exists>c \<in> set name. c < 32) then invalid ''name''
                     else if \<not> list_all column_fits columns then invalid ''length''
                     else Inr \<lparr>rg_payload = kvs, rg_stamp = stamp, rg_platform = platform, rg_name = name, rg_columns = columns\<rparr>)
               | _ \<Rightarrow> invalid ''platform''))"

datatype upload_status = Duplicate | OlderIgnored | Created

text \<open>The newest retained log of the day that is not older than the stamp\<close>

definition day_logs :: "ustring \<Rightarrow> int \<Rightarrow> stored_log list \<Rightarrow> stored_log list" where
  "day_logs c day logs = filter (\<lambda>r. lf_computer r = c \<and> lf_date r = day \<and> lf_retained r) logs"

definition newer_log :: "ustring \<Rightarrow> int \<Rightarrow> time \<Rightarrow> stored_log list \<Rightarrow> stored_log option" where
  "newer_log c day stamp logs =
     first_row (rev (sort_key log_key (filter (\<lambda>r. stamp \<le> lf_collected_at r) (day_logs c day logs))))"

definition created_log :: "runtime \<Rightarrow> pc_lib \<Rightarrow> ustring \<Rightarrow> ustring \<Rightarrow> upload \<Rightarrow> reading \<Rightarrow> stored_log" where
  "created_log rt lib new_id c u g = set_payload rt lib (rg_payload g)
     \<lparr>lf_id = new_id, lf_computer = c, lf_retained = True, lf_collected_at = rg_stamp g, lf_hash = up_digest u,
      lf_date = local_day (rg_stamp g), lf_platform = rg_platform g, lf_size = up_size u, lf_present = [], lf_sections = [], lf_extra = []\<rparr>"

definition released :: "ustring \<Rightarrow> int \<Rightarrow> ustring \<Rightarrow> stored_log list \<Rightarrow> stored_log list" where
  "released c day i logs = upd_rows (\<lambda>r. lf_computer r = c \<and> lf_date r = day \<and> lf_retained r \<and> lf_id r \<noteq> i)
     (\<lambda>r. r\<lparr>lf_retained := False\<rparr>) logs"

definition ingest_log ::
    "runtime \<Rightarrow> pc_lib \<Rightarrow> time \<Rightarrow> ustring \<Rightarrow> ustring \<Rightarrow> bool \<Rightarrow> upload \<Rightarrow> db \<Rightarrow> pc_store
      \<Rightarrow> (ustring \<times> upload_status \<times> pc_store) res" where
  "ingest_log rt lib now new_computer new_log require_enabled u d st =
     bindr (read_upload rt lib now u) (\<lambda>g.
       if require_enabled \<and> (case px_config st of None \<Rightarrow> True | Some c \<Rightarrow> \<not> uc_enabled c) then invalid ''disabled''
       else let daily = (case px_config st of None \<Rightarrow> True | Some c \<Rightarrow> uc_daily_latest c); day = local_day (rg_stamp g)
         in case refresh_computer new_computer (rg_name g) (rg_stamp g) (rg_columns g) (px_computers st) of (c, computers) \<Rightarrow>
           let st = st\<lparr>px_computers := computers\<rparr>
           in case find_row lf_hash (up_digest u) (px_logs st) of
             Some r \<Rightarrow> Inr (lf_id r, Duplicate, st)
           | None \<Rightarrow> (case (if daily then newer_log c day (rg_stamp g) (px_logs st) else None) of
               Some r \<Rightarrow> Inr (lf_id r, OlderIgnored, st)
             | None \<Rightarrow>
                 let logs = px_logs st @ [created_log rt lib new_log c u g]
                 in Inr (new_log, Created, st\<lparr>px_logs :=
                      (if daily then cleanup_logs_for_computer d c (released c day new_log logs) else logs)\<rparr>)))"

end
