(* ===== verification/PcRetention.thy ===== *)
theory PcRetention
  imports PcIngestion TaskExec
begin

text \<open>
  The pass over superseded logs and superseded analyses that a worker repeats (\<open>net/devices/pc/retention.py\<close>).
\<close>

section \<open>Analyses\<close>

text \<open>A later analysis of the same computer, profile and day, whose task keeps the newest of a day only.\<close>

definition keeps_newest :: "db \<Rightarrow> result \<Rightarrow> bool" where
  "keeps_newest d n = (case find_row g_id (r_target n) (targets d) of
     None \<Rightarrow> False
   | Some g \<Rightarrow> (case find_row t_id (g_task g) (tasks d) of
       None \<Rightarrow> False | Some t \<Rightarrow> jget ''analysis_retention'' (t_profile_snapshot t) = Some (JStr (asc ''daily_latest''))))"

definition same_series :: "result \<Rightarrow> result \<Rightarrow> bool" where
  "same_series r n \<longleftrightarrow> r_kind r = asc ''computer_analysis'' \<and> r_kind n = asc ''computer_analysis'' \<and> r_daily r \<noteq> None \<and> r_daily n = r_daily r"

definition superseded_result :: "db \<Rightarrow> result \<Rightarrow> bool" where
  "superseded_result d r \<longleftrightarrow> (\<exists>n \<in> set (results d). same_series r n \<and> keeps_newest d n
     \<and> (r_created_at r < r_created_at n \<or> r_created_at r = r_created_at n \<and> r_id r < r_id n))"

definition result_computer :: "result \<Rightarrow> ustring" where
  "result_computer r = (case r_daily r of None \<Rightarrow> [] | Some (c, _) \<Rightarrow> c)"

definition candidates_of :: "db \<Rightarrow> ustring \<Rightarrow> result \<Rightarrow> bool" where
  "candidates_of d c r \<longleftrightarrow> superseded_result d r \<and> result_computer r = c"

text \<open>One computer: the number of its rows that were removed is added.\<close>

definition cleanup_step :: "ustring \<Rightarrow> nat \<times> db \<Rightarrow> nat \<times> db" where
  "cleanup_step c s = (let d = snd s; d' = remove_analysis_results (candidates_of d c) d
     in (fst s + (length (results d) - length (results d')), d'))"

definition cleanup_analysis_results :: "nat \<Rightarrow> db \<Rightarrow> nat \<times> db" where
  "cleanup_analysis_results limit d = fold cleanup_step
     (take limit (sorted_list_of_set (result_computer ` {r \<in> set (results d). superseded_result d r \<and> alert_processing_complete d r}))) (0, d)"

section \<open>Logs\<close>

definition cleanup_computer_logs :: "db \<Rightarrow> ustring \<Rightarrow> nat \<times> stored_log list \<Rightarrow> nat \<times> stored_log list" where
  "cleanup_computer_logs d c s = (fst s + length (superseded_ids d c (snd s)), cleanup_logs_for_computer d c (snd s))"

definition cleanup_retained_logs :: "nat \<Rightarrow> db \<Rightarrow> pc_store \<Rightarrow> nat \<times> db \<times> pc_store" where
  "cleanup_retained_logs limit d st =
     (let computers = take limit (sorted_list_of_set (lf_computer ` {r \<in> set (px_logs st). \<not> lf_retained r}));
          logs = fold (cleanup_computer_logs d) computers (0, px_logs st);
          analyses = cleanup_analysis_results (limit * 10) d
      in (fst logs + fst analyses, snd analyses, st\<lparr>px_logs := snd logs\<rparr>))"

end
