(* ===== verification/PcAnalysisProperties.thy ===== *)
theory PcAnalysisProperties
  imports PcAnalysis Demo
begin

text \<open>
  Missing evidence is never judged normal: an analysis that has no issue for a selected item checked complete evidence.
\<close>

section \<open>Issues of an analysis\<close>

lemma grade_issue_item [simp]: "ri_item (grade_issue ov i) = ri_item i" "ri_data_state (grade_issue ov i) = ri_data_state i"
  by (simp_all add: grade_issue_def raw_issue.defs Let_def)

lemma analyse_items_issues:
  assumes "analyse_items details ov items = Inr (ds, issues)" and "item \<in> set items"
  obtains v res where "details item = Inr (v, res)" and "\<And>i. i \<in> set res \<Longrightarrow> grade_issue ov (i\<lparr>ri_item := item\<rparr>) \<in> set issues"
proof -
  from assms(1) obtain answers where a: "list_all2 (\<lambda>x y. details x = Inr y) items answers"
    and i: "issues = concat (map (\<lambda>(item, _, res). map (\<lambda>i. grade_issue ov (i\<lparr>ri_item := item\<rparr>)) res) (zip items answers))"
    by (auto simp: analyse_items_def bindr_Inr_iff map_res_Inr)
  from assms(2) obtain n where n: "n < length items" "items ! n = item" by (auto simp: in_set_conv_nth)
  obtain v res where v: "answers ! n = (v, res)" by fastforce
  have "details item = Inr (v, res)" using a n v by (auto simp: list_all2_conv_all_nth)
  moreover have "(item, v, res) \<in> set (zip items answers)"
    using a n v by (auto simp: set_zip list_all2_lengthD)
  then have "grade_issue ov (i\<lparr>ri_item := item\<rparr>) \<in> set issues" if "i \<in> set res" for i
    unfolding i using that by force
  ultimately show ?thesis by (rule that)
qed

definition problem_free :: "issue list \<Rightarrow> bool" where
  "problem_free issues \<longleftrightarrow> (let counts = severity_counts (map regraded issues) in fst (snd counts) + snd (snd counts) = 0)"

lemma prepare_log_parts:
  assumes "prepare_log rt lib rp tables machines src selected rules = Inr p"
  obtains ds found where "analyse_items (\<lambda>item. details_for_item rt lib rp (tt_people tables) item (li_payload src)
      (analysis_rules rt rules) (li_collected_at src) (platform_of rt src)) (pu_overrides (analysis_rules rt rules)) (pp_items p) = Inr (ds, found)"
    and "set found \<subseteq> set (pp_issues p)" and "pp_healthy p \<longleftrightarrow> problem_free (pp_issues p)"
proof -
  let ?r = "analysis_rules rt rules"
  obtain items where items: "selected_items selected = Inr items" and obj: "is_obj (li_payload src)"
    using assms by (cases "selected_items selected") (auto simp: prepare_log_def Let_def split: if_split_asm)
  define D where "D = (\<lambda>item. details_for_item rt lib rp (tt_people tables) item (li_payload src) ?r (li_collected_at src) (platform_of rt src))"
  define A where "A = analyse_items D (pu_overrides ?r) items"
  obtain name computer where c: "computer_of_payload rt machines (li_payload src) = Inr (name, computer)"
    using assms items obj by (cases "computer_of_payload rt machines (li_payload src)") (auto simp: prepare_log_def Let_def)
  note eq = assms [unfolded prepare_log_def items bindr.simps Let_def c prod.case D_def [symmetric] A_def [symmetric]]
  obtain ds found where a: "A = Inr (ds, found)"
    using eq by (cases A) (use obj in auto)
  have "pp_items p = items \<and> set found \<subseteq> set (pp_issues p) \<and> (pp_healthy p \<longleftrightarrow> problem_free (pp_issues p))"
    using eq obj unfolding a problem_free_def Let_def by auto
  with a show ?thesis by (intro that [of ds found]) (simp_all add: A_def D_def)
qed

lemma prepare_log_issues:
  assumes "prepare_log rt lib rp tables machines src selected rules = Inr p" and "item \<in> set (pp_items p)"
  obtains v res where "details_for_item rt lib rp (tt_people tables) item (li_payload src) (analysis_rules rt rules)
      (li_collected_at src) (platform_of rt src) = Inr (v, res)"
    and "\<And>i. i \<in> set res \<Longrightarrow> grade_issue (pu_overrides (analysis_rules rt rules)) (i\<lparr>ri_item := item\<rparr>) \<in> set (pp_issues p)"
proof -
  obtain ds found where a: "analyse_items (\<lambda>item. details_for_item rt lib rp (tt_people tables) item (li_payload src)
      (analysis_rules rt rules) (li_collected_at src) (platform_of rt src)) (pu_overrides (analysis_rules rt rules)) (pp_items p) = Inr (ds, found)"
    and f: "set found \<subseteq> set (pp_issues p)"
    by (rule prepare_log_parts [OF assms(1)])
  show ?thesis
    by (rule analyse_items_issues [OF a assms(2)]) (use f in \<open>blast intro: that\<close>)
qed

section \<open>Evidence that leaves no issue\<close>

text \<open>A volume with a name of its own, a capacity, and free space within the limit.\<close>

definition volume_fine :: "runtime \<Rightarrow> pc_lib \<Rightarrow> json \<Rightarrow> json \<Rightarrow> bool" where
  "volume_fine rt lib maximum row \<longleftrightarrow> is_obj row \<and> device_key rt (strip (str_or rt (uget (asc ''device'') row) [])) \<noteq> []
     \<and> (\<exists>capacity free limit. size_bytes rt lib (uget (asc ''total_bytes'') row) = Some capacity
          \<and> size_bytes rt lib (uget (asc ''free_bytes'') row) = Some free \<and> num_of maximum = Inr limit
          \<and> 0 < capacity \<and> free \<le> capacity \<and> (capacity - free) * 100 / capacity \<le> limit)"

definition disk_fine :: "runtime \<Rightarrow> pc_lib \<Rightarrow> json \<Rightarrow> json \<Rightarrow> bool" where
  "disk_fine rt lib maximum payload \<longleftrightarrow> list_of (volumes rt lib payload) \<noteq> []
     \<and> (\<forall>row \<in> set (list_of (volumes rt lib payload)). volume_fine rt lib maximum row)
     \<and> distinct (map (\<lambda>row. device_key rt (strip (str_or rt (uget (asc ''device'') row) []))) (list_of (volumes rt lib payload)))"

abbreviation volume_key :: "runtime \<Rightarrow> json \<Rightarrow> ustring" where
  "volume_key rt row \<equiv> device_key rt (strip (str_or rt (uget (asc ''device'') row) []))"

lemma check_volume_silent:
  assumes "check_volume rt lib m row (seen, missing, issues) = Inr (seen', False, [])"
  shows "\<not> missing \<and> issues = [] \<and> volume_fine rt lib m row \<and> volume_key rt row \<notin> set seen \<and> seen' = volume_key rt row # seen"
  using assms
  by (auto simp: check_volume_def volume_fine_def Let_def bindr_Inr_iff not_less not_le split: option.splits if_split_asm)

lemma check_volumes_silent:
  "foldr_res (check_volume rt lib m) rows (seen, missing, issues) = Inr (seen', False, [])
   \<Longrightarrow> \<not> missing \<and> issues = [] \<and> (\<forall>row \<in> set rows. volume_fine rt lib m row \<and> volume_key rt row \<notin> set seen)
       \<and> distinct (map (volume_key rt) rows)"
proof (induction rows arbitrary: seen missing issues)
  case (Cons row rows)
  then obtain s mi iss where step: "check_volume rt lib m row (seen, missing, issues) = Inr (s, mi, iss)"
    and rest: "foldr_res (check_volume rt lib m) rows (s, mi, iss) = Inr (seen', False, [])"
    by (auto simp: bindr_Inr_iff)
  note ih = Cons.IH [OF rest]
  from step ih have "check_volume rt lib m row (seen, missing, issues) = Inr (s, False, [])" by simp
  note one = check_volume_silent [OF this]
  from one ih show ?case by auto
qed simp

lemma check_disk_silent:
  assumes "check_disk rt lib payload m = Inr (v, [])"
  shows "disk_fine rt lib m payload"
proof -
  from assms obtain seen issues missing where
      f: "foldr_res (check_volume rt lib m) (list_of (volumes rt lib payload)) ([], \<not> truthy (volumes rt lib payload), []) = Inr (seen, missing, issues)"
    and n: "issues = []" "\<not> missing"
    by (auto simp: check_disk_def Let_def bindr_Inr_iff split: if_split_asm)
  have t: "truthy (volumes rt lib payload)" using check_volumes_silent [of rt lib m _ "[]"] f n by auto
  have "is_list (volumes rt lib payload) \<or> volumes rt lib payload = JNull"
    by (auto simp: volumes_def Let_def list_or_null_def summary_volumes_def is_list_def split: json.splits)
  with t have "list_of (volumes rt lib payload) \<noteq> []"
    by (auto simp: is_list_def list_of_def split: json.splits)
  then show ?thesis using check_volumes_silent [of rt lib m _ "[]"] f n by (auto simp: disk_fine_def)
qed

text \<open>A remote item that is failed or incomplete leaves an issue.\<close>

lemma remote_states:
  assumes "remote_answer rt lib people item payload limit roster = Inr (state, kvs, issues)"
  shows "state = st_known \<or> state \<in> set incomplete_states \<or> issues \<noteq> []"
proof -
  have states: "windows_state rt x \<in> {st_known, st_failed, st_unknown}" for x by (simp add: windows_state_def Let_def)
  show ?thesis
    using assms states
    by (auto simp: remote_answer_def Let_def domain_trust_def cpu_health_def identity_match_def group_policy_state_def
        incomplete_states_def bindr_Inr_iff split: if_split_asm list.splits prod.splits)
qed

lemma check_remote_silent:
  assumes "check_remote_item rt lib people item payload limit roster = Inr (kvs, [])"
  shows "has_key (remote_field item) payload
    \<and> (\<exists>info. remote_answer rt lib people item payload limit roster = Inr (st_known, info, []))"
proof -
  from assms obtain state info issues where a: "remote_answer rt lib people item payload limit roster = Inr (state, info, issues)"
    and s: "issues = []" "(if has_key (remote_field item) payload then state else st_missing) \<notin> set incomplete_states"
    by (auto simp: check_remote_item_def bindr_Inr_iff Let_def split: if_split_asm)
  then have "has_key (remote_field item) payload" by (auto simp: incomplete_states_def split: if_split_asm)
  with a s remote_states [OF a] show ?thesis by auto
qed

section \<open>Properties\<close>

text \<open>The evidence of an item that was checked completely.\<close>

definition evidence_complete ::
    "runtime \<Rightarrow> pc_lib \<Rightarrow> roster_row list \<Rightarrow> pc_rules \<Rightarrow> ustring \<Rightarrow> json \<Rightarrow> bool" where
  "evidence_complete rt lib people r item payload \<longleftrightarrow>
     (if item = asc ''disk'' then disk_fine rt lib (pu_disk_percent r) payload
      else if item \<in> remote_items
      then has_key (remote_field item) payload \<and> \<not> truthy (remote_diagnostic item payload)
        \<and> (\<exists>info. remote_answer rt lib people item payload (pu_cpu_celsius r) (pu_roster r) = Inr (st_known, info, []))
      else schema_state rt lib item payload = st_known \<and> \<not> truthy (diagnostic_of (item_field item) payload))"

lemma details_silent:
  assumes "details_for_item rt lib rp people item payload r t platform = Inr (v, [])"
    and "platform \<noteq> asc ''macos'' \<or> item \<notin> set windows_only_items"
  shows "evidence_complete rt lib people r item payload"
proof -
  consider "item = asc ''disk''" | "item \<noteq> asc ''disk''" "item \<in> remote_items" | "item \<noteq> asc ''disk''" "item \<notin> remote_items" by blast
  then show ?thesis
  proof cases
    case 1
    with assms have "check_disk rt lib payload (pu_disk_percent r) = Inr (v, [])"
      by (auto simp: details_for_item_def Let_def split: if_split_asm)
    with 1 show ?thesis by (simp add: evidence_complete_def check_disk_silent)
  next
    case 2
    from assms 2 obtain kvs issues where c: "check_remote_item rt lib people item payload (pu_cpu_celsius r) (pu_roster r) = Inr (kvs, issues)"
      and w: "with_diagnostic rt (remote_diagnostic item payload) (kvs, issues) = (v, [])"
      by (auto simp: details_for_item_def Let_def split: if_split_asm dest!: map_sum_Inr)
    from w have n: "issues = []" "\<not> truthy (remote_diagnostic item payload)" by (auto simp: with_diagnostic_def split: if_split_asm)
    show ?thesis using 2 n check_remote_silent [OF c [unfolded n(1)]] by (simp add: evidence_complete_def)
  next
    case 3
    have "evidence_state rt lib item payload = st_known"
      using assms 3 by (auto simp: details_for_item_def Let_def split: if_split_asm dest!: map_sum_Inr)
    with 3 show ?thesis by (auto simp: evidence_complete_def evidence_state_def Let_def asc_def split: if_split_asm)
  qed
qed

lemma regraded_grade: "is_grade (grade_issue [] (regraded i)) = is_grade i"
  by (simp add: grade_issue_def base_severity_def regraded_def raw_issue.defs Let_def)

lemma prepare_log_healthy:
  assumes "prepare_log rt lib rp tables machines src selected rules = Inr p"
  shows "pp_healthy p \<longleftrightarrow> (\<forall>i \<in> set (pp_issues p). is_grade i = Info)"
proof -
  have h: "pp_healthy p \<longleftrightarrow> problem_free (pp_issues p)"
    using prepare_log_parts [OF assms] by blast
  have g: "map (\<lambda>i. is_grade (grade_issue [] i)) (map regraded xs) = map is_grade xs" for xs
    by (simp add: regraded_grade)
  have other: "g = Info \<longleftrightarrow> Warning \<noteq> g \<and> Critical \<noteq> g" for g by (cases g) auto
  show ?thesis
    unfolding h problem_free_def severity_counts_def Let_def g fst_conv snd_conv add_is_0 length_0_conv filter_empty_conv
    unfolding other set_map by blast
qed

definition demo_pc_lib :: pc_lib where
  "demo_pc_lib = \<lparr>pl_digit = (\<lambda>c. if 48 \<le> c \<and> c \<le> 57 then Some (c - 48) else None), pl_word = (\<lambda>c. 48 \<le> c), pl_fold = id,
     pl_upper = id, pl_strptime = (\<lambda>_ _. None), pl_decimal = (\<lambda>_. None), pl_int = (\<lambda>_. None), pl_fixed2 = (\<lambda>_. []), pl_day_text = (\<lambda>_. []), pl_stamp_text = (\<lambda>_. []),
     pl_env_release = asc ''23H2'', pl_db_fold = id, pl_network = (\<lambda>_. None), pl_network_text = (\<lambda>_. []), pl_address = (\<lambda>_. None)\<rparr>"

definition demo_log :: log_input where
  "demo_log = \<lparr>li_id = asc ''l1'', li_payload = JObj [(key_system, JObj [(key_computer, JStr (asc ''PC1''))]),
       (key_processes, JList [JStr (asc ''init'')])],
     li_platform = asc ''windows'', li_collected_at = 0\<rparr>"

definition demo_pc_analysis :: "prepared_analysis res" where
  "demo_pc_analysis = prepare_log demo_rt demo_pc_lib (\<lambda>_. Inl []) \<lparr>tt_people = [], tt_accounts = [], tt_computers = [], tt_prefixes = JNull\<rparr>
     [(asc ''PC1'', asc ''1'')] demo_log (JList [JStr (asc ''processes''), JStr (asc ''system'')]) None"



end
