(* ===== verification/PcIngestionProperties.thy ===== *)
theory PcIngestionProperties
  imports PcIngestion PcAnalysisProperties
begin

text \<open>
  The logs of a computer: an upload keeps the tables well formed, the newest log of each day stays, and a log that a task still
  reads is never removed.
\<close>

section \<open>What the tables of the logs promise\<close>

definition pc_store_ok :: "pc_store \<Rightarrow> bool" where
  "pc_store_ok st \<longleftrightarrow> distinct (map cm_id (px_computers st)) \<and> distinct (map cm_name (px_computers st))
     \<and> distinct (map lf_id (px_logs st)) \<and> distinct (map lf_hash (px_logs st))
     \<and> (\<forall>r \<in> set (px_logs st). lf_computer r \<in> cm_id ` set (px_computers st) \<and> lf_date r = local_day (lf_collected_at r))"

text \<open>A computer has at most one retained log of a day.\<close>

definition one_log_a_day :: "pc_store \<Rightarrow> bool" where
  "one_log_a_day st \<longleftrightarrow> (\<forall>r \<in> set (px_logs st). \<forall>s \<in> set (px_logs st).
     lf_retained r \<and> lf_retained s \<and> lf_computer r = lf_computer s \<and> lf_date r = lf_date s \<longrightarrow> lf_id r = lf_id s)"

text \<open>Every retained log is still there, or has made room for a retained log of its day that is not older.\<close>

definition newest_kept :: "pc_store \<Rightarrow> pc_store \<Rightarrow> bool" where
  "newest_kept st st' \<longleftrightarrow> (\<forall>r \<in> set (px_logs st). lf_retained r \<longrightarrow> (\<exists>r' \<in> set (px_logs st').
     lf_retained r' \<and> lf_computer r' = lf_computer r \<and> lf_date r' = lf_date r \<and> lf_collected_at r \<le> lf_collected_at r'))"

definition used_kept :: "db \<Rightarrow> pc_store \<Rightarrow> pc_store \<Rightarrow> bool" where
  "used_kept d st st' \<longleftrightarrow> (\<forall>r \<in> set (px_logs st). log_in_use d (lf_id r) \<longrightarrow> lf_id r \<in> lf_id ` set (px_logs st'))"

definition daily_latest :: "pc_store \<Rightarrow> bool" where
  "daily_latest st \<longleftrightarrow> (case px_config st of None \<Rightarrow> True | Some c \<Rightarrow> uc_daily_latest c)"

lemma newest_kept_refl: "px_logs st' = px_logs st \<Longrightarrow> newest_kept st st' \<and> used_kept d st st'"
  by (auto simp: newest_kept_def used_kept_def)

section \<open>The steps of an upload\<close>

lemma created_log_simps [simp]:
  "lf_id (created_log rt lib i c u g) = i" "lf_computer (created_log rt lib i c u g) = c"
  "lf_retained (created_log rt lib i c u g)" "lf_hash (created_log rt lib i c u g) = up_digest u"
  "lf_date (created_log rt lib i c u g) = local_day (rg_stamp g)"
  by (simp_all add: created_log_def set_payload_def)

lemma read_upload_stamp:
  assumes "read_upload rt lib now u = Inr g"
  shows "lf_collected_at (created_log rt lib i c u g) = rg_stamp g" and "rg_stamp g \<le> now + 600000000"
  using assms
  by (auto simp: read_upload_def invalid_def Let_def bindr_Inr_iff created_log_def set_payload_def
      split: if_split_asm option.splits json.splits)

lemma refresh_computer_keeps:
  assumes "refresh_computer nc name stamp columns rows = (c, rows')"
    and "distinct (map cm_id rows)" "distinct (map cm_name rows)" "nc \<notin> cm_id ` set rows"
  shows "distinct (map cm_id rows') \<and> distinct (map cm_name rows') \<and> c \<in> cm_id ` set rows' \<and> cm_id ` set rows \<subseteq> cm_id ` set rows'"
proof (cases "find_row cm_name name rows")
  case None
  with assms show ?thesis by (auto simp: refresh_computer_def find_row_None)
next
  case (Some r)
  have ids: "map cm_id rows' = map cm_id rows" and names: "map cm_name rows' = map cm_name rows"
    using assms(1) Some by (auto simp: refresh_computer_def refreshed_def intro!: upd_rows_keys)
  have "c \<in> cm_id ` set rows" using assms(1) Some find_row_Some [OF Some] by (auto simp: refresh_computer_def)
  with ids names assms(2,3) show ?thesis by (metis order_refl set_map)
qed

lemma sort_key_empty [simp]: "sort_key k rows = [] \<longleftrightarrow> rows = []"
  by (metis set_empty set_sort)

lemma newer_log_None:
  "newer_log c day stamp logs = None \<longleftrightarrow> (\<forall>r \<in> set logs. lf_computer r = c \<and> lf_date r = day \<and> lf_retained r \<longrightarrow> lf_collected_at r < stamp)"
  by (auto simp: newer_log_def day_logs_def filter_empty_conv not_le)

lemma newer_log_Some: "newer_log c day stamp logs = Some r \<Longrightarrow> r \<in> set logs"
  by (auto simp: newer_log_def day_logs_def dest!: first_row_Some)

lemma released_keys:
  "map lf_id (released c day i logs) = map lf_id logs" "map lf_hash (released c day i logs) = map lf_hash logs"
  by (simp_all add: released_def upd_rows_keys)

text \<open>The removal takes superseded logs that no active task reads.\<close>

lemma superseded_rows:
  "i \<in> set (superseded_ids d c logs) \<Longrightarrow> \<exists>r \<in> set logs. lf_id r = i \<and> lf_computer r = c \<and> \<not> lf_retained r \<and> \<not> log_in_use d i"
  unfolding superseded_ids_def by (drule in_set_takeD) auto

lemma cleanup_keeps:
  assumes "distinct (map lf_id logs)" and "r \<in> set logs" and "lf_retained r \<or> log_in_use d (lf_id r)"
  shows "r \<in> set (cleanup_logs_for_computer d c logs)"
proof -
  have "lf_id r \<notin> set (superseded_ids d c logs)"
  proof
    assume "lf_id r \<in> set (superseded_ids d c logs)"
    then obtain s where s: "s \<in> set logs" "lf_id s = lf_id r" "\<not> lf_retained s" "\<not> log_in_use d (lf_id r)"
      using superseded_rows by blast
    have "s = r" using assms(1,2) s(1,2) by (auto simp: distinct_map inj_on_def)
    with s assms(3) show False by blast
  qed
  with assms(2) show ?thesis by (simp add: cleanup_logs_for_computer_def)
qed

lemma cleanup_subset: "set (cleanup_logs_for_computer d c logs) \<subseteq> set logs"
  by (auto simp: cleanup_logs_for_computer_def)

lemma cleanup_distinct: "distinct (map f logs) \<Longrightarrow> distinct (map f (cleanup_logs_for_computer d c logs))"
  by (simp add: cleanup_logs_for_computer_def distinct_map_filter)

text \<open>The logs after an upload in the mode that keeps the newest log of a day: \<open>n\<close> is the new one.\<close>

definition after_upload :: "db \<Rightarrow> stored_log \<Rightarrow> stored_log list \<Rightarrow> stored_log list" where
  "after_upload d n logs = cleanup_logs_for_computer d (lf_computer n) (released (lf_computer n) (lf_date n) (lf_id n) (logs @ [n]))"

definition freed :: "stored_log \<Rightarrow> stored_log \<Rightarrow> stored_log" where
  "freed n s = (if lf_computer s = lf_computer n \<and> lf_date s = lf_date n \<and> lf_retained s \<and> lf_id s \<noteq> lf_id n
     then s\<lparr>lf_retained := False\<rparr> else s)"

lemma freed_simps [simp]:
  "lf_id (freed n s) = lf_id s" "lf_hash (freed n s) = lf_hash s" "lf_computer (freed n s) = lf_computer s"
  "lf_date (freed n s) = lf_date s" "lf_collected_at (freed n s) = lf_collected_at s" "freed n n = n"
  "lf_retained (freed n s) \<longleftrightarrow> lf_retained s \<and> (lf_computer s = lf_computer n \<and> lf_date s = lf_date n \<longrightarrow> lf_id s = lf_id n)"
  by (auto simp: freed_def)

lemma freed_kept: "lf_computer s \<noteq> lf_computer n \<or> lf_date s \<noteq> lf_date n \<Longrightarrow> freed n s = s"
  by (auto simp: freed_def)

lemma released_rows: "set (released (lf_computer n) (lf_date n) (lf_id n) logs) = freed n ` set logs"
  by (simp add: released_def set_upd_rows freed_def)

lemma after_upload_distinct:
  assumes "distinct (map lf_id (logs @ [n]))" and "distinct (map lf_hash (logs @ [n]))"
  shows "distinct (map lf_id (after_upload d n logs)) \<and> distinct (map lf_hash (after_upload d n logs))"
  using assms unfolding after_upload_def by (intro conjI cleanup_distinct) (simp_all add: released_keys del: map_append)

lemma after_upload_from: "set (after_upload d n logs) \<subseteq> freed n ` set (logs @ [n])"
  unfolding after_upload_def using cleanup_subset released_rows by metis

lemma after_upload_keeps:
  assumes "distinct (map lf_id (logs @ [n]))" and "s \<in> set (logs @ [n])" and "lf_retained (freed n s) \<or> log_in_use d (lf_id s)"
  shows "freed n s \<in> set (after_upload d n logs)"
  unfolding after_upload_def
proof (rule cleanup_keeps)
  show "distinct (map lf_id (released (lf_computer n) (lf_date n) (lf_id n) (logs @ [n])))"
    using assms(1) by (simp only: released_keys)
  show "freed n s \<in> set (released (lf_computer n) (lf_date n) (lf_id n) (logs @ [n]))"
    unfolding released_rows using assms(2) by (rule imageI)
  show "lf_retained (freed n s) \<or> log_in_use d (lf_id (freed n s))" using assms(3) by (simp only: freed_simps)
qed

lemma after_upload_new:
  assumes "distinct (map lf_id (logs @ [n]))" and "lf_retained n"
  shows "n \<in> set (after_upload d n logs)"
  using after_upload_keeps [OF assms(1), of n d] assms(2) by simp

lemma after_upload_used:
  assumes "distinct (map lf_id (logs @ [n]))" and "r \<in> set logs" and "log_in_use d (lf_id r)"
  shows "lf_id r \<in> lf_id ` set (after_upload d n logs)"
proof (rule image_eqI)
  show "freed n r \<in> set (after_upload d n logs)" using after_upload_keeps [OF assms(1), of r d] assms(2,3) by simp
qed simp

lemma after_upload_newest:
  assumes "distinct (map lf_id (logs @ [n]))" and "lf_retained n" and "r \<in> set logs" and "lf_retained r"
    and "\<forall>r \<in> set logs. lf_computer r = lf_computer n \<and> lf_date r = lf_date n \<and> lf_retained r \<longrightarrow> lf_collected_at r < lf_collected_at n"
  shows "\<exists>r' \<in> set (after_upload d n logs). lf_retained r' \<and> lf_computer r' = lf_computer r \<and> lf_date r' = lf_date r
    \<and> lf_collected_at r \<le> lf_collected_at r'"
proof (cases "lf_computer r = lf_computer n \<and> lf_date r = lf_date n")
  case True
  with assms after_upload_new [of logs n d] show ?thesis by (intro bexI [where x = n]) auto
next
  case False
  then have "lf_retained (freed n r)" using assms(4) by (simp only: freed_simps) blast
  then have "freed n r \<in> set (after_upload d n logs)" using after_upload_keeps [OF assms(1), of r d] assms(3) by simp
  with False assms(4) show ?thesis by (intro bexI [where x = r]) (simp_all add: freed_kept)
qed

lemma after_upload_one:
  assumes dist: "distinct (map lf_id (logs @ [n]))"
    and one: "\<forall>r \<in> set logs. \<forall>s \<in> set logs. lf_retained r \<and> lf_retained s \<and> lf_computer r = lf_computer s \<and> lf_date r = lf_date s
      \<longrightarrow> lf_id r = lf_id s"
    and "r \<in> set (after_upload d n logs)" "s \<in> set (after_upload d n logs)"
    and "lf_retained r" "lf_retained s" "lf_computer r = lf_computer s" "lf_date r = lf_date s"
  shows "lf_id r = lf_id s"
proof -
  have old: "x = n \<or> x \<in> set logs \<and> \<not> (lf_computer x = lf_computer n \<and> lf_date x = lf_date n)"
    if "x \<in> set (after_upload d n logs)" "lf_retained x" for x
  proof -
    from that(1) after_upload_from obtain y where y: "x = freed n y" "y \<in> set (logs @ [n])" by blast
    show ?thesis
    proof (cases "lf_id y = lf_id n")
      case True
      then have "y = n" using dist y(2) by (auto simp: image_iff)
      with y(1) show ?thesis by simp
    next
      case False
      then have k: "lf_computer y \<noteq> lf_computer n \<or> lf_date y \<noteq> lf_date n" using that(2) y(1) by simp
      moreover have "y \<in> set logs" using y(2) False by auto
      ultimately show ?thesis using y(1) by (simp add: freed_kept)
    qed
  qed
  from old [OF assms(3,5)] old [OF assms(4,6)] consider "r = n" "s = n" | "r \<in> set logs" "s \<in> set logs"
    using assms(7,8) by metis
  then show ?thesis by cases (use one assms(5-8) in blast)+
qed

lemma ingest_steps:
  assumes "ingest_log rt lib now nc nl en u d st = Inr (i, s, st')" and "daily_latest st"
  obtains g c where "read_upload rt lib now u = Inr g"
    and "refresh_computer nc (rg_name g) (rg_stamp g) (rg_columns g) (px_computers st) = (c, px_computers st')"
    and "s \<noteq> Created \<and> i \<in> lf_id ` set (px_logs st) \<and> px_logs st' = px_logs st
      \<or> s = Created \<and> i = nl \<and> up_digest u \<notin> lf_hash ` set (px_logs st)
        \<and> newer_log c (local_day (rg_stamp g)) (rg_stamp g) (px_logs st) = None
        \<and> px_logs st' = after_upload d (created_log rt lib nl c u g) (px_logs st)"
proof -
  from assms(1) obtain g where g: "read_upload rt lib now u = Inr g"
    by (cases "read_upload rt lib now u") (auto simp: ingest_log_def)
  obtain c computers where c: "refresh_computer nc (rg_name g) (rg_stamp g) (rg_columns g) (px_computers st) = (c, computers)"
    by fastforce
  have daily: "(case px_config st of None \<Rightarrow> True | Some c \<Rightarrow> uc_daily_latest c) = True"
    using assms(2) by (simp add: daily_latest_def)
  note run = assms(1) [unfolded ingest_log_def g bindr.simps c prod.case daily Let_def if_True]
  show ?thesis
  proof (cases "find_row lf_hash (up_digest u) (px_logs st)")
    case (Some r)
    with run find_row_Some [OF Some] show ?thesis
      by (intro that [OF g, of c]) (auto simp: c invalid_def split: if_split_asm)
  next
    case None
    then have hash: "up_digest u \<notin> lf_hash ` set (px_logs st)" by (simp only: find_row_None not_False_eq_True)
    show ?thesis
    proof (cases "newer_log c (local_day (rg_stamp g)) (rg_stamp g) (px_logs st)")
      case (Some r)
      then have "r \<in> set (px_logs st)" by (rule newer_log_Some)
      with run None Some show ?thesis
        by (intro that [OF g, of c]) (auto simp: c invalid_def split: if_split_asm)
    next
      case newer: None
      with run None hash show ?thesis
        by (intro that [OF g, of c]) (auto simp: c invalid_def after_upload_def split: if_split_asm)
    qed
  qed
qed

section \<open>Properties\<close>

text \<open>A store with one log of the day, which a waiting task reads, and the upload of a later one.\<close>

definition demo_upload_lib :: pc_lib where
  "demo_upload_lib = demo_pc_lib\<lparr>pl_strptime := (\<lambda>f s. if f = asc ''%Y-%m-%d'' \<and> s = asc ''1970-01-01'' then Some 5 else None)\<rparr>"

definition demo_old_log :: stored_log where
  "demo_old_log = \<lparr>lf_id = asc ''l1'', lf_computer = asc ''c1'', lf_retained = True, lf_collected_at = - zone_offset - 1, lf_hash = asc ''h1'',
     lf_date = -1, lf_platform = asc ''windows'', lf_size = 3, lf_present = [], lf_sections = [], lf_extra = []\<rparr>"

definition demo_earlier_log :: stored_log where
  "demo_earlier_log = demo_old_log\<lparr>lf_id := asc ''l2'', lf_hash := asc ''h2'', lf_collected_at := - zone_offset, lf_date := 0\<rparr>"

definition demo_logs_store :: pc_store where
  "demo_logs_store = \<lparr>px_config = None, px_computers = [\<lparr>cm_id = asc ''c1'', cm_name = asc ''PC1'', cm_last_report = None, cm_columns = []\<rparr>],
     px_logs = [demo_old_log, demo_earlier_log]\<rparr>"

definition demo_reader :: db where
  "demo_reader = demo_store [demo_queued] [demo_target\<lparr>g_type := TComputerLog, g_target_id := asc ''l2''\<rparr>]"

definition demo_upload :: upload where
  "demo_upload = \<lparr>up_size = 10, up_digest = asc ''h3'', up_json = Some (JObj [(key_stamp, JStr (asc ''1970-01-01'')),
     (asc ''platform'', JStr (asc ''windows'')), (key_system, JObj [(key_computer, JStr (asc ''PC1''))])])\<rparr>"

definition demo_ingested :: "(ustring \<times> upload_status \<times> pc_store) res" where
  "demo_ingested = ingest_log demo_rt demo_upload_lib 0 (asc ''c2'') (asc ''l3'') False demo_upload demo_reader demo_logs_store"



end
