(* ===== verification/PcRetentionProperties.thy ===== *)
theory PcRetentionProperties
  imports PcRetention PcIngestionProperties
begin

text \<open>
  The repeated pass removes superseded logs and analyses only: what is newest, in use or not yet processed stays, and the
  number it returns is the number of rows that went.
\<close>

section \<open>Analyses\<close>

text \<open>What the pass reads of the target of an analysis\<close>

definition target_link :: "db \<Rightarrow> ustring \<Rightarrow> (ustring \<times> time option) option" where
  "target_link d i = map_option (\<lambda>g. (g_task g, g_alert_processed_at g)) (find_row g_id i (targets d))"

text \<open>The analyses shrink while the rows they refer to keep what the pass reads.\<close>

definition shrunk :: "db \<Rightarrow> db \<Rightarrow> bool" where
  "shrunk d d' \<longleftrightarrow> tasks d' = tasks d \<and> set (results d') \<subseteq> set (results d) \<and> length (results d') \<le> length (results d)
     \<and> target_link d' = target_link d"

lemma shrunk_refl: "shrunk d d"
  by (simp add: shrunk_def)

lemma shrunk_trans: "shrunk d d' \<Longrightarrow> shrunk d' d'' \<Longrightarrow> shrunk d d''"
  by (auto simp: shrunk_def)

lemma keeps_newest_link: "keeps_newest d n = (case target_link d (r_target n) of None \<Rightarrow> False
   | Some (i, _) \<Rightarrow> (case find_row t_id i (tasks d) of
       None \<Rightarrow> False | Some t \<Rightarrow> jget ''analysis_retention'' (t_profile_snapshot t) = Some (JStr (asc ''daily_latest''))))"
  by (simp add: keeps_newest_def target_link_def split: option.split)

lemma processed_link: "alert_processing_complete d n = (case target_link d (r_target n) of None \<Rightarrow> False
   | Some (i, when) \<Rightarrow> when \<noteq> None \<and> (case find_row t_id i (tasks d) of
       None \<Rightarrow> False | Some t \<Rightarrow> t_alert_summary_processed_at t \<noteq> None))"
  by (simp add: alert_processing_complete_def target_link_def split: option.split)

lemma shrunk_reads:
  assumes "shrunk d d'"
  shows "keeps_newest d' n = keeps_newest d n" and "alert_processing_complete d' n = alert_processing_complete d n"
proof -
  have e: "tasks d' = tasks d" "target_link d' = target_link d" using assms by (simp_all add: shrunk_def)
  show "keeps_newest d' n = keeps_newest d n" "alert_processing_complete d' n = alert_processing_complete d n"
    unfolding keeps_newest_link processed_link e by (rule refl)+
qed

lemma shrunk_superseded: "shrunk d d' \<Longrightarrow> superseded_result d' r \<Longrightarrow> superseded_result d r"
  unfolding superseded_result_def using shrunk_reads(1) [of d d'] by (auto simp: shrunk_def)

lemma remove_analysis_results_shrinks:
  "shrunk d (remove_analysis_results q d)"
proof -
  have "target_link (d\<lparr>targets := upd_rows p expire_snapshot (targets d), results := rs\<rparr>) = target_link d" for p rs
    by (rule ext) (auto simp: target_link_def find_row_upd expire_snapshot_def option.map_comp comp_def intro!: option.map_cong0)
  then show ?thesis
    by (auto simp: shrunk_def remove_analysis_results_def Let_def)
qed

lemma remove_analysis_results_removed:
  assumes "r \<in> set (results d)" and "r \<notin> set (results (remove_analysis_results q d))"
  shows "q r \<and> alert_processing_complete d r"
  using assms by (auto simp: remove_analysis_results_def Let_def dest!: in_set_takeD)

lemma cleanup_steps:
  assumes "fold cleanup_step cs (n, d) = (n', d')"
  shows "shrunk d d' \<and> n' = n + (length (results d) - length (results d'))
    \<and> (\<forall>r \<in> set (results d) - set (results d'). superseded_result d r \<and> alert_processing_complete d r)"
  using assms
proof (induction cs arbitrary: n d)
  case Nil
  then show ?case by (simp add: shrunk_refl)
next
  case (Cons c cs)
  define e where "e = remove_analysis_results (candidates_of d c) d"
  have s: "shrunk d e" unfolding e_def by (rule remove_analysis_results_shrinks)
  have "fold cleanup_step cs (n + (length (results d) - length (results e)), e) = (n', d')"
    using Cons.prems unfolding fold_simps cleanup_step_def [of c "(n, d)"] Let_def fst_conv snd_conv e_def .
  note ih = Cons.IH [OF this]
  have gone: "superseded_result d r \<and> alert_processing_complete d r" if "r \<in> set (results d)" "r \<notin> set (results d')" for r
  proof (cases "r \<in> set (results e)")
    case True
    with ih that(2) have "superseded_result e r \<and> alert_processing_complete e r" by blast
    then show ?thesis using shrunk_superseded [OF s] shrunk_reads(2) [OF s] by blast
  next
    case False
    with that(1) have "candidates_of d c r \<and> alert_processing_complete d r"
      unfolding e_def by (rule remove_analysis_results_removed)
    then show ?thesis by (simp add: candidates_of_def)
  qed
  have "length (results d') \<le> length (results e)" "length (results e) \<le> length (results d)"
    using s ih by (simp_all add: shrunk_def)
  then show ?case using ih shrunk_trans [OF s] gone by auto
qed

section \<open>Logs\<close>

lemma cleanup_computer_logs_steps:
  assumes "fold (cleanup_computer_logs d) cs (n, logs) = (n', logs')" and "distinct (map lf_id logs)"
  shows "n' = n + (length logs - length logs') \<and> length logs' \<le> length logs \<and> set logs' \<subseteq> set logs
    \<and> (\<forall>r \<in> set logs. lf_retained r \<or> log_in_use d (lf_id r) \<longrightarrow> r \<in> set logs')"
  using assms
proof (induction cs arbitrary: n logs)
  case Nil
  then show ?case by simp
next
  case (Cons c cs)
  let ?ids = "superseded_ids d c logs" and ?rest = "cleanup_logs_for_computer d c logs"
  have ids: "distinct ?ids" "set ?ids \<subseteq> lf_id ` set logs"
    using Cons.prems(2) superseded_rows [of _ d c logs]
    by (auto simp: superseded_ids_def distinct_map_filter intro!: distinct_take)
  have count: "length ?rest + length ?ids = length logs"
  proof -
    have "length ?ids = card (set ?ids)" using ids(1) by (simp add: distinct_card)
    also have "set ?ids = lf_id ` {r \<in> set logs. lf_id r \<in> set ?ids}" using ids(2) by auto
    also have "card \<dots> = card {r \<in> set logs. lf_id r \<in> set ?ids}"
      using Cons.prems(2) by (intro card_image) (auto simp: distinct_map intro: inj_on_subset)
    also have "\<dots> = length (filter (\<lambda>r. lf_id r \<in> set ?ids) logs)"
      using Cons.prems(2) by (subst distinct_card [symmetric]) (auto simp: distinct_map)
    finally show ?thesis
      using sum_length_filter_compl [of "\<lambda>r. lf_id r \<in> set ?ids" logs] by (simp add: cleanup_logs_for_computer_def)
  qed
  have "fold (cleanup_computer_logs d) cs (n + length ?ids, ?rest) = (n', logs')"
    using Cons.prems(1) unfolding fold_simps cleanup_computer_logs_def [of d c "(n, logs)"] fst_conv snd_conv .
  note ih = Cons.IH [OF this cleanup_distinct [OF Cons.prems(2)]]
  have "r \<in> set logs'" if "r \<in> set logs" "lf_retained r \<or> log_in_use d (lf_id r)" for r
    using ih cleanup_keeps [OF Cons.prems(2) that] that(2) by blast
  then show ?case using ih count cleanup_subset [of d c logs] by auto
qed

section \<open>Properties\<close>

text \<open>Two analyses of one computer, profile and day, and three logs of which a task reads the second.\<close>

definition demo_analysed :: "ustring \<Rightarrow> time \<Rightarrow> result" where
  "demo_analysed i created = \<lparr>r_kind = asc ''computer_analysis'', r_id = i, r_target = asc ''g1'', r_status = Success, r_summary = [],
     r_daily = Some (asc ''c1'', asc ''p1'', 0), r_created_at = created\<rparr>"

definition demo_series :: db where
  "demo_series = demo_reader\<lparr>
     targets := (demo_done\<lparr>g_alert_processed_at := Some 240, g_task := asc ''t9''\<rparr>) # map (\<lambda>g. g\<lparr>g_id := asc ''g2''\<rparr>) (targets demo_reader),
     tasks := demo_finished\<lparr>t_id := asc ''t9'', t_alert_summary_processed_at := Some 250,
         t_profile_snapshot := JObj [(asc ''analysis_retention'', JStr (asc ''daily_latest''))]\<rparr> # tasks demo_reader,
     results := [demo_analysed (asc ''a1'') 1, demo_analysed (asc ''a2'') 2]\<rparr>"

definition demo_stale_logs :: pc_store where
  "demo_stale_logs = demo_logs_store\<lparr>px_logs :=
     [demo_old_log\<lparr>lf_retained := False\<rparr>, demo_earlier_log\<lparr>lf_retained := False\<rparr>, demo_earlier_log\<lparr>lf_id := asc ''l3'', lf_hash := asc ''h3''\<rparr>]\<rparr>"

text \<open>C19. The pass of the workers removes only logs that were replaced and that no active task reads, and only analyses that
  a later analysis of their computer, profile and day replaced and whose alerts were processed; the newest analysis of a day
  stays, and the number it returns is the number of rows that went.\<close>

theorem cleanup_keeps_newest:
  assumes "cleanup_retained_logs limit d st = (n, d', st')" and "distinct (map lf_id (px_logs st))"
  shows "(\<forall>r \<in> set (px_logs st). lf_retained r \<or> log_in_use d (lf_id r) \<longrightarrow> r \<in> set (px_logs st'))
    \<and> (\<forall>r \<in> set (results d) - set (results d'). superseded_result d r \<and> alert_processing_complete d r)
    \<and> (\<forall>r \<in> set (results d). (\<forall>s \<in> set (results d). same_series r s \<longrightarrow> (r_created_at s, r_id s) \<le> (r_created_at r, r_id r))
         \<longrightarrow> r \<in> set (results d'))
    \<and> n = (length (px_logs st) - length (px_logs st')) + (length (results d) - length (results d'))"
proof -
  define cs where "cs = take limit (sorted_list_of_set (lf_computer ` {r \<in> set (px_logs st). \<not> lf_retained r}))"
  obtain m logs where l: "fold (cleanup_computer_logs d) cs (0, px_logs st) = (m, logs)" by fastforce
  obtain k e where a: "cleanup_analysis_results (limit * 10) d = (k, e)" by fastforce
  have eq: "n = m + k" "d' = e" "px_logs st' = logs"
    using assms(1) l a by (auto simp: cleanup_retained_logs_def Let_def cs_def)
  note steps = cleanup_steps [OF a [unfolded cleanup_analysis_results_def]]
  have newest: "r \<in> set (results d')" if "r \<in> set (results d)"
    "\<forall>s \<in> set (results d). same_series r s \<longrightarrow> (r_created_at s, r_id s) \<le> (r_created_at r, r_id r)" for r
  proof (rule ccontr)
    assume "r \<notin> set (results d')"
    then have "superseded_result d r" using steps that(1) by (auto simp: eq)
    with that(2) show False by (force simp: superseded_result_def)
  qed
  show ?thesis
    using steps newest cleanup_computer_logs_steps [OF l assms(2)] by (simp add: eq)
qed

theorem cleanup_keeps_newest_witness:
  "\<exists>d' st'. cleanup_retained_logs 4 demo_series demo_stale_logs = (2, d', st') \<and> demo_analysed (asc ''a2'') 2 \<in> set (results d')
     \<and> demo_earlier_log\<lparr>lf_retained := False\<rparr> \<in> set (px_logs st')"
proof -
  have n: "fst (cleanup_retained_logs 4 demo_series demo_stale_logs) = 2" by code_simp
  obtain m d' st' where c: "cleanup_retained_logs 4 demo_series demo_stale_logs = (m, d', st')" by (metis prod_cases3)
  have ids: "distinct (map lf_id (px_logs demo_stale_logs))" by code_simp
  have used: "log_in_use demo_series (lf_id (demo_earlier_log\<lparr>lf_retained := False\<rparr>))" by code_simp
  have rows: "results demo_series = [demo_analysed (asc ''a1'') 1, demo_analysed (asc ''a2'') 2]" by (simp add: demo_series_def)
  have late: "\<forall>s \<in> set (results demo_series). same_series (demo_analysed (asc ''a2'') 2) s
      \<longrightarrow> (r_created_at s, r_id s) \<le> (r_created_at (demo_analysed (asc ''a2'') 2), r_id (demo_analysed (asc ''a2'') 2))"
    unfolding rows by code_simp
  have "demo_earlier_log\<lparr>lf_retained := False\<rparr> \<in> set (px_logs demo_stale_logs)" by (simp add: demo_stale_logs_def)
  moreover have "demo_analysed (asc ''a2'') 2 \<in> set (results demo_series)" by (simp add: rows)
  ultimately show ?thesis
    using cleanup_keeps_newest [OF c ids] used late n c by (metis fst_conv)
qed

end
