(* ===== verification/TopologyDiscovery.thy ===== *)
theory TopologyDiscovery
  imports Json
begin

text \<open>
  Resolution of topology evidence, \<open>net/topology/discovery.py\<close>: the stable keys of interfaces and links, the device and port
  a neighbour names, and the payload of one discovery.
\<close>

section \<open>Names and keys\<close>

text \<open>\<open>_norm_name\<close>: \<open>\s\<close> matches what \<open>str.isspace\<close> accepts.\<close>

definition norm_name :: "runtime \<Rightarrow> ustring \<Rightarrow> ustring" where
  "norm_name rt s = casefold rt (filter (\<lambda>c. \<not> is_space c) s)"

fun colon_pairs :: "ustring \<Rightarrow> ustring" where
  "colon_pairs (a # b # c # s) = a # b # 58 # colon_pairs (c # s)"
| "colon_pairs s = s"

definition norm_mac :: "runtime \<Rightarrow> ustring \<Rightarrow> ustring" where
  "norm_mac rt s =
     (let compact = filter (\<lambda>c. (48 \<le> c \<and> c \<le> 57) \<or> (97 \<le> c \<and> c \<le> 102)) (casefold rt s)
      in if length compact = 12 then colon_pairs compact else [])"

text \<open>\<open>s.startswith(prefix)\<close> and \<open>s.removeprefix(prefix)\<close>\<close>

definition starts_with :: "ustring \<Rightarrow> ustring \<Rightarrow> bool" where
  "starts_with prefix s \<longleftrightarrow> take (length prefix) s = prefix"

definition remove_prefix :: "ustring \<Rightarrow> ustring \<Rightarrow> ustring" where
  "remove_prefix prefix s = (if starts_with prefix s then drop (length prefix) s else s)"

definition or_else :: "ustring \<Rightarrow> ustring \<Rightarrow> ustring" where
  "or_else a b = (if a = [] then b else a)"

record candidate =
  ic_index :: "int option"
  ic_name :: ustring
  ic_description :: ustring
  ic_mac :: ustring
  ic_admin :: ustring
  ic_oper :: ustring
  ic_speed :: "int option"
  ic_vlans :: "int list"
  ic_hint :: ustring

definition stable_interface_key :: "runtime \<Rightarrow> candidate \<Rightarrow> ustring" where
  "stable_interface_key rt c = (case ic_index c of
     Some i \<Rightarrow> asc ''ifindex:'' @ int_str i
   | None \<Rightarrow>
       let mac = norm_mac rt (ic_mac c);
           name = norm_name rt (or_else (ic_name c) (remove_prefix (asc ''name:'') (ic_hint c)))
       in if mac \<noteq> [] then asc ''mac:'' @ mac
          else if name \<noteq> [] then asc ''name:'' @ name
          else asc ''hint:'' @ take 24 (sha256 rt (norm_name rt (ic_hint c))))"

text \<open>One resolved observation; device identifiers are their texts.\<close>

datatype resolution = Resolved | Unresolved | Conflicting

record seen_link =
  ro_local_device :: ustring
  ro_local_key :: ustring
  ro_remote_device :: "ustring option"
  ro_remote_key :: "ustring option"
  ro_chassis :: ustring
  ro_port :: ustring
  ro_port_description :: ustring
  ro_system :: ustring
  ro_addresses :: "ustring list"
  ro_protocols :: "ustring list"
  ro_protocol :: ustring
  ro_resolution :: resolution
  ro_confidence :: rat
  ro_link_key :: ustring
  ro_evidence :: json

definition colon :: "ustring \<Rightarrow> ustring \<Rightarrow> ustring" where
  "colon a b = a @ 58 # b"

fun bar_join :: "ustring list \<Rightarrow> ustring" where
  "bar_join [] = []"
| "bar_join [s] = s"
| "bar_join (s # ss) = s @ 124 # bar_join ss"

definition stable_link_key :: "runtime \<Rightarrow> seen_link \<Rightarrow> ustring" where
  "stable_link_key rt ob =
     (let here = colon (ro_local_device ob) (ro_local_key ob)
      in sha256 rt (bar_join (case ro_remote_device ob of
           Some d \<Rightarrow>
             let there = colon d (case ro_remote_key ob of Some k \<Rightarrow> or_else k (norm_name rt (ro_port ob)) | None \<Rightarrow> norm_name rt (ro_port ob))
             in sort [here, there]
         | None \<Rightarrow> [here, norm_mac rt (ro_chassis ob), norm_name rt (ro_port ob), norm_name rt (ro_system ob), ro_protocol ob])))"

section \<open>Neighbours\<close>

text \<open>What a collector reports of an interface (\<open>_candidate_interface\<close>), of a neighbour, and of a protocol as a whole.\<close>

record raw_interface =
  ri_index :: "int option"
  ri_name :: ustring
  ri_description :: ustring
  ri_mac :: ustring
  ri_admin :: ustring
  ri_oper :: ustring
  ri_speed :: "int option"
  ri_vlans :: "int list"
  ri_hint :: ustring

definition candidate_interface :: "runtime \<Rightarrow> raw_interface \<Rightarrow> candidate" where
  "candidate_interface rt r =
     \<lparr>ic_index = ri_index r, ic_name = ri_name r, ic_description = ri_description r, ic_mac = norm_mac rt (ri_mac r),
      ic_admin = or_else (ri_admin r) (asc ''unknown''), ic_oper = or_else (ri_oper r) (asc ''unknown''), ic_speed = ri_speed r,
      ic_vlans = sort (remdups (filter (\<lambda>v. 0 \<le> v) (ri_vlans r))), ic_hint = ri_hint r\<rparr>"

record neighbour =
  nb_local_hint :: ustring
  nb_local_port :: ustring
  nb_local_description :: ustring
  nb_chassis :: ustring
  nb_port :: ustring
  nb_port_description :: ustring
  nb_system :: ustring
  nb_addresses :: "ustring list"
  nb_protocol :: ustring

record protocol_result =
  pr_status :: ustring
  pr_complete :: bool
  pr_protocols :: "ustring list"
  pr_evidence :: json
  pr_interfaces :: "raw_interface list"
  pr_neighbours :: "neighbour list"

record known_device =
  kd_id :: ustring
  kd_ip :: ustring
  kd_name :: ustring

record known_interface =
  ki_device :: ustring
  ki_key :: ustring
  ki_name :: ustring
  ki_mac :: ustring

text \<open>The tiers of \<open>_resolve_neighbor\<close>: the devices that carry the chassis, own an address, or bear the name.\<close>

definition neighbour_tiers :: "runtime \<Rightarrow> neighbour \<Rightarrow> known_device list \<Rightarrow> known_interface list \<Rightarrow> ustring list list" where
  "neighbour_tiers rt n devices interfaces =
     (let chassis = norm_mac rt (nb_chassis n); name = norm_name rt (nb_system n);
          tier = (\<lambda>ids. filter (\<lambda>i. i \<noteq> asc ''None'') (remdups ids))
      in (if chassis \<noteq> [] then [tier (map ki_device (filter (\<lambda>k. norm_mac rt (ki_mac k) = chassis) interfaces))] else [])
       @ (if nb_addresses n \<noteq> [] then [tier (map kd_id (filter (\<lambda>k. kd_ip k \<in> set (nb_addresses n)) devices))] else [])
       @ (if name \<noteq> [] then [tier (map kd_id (filter (\<lambda>k. norm_name rt (kd_name k) = name) devices))] else []))"

text \<open>The first tier with a match decides; two matches are a conflict.\<close>

fun first_match :: "ustring list list \<Rightarrow> ustring option res" where
  "first_match [] = Inr None"
| "first_match (m # ms) = (case m of [] \<Rightarrow> first_match ms | [d] \<Rightarrow> Inr (Some d) | _ \<Rightarrow> Inl ValueError)"

abbreviation conflict :: "ustring option \<times> ustring option \<times> resolution \<times> rat" where
  "conflict \<equiv> (None, None, Conflicting, 25 / 100)"

definition resolve_neighbour ::
    "runtime \<Rightarrow> neighbour \<Rightarrow> known_device list \<Rightarrow> known_interface list
      \<Rightarrow> ustring option \<times> ustring option \<times> resolution \<times> rat" where
  "resolve_neighbour rt n devices interfaces =
     (case first_match (neighbour_tiers rt n devices interfaces) of
        Inl _ \<Rightarrow> conflict
      | Inr None \<Rightarrow>
          (None, None, Unresolved, if norm_mac rt (nb_chassis n) \<noteq> [] \<or> nb_addresses n \<noteq> [] then 60 / 100 else 40 / 100)
      | Inr (Some d) \<Rightarrow>
          let port = norm_name rt (nb_port n)
          in (case filter (\<lambda>k. ki_device k = d \<and> port \<noteq> [] \<and> norm_name rt (ki_name k) = port) interfaces of
                [] \<Rightarrow> (Some d, None, Resolved, 75 / 100)
              | [k] \<Rightarrow> (Some d, Some (ki_key k), Resolved, 90 / 100)
              | _ \<Rightarrow> conflict))"

section \<open>The payload\<close>

record payload =
  py_status :: ustring
  py_complete :: bool
  py_protocols :: "ustring list"
  py_interfaces :: "candidate list"
  py_observations :: "seen_link list"
  py_message :: ustring

definition msg_incomplete :: ustring where
  "msg_incomplete = [25299, 25169, 35777, 25454, 26410, 23436, 25972, 37319, 38598, 12290]"

text \<open>The local end of a neighbour: its hint when that is a key, else the key of what it says of its port.\<close>

definition is_key_hint :: "ustring \<Rightarrow> bool" where
  "is_key_hint h \<longleftrightarrow> list_ex (\<lambda>p. starts_with (asc p) h) [''ifindex:'', ''mac:'', ''name:'', ''lldp-port:'']"

definition local_candidate :: "runtime \<Rightarrow> neighbour \<Rightarrow> candidate" where
  "local_candidate rt n = candidate_interface rt \<lparr>ri_index = None, ri_name = nb_local_port n, ri_description = nb_local_description n,
     ri_mac = [], ri_admin = [], ri_oper = [], ri_speed = None, ri_vlans = [], ri_hint = nb_local_hint n\<rparr>"

definition local_key :: "runtime \<Rightarrow> (ustring \<times> candidate) list \<Rightarrow> neighbour \<Rightarrow> ustring" where
  "local_key rt interfaces n =
     (let k = (if is_key_hint (nb_local_hint n) then nb_local_hint n else stable_interface_key rt (local_candidate rt n))
      in if starts_with (asc ''lldp-port:'') k
         then (case find (\<lambda>(_, c). ic_hint c = k) interfaces of None \<Rightarrow> k | Some (j, _) \<Rightarrow> or_else j k) else k)"

type_synonym gathered = "(ustring \<times> candidate) list \<times> (ustring \<times> neighbour \<times> json) list"

definition gather_neighbour :: "runtime \<Rightarrow> json \<Rightarrow> neighbour \<Rightarrow> gathered \<Rightarrow> gathered" where
  "gather_neighbour rt evidence n acc = (case acc of (interfaces, raw) \<Rightarrow>
     let k = local_key rt interfaces n
     in (if k \<in> fst ` set interfaces then interfaces else interfaces @ [(k, local_candidate rt n)], raw @ [(k, n, evidence)]))"

definition gather_result :: "runtime \<Rightarrow> protocol_result \<Rightarrow> gathered \<Rightarrow> gathered" where
  "gather_result rt r acc =
     fold (gather_neighbour rt (pr_evidence r)) (pr_neighbours r)
       (fold (\<lambda>i is. let c = candidate_interface rt i in AList.update (stable_interface_key rt c) c is) (pr_interfaces r) (fst acc), snd acc)"

definition draft_observation ::
    "runtime \<Rightarrow> ustring \<Rightarrow> known_device list \<Rightarrow> known_interface list \<Rightarrow> ustring \<times> neighbour \<times> json \<Rightarrow> seen_link" where
  "draft_observation rt device devices interfaces kne = (case kne of (k, n, evidence) \<Rightarrow>
     (case resolve_neighbour rt n devices interfaces of (d, rk, res, conf) \<Rightarrow>
        let protocol = or_else (nb_protocol n) (asc ''lldp'');
            ob = \<lparr>ro_local_device = device, ro_local_key = k, ro_remote_device = d, ro_remote_key = rk,
              ro_chassis = or_else (norm_mac rt (nb_chassis n)) (nb_chassis n), ro_port = nb_port n,
              ro_port_description = nb_port_description n, ro_system = nb_system n, ro_addresses = nb_addresses n,
              ro_protocols = [protocol], ro_protocol = protocol, ro_resolution = res, ro_confidence = conf,
              ro_link_key = [], ro_evidence = evidence\<rparr>
        in ob\<lparr>ro_link_key := stable_link_key rt ob\<rparr>))"

text \<open>A second observation of a link adds its protocol and keeps the higher confidence.\<close>

definition merge_observation :: "seen_link \<Rightarrow> seen_link list \<Rightarrow> seen_link list" where
  "merge_observation ob obs = (case find_row ro_link_key (ro_link_key ob) obs of
     None \<Rightarrow> obs @ [ob]
   | Some old \<Rightarrow> upd_row ro_link_key (ro_link_key ob) (\<lambda>old.
       old\<lparr>ro_protocols := sort (remdups (ro_protocol ob # ro_protocols old)),
           ro_confidence := max (ro_confidence old) (ro_confidence ob)\<rparr>) obs)"

definition payload_status :: "protocol_result list \<Rightarrow> ustring" where
  "payload_status rs =
     (if rs \<noteq> [] \<and> list_all (\<lambda>r. pr_status r = asc ''success'') rs \<and> list_all pr_complete rs then asc ''success''
      else if list_ex (\<lambda>r. pr_status r \<in> {asc ''success'', asc ''partial''}) rs then asc ''partial''
      else asc ''failed'')"

definition build_discovery_payload ::
    "runtime \<Rightarrow> ustring \<Rightarrow> protocol_result list \<Rightarrow> known_device list \<Rightarrow> known_interface list \<Rightarrow> payload" where
  "build_discovery_payload rt device rs devices interfaces =
     (let (found, raw) = fold (gather_result rt) rs ([], []);
          status = payload_status rs
      in \<lparr>py_status = status, py_complete = (list_all pr_complete rs \<and> status = asc ''success''),
          py_protocols = sort (remdups (concat (map pr_protocols rs))), py_interfaces = map snd found,
          py_observations = fold merge_observation (map (draft_observation rt device devices interfaces) raw) [],
          py_message = (if status = asc ''success'' then [] else msg_incomplete)\<rparr>)"

section \<open>Keys do not depend on the side\<close>

text \<open>Two devices that see each other, each on the port the other names, agree on the key of their link.\<close>

lemma stable_link_key_symmetric:
  assumes "ro_remote_device a = Some (ro_local_device b)" and "ro_remote_key a = Some (ro_local_key b)"
    and "ro_remote_device b = Some (ro_local_device a)" and "ro_remote_key b = Some (ro_local_key a)"
    and "ro_local_key a \<noteq> []" and "ro_local_key b \<noteq> []"
  shows "stable_link_key rt a = stable_link_key rt b"
proof -
  have swap: "sort [x, y] = sort [y, x]" for x y :: ustring
    by (rule properties_for_sort) auto
  show ?thesis
    unfolding stable_link_key_def Let_def assms(1-4) option.case or_else_def if_not_P [OF assms(5)] if_not_P [OF assms(6)]
    by (simp only: swap)
qed

text \<open>A payload holds each link once.\<close>

lemma merge_observation_distinct:
  "distinct (map ro_link_key obs) \<Longrightarrow> distinct (map ro_link_key (merge_observation ob obs))"
  by (auto simp: merge_observation_def upd_rows_keys find_row_None split: option.splits)

lemma payload_links_distinct:
  "distinct (map ro_link_key (py_observations (build_discovery_payload rt device rs devices interfaces)))"
proof -
  have "distinct (map ro_link_key obs) \<Longrightarrow> distinct (map ro_link_key (fold merge_observation xs obs))" for xs obs
    by (induction xs arbitrary: obs) (auto intro: merge_observation_distinct)
  from this [of "[]"] show ?thesis
    by (simp add: build_discovery_payload_def Let_def split: prod.split)
qed

end
