(* ===== verification/Topology.thy ===== *)
theory Topology
  imports TopologyDiscovery TaskStore
begin

text \<open>
  The stored topology, \<open>net/topology/service.py\<close> over the rows of \<open>net/models/topology.py\<close>: a batch is opened for a
  network device target, completed with the payload of a discovery or failed. A link is current while complete batches
  see it, and stale once two of them missed it.
\<close>

section \<open>Rows\<close>

datatype batch_status = BRunning | BSuccess | BPartial | BFailed | BCancelled

record batch =
  tb_id :: ustring
  tb_task :: ustring
  tb_target :: ustring
  tb_device :: ustring
  tb_protocol :: ustring
  tb_status :: batch_status
  tb_started_at :: time
  tb_collected_at :: "time option"
  tb_finished_at :: "time option"
  tb_message :: ustring
  tb_interface_count :: nat
  tb_observation_count :: nat
  tb_resolved_count :: nat
  tb_unresolved_count :: nat
  tb_conflict_count :: nat

record interface_row =
  ti_id :: ustring
  ti_device :: ustring
  ti_key :: ustring
  ti_index :: "int option"
  ti_name :: ustring
  ti_description :: ustring
  ti_mac :: ustring
  ti_admin :: ustring
  ti_oper :: ustring
  ti_speed :: "int option"
  ti_vlans :: "int list"
  ti_first_seen_at :: time
  ti_last_seen_at :: time
  ti_last_batch :: "ustring option"
  ti_stale :: bool

datatype link_status = Current | Stale

record link =
  tl_id :: ustring
  tl_key :: ustring
  tl_local :: ustring
  tl_remote_device :: "ustring option"
  tl_remote_interface :: "ustring option"
  tl_chassis :: ustring
  tl_port :: ustring
  tl_port_description :: ustring
  tl_system :: ustring
  tl_addresses :: "ustring list"
  tl_protocols :: "ustring list"
  tl_bidirectional :: bool
  tl_resolution :: resolution
  tl_status :: link_status
  tl_confidence :: rat
  tl_first_seen_at :: time
  tl_last_seen_at :: time
  tl_last_batch :: "ustring option"
  tl_missing :: nat

record observation_row =
  to_batch :: ustring
  to_digest :: ustring
  to_target :: ustring
  to_device :: ustring
  to_interface :: ustring
  to_link :: ustring
  to_protocol :: ustring
  to_neighbour :: json
  to_evidence :: ustring
  to_collected_at :: time

record topology =
  tg_batches :: "batch list"
  tg_interfaces :: "interface_row list"
  tg_links :: "link list"
  tg_observations :: "observation_row list"

section \<open>Opening and failing a batch\<close>

definition opened_batch :: "ustring \<Rightarrow> target \<Rightarrow> time \<Rightarrow> batch" where
  "opened_batch new_id g started =
     \<lparr>tb_id = new_id, tb_task = g_task g, tb_target = g_id g, tb_device = g_target_id g, tb_protocol = asc ''mixed'',
      tb_status = BRunning, tb_started_at = started, tb_collected_at = None, tb_finished_at = None, tb_message = [],
      tb_interface_count = 0, tb_observation_count = 0, tb_resolved_count = 0, tb_unresolved_count = 0,
      tb_conflict_count = 0\<rparr>"

text \<open>Only a network device target has a batch, and it has one: a second opening finds the first.\<close>

definition begin_topology_batch ::
    "ustring \<Rightarrow> db \<Rightarrow> ustring \<Rightarrow> time \<Rightarrow> topology \<Rightarrow> ustring option \<times> topology" where
  "begin_topology_batch new_id d i started tg =
     (case find_row g_id i (targets d) of
        None \<Rightarrow> (None, tg)
      | Some g \<Rightarrow>
          if g_type g \<noteq> TNetworkDevice then (None, tg)
          else case find_row tb_target (g_id g) (tg_batches tg) of
                 Some b \<Rightarrow> (Some (tb_id b), tg)
               | None \<Rightarrow> (Some new_id, tg\<lparr>tg_batches := tg_batches tg @ [opened_batch new_id g started]\<rparr>))"

definition failed_batch :: "batch_status \<Rightarrow> ustring \<Rightarrow> time \<Rightarrow> batch \<Rightarrow> batch" where
  "failed_batch status message finished b =
     b\<lparr>tb_status := (if status \<in> {BFailed, BCancelled} then status else BFailed), tb_message := take 1000 message,
       tb_finished_at := Some finished\<rparr>"

definition fail_topology_batch :: "ustring \<Rightarrow> batch_status \<Rightarrow> ustring \<Rightarrow> time \<Rightarrow> topology \<Rightarrow> topology" where
  "fail_topology_batch i status message finished tg =
     (if i = [] then tg
      else case find_row tb_id i (tg_batches tg) of
             None \<Rightarrow> tg
           | Some b \<Rightarrow>
               if tb_status b \<noteq> BRunning then tg
               else tg\<lparr>tg_batches := upd_row tb_id i (failed_batch status message finished) (tg_batches tg)\<rparr>)"

section \<open>Interfaces of a payload\<close>

definition interface_status :: "ustring \<Rightarrow> ustring" where
  "interface_status s =
     (if s \<in> asc ` {''up'', ''down'', ''testing'', ''unknown'', ''dormant'', ''not_present'', ''lower_layer_down''}
      then s else asc ''unknown'')"

definition set_interface :: "batch \<Rightarrow> time \<Rightarrow> candidate \<Rightarrow> interface_row \<Rightarrow> interface_row" where
  "set_interface b collected c r =
     r\<lparr>ti_index := ic_index c, ti_name := take 255 (ic_name c), ti_description := take 1000 (ic_description c),
       ti_mac := take 64 (ic_mac c), ti_admin := interface_status (ic_admin c), ti_oper := interface_status (ic_oper c),
       ti_speed := ic_speed c, ti_vlans := ic_vlans c, ti_last_seen_at := collected, ti_last_batch := Some (tb_id b),
       ti_stale := False\<rparr>"

definition new_interface :: "ustring \<Rightarrow> batch \<Rightarrow> time \<Rightarrow> ustring \<Rightarrow> candidate \<Rightarrow> interface_row" where
  "new_interface new_id b collected k c = set_interface b collected c
     \<lparr>ti_id = new_id, ti_device = tb_device b, ti_key = k, ti_index = None, ti_name = [], ti_description = [], ti_mac = [],
      ti_admin = [], ti_oper = [], ti_speed = None, ti_vlans = [], ti_first_seen_at = collected, ti_last_seen_at = collected,
      ti_last_batch = None, ti_stale = False\<rparr>"

text \<open>
  The dictionary \<open>interface_rows\<close> takes the stable key, the key hint and the name of an interface to its row, of which
  only the primary key is used. \<open>new_id\<close> supplies the primary key of a row that has to be created.
\<close>

type_synonym interface_names = "(ustring \<times> ustring) list"

definition name_interface :: "runtime \<Rightarrow> ustring \<Rightarrow> candidate \<Rightarrow> ustring \<Rightarrow> interface_names \<Rightarrow> interface_names" where
  "name_interface rt k c i names =
     (let by_key = AList.update k i names;
          by_hint = (if ic_hint c = [] then by_key else AList.update (ic_hint c) i by_key)
      in if ic_name c = [] then by_hint
         else AList.update (asc ''name:'' @ filter (\<lambda>x. \<not> is_space x) (casefold rt (ic_name c))) i by_hint)"

definition store_interface ::
    "runtime \<Rightarrow> (ustring \<Rightarrow> ustring) \<Rightarrow> batch \<Rightarrow> time \<Rightarrow> candidate
      \<Rightarrow> interface_row list \<times> interface_names \<Rightarrow> interface_row list \<times> interface_names" where
  "store_interface rt new_id b collected c acc = (case acc of (rows, names) \<Rightarrow>
     let k = stable_interface_key rt c
     in case find_row (\<lambda>r. (ti_device r, ti_key r)) (tb_device b, k) rows of
          Some r \<Rightarrow> (upd_row ti_id (ti_id r) (set_interface b collected c) rows, name_interface rt k c (ti_id r) names)
        | None \<Rightarrow> (rows @ [new_interface (new_id k) b collected k c], name_interface rt k c (new_id k) names))"

section \<open>Links of a payload\<close>

definition remote_interface_of :: "interface_row list \<Rightarrow> seen_link \<Rightarrow> ustring option" where
  "remote_interface_of rows ob = (case (ro_remote_device ob, ro_remote_key ob) of
     (Some d, Some k) \<Rightarrow>
       if d = [] \<or> k = [] then None else map_option ti_id (find_row (\<lambda>r. (ti_device r, ti_key r)) (d, k) rows)
   | _ \<Rightarrow> None)"

definition set_far_end :: "interface_row list \<Rightarrow> ustring \<Rightarrow> seen_link \<Rightarrow> link \<Rightarrow> link" where
  "set_far_end rows here ob l =
     l\<lparr>tl_local := here, tl_remote_device := ro_remote_device ob, tl_remote_interface := remote_interface_of rows ob,
       tl_chassis := take 255 (ro_chassis ob), tl_port := take 255 (ro_port ob),
       tl_port_description := take 1000 (ro_port_description ob), tl_system := take 255 (ro_system ob),
       tl_addresses := ro_addresses ob\<rparr>"

definition set_seen :: "batch \<Rightarrow> time \<Rightarrow> payload \<Rightarrow> seen_link \<Rightarrow> link \<Rightarrow> link" where
  "set_seen b collected p ob l =
     l\<lparr>tl_protocols := py_protocols p, tl_resolution := ro_resolution ob, tl_status := Current,
       tl_confidence := ro_confidence ob, tl_last_seen_at := collected, tl_last_batch := Some (tb_id b), tl_missing := 0\<rparr>"

text \<open>A link known from its other side keeps the ends that side gave it and becomes bidirectional.\<close>

definition seen_again :: "batch \<Rightarrow> time \<Rightarrow> payload \<Rightarrow> interface_row list \<Rightarrow> ustring \<Rightarrow> seen_link \<Rightarrow> link \<Rightarrow> link" where
  "seen_again b collected p rows here ob l = set_seen b collected p ob
     (if map_option ti_device (find_row ti_id (tl_local l) rows) \<noteq> Some (tb_device b) then l\<lparr>tl_bidirectional := True\<rparr>
      else set_far_end rows here ob l)"

definition new_link :: "ustring \<Rightarrow> batch \<Rightarrow> time \<Rightarrow> payload \<Rightarrow> interface_row list \<Rightarrow> ustring \<Rightarrow> seen_link \<Rightarrow> link" where
  "new_link new_id b collected p rows here ob = set_seen b collected p ob (set_far_end rows here ob
     \<lparr>tl_id = new_id, tl_key = ro_link_key ob, tl_local = here, tl_remote_device = None, tl_remote_interface = None,
      tl_chassis = [], tl_port = [], tl_port_description = [], tl_system = [], tl_addresses = [], tl_protocols = [],
      tl_bidirectional = False, tl_resolution = Unresolved, tl_status = Current, tl_confidence = 0,
      tl_first_seen_at = collected, tl_last_seen_at = collected, tl_last_batch = None, tl_missing = 0\<rparr>)"

definition store_link ::
    "(ustring \<Rightarrow> ustring) \<Rightarrow> batch \<Rightarrow> time \<Rightarrow> payload \<Rightarrow> interface_row list \<Rightarrow> ustring \<Rightarrow> seen_link
      \<Rightarrow> link list \<Rightarrow> link \<times> link list" where
  "store_link new_id b collected p rows here ob links = (case find_row tl_key (ro_link_key ob) links of
     Some l \<Rightarrow> let l' = seen_again b collected p rows here ob l in (l', upd_row tl_key (tl_key l) (\<lambda>_. l') links)
   | None \<Rightarrow> let l' = new_link (new_id (ro_link_key ob)) b collected p rows here ob in (l', links @ [l']))"

section \<open>Evidence\<close>

text \<open>
  The scrubber of collector output, and \<open>json.dumps(..., ensure_ascii=False)\<close> with and without \<open>sort_keys\<close>, are
  parameters.
\<close>

record evidence_lib =
  el_sanitize :: "json \<Rightarrow> json"
  el_dumps :: "bool \<Rightarrow> json \<Rightarrow> ustring"

text \<open>The number of bytes of a text in UTF-8; a surrogate has no encoding.\<close>

fun utf8_length :: "ustring \<Rightarrow> nat option" where
  "utf8_length [] = Some 0"
| "utf8_length (c # s) =
     (if 55296 \<le> c \<and> c \<le> 57343 then None
      else map_option ((+) (if c < 128 then 1 else if c < 2048 then 2 else if c < 65536 then 3 else 4)) (utf8_length s))"

definition max_evidence_bytes :: nat where
  "max_evidence_bytes = 64 * 1024"

definition evidence_text :: "runtime \<Rightarrow> evidence_lib \<Rightarrow> json \<Rightarrow> json \<Rightarrow> ustring res" where
  "evidence_text rt lib evidence neighbour =
     (let text = el_dumps lib True (el_sanitize lib (JObj [(asc ''evidence'', evidence), (asc ''neighbor'', neighbour)]))
      in case utf8_length text of
           None \<Rightarrow> Inl ValueError
         | Some n \<Rightarrow>
             if n \<le> max_evidence_bytes then Inr text
             else Inr (el_dumps lib False (JObj [(asc ''truncated'', JBool True), (asc ''sha256'', JStr (sha256 rt text)),
                        (asc ''bytes'', JInt (int n))])))"

fun resolution_value :: "resolution \<Rightarrow> ustring" where
  "resolution_value Resolved = asc ''resolved''"
| "resolution_value Unresolved = asc ''unresolved''"
| "resolution_value Conflicting = asc ''conflict''"

definition neighbour_json :: "seen_link \<Rightarrow> json" where
  "neighbour_json ob = JObj
     [(asc ''remote_chassis_id'', JStr (ro_chassis ob)), (asc ''remote_port_id'', JStr (ro_port ob)),
      (asc ''remote_port_description'', JStr (ro_port_description ob)), (asc ''remote_system_name'', JStr (ro_system ob)),
      (asc ''remote_management_addresses'', JList (map JStr (ro_addresses ob))),
      (asc ''resolution_status'', JStr (resolution_value (ro_resolution ob)))]"

definition observation_protocol :: "payload \<Rightarrow> seen_link \<Rightarrow> ustring" where
  "observation_protocol p ob =
     (if ro_protocol ob = asc ''cdp'' then asc ''ssh_cdp''
      else if asc ''snmp_lldp'' \<in> set (py_protocols p) then asc ''snmp_lldp'' else asc ''ssh_lldp'')"

text \<open>\<open>get_or_create(batch, evidence_sha256)\<close>\<close>

definition store_observation ::
    "runtime \<Rightarrow> evidence_lib \<Rightarrow> batch \<Rightarrow> time \<Rightarrow> payload \<Rightarrow> ustring \<Rightarrow> link \<Rightarrow> seen_link
      \<Rightarrow> observation_row list \<Rightarrow> observation_row list res" where
  "store_observation rt lib b collected p here l ob rows =
     (let neighbour = neighbour_json ob; protocol = observation_protocol p ob
      in bindr (evidence_text rt lib (ro_evidence ob) neighbour) (\<lambda>evidence.
           let digest = sha256 rt (protocol @ 10 # evidence)
           in Inr (case find_row (\<lambda>r. (to_batch r, to_digest r)) (tb_id b, digest) rows of
                     Some _ \<Rightarrow> rows
                   | None \<Rightarrow> rows @ [\<lparr>to_batch = tb_id b, to_digest = digest, to_target = tb_target b, to_device = tb_device b,
                       to_interface = here, to_link = tl_id l, to_protocol = protocol, to_neighbour = neighbour,
                       to_evidence = evidence, to_collected_at = collected\<rparr>])))"

section \<open>Completing a batch\<close>

record tally =
  ta_links :: "link list"
  ta_observations :: "observation_row list"
  ta_observed :: "ustring list"
  ta_resolved :: nat
  ta_unresolved :: nat
  ta_conflicts :: nat

definition complete_observation ::
    "runtime \<Rightarrow> evidence_lib \<Rightarrow> (ustring \<Rightarrow> ustring) \<Rightarrow> batch \<Rightarrow> time \<Rightarrow> payload \<Rightarrow> interface_row list
      \<Rightarrow> interface_names \<Rightarrow> seen_link \<Rightarrow> tally \<Rightarrow> tally res" where
  "complete_observation rt lib new_id b collected p rows names ob ta = (case map_of names (ro_local_key ob) of
     None \<Rightarrow> Inr ta
   | Some here \<Rightarrow> (case store_link new_id b collected p rows here ob (ta_links ta) of (l, links) \<Rightarrow>
       bindr (store_observation rt lib b collected p here l ob (ta_observations ta)) (\<lambda>seen.
         Inr (ta\<lparr>ta_links := links, ta_observations := seen, ta_observed := tl_key l # ta_observed ta,
           ta_resolved := (if ro_resolution ob = Resolved then Suc (ta_resolved ta) else ta_resolved ta),
           ta_unresolved := (if ro_resolution ob = Unresolved then Suc (ta_unresolved ta) else ta_unresolved ta),
           ta_conflicts := (if ro_resolution ob = Conflicting then Suc (ta_conflicts ta) else ta_conflicts ta)\<rparr>))))"

text \<open>The links an authoritative batch of a device should have seen.\<close>

definition link_of_device :: "interface_row list \<Rightarrow> ustring \<Rightarrow> link \<Rightarrow> bool" where
  "link_of_device rows d l \<longleftrightarrow>
     map_option ti_device (find_row ti_id (tl_local l) rows) = Some d \<or> tl_remote_device l = Some d"

definition missed_link :: "link \<Rightarrow> link" where
  "missed_link l = l\<lparr>tl_missing := Suc (tl_missing l), tl_status := (if 2 \<le> Suc (tl_missing l) then Stale else tl_status l)\<rparr>"

definition age_links :: "interface_row list \<Rightarrow> ustring \<Rightarrow> ustring list \<Rightarrow> link list \<Rightarrow> link list" where
  "age_links rows d observed =
     upd_rows (\<lambda>l. link_of_device rows d l \<and> tl_status l = Current \<and> tl_key l \<notin> set observed) missed_link"

definition batch_protocol :: "ustring list \<Rightarrow> ustring" where
  "batch_protocol protocols =
     (case remdups protocols of [] \<Rightarrow> asc ''snmp_lldp'' | [x] \<Rightarrow> x | _ \<Rightarrow> asc ''mixed'')"

definition authoritative :: "payload \<Rightarrow> ustring \<Rightarrow> bool" where
  "authoritative p status \<longleftrightarrow> py_complete p \<and> status = asc ''success''"

definition completed_status :: "payload \<Rightarrow> ustring \<Rightarrow> batch_status" where
  "completed_status p status =
     (if authoritative p status then BSuccess
      else if status = asc ''success'' \<or> status = asc ''partial'' then BPartial else BFailed)"

definition completed_batch :: "time \<Rightarrow> payload \<Rightarrow> ustring \<Rightarrow> time \<Rightarrow> interface_names \<Rightarrow> tally \<Rightarrow> batch \<Rightarrow> batch" where
  "completed_batch now p status collected names ta b =
     b\<lparr>tb_protocol := batch_protocol (py_protocols p), tb_status := completed_status p status,
       tb_collected_at := Some collected, tb_finished_at := Some now, tb_message := take 1000 (py_message p),
       tb_interface_count := length (remdups (map snd names)),
       tb_observation_count := length (filter (\<lambda>r. to_batch r = tb_id b) (ta_observations ta)),
       tb_resolved_count := ta_resolved ta, tb_unresolved_count := ta_unresolved ta, tb_conflict_count := ta_conflicts ta\<rparr>"

definition complete_topology_batch ::
    "runtime \<Rightarrow> evidence_lib \<Rightarrow> (ustring \<Rightarrow> ustring) \<Rightarrow> (ustring \<Rightarrow> ustring) \<Rightarrow> time \<Rightarrow> ustring \<Rightarrow> payload
      \<Rightarrow> ustring \<Rightarrow> time \<Rightarrow> topology \<Rightarrow> topology res" where
  "complete_topology_batch rt lib new_interface_id new_link_id now i p status collected tg =
     (case find_row tb_id i (tg_batches tg) of
        None \<Rightarrow> Inl DoesNotExist
      | Some b \<Rightarrow>
          if tb_status b \<noteq> BRunning then Inr tg
          else case fold (store_interface rt new_interface_id b collected) (py_interfaces p) (tg_interfaces tg, []) of
            (rows, names) \<Rightarrow>
              bindr (foldr_res (complete_observation rt lib new_link_id b collected p rows names) (py_observations p)
                \<lparr>ta_links = tg_links tg, ta_observations = tg_observations tg, ta_observed = [], ta_resolved = 0,
                 ta_unresolved = 0, ta_conflicts = 0\<rparr>) (\<lambda>ta.
              Inr \<lparr>tg_batches = upd_row tb_id i (completed_batch now p status collected names ta) (tg_batches tg),
                   tg_interfaces = rows,
                   tg_links = (if authoritative p status then age_links rows (tb_device b) (ta_observed ta) (ta_links ta)
                     else ta_links ta),
                   tg_observations = ta_observations ta\<rparr>))"

end
