(* ===== verification/TopologyProperties.thy ===== *)
theory TopologyProperties
  imports Topology Demo
begin

text \<open>
  Whole runs of the stored topology: its invariant, batches that end once, and how links follow the batches that see or
  miss them.
\<close>

section \<open>Interfaces\<close>

text \<open>The names under which the row of an interface is found.\<close>

definition names_of :: "runtime \<Rightarrow> candidate \<Rightarrow> ustring set" where
  "names_of rt c = {stable_interface_key rt c} \<union> {h. h = ic_hint c \<and> h \<noteq> []}
     \<union> {n. ic_name c \<noteq> [] \<and> n = asc ''name:'' @ filter (\<lambda>x. \<not> is_space x) (casefold rt (ic_name c))}"

lemma name_interface_names:
  "fst ` set (name_interface rt (stable_interface_key rt c) c i names) = names_of rt c \<union> fst ` set names"
  by (auto simp: name_interface_def names_of_def Let_def dom_update)

lemma set_interface_keeps [simp]:
  "ti_id (set_interface b t c r) = ti_id r" "ti_device (set_interface b t c r) = ti_device r"
  "ti_key (set_interface b t c r) = ti_key r"
  by (simp_all add: set_interface_def)

lemma new_interface_keys [simp]:
  "ti_device (new_interface i b t k c) = tb_device b" "ti_key (new_interface i b t k c) = k"
  by (simp_all add: new_interface_def)

abbreviation interface_pair :: "interface_row \<Rightarrow> ustring \<times> ustring" where
  "interface_pair r \<equiv> (ti_device r, ti_key r)"

lemma store_interface_distinct:
  "distinct (map interface_pair (fst acc)) \<Longrightarrow> distinct (map interface_pair (fst (store_interface rt new_id b t c acc)))"
  by (cases acc) (auto simp: store_interface_def Let_def upd_rows_keys find_row_None image_iff split: option.splits)

lemma store_interface_names: "fst ` set (snd (store_interface rt new_id b t c acc)) = names_of rt c \<union> fst ` set (snd acc)"
  by (cases acc) (simp add: store_interface_def Let_def name_interface_names split: option.splits)

lemma store_interfaces:
  "fst ` set (snd (fold (store_interface rt new_id b t) cs acc)) = (\<Union>c \<in> set cs. names_of rt c) \<union> fst ` set (snd acc)
   \<and> (distinct (map interface_pair (fst acc))
        \<longrightarrow> distinct (map interface_pair (fst (fold (store_interface rt new_id b t) cs acc))))"
  by (induction cs arbitrary: acc) (auto simp: store_interface_names store_interface_distinct)

section \<open>Links of an observation\<close>

abbreviation seen_at :: "time \<Rightarrow> link \<Rightarrow> bool" where
  "seen_at t l \<equiv> tl_status l = Current \<and> tl_missing l = 0 \<and> tl_last_seen_at l = t"

lemma set_seen_fields [simp]: "tl_key (set_seen b t p ob l) = tl_key l" "seen_at t (set_seen b t p ob l)"
  by (simp_all add: set_seen_def)

lemma set_far_end_key [simp]: "tl_key (set_far_end rows here ob l) = tl_key l"
  by (simp add: set_far_end_def)

lemma seen_again_fields: "tl_key (seen_again b t p rows here ob l) = tl_key l" "seen_at t (seen_again b t p rows here ob l)"
  by (auto simp: seen_again_def)

lemma new_link_fields: "tl_key (new_link i b t p rows here ob) = ro_link_key ob" "seen_at t (new_link i b t p rows here ob)"
  by (auto simp: new_link_def)

lemma store_link_spec:
  assumes "store_link new_id b t p rows here ob links = (l, links')"
  shows "tl_key l = ro_link_key ob" and "seen_at t l"
    and "find_row tl_key k links' = (if k = ro_link_key ob then Some l else find_row tl_key k links)"
    and "tl_key ` set links' = insert (ro_link_key ob) (tl_key ` set links)"
    and "distinct (map tl_key links) \<Longrightarrow> distinct (map tl_key links')"
proof -
  show l: "tl_key l = ro_link_key ob" and "seen_at t l"
    using assms
    by (auto simp: store_link_def Let_def seen_again_fields new_link_fields dest: find_row_Some split: option.splits)
  have cases: "(\<exists>old. find_row tl_key (tl_key l) links = Some old \<and> links' = upd_row tl_key (tl_key l) (\<lambda>_. l) links)
      \<or> (find_row tl_key (tl_key l) links = None \<and> links' = links @ [l])"
    using assms l by (auto simp: store_link_def Let_def dest: find_row_Some split: option.splits)
  then show "find_row tl_key k links' = (if k = ro_link_key ob then Some l else find_row tl_key k links)"
    unfolding l [symmetric] by (auto simp: find_row_replace find_row_append split: option.split) (auto simp: find_row_def)
  from cases have keys: "map tl_key links' = (if tl_key l \<in> tl_key ` set links then map tl_key links else map tl_key links @ [tl_key l])"
  proof
    assume "\<exists>old. find_row tl_key (tl_key l) links = Some old \<and> links' = upd_row tl_key (tl_key l) (\<lambda>_. l) links"
    then have "tl_key l \<in> tl_key ` set links" and "links' = upd_row tl_key (tl_key l) (\<lambda>_. l) links"
      using find_row_None [of tl_key "tl_key l" links] by auto
    then show ?thesis using keys_replace [of tl_key l links] by simp
  qed (simp add: find_row_None)
  then have "set (map tl_key links') = insert (tl_key l) (set (map tl_key links))" by auto
  then show "tl_key ` set links' = insert (ro_link_key ob) (tl_key ` set links)" by (simp add: l)
  from keys show "distinct (map tl_key links')" if "distinct (map tl_key links)" using that by auto
qed

section \<open>Observations of a payload\<close>

abbreviation observation_pair :: "observation_row \<Rightarrow> ustring \<times> ustring" where
  "observation_pair r \<equiv> (to_batch r, to_digest r)"

lemma store_observation_distinct:
  "store_observation rt lib b t p here l ob rows = Inr rows' \<Longrightarrow> distinct (map observation_pair rows)
   \<Longrightarrow> distinct (map observation_pair rows')"
  by (auto simp: store_observation_def Let_def bindr_Inr_iff find_row_None image_iff split: option.splits)

text \<open>What the observations so far did to the links: those observed were seen, the others are as they were.\<close>

definition links_seen :: "time \<Rightarrow> link list \<Rightarrow> tally \<Rightarrow> bool" where
  "links_seen t before ta \<longleftrightarrow>
     distinct (map tl_key (ta_links ta)) \<and> distinct (map observation_pair (ta_observations ta))
   \<and> tl_key ` set (ta_links ta) = set (ta_observed ta) \<union> tl_key ` set before
   \<and> (\<forall>k. if k \<in> set (ta_observed ta) then \<exists>l. find_row tl_key k (ta_links ta) = Some l \<and> seen_at t l
           else find_row tl_key k (ta_links ta) = find_row tl_key k before)"

lemma complete_observation_seen:
  assumes "complete_observation rt lib new_id b t p rows names ob ta = Inr ta'" and s: "links_seen t before ta"
  shows "links_seen t before ta'"
    and "set (ta_observed ta') = (if ro_local_key ob \<in> fst ` set names then {ro_link_key ob} else {}) \<union> set (ta_observed ta)"
proof -
  consider "map_of names (ro_local_key ob) = None" "ta' = ta"
    | here l links seen where "map_of names (ro_local_key ob) = Some here"
        "store_link new_id b t p rows here ob (ta_links ta) = (l, links)"
        "store_observation rt lib b t p here l ob (ta_observations ta) = Inr seen"
        "ta_links ta' = links" "ta_observations ta' = seen" "ta_observed ta' = tl_key l # ta_observed ta"
    using assms(1) by (auto simp: complete_observation_def bindr_Inr_iff split: option.splits prod.splits)
  note cases = this
  show "links_seen t before ta'"
  proof (rule cases)
    fix here l links seen
    assume n: "store_link new_id b t p rows here ob (ta_links ta) = (l, links)"
      "store_observation rt lib b t p here l ob (ta_observations ta) = Inr seen"
      and f: "ta_links ta' = links" "ta_observations ta' = seen" "ta_observed ta' = tl_key l # ta_observed ta"
    note l = store_link_spec [OF n(1)]
    have "distinct (map observation_pair seen)"
      using store_observation_distinct [OF n(2)] s by (simp add: links_seen_def)
    then show ?thesis
      using s l(2,5) unfolding links_seen_def f l(3,4) by (auto simp: l(1))
  qed (use s in simp)
  show "set (ta_observed ta') = (if ro_local_key ob \<in> fst ` set names then {ro_link_key ob} else {}) \<union> set (ta_observed ta)"
  proof (rule cases)
    fix here l links seen
    assume "map_of names (ro_local_key ob) = Some here" "store_link new_id b t p rows here ob (ta_links ta) = (l, links)"
      and "ta_observed ta' = tl_key l # ta_observed ta"
    then show ?thesis by (auto simp: store_link_spec(1) dest: map_of_SomeD intro: rev_image_eqI)
  qed (auto simp: map_of_eq_None_iff)
qed

lemma complete_observations_seen:
  assumes "foldr_res (complete_observation rt lib new_id b t p rows names) obs ta = Inr ta'" and "links_seen t before ta"
  shows "links_seen t before ta'
    \<and> set (ta_observed ta') = ro_link_key ` {ob \<in> set obs. ro_local_key ob \<in> fst ` set names} \<union> set (ta_observed ta)"
  using assms
proof (induction obs arbitrary: ta)
  case (Cons ob obs)
  then obtain ta1 where step: "complete_observation rt lib new_id b t p rows names ob ta = Inr ta1"
    and rest: "foldr_res (complete_observation rt lib new_id b t p rows names) obs ta1 = Inr ta'"
    by (auto simp: bindr_Inr_iff)
  note one = complete_observation_seen [OF step Cons.prems(2)]
  from Cons.IH [OF rest one(1)] show ?case unfolding one(2) by auto
qed simp

section \<open>Payloads of a discovery\<close>

text \<open>Every neighbour of a discovery hangs on an interface that the payload lists.\<close>

definition gathered_ok :: "runtime \<Rightarrow> gathered \<Rightarrow> bool" where
  "gathered_ok rt acc \<longleftrightarrow> (\<forall>(k, c) \<in> set (fst acc). k \<in> names_of rt c) \<and> fst ` set (snd acc) \<subseteq> fst ` set (fst acc)"

lemma set_update_subset: "set (AList.update k v xs) \<subseteq> insert (k, v) (set xs)"
  by (induction xs) auto

lemma gather_interface_ok:
  assumes "gathered_ok rt (is, raw)"
  shows "gathered_ok rt (AList.update (stable_interface_key rt c) c is, raw)"
proof -
  have "stable_interface_key rt c \<in> names_of rt c" by (simp add: names_of_def)
  then have "\<forall>(k, c) \<in> insert (stable_interface_key rt c, c) (set is). k \<in> names_of rt c"
    using assms by (simp add: gathered_ok_def)
  then have "\<forall>(k, c) \<in> set (AList.update (stable_interface_key rt c) c is). k \<in> names_of rt c"
    using set_update_subset [of "stable_interface_key rt c" c "is"] by blast
  moreover have "fst ` set raw \<subseteq> fst ` set (AList.update (stable_interface_key rt c) c is)"
    using assms by (auto simp: gathered_ok_def dom_update)
  ultimately show ?thesis by (simp add: gathered_ok_def)
qed

lemma local_key_known: "local_key rt is n \<in> fst ` set is \<or> local_key rt is n \<in> names_of rt (local_candidate rt n)"
proof -
  let ?k = "if is_key_hint (nb_local_hint n) then nb_local_hint n else stable_interface_key rt (local_candidate rt n)"
  have "is_key_hint h \<Longrightarrow> h \<noteq> []" for h
    by (auto simp: is_key_hint_def starts_with_def asc_def)
  then have k: "?k \<in> names_of rt (local_candidate rt n)"
    by (auto simp: names_of_def local_candidate_def candidate_interface_def)
  have "local_key rt is n = ?k \<or> local_key rt is n \<in> fst ` set is"
  proof -
    have "j \<in> fst ` set is" if "find P is = Some (j, c)" for P j c
    proof -
      have "(j, c) \<in> set is" using that by (auto simp: find_Some_iff)
      then show ?thesis by (rule rev_image_eqI) simp
    qed
    then show ?thesis
      by (simp add: local_key_def Let_def or_else_def split: option.splits) blast
  qed
  with k show ?thesis by metis
qed

lemma gather_neighbour_ok: "gathered_ok rt acc \<Longrightarrow> gathered_ok rt (gather_neighbour rt e n acc)"
  using local_key_known [of rt "fst acc" n]
  by (cases acc) (auto simp: gather_neighbour_def Let_def gathered_ok_def)

lemma fold_preserves: "(\<And>x s. P s \<Longrightarrow> P (f x s)) \<Longrightarrow> P s \<Longrightarrow> P (fold f xs s)"
  by (induction xs arbitrary: s) auto

lemma gather_result_ok:
  assumes "gathered_ok rt acc" shows "gathered_ok rt (gather_result rt r acc)"
proof -
  have "gathered_ok rt (fold (\<lambda>i is. let c = candidate_interface rt i in AList.update (stable_interface_key rt c) c is)
      (pr_interfaces r) (fst acc), snd acc)"
    by (rule fold_preserves [where P = "\<lambda>is. gathered_ok rt (is, snd acc)"])
      (use assms in \<open>simp_all add: gather_interface_ok Let_def\<close>)
  then show ?thesis
    unfolding gather_result_def by (rule fold_preserves [rotated]) (rule gather_neighbour_ok)
qed

lemma merge_observation_keys:
  "ro_local_key ` set (merge_observation ob obs) \<subseteq> insert (ro_local_key ob) (ro_local_key ` set obs)"
  by (auto simp: merge_observation_def set_upd_rows split: option.splits)

lemma payload_interfaces_known:
  assumes "ob \<in> set (py_observations (build_discovery_payload rt device rs devices interfaces))"
  shows "ro_local_key ob \<in> (\<Union>c \<in> set (py_interfaces (build_discovery_payload rt device rs devices interfaces)). names_of rt c)"
proof -
  obtain found raw where g: "fold (gather_result rt) rs ([], []) = (found, raw)" by fastforce
  have ok: "gathered_ok rt (found, raw)"
    unfolding g [symmetric] by (rule fold_preserves, erule gather_result_ok) (simp add: gathered_ok_def)
  let ?drafts = "map (draft_observation rt device devices interfaces) raw"
  have merged: "ro_local_key ` set (fold merge_observation xs obs) \<subseteq> ro_local_key ` set xs \<union> ro_local_key ` set obs" for xs obs
  proof (induction xs arbitrary: obs)
    case (Cons x xs)
    show ?case using Cons.IH [of "merge_observation x obs"] merge_observation_keys [of x obs] by auto
  qed simp
  have "ob \<in> set (fold merge_observation ?drafts [])"
    using assms by (simp add: build_discovery_payload_def g Let_def)
  then have "ro_local_key ob \<in> ro_local_key ` set ?drafts"
    using merged [of ?drafts "[]"] by auto
  moreover have "ro_local_key (draft_observation rt device devices interfaces x) = fst x" for x
    by (cases x) (simp add: draft_observation_def Let_def split: prod.split)
  ultimately have "ro_local_key ob \<in> fst ` set found"
    using ok by (auto simp: gathered_ok_def image_image)
  then obtain c where "(ro_local_key ob, c) \<in> set found" by auto
  moreover from this have "ro_local_key ob \<in> names_of rt c"
    using ok by (auto simp: gathered_ok_def)
  moreover have "py_interfaces (build_discovery_payload rt device rs devices interfaces) = map snd found"
    by (simp add: build_discovery_payload_def g Let_def)
  ultimately show ?thesis by force
qed

section \<open>A completed batch\<close>

abbreviation begun_tally :: "topology \<Rightarrow> tally" where
  "begun_tally tg \<equiv> \<lparr>ta_links = tg_links tg, ta_observations = tg_observations tg, ta_observed = [], ta_resolved = 0,
     ta_unresolved = 0, ta_conflicts = 0\<rparr>"

lemma find_row_missed:
  "find_row tl_key k (age_links rows d observed links) = map_option (\<lambda>l.
     if link_of_device rows d l \<and> tl_status l = Current \<and> tl_key l \<notin> set observed then missed_link l else l) (find_row tl_key k links)"
  unfolding age_links_def by (rule find_row_upd) (simp add: missed_link_def)

lemma age_links_keys: "map tl_key (age_links rows d observed links) = map tl_key links"
  unfolding age_links_def by (rule upd_rows_keys) (simp add: missed_link_def)

lemma completed_batch_fields [simp]:
  "tb_id (completed_batch now p status t names ta x) = tb_id x"
  "tb_target (completed_batch now p status t names ta x) = tb_target x"
  "tb_finished_at (completed_batch now p status t names ta x) = Some now"
  "tb_status (completed_batch now p status t names ta x) = completed_status p status"
  by (simp_all add: completed_batch_def)

text \<open>What a completion leaves, link by link: \<open>K\<close> are the keys of the observations whose local interface is listed.\<close>

lemma complete_batch_links:
  assumes b: "find_row tb_id i (tg_batches tg) = Some b" "tb_status b = BRunning"
    and r: "complete_topology_batch rt lib nif nl now i p status t tg = Inr tg'"
    and ok: "distinct (map tl_key (tg_links tg))" "distinct (map interface_pair (tg_interfaces tg))"
      "distinct (map observation_pair (tg_observations tg))"
    and K: "K = ro_link_key ` {ob \<in> set (py_observations p). ro_local_key ob \<in> (\<Union>c \<in> set (py_interfaces p). names_of rt c)}"
  shows "distinct (map tl_key (tg_links tg'))" and "distinct (map interface_pair (tg_interfaces tg'))"
    and "distinct (map observation_pair (tg_observations tg'))"
    and "tl_key ` set (tg_links tg') = K \<union> tl_key ` set (tg_links tg)"
    and "k \<in> K \<Longrightarrow> \<exists>l. find_row tl_key k (tg_links tg') = Some l \<and> seen_at t l"
    and "k \<notin> K \<Longrightarrow> find_row tl_key k (tg_links tg') = map_option (\<lambda>l.
           if authoritative p status \<and> link_of_device (tg_interfaces tg') (tb_device b) l \<and> tl_status l = Current
           then missed_link l else l) (find_row tl_key k (tg_links tg))"
    and "\<exists>names ta. tg_batches tg' = upd_row tb_id i (completed_batch now p status t names ta) (tg_batches tg)"
proof -
  obtain rows names where st: "fold (store_interface rt nif b t) (py_interfaces p) (tg_interfaces tg, []) = (rows, names)"
    by fastforce
  note ns = store_interfaces [of rt nif b t "py_interfaces p" "(tg_interfaces tg, [])", unfolded st fst_conv snd_conv]
  from r obtain ta where ta:
      "foldr_res (complete_observation rt lib nl b t p rows names) (py_observations p) (begun_tally tg) = Inr ta"
      "tg_interfaces tg' = rows" "tg_observations tg' = ta_observations ta"
      "tg_links tg' = (if authoritative p status then age_links rows (tb_device b) (ta_observed ta) (ta_links ta) else ta_links ta)"
      "tg_batches tg' = upd_row tb_id i (completed_batch now p status t names ta) (tg_batches tg)"
    using b by (auto simp: complete_topology_batch_def st bindr_Inr_iff)
  have "links_seen t (tg_links tg) (begun_tally tg)" using ok by (simp add: links_seen_def)
  note seen = complete_observations_seen [OF ta(1) this]
  have K': "set (ta_observed ta) = K" using seen ns unfolding K by simp
  note L = conjunct1 [OF seen, unfolded links_seen_def K']
  show "distinct (map tl_key (tg_links tg'))" using L by (simp add: ta(4) age_links_keys)
  show "distinct (map interface_pair (tg_interfaces tg'))" using ns ok(2) by (simp add: ta(2))
  show "distinct (map observation_pair (tg_observations tg'))" using L by (simp add: ta(3))
  have "tl_key ` set (tg_links tg') = tl_key ` set (ta_links ta)"
    using arg_cong [OF age_links_keys, where f = set, of rows "tb_device b" "ta_observed ta" "ta_links ta"] by (simp add: ta(4))
  then show "tl_key ` set (tg_links tg') = K \<union> tl_key ` set (tg_links tg)" using L by simp
  show "\<exists>l. find_row tl_key k (tg_links tg') = Some l \<and> seen_at t l" if k: "k \<in> K"
  proof -
    from L k obtain l where l: "find_row tl_key k (ta_links ta) = Some l" "seen_at t l" by metis
    have "tl_key l = k" using find_row_Some [OF l(1)] by simp
    with l k K' show ?thesis by (simp add: ta(4) find_row_missed)
  qed
  show "find_row tl_key k (tg_links tg') = map_option (\<lambda>l.
      if authoritative p status \<and> link_of_device (tg_interfaces tg') (tb_device b) l \<and> tl_status l = Current
      then missed_link l else l) (find_row tl_key k (tg_links tg))" if k: "k \<notin> K"
  proof -
    have f: "find_row tl_key k (ta_links ta) = find_row tl_key k (tg_links tg)" using L k by metis
    show ?thesis
    proof (cases "find_row tl_key k (tg_links tg)")
      case (Some l)
      have "tl_key l = k" using find_row_Some [OF Some] by simp
      with Some k K' show ?thesis by (simp add: ta(2,4) find_row_missed f)
    qed (simp add: ta(4) find_row_missed f)
  qed
  show "\<exists>names ta. tg_batches tg' = upd_row tb_id i (completed_batch now p status t names ta) (tg_batches tg)" using ta(5) by blast
qed

section \<open>Runs\<close>

text \<open>The transactions on the topology; the primary key of a new batch is fresh.\<close>

inductive topology_step :: "topology \<Rightarrow> topology \<Rightarrow> bool" where
  Begin: "new_id \<notin> tb_id ` set (tg_batches tg) \<Longrightarrow> topology_step tg (snd (begin_topology_batch new_id d i started tg))"
| Complete: "complete_topology_batch rt lib nif nl now i p status t tg = Inr tg' \<Longrightarrow> topology_step tg tg'"
| Fail: "topology_step tg (fail_topology_batch i status message now tg)"

definition link_ok :: "link \<Rightarrow> bool" where
  "link_ok l \<longleftrightarrow> tl_missing l \<le> 2 \<and> (tl_status l = Stale \<longleftrightarrow> tl_missing l = 2)"

definition topology_ok :: "topology \<Rightarrow> bool" where
  "topology_ok tg \<longleftrightarrow>
     distinct (map tb_id (tg_batches tg)) \<and> distinct (map tb_target (tg_batches tg))
   \<and> (\<forall>b \<in> set (tg_batches tg). tb_status b = BRunning \<longleftrightarrow> tb_finished_at b = None)
   \<and> distinct (map interface_pair (tg_interfaces tg)) \<and> distinct (map tl_key (tg_links tg))
   \<and> distinct (map observation_pair (tg_observations tg)) \<and> (\<forall>l \<in> set (tg_links tg). link_ok l)"

lemma topology_ok_batches:
  assumes "topology_ok tg"
    and "tg' = tg\<lparr>tg_batches := upd_row tb_id i f (tg_batches tg)\<rparr>"
    and "\<And>x. tb_id (f x) = tb_id x \<and> tb_target (f x) = tb_target x \<and> tb_finished_at (f x) = Some now \<and> tb_status (f x) \<noteq> BRunning"
  shows "topology_ok tg'"
  using assms by (auto simp: topology_ok_def upd_rows_keys set_upd_rows)

lemma topology_step_begin:
  assumes "topology_ok tg" and "new_id \<notin> tb_id ` set (tg_batches tg)"
  shows "topology_ok (snd (begin_topology_batch new_id d i started tg))"
  using assms
  by (auto simp: begin_topology_batch_def topology_ok_def opened_batch_def find_row_None dest: find_row_Some split: option.splits)

lemma completed_status_ended [simp]: "completed_status p status \<noteq> BRunning"
  by (simp add: completed_status_def)

lemma link_ok_missed: "link_ok l \<Longrightarrow> tl_status l = Current \<Longrightarrow> link_ok (missed_link l)"
  by (auto simp: link_ok_def missed_link_def)

lemma topology_step_complete:
  assumes ok: "topology_ok tg" and r: "complete_topology_batch rt lib nif nl now i p status t tg = Inr tg'"
  shows "topology_ok tg'"
proof (cases "find_row tb_id i (tg_batches tg)")
  case (Some b)
  show ?thesis
  proof (cases "tb_status b = BRunning")
    case True
    define K where "K = ro_link_key ` {ob \<in> set (py_observations p). ro_local_key ob \<in> (\<Union>c \<in> set (py_interfaces p). names_of rt c)}"
    note c = complete_batch_links [OF Some True r _ _ _ K_def]
    have d: "distinct (map tl_key (tg_links tg))" "distinct (map interface_pair (tg_interfaces tg))"
      "distinct (map observation_pair (tg_observations tg))" using ok by (simp_all add: topology_ok_def)
    note c = c [OF d]
    have "link_ok l" if l: "l \<in> set (tg_links tg')" for l
    proof -
      have f: "find_row tl_key (tl_key l) (tg_links tg') = Some l" using c(1) l by (rule find_row_mem)
      show ?thesis
      proof (cases "tl_key l \<in> K")
        case True
        then have "seen_at t l" using c(5) [of "tl_key l"] unfolding f by auto
        then show ?thesis by (simp add: link_ok_def)
      next
        case False
        with f obtain m where m: "find_row tl_key (tl_key l) (tg_links tg) = Some m"
            "l = (if authoritative p status \<and> link_of_device (tg_interfaces tg') (tb_device b) m \<and> tl_status m = Current
              then missed_link m else m)"
          using c(6) by fastforce
        have "link_ok m" using ok find_row_Some [OF m(1)] by (auto simp: topology_ok_def)
        then show ?thesis using m(2) link_ok_missed by simp
      qed
    qed
    then show ?thesis
      using ok c(1-3) c(7) by (auto simp: topology_ok_def upd_rows_keys set_upd_rows)
  next
    case False
    then show ?thesis using r ok Some by (simp add: complete_topology_batch_def)
  qed
qed (use r in \<open>simp add: complete_topology_batch_def\<close>)

lemma failed_batch_fields [simp]:
  "tb_id (failed_batch status message now x) = tb_id x" "tb_target (failed_batch status message now x) = tb_target x"
  "tb_finished_at (failed_batch status message now x) = Some now" "tb_status (failed_batch status message now x) \<noteq> BRunning"
  by (auto simp: failed_batch_def)

lemma topology_step_ok: "topology_step tg tg' \<Longrightarrow> topology_ok tg \<Longrightarrow> topology_ok tg'"
proof (induction rule: topology_step.induct)
  case (Fail tg i status message now)
  then show ?case
    by (auto simp: fail_topology_batch_def split: option.splits intro!: topology_ok_batches [OF _ refl])
qed (auto intro: topology_step_begin topology_step_complete)

text \<open>An ended batch is never written again.\<close>

lemma topology_step_ended:
  assumes "topology_step tg tg'" and "find_row tb_id k (tg_batches tg) = Some b" and "tb_status b \<noteq> BRunning"
  shows "find_row tb_id k (tg_batches tg') = Some b"
  using assms
proof (induction rule: topology_step.induct)
  case (Begin new_id tg d i started)
  then show ?case by (auto simp: begin_topology_batch_def find_row_append split: option.splits)
next
  case (Complete rt lib nif nl now i p status t tg tg')
  then obtain b' where b': "find_row tb_id i (tg_batches tg) = Some b'"
    by (auto simp: complete_topology_batch_def split: option.splits)
  show ?case
  proof (cases "tb_status b' = BRunning")
    case True
    then have "k \<noteq> i" using b' Complete.prems by auto
    moreover obtain names ta where "tg_batches tg' = upd_row tb_id i (completed_batch now p status t names ta) (tg_batches tg)"
      using Complete.hyps b' True by (auto simp: complete_topology_batch_def bindr_Inr_iff split: prod.splits)
    ultimately show ?thesis
      using Complete.prems find_row_Some [OF Complete.prems(1)] by (simp add: find_row_upd)
  qed (use Complete b' in \<open>simp add: complete_topology_batch_def\<close>)
next
  case (Fail tg i status message now)
  from Fail.prems have k: "find_row tb_id k (tg_batches tg) = Some b" "tb_status b \<noteq> BRunning" "tb_id b = k"
    by (auto dest: find_row_Some)
  then show ?case
    by (cases "k = i") (auto simp: fail_topology_batch_def find_row_upd split: option.splits)
qed

interpretation batches: ending_system topology_step topology_ok "\<lambda>tg i. find_row tb_id i (tg_batches tg)" "\<lambda>b. tb_status b \<noteq> BRunning"
  by unfold_locales (auto intro: topology_step_ok topology_step_ended)

lemma find_by_target:
  assumes "topology_ok tg" and "find_row tb_id k (tg_batches tg) = Some b"
  shows "find_row tb_target (tb_target b) (tg_batches tg) = Some b"
  using assms find_row_Some [OF assms(2)] by (intro find_row_mem) (auto simp: topology_ok_def)

section \<open>A discovery, concretely\<close>

text \<open>Device \<open>d1\<close> reports the neighbour \<open>sw2\<close> on its port \<open>p1\<close>; another link of the device was missed once before.\<close>

definition demo_results :: "protocol_result list" where
  "demo_results = [\<lparr>pr_status = asc ''success'', pr_complete = True, pr_protocols = [asc ''ssh_lldp''], pr_evidence = JNull,
     pr_interfaces = [], pr_neighbours = [\<lparr>nb_local_hint = [], nb_local_port = asc ''p1'', nb_local_description = [],
       nb_chassis = [], nb_port = asc ''q1'', nb_port_description = [], nb_system = asc ''sw2'', nb_addresses = [],
       nb_protocol = asc ''lldp''\<rparr>]\<rparr>]"

definition demo_discovery :: payload where
  "demo_discovery = build_discovery_payload demo_rt (asc ''d1'') demo_results [] []"

definition demo_batch :: batch where
  "demo_batch = opened_batch (asc ''b1'') demo_insp_target 210"

definition demo_old_interface :: interface_row where
  "demo_old_interface = new_interface (asc ''i9'') demo_batch 5 (asc ''name:p9'') (local_candidate demo_rt
     (hd (pr_neighbours (hd demo_results))))"

definition demo_missed_link :: link where
  "demo_missed_link = (new_link (asc ''l9'') demo_batch 5 demo_discovery [] (asc ''i9'') (hd (py_observations demo_discovery)))
     \<lparr>tl_key := asc ''old'', tl_missing := 1\<rparr>"

definition demo_topology :: topology where
  "demo_topology = \<lparr>tg_batches = [demo_batch], tg_interfaces = [demo_old_interface], tg_links = [demo_missed_link],
     tg_observations = []\<rparr>"

definition demo_lib :: evidence_lib where
  "demo_lib = \<lparr>el_sanitize = (\<lambda>j. j), el_dumps = (\<lambda>_ _. asc ''{}'')\<rparr>"

definition demo_completed :: "topology res" where
  "demo_completed = complete_topology_batch demo_rt demo_lib (\<lambda>k. k) (\<lambda>k. k) 300 (asc ''b1'') demo_discovery (asc ''success'') 250
     demo_topology"

lemma demo_topology_ok: "topology_ok demo_topology" by code_simp

lemma demo_completes: "\<not> isl demo_completed" by code_simp

section \<open>Properties\<close>

text \<open>C36. Links follow discoveries. Completing a running batch with the payload of a discovery makes every reported link
  current, unmissed and last seen at the time of the collection. A link that was not reported keeps its row, unless the
  batch is authoritative, which means that every protocol succeeded completely: then a current link of the device is
  missed once more, and the second miss makes it stale.\<close>

theorem links_follow_discoveries:
  assumes "topology_ok tg" and "find_row tb_id i (tg_batches tg) = Some b" and "tb_status b = BRunning"
    and "p = build_discovery_payload rt (tb_device b) rs devices interfaces"
    and "complete_topology_batch rt lib nif nl now i p status t tg = Inr tg'"
  shows "(\<forall>ob \<in> set (py_observations p). \<exists>l. find_row tl_key (ro_link_key ob) (tg_links tg') = Some l
            \<and> tl_status l = Current \<and> tl_missing l = 0 \<and> tl_last_seen_at l = t)
       \<and> (\<forall>k. k \<notin> ro_link_key ` set (py_observations p) \<longrightarrow>
            find_row tl_key k (tg_links tg') = map_option (\<lambda>l.
              if status = asc ''success'' \<and> rs \<noteq> [] \<and> (\<forall>r \<in> set rs. pr_status r = asc ''success'' \<and> pr_complete r)
                \<and> link_of_device (tg_interfaces tg') (tb_device b) l \<and> tl_status l = Current
              then l\<lparr>tl_missing := tl_missing l + 1, tl_status := (if tl_missing l = 0 then Current else Stale)\<rparr>
              else l) (find_row tl_key k (tg_links tg)))"
proof -
  let ?K = "ro_link_key ` set (py_observations p)"
  have K: "?K = ro_link_key ` {ob \<in> set (py_observations p). ro_local_key ob \<in> (\<Union>c \<in> set (py_interfaces p). names_of rt c)}"
    using payload_interfaces_known [of _ rt "tb_device b" rs devices interfaces] unfolding assms(4) by blast
  have d: "distinct (map tl_key (tg_links tg))" "distinct (map interface_pair (tg_interfaces tg))"
    "distinct (map observation_pair (tg_observations tg))" using assms(1) by (simp_all add: topology_ok_def)
  note c = complete_batch_links [OF assms(2,3,5) d K]
  have a: "authoritative p status \<longleftrightarrow> status = asc ''success'' \<and> rs \<noteq> []
      \<and> (\<forall>r \<in> set rs. pr_status r = asc ''success'' \<and> pr_complete r)"
    unfolding assms(4) authoritative_def build_discovery_payload_def Let_def payload_status_def
    by (auto simp: list_all_iff asc_def split: prod.split)
  have m: "l\<lparr>tl_missing := tl_missing l + 1, tl_status := (if tl_missing l = 0 then Current else Stale)\<rparr> = missed_link l"
    if "tl_status l = Current" for l
    using that by (auto simp: missed_link_def)
  show ?thesis
  proof (intro conjI ballI allI impI)
    fix ob assume "ob \<in> set (py_observations p)"
    then show "\<exists>l. find_row tl_key (ro_link_key ob) (tg_links tg') = Some l
        \<and> tl_status l = Current \<and> tl_missing l = 0 \<and> tl_last_seen_at l = t"
      by (intro c(5)) simp
  next
    fix k assume "k \<notin> ?K"
    note k = c(6) [OF this]
    show "find_row tl_key k (tg_links tg') = map_option (\<lambda>l.
        if status = asc ''success'' \<and> rs \<noteq> [] \<and> (\<forall>r \<in> set rs. pr_status r = asc ''success'' \<and> pr_complete r)
          \<and> link_of_device (tg_interfaces tg') (tb_device b) l \<and> tl_status l = Current
        then l\<lparr>tl_missing := tl_missing l + 1, tl_status := (if tl_missing l = 0 then Current else Stale)\<rparr>
        else l) (find_row tl_key k (tg_links tg))"
      unfolding k a conj_assoc by (rule option.map_cong0, rule if_cong [OF refl _ refl], rule m [symmetric]) blast
  qed
qed

theorem links_follow_discoveries_witness:
  "\<exists>tg' l. demo_completed = Inr tg' \<and> find_row tl_key (asc ''old'') (tg_links tg') = Some l \<and> tl_status l = Stale
     \<and> (\<exists>l2. find_row tl_key (ro_link_key (hd (py_observations demo_discovery))) (tg_links tg') = Some l2 \<and> tl_status l2 = Current)"
proof -
  obtain tg' where tg': "demo_completed = Inr tg'" using sum.collapse(2) [OF demo_completes] by metis
  have b: "find_row tb_id (asc ''b1'') (tg_batches demo_topology) = Some demo_batch" "tb_status demo_batch = BRunning"
    "demo_discovery = build_discovery_payload demo_rt (tb_device demo_batch) demo_results [] []" by code_simp+
  note c = links_follow_discoveries [OF demo_topology_ok b tg' [unfolded demo_completed_def]]
  have obs: "py_observations demo_discovery \<noteq> []" "asc ''old'' \<notin> ro_link_key ` set (py_observations demo_discovery)" by code_simp+
  have old: "find_row tl_key (asc ''old'') (tg_links demo_topology) = Some demo_missed_link"
    "demo_results \<noteq> [] \<and> (\<forall>r \<in> set demo_results. pr_status r = asc ''success'' \<and> pr_complete r)"
    "tl_status demo_missed_link = Current" "tl_missing demo_missed_link = 1" by code_simp+
  have dev: "map_sum id (\<lambda>tg'. link_of_device (tg_interfaces tg') (tb_device demo_batch) demo_missed_link) demo_completed = Inr True"
    by code_simp
  have "link_of_device (tg_interfaces tg') (tb_device demo_batch) demo_missed_link" using dev by (simp add: tg')
  then have "\<exists>l. find_row tl_key (asc ''old'') (tg_links tg') = Some l \<and> tl_status l = Stale"
    using c obs(2) old by simp
  moreover have "\<exists>l2. find_row tl_key (ro_link_key (hd (py_observations demo_discovery))) (tg_links tg') = Some l2 \<and> tl_status l2 = Current"
    using conjunct1 [OF c] hd_in_set [OF obs(1)] by blast
  ultimately show ?thesis using tg' by blast
qed

text \<open>C37. A batch ends once. In every run the stored topology stays well formed (a link is stale exactly after two misses, and
  keys are unique), and an ended batch is never written again. In particular a target that is executed again gets its old
  batch, and completing that one has no effect: the topology of a retry is discarded.\<close>

theorem ended_batch_is_final:
  assumes "topology_step\<^sup>*\<^sup>* s t" and "topology_ok s" and "find_row tb_id k (tg_batches s) = Some b" and "tb_status b \<noteq> BRunning"
    and "find_row g_id (tb_target b) (targets d) = Some g" and "g_type g = TNetworkDevice"
  shows "topology_ok t \<and> (\<forall>l \<in> set (tg_links t). tl_status l = Stale \<longleftrightarrow> tl_missing l = 2)
       \<and> find_row tb_id k (tg_batches t) = Some b
       \<and> begin_topology_batch new_id d (tb_target b) started t = (Some k, t)
       \<and> complete_topology_batch rt lib nif nl now k p status collected t = Inr t"
proof -
  have ok: "topology_ok t" using assms(1,2) by (rule batches.runs_inv)
  have b: "find_row tb_id k (tg_batches t) = Some b" using assms(1-4) by (rule batches.ended_forever)
  have g: "g_id g = tb_target b" using find_row_Some [OF assms(5)] by simp
  have "tb_id b = k" using find_row_Some [OF b] by simp
  then have "begin_topology_batch new_id d (tb_target b) started t = (Some k, t)"
    using find_by_target [OF ok b] assms(5,6) by (simp add: begin_topology_batch_def g)
  moreover have "complete_topology_batch rt lib nif nl now k p status collected t = Inr t"
    using b assms(4) by (simp add: complete_topology_batch_def)
  ultimately show ?thesis using ok b by (auto simp: topology_ok_def link_ok_def)
qed

theorem ended_batch_is_final_witness:
  "begin_topology_batch (asc ''b2'') demo_insp (asc ''g2'') 400
     (demo_topology\<lparr>tg_batches := [failed_batch BCancelled [] 260 demo_batch]\<rparr>)
   = (Some (asc ''b1''), demo_topology\<lparr>tg_batches := [failed_batch BCancelled [] 260 demo_batch]\<rparr>)"
proof -
  let ?b = "failed_batch BCancelled [] 260 demo_batch"
  have "topology_ok (demo_topology\<lparr>tg_batches := [?b]\<rparr>)"
    "find_row tb_id (asc ''b1'') (tg_batches (demo_topology\<lparr>tg_batches := [?b]\<rparr>)) = Some ?b" "tb_status ?b \<noteq> BRunning"
    "tb_target ?b = asc ''g2''" "find_row g_id (tb_target ?b) (targets demo_insp) = Some demo_insp_target"
    "g_type demo_insp_target = TNetworkDevice" by code_simp+
  then show ?thesis
    using ended_batch_is_final [OF rtranclp.rtrancl_refl, of "demo_topology\<lparr>tg_batches := [?b]\<rparr>" "asc ''b1''" ?b demo_insp
      demo_insp_target] by simp
qed

end
