(* ===== verification/Spreadsheet.thy ===== *)
theory Spreadsheet
  imports Json
begin

text \<open>
  The spreadsheet reader and writer of \<open>net/data_exchange/xlsx.py\<close> and the formula guard of
  \<open>net/data_exchange/table_csv.py\<close>. The archive, XML escaping and XML parsing are the standard library's: the
  sheet is its list of rows, a row its list of cells with their references.
\<close>

section \<open>Column names\<close>

text \<open>\<open>_column_name\<close>; the loop consumes its number from the right.\<close>

function column_name :: "nat \<Rightarrow> ustring" where
  "column_name number = (if number = 0 then []
     else column_name ((number - 1) div 26) @ [65 + (number - 1) mod 26])"
  by pat_completeness auto
termination
  by (relation "measure id") auto

declare column_name.simps [simp del]

text \<open>\<open>_column_index\<close>. \<open>str.isalpha\<close> and \<open>str.upper\<close> are tables of the interpreter; the code relies on them for
  the ASCII capitals and digits only. \<open>xml_text t\<close> is what the XML parser reads where \<open>t\<close> was written escaped.\<close>

record char_tables =
  is_alpha :: "nat \<Rightarrow> bool"
  to_upper :: "ustring \<Rightarrow> ustring"
  xml_text :: "ustring \<Rightarrow> ustring"

definition ascii_tables :: "char_tables \<Rightarrow> bool" where
  "ascii_tables ct \<longleftrightarrow> (\<forall>c. 65 \<le> c \<and> c \<le> 90 \<longrightarrow> is_alpha ct c) \<and> (\<forall>c. 48 \<le> c \<and> c \<le> 57 \<longrightarrow> \<not> is_alpha ct c)
     \<and> (\<forall>s. (\<forall>c \<in> set s. 65 \<le> c \<and> c \<le> 90) \<longrightarrow> to_upper ct s = s)"

definition column_number :: "ustring \<Rightarrow> int" where
  "column_number s = fold (\<lambda>c i. i * 26 + (int c - 65) + 1) s 0"

definition column_index :: "char_tables \<Rightarrow> ustring \<Rightarrow> int" where
  "column_index ct reference = column_number (to_upper ct (filter (is_alpha ct) reference)) - 1"

lemma column_name_letters: "\<forall>c \<in> set (column_name n). 65 \<le> c \<and> c \<le> 90"
proof (induction n rule: column_name.induct)
  case (1 n)
  show ?case
  proof (cases "n = 0")
    case False
    with 1 have "\<forall>c \<in> set (column_name ((n - 1) div 26)). 65 \<le> c \<and> c \<le> 90" by blast
    moreover have "65 + (n - 1) mod 26 \<le> 90"
      using mod_less_divisor [of 26 "n - 1"] by linarith
    ultimately show ?thesis using False by (subst column_name.simps) auto
  qed (simp add: column_name.simps)
qed

lemma column_number_name: "column_number (column_name n) = int n"
proof (induction n rule: column_name.induct)
  case (1 n)
  show ?case
  proof (cases "n = 0")
    case False
    have "column_number (column_name n) = column_number (column_name ((n - 1) div 26)) * 26 + int ((n - 1) mod 26) + 1"
      using False by (simp add: column_name.simps [of n] column_number_def)
    also have "\<dots> = int ((n - 1) div 26 * 26 + (n - 1) mod 26 + 1)"
      unfolding 1 [OF False] by (simp only: of_nat_add of_nat_mult of_nat_numeral of_nat_1)
    also have "(n - 1) div 26 * 26 + (n - 1) mod 26 + 1 = n" using False by (simp only: div_mult_mod_eq)
    finally show ?thesis .
  qed (simp add: column_name.simps column_number_def)
qed

lemma nat_digits_ascii: "\<forall>c \<in> set (nat_digits n). 48 \<le> c \<and> c \<le> 57"
proof (induction n rule: nat_digits.induct)
  case (1 n)
  show ?case
  proof (cases "n < 10")
    case True
    then show ?thesis by (simp add: nat_digits.simps)
  next
    case False
    with 1 have "\<forall>c \<in> set (nat_digits (n div 10)). 48 \<le> c \<and> c \<le> 57" by blast
    moreover have "48 + n mod 10 \<le> 57" using mod_less_divisor [of 10 n] by linarith
    ultimately show ?thesis using False by (subst nat_digits.simps) auto
  qed
qed

lemma column_index_reference:
  assumes "ascii_tables ct"
  shows "column_index ct (column_name n @ nat_digits r) = int n - 1"
proof -
  have "filter (is_alpha ct) (column_name n) = column_name n"
    using assms column_name_letters [of n] by (auto simp: ascii_tables_def filter_id_conv)
  moreover have "filter (is_alpha ct) (nat_digits r) = []"
    using assms nat_digits_ascii [of r] by (auto simp: ascii_tables_def filter_empty_conv)
  moreover have "to_upper ct (column_name n) = column_name n"
    using assms column_name_letters [of n] unfolding ascii_tables_def by blast
  ultimately show ?thesis by (simp add: column_index_def column_number_name)
qed

section \<open>The sheet\<close>

text \<open>The value of a cell: an inline text, a shared text with its index, or a plain value. \<open>int()\<close> of an index is
  \<open>None\<close> when it is no number.\<close>

datatype cell_value = Inline ustring | SharedText "int option" | Plain ustring

type_synonym cell = "ustring \<times> cell_value"

text \<open>\<open>build_xlsx\<close>: \<open>None\<close> is written as an empty text.\<close>

definition plain_text :: "ustring option \<Rightarrow> ustring" where
  "plain_text v = (case v of None \<Rightarrow> [] | Some t \<Rightarrow> t)"

definition sheet_row :: "char_tables \<Rightarrow> nat \<Rightarrow> ustring option list \<Rightarrow> cell list" where
  "sheet_row ct number row =
     map (\<lambda>(i, v). (column_name (i + 1) @ nat_digits number, Inline (xml_text ct (plain_text v)))) (enumerate 0 row)"

definition build_sheet :: "char_tables \<Rightarrow> ustring option list list \<Rightarrow> cell list list" where
  "build_sheet ct rows = map (\<lambda>(n, row). sheet_row ct n row) (enumerate 1 rows)"

text \<open>\<open>_cell_value\<close>: a Python list accepts the indices from \<open>- len\<close> on.\<close>

definition cell_text :: "ustring list \<Rightarrow> cell_value \<Rightarrow> ustring res" where
  "cell_text shared v = (case v of
     Inline t \<Rightarrow> Inr t
   | Plain t \<Rightarrow> Inr t
   | SharedText None \<Rightarrow> Inl ValueError
   | SharedText (Some k) \<Rightarrow>
       if 0 \<le> k \<and> k < int (length shared) then Inr (shared ! nat k)
       else if k < 0 \<and> - int (length shared) \<le> k then Inr (shared ! nat (int (length shared) + k))
       else Inl ValueError)"

text \<open>One cell: the row is filled up to its column; a reference without a letter is the index \<open>-1\<close>, the last cell.\<close>

definition pad_to :: "int \<Rightarrow> ustring list \<Rightarrow> ustring list" where
  "pad_to k row = row @ replicate (nat (k + 1 - int (length row))) []"

definition put_cell :: "int \<Rightarrow> ustring \<Rightarrow> ustring list \<Rightarrow> ustring list res" where
  "put_cell k v row =
     (if 0 \<le> k then Inr (row[nat k := v])
      else if row = [] then Inl ValueError else Inr (row[length row - 1 := v]))"

definition read_cell :: "char_tables \<Rightarrow> nat \<Rightarrow> nat \<Rightarrow> ustring list \<Rightarrow> cell \<Rightarrow> ustring list \<Rightarrow> ustring list res" where
  "read_cell ct max_columns max_chars shared c row =
     (let k = column_index ct (fst c)
      in if k \<ge> int max_columns then Inl ValueError
         else bindr (cell_text shared (snd c)) (\<lambda>v.
           if length v > max_chars then Inl ValueError else put_cell k v (pad_to k row)))"

definition read_row :: "char_tables \<Rightarrow> nat \<Rightarrow> nat \<Rightarrow> ustring list \<Rightarrow> cell list \<Rightarrow> ustring list res" where
  "read_row ct max_columns max_chars shared cells = foldr_res (read_cell ct max_columns max_chars shared) cells []"

definition read_sheet ::
    "char_tables \<Rightarrow> nat \<Rightarrow> nat \<Rightarrow> nat \<Rightarrow> ustring list \<Rightarrow> cell list list \<Rightarrow> ustring list list res" where
  "read_sheet ct max_rows max_columns max_chars shared sheet =
     foldr_res (\<lambda>cells rows. if length rows \<ge> max_rows then Inl ValueError
        else bindr (read_row ct max_columns max_chars shared cells) (\<lambda>row. Inr (rows @ [row]))) sheet []"

section \<open>Formula guard\<close>

text \<open>\<open>_spreadsheet_safe\<close> of a text; \<open>lstrip\<close> removes white space on the left.\<close>

definition formula_prefix :: "nat \<Rightarrow> bool" where
  "formula_prefix c \<longleftrightarrow> c \<in> {61, 43, 45, 64, 9, 13, 10}"

definition starts_formula :: "ustring \<Rightarrow> bool" where
  "starts_formula s \<longleftrightarrow> (case s of [] \<Rightarrow> False | c # _ \<Rightarrow> formula_prefix c)"

definition spreadsheet_safe :: "ustring \<Rightarrow> ustring" where
  "spreadsheet_safe s = (if starts_formula s \<or> starts_formula (dropWhile is_space s) then 39 # s else s)"

section \<open>Round trip\<close>

lemma foldr_res_append: "foldr_res f (xs @ ys) s = bindr (foldr_res f xs s) (foldr_res f ys)"
proof (induction xs arbitrary: s)
  case (Cons x xs)
  then show ?case by (cases "f x s") auto
qed simp

lemma read_row_build:
  assumes ct: "ascii_tables ct" and "length row \<le> max_columns" and "\<forall>v \<in> set row. length (plain_text v) \<le> max_chars \<and> xml_text ct (plain_text v) = plain_text v"
  shows "read_row ct max_columns max_chars shared (sheet_row ct n row) = Inr (map plain_text row)"
  using assms(2,3)
proof (induction row rule: rev_induct)
  case Nil
  then show ?case by (simp add: read_row_def sheet_row_def)
next
  case (snoc v row)
  let ?f = "read_cell ct max_columns max_chars shared"
  let ?c = "(column_name (length row + 1) @ nat_digits n, Inline (xml_text ct (plain_text v)))"
  have s: "sheet_row ct n (row @ [v]) = sheet_row ct n row @ [?c]"
    by (simp add: sheet_row_def enumerate_append_eq plain_text_def)
  have k: "column_index ct (fst ?c) = int (length row)"
    using column_index_reference [OF ct, of "length row + 1" n] by simp
  have IH: "foldr_res ?f (sheet_row ct n row) [] = Inr (map plain_text row)"
    using snoc by (simp add: read_row_def)
  have pad: "pad_to (int (length row)) (map plain_text row) = map plain_text row @ [[]]"
    by (simp add: pad_to_def)
  have "?f ?c (map plain_text row) = Inr (map plain_text row @ [plain_text v])"
    using snoc.prems unfolding read_cell_def Let_def k pad by (simp add: cell_text_def put_cell_def list_update_append)
  then show ?case by (simp add: read_row_def s foldr_res_append IH)
qed

text \<open>C40. What the writer puts on a sheet is what the reader gets back, cell by cell, for every table within the limits of
  the reader and whose texts XML keeps: the names of the columns are read as the columns they name, however many letters they have.\<close>

theorem sheet_roundtrip:
  assumes "ascii_tables ct" and "length rows \<le> max_rows"
    and "\<forall>row \<in> set rows. length row \<le> max_columns
      \<and> (\<forall>v \<in> set row. length (plain_text v) \<le> max_chars \<and> xml_text ct (plain_text v) = plain_text v)"
  shows "read_sheet ct max_rows max_columns max_chars shared (build_sheet ct rows) = Inr (map (map plain_text) rows)"
  using assms(2,3)
proof (induction rows rule: rev_induct)
  case Nil
  then show ?case by (simp add: read_sheet_def build_sheet_def)
next
  case (snoc row rows)
  have s: "build_sheet ct (rows @ [row]) = build_sheet ct rows @ [sheet_row ct (length rows + 1) row]"
    by (simp add: build_sheet_def enumerate_append_eq)
  have "read_row ct max_columns max_chars shared (sheet_row ct (length rows + 1) row) = Inr (map plain_text row)"
    using read_row_build [OF assms(1)] snoc.prems by simp
  then show ?case using snoc by (simp add: read_sheet_def s foldr_res_append)
qed

text \<open>The tables of the ASCII range.\<close>

definition demo_tables :: char_tables where
  "demo_tables = \<lparr>is_alpha = (\<lambda>c. (65 \<le> c \<and> c \<le> 90) \<or> (97 \<le> c \<and> c \<le> 122)),
     to_upper = map (\<lambda>c. if 97 \<le> c \<and> c \<le> 122 then c - 32 else c), xml_text = (\<lambda>t. t)\<rparr>"

lemma sheet_roundtrip_witness:
  "read_sheet demo_tables 5 64 10 [] (build_sheet demo_tables [[Some (asc ''ip''), None], replicate 30 (Some (asc ''x''))])
    = Inr [[asc ''ip'', []], replicate 30 (asc ''x'')]"
proof -
  have "\<forall>c \<in> set s. 65 \<le> c \<and> c \<le> 90 \<Longrightarrow> to_upper demo_tables s = s" for s
    by (induction s) (auto simp: demo_tables_def)
  then have "ascii_tables demo_tables" by (simp add: ascii_tables_def) (simp add: demo_tables_def)
  from sheet_roundtrip [OF this, of "[[Some (asc ''ip''), None], replicate 30 (Some (asc ''x''))]" 5 64 10 "[]"]
  show ?thesis by (simp add: plain_text_def asc_def demo_tables_def)
qed

end
