(* ===== verification/Spec2Isabelle.thy ===== *)
theory Spec2Isabelle
  imports ScheduleProperties DeviceIssueProperties AlertProperties RetentionProperties DirectoryWalkProperties PcRetentionProperties
    TopologyProperties Traffic Spreadsheet
begin

text \<open>
  Net-Inspection: a Django application that inspects network devices, servers, weak-current devices and computers, keeps
  the people and accounts of directories, and alerts on what it finds. The development models the part of it that decides
  (the packages below \<open>src/net/\<close>), not the views, the transports and the deployment.

  \<^bold>\<open>How the program is put together.\<close> Work is a \<open>TaskRun\<close> with one \<open>TaskTargetRun\<close> for each asset. The scheduler and the
  users enqueue tasks; any number of workers claim them under a lease, begin each target, collect outside any transaction
  and publish the result in a transaction that checks the lease again; the last step of a task aggregates its targets.
  Ended targets become alert evidence, changes of evidence become events, and a task ends with one summary, which is
  delivered through an outbox. A retention pass removes what nothing needs any more. A database transaction is one function
  that returns the new database or the exception that rolls it back (type \<open>'a res\<close>); a row is a record with the fields of
  its model, a table the list of its rows, a check constraint or a \<open>clean\<close> method a predicate on rows. Enumerations are
  datatypes with the constructors of the source, Python text is a list of code points, an aware datetime its microseconds.

  \<^bold>\<open>Tasks.\<close> \<open>TaskModel\<close>, \<open>TaskRows\<close>, \<open>TaskStore\<close>: the rows of \<open>net/models/tasks.py\<close> with their constraints and validated
  writes (\<open>net/inspections/state.py\<close>). \<open>TaskQueue\<close>: claim, renewal, recovery, cancellation and aggregation
  (\<open>net/inspections/queue.py\<close>). \<open>TaskExec\<close>, \<open>TaskPublish\<close>: begin and publication of a target for inspections
  (\<open>net/inspections/executor.py\<close>), computer analyses (\<open>net/devices/pc/\<close>), directory tasks (\<open>net/people/executor.py\<close>), access
  records (\<open>net/access/executor.py\<close>) and domain tasks (\<open>net/domain/executor.py\<close>). \<open>Enqueue\<close>, \<open>EnqueueSources\<close>,
  \<open>EnqueueAnalysis\<close>: the creation of tasks. \<open>Schedules\<close>: the plans of \<open>net/inspections/schedules.py\<close> and their poll.
  \<open>TaskSystem\<close> makes every transaction a step of one relation \<open>qstep\<close>: the properties C1 to C13 of
  \<open>TaskProperties\<close> and \<open>TaskProperties2\<close> hold in every interleaving of workers, users and scheduler (invariant of the tables,
  ended rows are final, at most three attempts, one active task for a scope, counters that agree with the targets, fencing by
  the lease), and say what each transaction does on every branch. \<open>TaskInvariant\<close>, \<open>TaskProofs\<close> and \<open>TaskExecProofs\<close> carry
  their proofs; \<open>Demo\<close> is a run of the queue on which they are instantiated. \<open>EnqueueProperties\<close> and \<open>ScheduleProperties\<close> hold
  the properties of creation and of the plans.

  \<^bold>\<open>Evidence and alerts.\<close> \<open>DeviceIssues\<close>: the evaluation of collected evidence (\<open>net/inspections/issues.py\<close>,
  \<open>device_issues.py\<close>, \<open>net/devices/pc/severity.py\<close>). \<open>Findings\<close>, \<open>Alerts\<close>, \<open>AlertDelivery\<close>: the findings of an ended target,
  the states and events, the outbox with its lease of its own and the task summary (\<open>net/alerts/service.py\<close>,
  \<open>task_summaries.py\<close>, \<open>routing.py\<close>, \<open>net/models/alerts.py\<close>). \<open>DeviceIssueProperties\<close> and \<open>AlertProperties\<close> show that every
  selected item is judged, that abnormal evidence wins whatever the order, that a target is processed and a task summarised
  once, and that a delivery is claimed at most five times and is final once sent or failed.

  \<^bold>\<open>Computer logs.\<close> \<open>PcIngestion\<close>: the upload of a log, the static data of its computer, the sections of the stored log and the
  removal of superseded logs (\<open>net/devices/pc/ingestion.py\<close>, \<open>logs.py\<close>, \<open>snapshot.py\<close>, \<open>retention.py\<close>, \<open>net/models/records.py\<close>).
  \<open>PcRetention\<close>: the pass that the workers repeat over superseded logs and analyses (\<open>retention.py\<close>). \<open>PcIngestionProperties\<close> and
  \<open>PcRetentionProperties\<close> show that the newest log of a day, every log that a task reads and the newest analysis of a day stay.
  \<open>PcChecks\<close>, \<open>PcMachine\<close>, \<open>PcIdentity\<close> and \<open>PcRemote\<close>: the checks of the sections of a log (\<open>checks.py\<close>, \<open>disk.py\<close>, \<open>matching.py\<close>,
  \<open>enrichment.py\<close>). \<open>PcAnalysis\<close>: the selection of the checks, their rules and the analysis of a whole log (\<open>analysis.py\<close>).
  \<open>PcAnalysisProperties\<close> shows that missing evidence is never judged normal.

  \<^bold>\<open>Retention.\<close> \<open>Retention\<close> and \<open>RetentionProperties\<close>: the expiry of inspection records and of the task history
  (\<open>net/inspections/retention.py\<close>); the newest record of an asset, records of unprocessed alerts and referenced tasks stay.

  \<^bold>\<open>Personnel directory.\<close> \<open>Directory\<close>: preview and apply of a synchronisation (\<open>net/people/directory/sync.py\<close>). \<open>DirectoryMerge\<close>
  states the merge that the two phases implement together, \<open>DirectoryProofs\<close> the facts about their dictionaries and loops,
  \<open>DirectoryProperties\<close> the refinement and the refusal of anything that was not previewed. \<open>DirectoryWalk\<close>: the reader of a
  DingTalk directory (\<open>dingtalk.py\<close>, \<open>base.py\<close>) over an arbitrary HTTP session, whose loops over pages and departments are
  partial functions; \<open>DirectoryWalkProperties\<close> shows that they end for every finite organisation.

  \<^bold>\<open>Network topology.\<close> \<open>TopologyDiscovery\<close>: the keys of interfaces and links, the device and port a neighbour names, and the
  payload of a discovery (\<open>net/topology/discovery.py\<close>). \<open>Topology\<close>: the batches of \<open>net/topology/service.py\<close> with the rows of
  \<open>net/models/topology.py\<close>. \<open>TopologyProperties\<close> makes the three transactions steps of \<open>topology_step\<close> and shows how links
  become current and stale, and that an ended batch is final.

  \<^bold>\<open>Data.\<close> \<open>Traffic\<close>: interface rates from two readings of 32 or 64 bit counters (\<open>net/devices/network/traffic.py\<close>), against
  the subtraction of machine words. \<open>Spreadsheet\<close>: the cells of an XLSX sheet written and read back
  (\<open>net/data_exchange/xlsx.py\<close>). \<open>Json\<close>: JSON values and the audit of payloads for secrets (\<open>net/models/domain.py\<close>).

  \<^bold>\<open>Interfaces.\<close> \<open>Prelude\<close> states three contracts as locales: a system whose steps keep an invariant, a system whose ended
  items never change, and work that is claimed a bounded number of times. The task queue, the outbox and the topology interpret
  them on their own step relations (\<open>qstep\<close>, \<open>dstep\<close>, \<open>topology_step\<close>); the properties of whole runs are instances of their lemmas.

  \<^bold>\<open>Bounds.\<close> A task has three attempts (\<open>max_task_attempts\<close>) and a delivery five (\<open>max_delivery_attempts\<close>), the constants of the
  source. No definition takes fuel: the claim loop of the outbox ends by a measure, the directory reader is partial and its
  termination a theorem, everything else is structural.

  \<^bold>\<open>Parameters.\<close> What is not in the repository is an argument: \<open>runtime\<close> holds the functions of the interpreter and its Unicode
  tables (casefold, SHA-256, the scrubber of log lines, datetime parsing, number formats), \<open>registry\<close> the stored assets of an
  enqueue, \<open>sync_lib\<close> signing and hashing, \<open>session\<close> the HTTP session, \<open>char_tables\<close> letters and XML text,
  \<open>evidence_lib\<close> and \<open>pc_lib\<close> what topology evidence and the analysis of computer logs call (JSON text, datetime formats, decimal numbers, character classes, IP
  networks, the collation of the database). Decimal arithmetic is exact: the 28 digits of the context are not modelled; patterns
  of regular expressions are written as functions over the character classes. What the properties
  need of them are named hypotheses, each satisfied by the instance of a witness. Time is an argument of every transaction.

  \<^bold>\<open>Not modelled.\<close> Views, forms, tables and templates (\<open>src/index/\<close>), the admin site, settings and deployment, and the demo data:
  they call the components above. Collectors, SNMP, SSH, HTTP, LDAP and mail transports: network I/O, whose results are
  arguments. The retries on a busy SQLite database: a transaction of the model runs alone or not at all. Row locks: a
  transaction is atomic. The regular expressions of the sanitiser.
\<close>

end
